(* ===== verification/Prelude.thy ===== *)
theory Prelude
  imports Main "HOL-Library.Word"
begin

text \<open>
  Shared vocabulary of the development: the types that stand for Go and PostgreSQL values, the
  request environment (clock, random identifiers, infrastructure faults), the SQL combinators
  every query of the two store packages is written with, and the generic lemmas and locales the
  component theories use.

  A table is a list of rows in insertion order. A nullable column or a \<open>pgtype\<close> value with a
  \<open>Valid\<close> flag is an \<open>option\<close>, so that comparing two invalid values as Go structs gives
  \<open>None = None\<close>, while comparing them in SQL (\<open>sql_eq\<close>) is never true. A statement that fails
  leaves the database as it was; a statement that writes returns the new database on success.
\<close>

section \<open>Values\<close>

type_synonym uuid = "128 word"
type_synonym pg_uuid = "uuid option"
type_synonym pg_text = "string option"
type_synonym timestamp = int \<comment> \<open>microseconds since the epoch\<close>
type_synonym pg_time = "timestamp option"

abbreviation usec_per_sec :: int where
  "usec_per_sec \<equiv> 1000000"

abbreviation usec_per_min :: int where
  "usec_per_min \<equiv> 60000000"

datatype dberr =
    ErrNoRows
  | UniqueViolation
  | CheckViolation
  | NotNullViolation
  | ForeignKeyViolation
  | ConnError

text \<open>
  What a request sees of its surroundings: the clock (\<open>time.Now()\<close> and SQL \<open>now()\<close>), the values
  \<open>gen_random_uuid()\<close> returns, in the order they are drawn, and which calls to the database and to
  the remote services fail. A call is named by its method and by its occurrence within the handler.
\<close>

record env =
  e_now :: timestamp
  e_uuid :: "nat \<Rightarrow> uuid"
  e_fault :: "string \<Rightarrow> nat \<Rightarrow> bool"

definition guarded :: "env \<Rightarrow> string \<Rightarrow> nat \<Rightarrow> dberr + 'a \<Rightarrow> dberr + 'a" where
  "guarded env call n r = (if e_fault env call n then Inl ConnError else r)"

named_theorems sql_simps \<open>evaluation of the SQL combinators\<close>
named_theorems frame_simps \<open>what an operation leaves unchanged\<close>

section \<open>SQL combinators\<close>

definition sql_eq :: "'a option \<Rightarrow> 'a option \<Rightarrow> bool" where
  "sql_eq a b \<longleftrightarrow> a \<noteq> None \<and> a = b"

definition query_one :: "('r \<Rightarrow> bool) \<Rightarrow> 'r list \<Rightarrow> dberr + 'r" where
  "query_one P rs = (case find P rs of None \<Rightarrow> Inl ErrNoRows | Some r \<Rightarrow> Inr r)"

definition update_where :: "('r \<Rightarrow> bool) \<Rightarrow> ('r \<Rightarrow> 'r) \<Rightarrow> 'r list \<Rightarrow> 'r list" where
  "update_where P f rs = map (\<lambda>r. if P r then f r else r) rs"

definition delete_where :: "('r \<Rightarrow> bool) \<Rightarrow> 'r list \<Rightarrow> 'r list" where
  "delete_where P rs = filter (\<lambda>r. \<not> P r) rs"

definition order_desc :: "('r \<Rightarrow> 'k::linorder) \<Rightarrow> 'r list \<Rightarrow> 'r list" where
  "order_desc k rs = rev (sort_key k (rev rs))"

subsection \<open>Laws of the combinators\<close>

lemma sql_eq_simps [simp]:
  "\<not> sql_eq None b" "\<not> sql_eq a None" "sql_eq (Some x) (Some y) \<longleftrightarrow> x = y"
  by (auto simp: sql_eq_def)

lemma sql_eq_Some_iff: "sql_eq (Some x) b \<longleftrightarrow> b = Some x" "sql_eq b (Some x) \<longleftrightarrow> b = Some x"
  by (auto simp: sql_eq_def)

lemma sql_eq_sym: "sql_eq a b \<Longrightarrow> sql_eq b a"
  by (auto simp: sql_eq_def)

lemma guarded_Inr_iff [simp]: "guarded env c n r = Inr x \<longleftrightarrow> \<not> e_fault env c n \<and> r = Inr x"
  by (auto simp: guarded_def)

lemma guarded_nofault [simp]: "\<not> e_fault env c n \<Longrightarrow> guarded env c n r = r"
  by (simp add: guarded_def)

lemma guarded_fault [simp]: "e_fault env c n \<Longrightarrow> guarded env c n r = Inl ConnError"
  by (simp add: guarded_def)

lemma query_one_Inr: "query_one P rs = Inr r \<Longrightarrow> r \<in> set rs \<and> P r"
  by (auto simp: query_one_def find_Some_iff split: option.splits)

lemma query_one_Inl: "query_one P rs = Inl e \<Longrightarrow> e = ErrNoRows \<and> (\<forall>r \<in> set rs. \<not> P r)"
  by (auto simp: query_one_def find_None_iff split: option.splits)

lemma query_one_NoRows_iff: "query_one P rs = Inl ErrNoRows \<longleftrightarrow> (\<forall>r \<in> set rs. \<not> P r)"
  by (cases "query_one P rs") (auto dest: query_one_Inl query_one_Inr)

lemma find_unique:
  assumes "r \<in> set rs" and "P r" and "\<And>x. x \<in> set rs \<Longrightarrow> P x \<Longrightarrow> x = r"
  shows "find P rs = Some r"
proof (cases "find P rs")
  case None
  then show ?thesis using assms(1,2) by (auto simp: find_None_iff)
next
  case (Some x)
  then have "x \<in> set rs \<and> P x" by (auto simp: find_Some_iff)
  then show ?thesis using assms(3) Some by blast
qed

lemma query_one_unique:
  assumes "r \<in> set rs" and "P r" and "\<And>x. x \<in> set rs \<Longrightarrow> P x \<Longrightarrow> x = r"
  shows "query_one P rs = Inr r"
proof -
  have "find P rs = Some r" using assms by (rule find_unique)
  then show ?thesis by (simp add: query_one_def)
qed

lemma distinct_key_eq:
  "distinct (map k rs) \<Longrightarrow> x \<in> set rs \<Longrightarrow> y \<in> set rs \<Longrightarrow> k x = k y \<Longrightarrow> x = y"
  by (metis distinct_map inj_on_def)

lemma set_update_where:
  "set (update_where P f rs) = {r \<in> set rs. \<not> P r} \<union> f ` {r \<in> set rs. P r}"
  by (auto simp: update_where_def)

lemma map_update_where [frame_simps]:
  "(\<And>r. P r \<Longrightarrow> k (f r) = k r) \<Longrightarrow> map k (update_where P f rs) = map k rs"
  by (auto simp: update_where_def)

lemma image_update_where:
  assumes "\<And>r. P r \<Longrightarrow> k (f r) = k r"
  shows "k ` set (update_where P f rs) = k ` set rs"
  using map_update_where [of P k f rs] assms by (metis list.set_map)

lemma length_update_where [simp]: "length (update_where P f rs) = length rs"
  by (simp add: update_where_def)

lemma update_where_nomatch: "(\<And>r. r \<in> set rs \<Longrightarrow> \<not> P r) \<Longrightarrow> update_where P f rs = rs"
  by (induction rs) (auto simp: update_where_def)

lemma set_delete_where: "set (delete_where P rs) = {r \<in> set rs. \<not> P r}"
  by (auto simp: delete_where_def)

lemma distinct_map_filter_key: "distinct (map k rs) \<Longrightarrow> distinct (map k (filter P rs))"
  by (induction rs) auto

lemma find_append_one: "find P (rs @ [r]) = (case find P rs of Some x \<Rightarrow> Some x | None \<Rightarrow> if P r then Some r else None)"
  by (induction rs) auto

lemma query_one_delete_other:
  "query_one P rs = Inr r \<Longrightarrow> \<not> Q r \<Longrightarrow> query_one P (delete_where Q rs) = Inr r"
  by (induction rs) (auto simp: query_one_def delete_where_def split: option.splits if_splits)

lemma query_one_append [sql_simps]:
  "query_one P (rs @ [r]) = (case query_one P rs of Inr x \<Rightarrow> Inr x | Inl e \<Rightarrow> if P r then Inr r else Inl e)"
  by (auto simp: query_one_def find_append_one split: option.splits)

lemma find_update_same:
  "(\<And>r. P r \<Longrightarrow> P (f r)) \<Longrightarrow> find P (update_where P f rs) = map_option f (find P rs)"
  by (induction rs) (auto simp: update_where_def)

lemma query_one_update_same:
  "(\<And>r. P r \<Longrightarrow> P (f r)) \<Longrightarrow> query_one P (update_where P f rs) = map_sum id f (query_one P rs)"
  by (auto simp: query_one_def find_update_same split: option.splits)

lemma find_update_other:
  "(\<And>r. P r \<Longrightarrow> \<not> Q r \<and> \<not> Q (f r)) \<Longrightarrow> find Q (update_where P f rs) = find Q rs"
  by (induction rs) (auto simp: update_where_def)

lemma query_one_update_other:
  "(\<And>r. P r \<Longrightarrow> \<not> Q r \<and> \<not> Q (f r)) \<Longrightarrow> query_one Q (update_where P f rs) = query_one Q rs"
  by (simp add: query_one_def find_update_other)

lemma order_desc_set [simp]: "set (order_desc k rs) = set rs"
  by (simp add: order_desc_def)

lemma order_desc_length [simp]: "length (order_desc k rs) = length rs"
  by (simp add: order_desc_def)

lemma order_desc_sorted: "sorted (rev (map k (order_desc k rs)))"
  by (simp add: order_desc_def rev_map [symmetric])

lemma order_desc_hd_in:
  assumes "order_desc k rs = r # rs'"
  shows "r \<in> set rs"
  using order_desc_set [of k rs] unfolding assms by auto

lemma sort_key_hd_in:
  assumes "sort_key k rs = r # rs'"
  shows "r \<in> set rs"
  using set_sort [of k rs] unfolding assms by auto

lemma order_desc_hd_max:
  assumes "order_desc k rs = r # rs'" and "x \<in> set rs"
  shows "k x \<le> k r"
proof -
  have "sorted (rev (map k (r # rs')))" using order_desc_sorted [of k rs] assms(1) by simp
  moreover have "x \<in> set (r # rs')" using assms by (metis order_desc_set)
  ultimately show ?thesis by (auto simp: sorted_append)
qed

lemma sort_key_hd_min:
  assumes "sort_key k rs = r # rs'" and "x \<in> set rs"
  shows "k r \<le> k x"
proof -
  have "sorted (map k (r # rs'))" using sorted_sort_key [of k rs] assms(1) by simp
  moreover have "x \<in> set (r # rs')" using assms by (metis set_sort)
  ultimately show ?thesis by auto
qed

section \<open>Interfaces\<close>

subsection \<open>Lookup by primary key\<close>

text \<open>
  What every \<open>Get...ByID\<close> query promises its clients: the row with the key asked for, and
  \<open>ErrNoRows\<close> otherwise.
\<close>

locale keyed_table =
  fixes key :: "'row \<Rightarrow> uuid"
    and rows :: "'d \<Rightarrow> 'row list"
    and get :: "pg_uuid \<Rightarrow> 'd \<Rightarrow> dberr + 'row"
  assumes get_law: "get i d = query_one (\<lambda>r. sql_eq (Some (key r)) i) (rows d)"
begin

lemma get_Inr: "get i d = Inr r \<Longrightarrow> r \<in> set (rows d) \<and> i = Some (key r)"
  by (auto simp: get_law sql_eq_Some_iff dest: query_one_Inr)

lemma get_None: "get None d = Inl ErrNoRows"
  by (simp add: get_law query_one_NoRows_iff)

lemma get_Inl: "get i d = Inl e \<Longrightarrow> e = ErrNoRows"
  by (auto simp: get_law dest: query_one_Inl)

lemma get_NoRows_iff: "get (Some k) d = Inl ErrNoRows \<longleftrightarrow> k \<notin> key ` set (rows d)"
  by (auto simp: get_law query_one_NoRows_iff sql_eq_Some_iff)

lemma get_unique:
  assumes "distinct (map key (rows d))" and "r \<in> set (rows d)"
  shows "get (Some (key r)) d = Inr r"
  unfolding get_law
  by (rule query_one_unique) (use assms distinct_key_eq in \<open>fastforce simp: sql_eq_Some_iff\<close>)+

end

subsection \<open>Transition systems with an invariant\<close>

locale invariant_system =
  fixes step :: "'s \<Rightarrow> 's \<Rightarrow> bool"
    and inv :: "'s \<Rightarrow> bool"
  assumes step_inv: "inv s \<Longrightarrow> step s t \<Longrightarrow> inv t"
begin

lemma run_inv: "step\<^sup>*\<^sup>* s t \<Longrightarrow> inv s \<Longrightarrow> inv t"
  by (induction rule: rtranclp_induct) (auto intro: step_inv)

lemma run_stable:
  assumes "step\<^sup>*\<^sup>* s t" and "inv s" and "P s"
    and "\<And>x y. inv x \<Longrightarrow> P x \<Longrightarrow> step x y \<Longrightarrow> P y"
  shows "P t"
proof -
  from assms(1-3) have "inv t \<and> P t"
    by (induction rule: rtranclp_induct) (auto intro: step_inv assms(4))
  then show ?thesis ..
qed

end

subsection \<open>Rows owned by a tenant\<close>

text \<open>
  What a pair of scoped queries (\<open>List...ByOrg\<close> and \<open>Delete...ForOrg\<close>, say) promises: the list
  shows a tenant a view of its own rows and of no others, and the deletion removes at most the rows
  named, and only when the tenant owns them.
\<close>

locale tenant_table =
  fixes owner :: "'row \<Rightarrow> pg_uuid"
    and rows :: "'d \<Rightarrow> 'row list"
    and hit :: "'i \<Rightarrow> 'row \<Rightarrow> bool"
    and view :: "'row \<Rightarrow> 'v"
    and list_for :: "pg_uuid \<Rightarrow> 'd \<Rightarrow> 'v list"
    and delete_for :: "'i \<Rightarrow> pg_uuid \<Rightarrow> 'd \<Rightarrow> 'd"
  assumes list_law: "set (list_for t d) = view ` {r \<in> set (rows d). sql_eq (owner r) t}"
    and delete_law: "rows (delete_for i t d)
      = delete_where (\<lambda>r. hit i r \<and> sql_eq (owner r) t) (rows d)"
begin

lemma list_only_own:
  assumes "v \<in> set (list_for t d)"
  obtains r where "r \<in> set (rows d)" "v = view r" "owner r = t" "t \<noteq> None"
  using assms by (auto simp: list_law sql_eq_def)

lemma list_unscoped: "list_for None d = []"
proof -
  have "set (list_for None d) = {}" by (simp add: list_law)
  then show ?thesis by simp
qed

lemma delete_keeps_foreign:
  "r \<in> set (rows d) \<Longrightarrow> owner r \<noteq> t \<Longrightarrow> r \<in> set (rows (delete_for i t d))"
  by (auto simp: delete_law set_delete_where sql_eq_def)

lemma delete_own:
  assumes "t \<noteq> None" and "r \<in> set (rows (delete_for i t d))" and "hit i r"
  shows "owner r \<noteq> t"
  using assms by (auto simp: delete_law set_delete_where sql_eq_def)

lemma delete_only_removes: "set (rows (delete_for i t d)) \<subseteq> set (rows d)"
  by (auto simp: delete_law set_delete_where)

lemma delete_list_other:
  assumes "t \<noteq> u"
  shows "set (list_for u (delete_for i t d)) = set (list_for u d)"
  using assms by (auto simp: list_law delete_law set_delete_where sql_eq_def)

end

end
