(* ===== verification/StoreModels.thy ===== *)
theory StoreModels
  imports Prelude
begin

text \<open>
  The rows of the API database (\<open>shared/go/store/models.go\<close>, \<open>types.go\<close>) and the database
  itself, one list of rows per table. Field names carry the Go type's name as a prefix. Columns
  that the migrations declare NOT NULL have no \<open>option\<close>.
\<close>

section \<open>Enumerations\<close>

datatype JobStatus =
    JobStatusQueued
  | JobStatusRunning
  | JobStatusSucceeded
  | JobStatusFailed
  | JobStatusCancelled
  | JobStatusSuperseded

fun job_status_text :: "JobStatus \<Rightarrow> string" where
  "job_status_text JobStatusQueued = ''queued''"
| "job_status_text JobStatusRunning = ''running''"
| "job_status_text JobStatusSucceeded = ''succeeded''"
| "job_status_text JobStatusFailed = ''failed''"
| "job_status_text JobStatusCancelled = ''cancelled''"
| "job_status_text JobStatusSuperseded = ''superseded''"

text \<open>The conversion \<open>store.JobStatus(s)\<close>, and the CHECK constraint that refuses other texts.\<close>

definition job_status_of :: "string \<Rightarrow> JobStatus option" where
  "job_status_of s = find (\<lambda>st. job_status_text st = s)
     [JobStatusQueued, JobStatusRunning, JobStatusSucceeded, JobStatusFailed,
      JobStatusCancelled, JobStatusSuperseded]"

fun IsTerminal :: "JobStatus \<Rightarrow> bool" where
  "IsTerminal JobStatusSucceeded = True"
| "IsTerminal JobStatusFailed = True"
| "IsTerminal JobStatusCancelled = True"
| "IsTerminal JobStatusSuperseded = True"
| "IsTerminal _ = False"

datatype ContextVisibility =
    ContextVisibilityPublic
  | ContextVisibilityPrivate
  | ContextVisibilityProtected

fun visibility_text :: "ContextVisibility \<Rightarrow> string" where
  "visibility_text ContextVisibilityPublic = ''public''"
| "visibility_text ContextVisibilityPrivate = ''private''"
| "visibility_text ContextVisibilityProtected = ''protected''"

definition visibility_of :: "string \<Rightarrow> ContextVisibility option" where
  "visibility_of s = find (\<lambda>v. visibility_text v = s)
     [ContextVisibilityPublic, ContextVisibilityPrivate, ContextVisibilityProtected]"

lemma job_status_of_text [simp]: "job_status_of (job_status_text st) = Some st"
  by (cases st) (simp_all add: job_status_of_def)

lemma job_status_of_Some: "job_status_of s = Some st \<Longrightarrow> s = job_status_text st"
  by (auto simp: job_status_of_def split: if_splits)

lemma not_terminal_iff: "\<not> IsTerminal st \<longleftrightarrow> st = JobStatusQueued \<or> st = JobStatusRunning"
  by (cases st) auto

lemma visibility_of_text [simp]: "visibility_of (visibility_text v) = Some v"
  by (cases v) (simp_all add: visibility_of_def)

section \<open>Rows\<close>

record Organization =
  Org_ID :: uuid
  Org_Slug :: string
  Org_Name :: string
  Org_CreatedAt :: timestamp
  Org_AuthOrgID :: string

record User =
  User_ID :: uuid
  User_AuthUserID :: string
  User_Username :: string
  User_Email :: string
  User_EmailVerified :: bool
  User_Phone :: pg_text
  User_AvatarUrl :: pg_text
  User_CreatedAt :: timestamp
  User_UpdatedAt :: timestamp

record Membership =
  Mem_ID :: uuid
  Mem_UserID :: uuid
  Mem_OrgID :: uuid
  Mem_Role :: string
  Mem_InvitedBy :: pg_uuid
  Mem_JoinedAt :: timestamp

record Repository =
  Repo_ID :: uuid
  Repo_OrgID :: pg_uuid
  Repo_GithubRepoID :: int
  Repo_InstallationID :: int
  Repo_FullName :: string
  Repo_DefaultBranch :: string
  Repo_InstalledAt :: timestamp
  Repo_UserID :: pg_uuid

record Job =
  Job_ID :: uuid
  Job_RepoID :: uuid
  Job_Branch :: string
  Job_CommitSha :: string
  Job_DeliveryID :: pg_text
  Job_Status :: JobStatus
  Job_ErrorMessage :: pg_text
  Job_CreatedAt :: timestamp
  Job_UpdatedAt :: timestamp
  Job_StartedAt :: pg_time
  Job_FinishedAt :: pg_time

record Snapshot =
  Snap_ID :: uuid
  Snap_RepoID :: uuid
  Snap_JobID :: pg_uuid
  Snap_Branch :: string
  Snap_CommitSha :: string
  Snap_GcsPath :: string
  Snap_SnapshotVersion :: int
  Snap_ZigzagVersion :: string
  Snap_SizeBytes :: int
  Snap_CreatedAt :: timestamp
  Snap_Metadata :: pg_text

record ContextToken =
  Tok_ID :: uuid
  Tok_RepoID :: uuid
  Tok_OrgID :: pg_uuid
  Tok_TargetSnapshotID :: pg_uuid
  Tok_TokenHash :: string
  Tok_Label :: pg_text
  Tok_LastUsedAt :: pg_time
  Tok_ExpiresAt :: pg_time
  Tok_CreatedAt :: timestamp
  Tok_UserID :: pg_uuid
  Tok_Visibility :: ContextVisibility

record ContextTokenAllowedUser =
  Allow_ID :: uuid
  Allow_TokenID :: uuid
  Allow_UserID :: uuid
  Allow_CreatedAt :: timestamp

record AiProviderKey =
  AiKey_ID :: uuid
  AiKey_OrgID :: pg_uuid
  AiKey_Provider :: string
  AiKey_KeyCipher :: string
  AiKey_KeyHint :: string
  AiKey_CreatedAt :: timestamp
  AiKey_UserID :: pg_uuid

record CliApiKey =
  CliKey_ID :: uuid
  CliKey_UserID :: pg_uuid
  CliKey_OrgID :: pg_uuid
  CliKey_KeyHash :: string
  CliKey_KeyHint :: string
  CliKey_Label :: string
  CliKey_CreatedAt :: timestamp

record Session =
  Sess_ID :: uuid
  Sess_UserID :: uuid
  Sess_AuthSessionID :: string
  Sess_DeviceName :: pg_text
  Sess_IpAddress :: pg_text
  Sess_LastActiveAt :: timestamp
  Sess_CreatedAt :: timestamp

record AuditLog =
  Audit_ID :: uuid
  Audit_UserID :: pg_uuid
  Audit_OrgID :: pg_uuid
  Audit_ActorID :: uuid
  Audit_Action :: string
  Audit_TargetID :: pg_uuid
  Audit_Metadata :: pg_text
  Audit_CreatedAt :: timestamp

section \<open>The database\<close>

record db =
  organizations :: "Organization list"
  users :: "User list"
  memberships :: "Membership list"
  repositories :: "Repository list"
  jobs :: "Job list"
  snapshots :: "Snapshot list"
  context_tokens :: "ContextToken list"
  allowed_users :: "ContextTokenAllowedUser list"
  ai_provider_keys :: "AiProviderKey list"
  cli_api_keys :: "CliApiKey list"
  sessions :: "Session list"
  audit_log :: "AuditLog list"

definition empty_db :: db where
  "empty_db = \<lparr>organizations = [], users = [], memberships = [], repositories = [], jobs = [],
     snapshots = [], context_tokens = [], allowed_users = [], ai_provider_keys = [],
     cli_api_keys = [], sessions = [], audit_log = []\<rparr>"

text \<open>The CHECK constraint that a resource has exactly one owner, a user or an organization.\<close>

definition one_owner :: "pg_uuid \<Rightarrow> pg_uuid \<Rightarrow> bool" where
  "one_owner user org \<longleftrightarrow> (user \<noteq> None \<and> org = None) \<or> (user = None \<and> org \<noteq> None)"

end
