(* ===== verification/StoreJobs.thy ===== *)
theory StoreJobs
  imports StoreModels
begin

text \<open>
  The queries on repositories, jobs and snapshots (\<open>repositories.sql.go\<close>, \<open>jobs.sql.go\<close>,
  \<open>snapshots.sql.go\<close> of \<open>shared/go/store\<close>), one definition per query, with the constraints the
  migrations put on the tables: primary keys, foreign keys, the unique index on \<open>delivery_id\<close>, the
  unique index on (repository, branch, commit) and the trigger that stamps \<open>updated_at\<close>.
\<close>

section \<open>Repositories\<close>

definition GetRepoByID :: "pg_uuid \<Rightarrow> db \<Rightarrow> dberr + Repository" where
  "GetRepoByID i d = query_one (\<lambda>r. sql_eq (Some (Repo_ID r)) i) (repositories d)"

definition GetRepoByGithubID :: "int \<Rightarrow> db \<Rightarrow> dberr + Repository" where
  "GetRepoByGithubID g d = query_one (\<lambda>r. Repo_GithubRepoID r = g) (repositories d)"

definition GetRepoByFullNameAndOrg :: "string \<Rightarrow> pg_uuid \<Rightarrow> db \<Rightarrow> dberr + Repository" where
  "GetRepoByFullNameAndOrg name org d =
     query_one (\<lambda>r. Repo_FullName r = name \<and> sql_eq (Repo_OrgID r) org) (repositories d)"

definition GetRepoByFullNameAndUser :: "string \<Rightarrow> pg_uuid \<Rightarrow> db \<Rightarrow> dberr + Repository" where
  "GetRepoByFullNameAndUser name usr d =
     query_one (\<lambda>r. Repo_FullName r = name \<and> sql_eq (Repo_UserID r) usr) (repositories d)"

text \<open>
  Text comparison and ordering of names. The order is the collation the database is created
  with; the model takes the byte order (the \<open>C\<close> collation).
\<close>

fun text_less :: "string \<Rightarrow> string \<Rightarrow> bool" where
  "text_less _ [] = False"
| "text_less [] (_ # _) = True"
| "text_less (a # as) (b # bs) =
     ((of_char a :: nat) < of_char b \<or> (a = b \<and> text_less as bs))"

fun insort_name :: "Repository \<Rightarrow> Repository list \<Rightarrow> Repository list" where
  "insort_name r [] = [r]"
| "insort_name r (x # xs) =
     (if text_less (Repo_FullName x) (Repo_FullName r) then x # insort_name r xs else r # x # xs)"

definition order_by_name :: "Repository list \<Rightarrow> Repository list" where
  "order_by_name rs = foldr insort_name rs []"

lemma set_insort_name [simp]: "set (insort_name r rs) = insert r (set rs)"
  by (induction rs) auto

lemma set_order_by_name [simp]: "set (order_by_name rs) = set rs"
  by (induction rs) (auto simp: order_by_name_def)

definition ListReposByOrg :: "pg_uuid \<Rightarrow> string \<Rightarrow> int \<Rightarrow> db \<Rightarrow> Repository list" where
  "ListReposByOrg org name lim d = take (nat lim) (order_by_name
     (filter (\<lambda>r. sql_eq (Repo_OrgID r) org \<and> text_less name (Repo_FullName r)) (repositories d)))"

definition ListReposByUser :: "pg_uuid \<Rightarrow> string \<Rightarrow> int \<Rightarrow> db \<Rightarrow> Repository list" where
  "ListReposByUser usr name lim d = take (nat lim) (order_by_name
     (filter (\<lambda>r. sql_eq (Repo_UserID r) usr \<and> text_less name (Repo_FullName r)) (repositories d)))"

definition UpsertRepo ::
  "env \<Rightarrow> nat \<Rightarrow> pg_uuid \<Rightarrow> pg_uuid \<Rightarrow> int \<Rightarrow> int \<Rightarrow> string \<Rightarrow> string \<Rightarrow> db
    \<Rightarrow> dberr + (Repository \<times> db)" where
  "UpsertRepo env n usr org ghid inst name branch d =
     (if \<not> one_owner usr org then Inl CheckViolation
      else case find (\<lambda>r. Repo_GithubRepoID r = ghid) (repositories d) of
        Some r \<Rightarrow>
          let upd = (\<lambda>x. x\<lparr>Repo_InstallationID := inst, Repo_FullName := name,
                       Repo_DefaultBranch := branch\<rparr>)
          in Inr (upd r, d\<lparr>repositories :=
               update_where (\<lambda>x. Repo_GithubRepoID x = ghid) upd (repositories d)\<rparr>)
      | None \<Rightarrow>
          if e_uuid env n \<in> Repo_ID ` set (repositories d) then Inl UniqueViolation
          else if (org \<noteq> None \<and> the org \<notin> Org_ID ` set (organizations d))
            \<or> (usr \<noteq> None \<and> the usr \<notin> User_ID ` set (users d)) then Inl ForeignKeyViolation
          else let r = \<lparr>Repo_ID = e_uuid env n, Repo_OrgID = org, Repo_GithubRepoID = ghid,
                 Repo_InstallationID = inst, Repo_FullName = name, Repo_DefaultBranch = branch,
                 Repo_InstalledAt = e_now env, Repo_UserID = usr\<rparr>
               in Inr (r, d\<lparr>repositories := repositories d @ [r]\<rparr>))"

section \<open>Jobs\<close>

definition GetJobByID :: "pg_uuid \<Rightarrow> db \<Rightarrow> dberr + Job" where
  "GetJobByID i d = query_one (\<lambda>j. sql_eq (Some (Job_ID j)) i) (jobs d)"

definition GetJobForUpdate :: "pg_uuid \<Rightarrow> db \<Rightarrow> dberr + Job" where
  "GetJobForUpdate i d = query_one (\<lambda>j. sql_eq (Some (Job_ID j)) i) (jobs d)"

definition CreateJob ::
  "env \<Rightarrow> nat \<Rightarrow> pg_uuid \<Rightarrow> string \<Rightarrow> string \<Rightarrow> string \<Rightarrow> db \<Rightarrow> dberr + (Job \<times> db)" where
  "CreateJob env n repo branch sha delivery d =
     (let delivery_id = (if delivery = '''' then None else Some delivery) in
      case repo of
        None \<Rightarrow> Inl NotNullViolation
      | Some rid \<Rightarrow>
          if e_uuid env n \<in> Job_ID ` set (jobs d) then Inl UniqueViolation
          else if \<exists>j \<in> set (jobs d). sql_eq (Job_DeliveryID j) delivery_id then Inl UniqueViolation
          else if rid \<notin> Repo_ID ` set (repositories d) then Inl ForeignKeyViolation
          else let j = \<lparr>Job_ID = e_uuid env n, Job_RepoID = rid, Job_Branch = branch,
                 Job_CommitSha = sha, Job_DeliveryID = delivery_id, Job_Status = JobStatusQueued,
                 Job_ErrorMessage = None, Job_CreatedAt = e_now env, Job_UpdatedAt = e_now env,
                 Job_StartedAt = None, Job_FinishedAt = None\<rparr>
               in Inr (j, d\<lparr>jobs := jobs d @ [j]\<rparr>))"

definition GetActiveJobsForBranch :: "pg_uuid \<Rightarrow> string \<Rightarrow> db \<Rightarrow> Job list" where
  "GetActiveJobsForBranch repo branch d = sort_key Job_CreatedAt
     (filter (\<lambda>j. sql_eq (Some (Job_RepoID j)) repo \<and> Job_Branch j = branch
        \<and> Job_Status j \<in> {JobStatusQueued, JobStatusRunning}) (jobs d))"

definition ListJobsByRepo :: "pg_uuid \<Rightarrow> timestamp \<Rightarrow> int \<Rightarrow> db \<Rightarrow> Job list" where
  "ListJobsByRepo repo before lim d = take (nat lim) (order_desc Job_CreatedAt
     (filter (\<lambda>j. sql_eq (Some (Job_RepoID j)) repo \<and> Job_CreatedAt j < before) (jobs d)))"

text \<open>Every UPDATE on \<open>jobs\<close> fires the trigger that sets \<open>updated_at\<close>.\<close>

definition update_jobs :: "env \<Rightarrow> (Job \<Rightarrow> bool) \<Rightarrow> (Job \<Rightarrow> Job) \<Rightarrow> db \<Rightarrow> db" where
  "update_jobs env P f d =
     d\<lparr>jobs := update_where P (\<lambda>j. (f j)\<lparr>Job_UpdatedAt := e_now env\<rparr>) (jobs d)\<rparr>"

text \<open>
  \<open>ClaimJob\<close>: the oldest queued job that no concurrent transaction has locked
  (\<open>FOR UPDATE SKIP LOCKED\<close>; \<open>locked\<close> lists the rows other transactions hold).
\<close>

definition ClaimJob :: "env \<Rightarrow> uuid list \<Rightarrow> db \<Rightarrow> dberr + (Job \<times> db)" where
  "ClaimJob env locked d =
     (case sort_key Job_CreatedAt
        (filter (\<lambda>j. Job_Status j = JobStatusQueued \<and> Job_ID j \<notin> set locked) (jobs d)) of
        [] \<Rightarrow> Inl ErrNoRows
      | j # _ \<Rightarrow>
          let claim = (\<lambda>x. x\<lparr>Job_Status := JobStatusRunning, Job_StartedAt := Some (e_now env)\<rparr>)
          in Inr ((claim j)\<lparr>Job_UpdatedAt := e_now env\<rparr>,
                  update_jobs env (\<lambda>x. Job_ID x = Job_ID j) claim d))"

definition MarkJobSuperseded :: "env \<Rightarrow> pg_uuid \<Rightarrow> db \<Rightarrow> db" where
  "MarkJobSuperseded env i d = update_jobs env
     (\<lambda>j. sql_eq (Some (Job_ID j)) i \<and> Job_Status j = JobStatusQueued)
     (\<lambda>j. j\<lparr>Job_Status := JobStatusSuperseded\<rparr>) d"

definition timed_out :: "env \<Rightarrow> int \<Rightarrow> Job \<Rightarrow> bool" where
  "timed_out env mins j \<longleftrightarrow> Job_Status j = JobStatusRunning \<and>
     (case Job_StartedAt j of None \<Rightarrow> False | Some t \<Rightarrow> t < e_now env - mins * usec_per_min)"

definition TimeoutRunningJobs :: "env \<Rightarrow> int \<Rightarrow> db \<Rightarrow> int \<times> db" where
  "TimeoutRunningJobs env mins d =
     (int (length (filter (timed_out env mins) (jobs d))),
      update_jobs env (timed_out env mins)
        (\<lambda>j. j\<lparr>Job_Status := JobStatusFailed, Job_ErrorMessage := Some ''Job timed out'',
               Job_FinishedAt := Some (e_now env)\<rparr>) d)"

definition UpdateJobCommitSHA :: "env \<Rightarrow> pg_uuid \<Rightarrow> string \<Rightarrow> db \<Rightarrow> db" where
  "UpdateJobCommitSHA env i sha d = update_jobs env
     (\<lambda>j. sql_eq (Some (Job_ID j)) i \<and> Job_Status j = JobStatusQueued)
     (\<lambda>j. j\<lparr>Job_CommitSha := sha\<rparr>) d"

definition set_job_status :: "env \<Rightarrow> JobStatus \<Rightarrow> pg_text \<Rightarrow> Job \<Rightarrow> Job" where
  "set_job_status env st msg j = j\<lparr>Job_Status := st, Job_ErrorMessage := msg,
     Job_StartedAt := (if st = JobStatusRunning then Some (e_now env) else Job_StartedAt j),
     Job_FinishedAt := (if IsTerminal st then Some (e_now env) else Job_FinishedAt j)\<rparr>"

text \<open>The parameter is the text of the status; the CHECK constraint refuses any other text.\<close>

definition UpdateJobStatus :: "env \<Rightarrow> pg_uuid \<Rightarrow> string \<Rightarrow> pg_text \<Rightarrow> db \<Rightarrow> dberr + db" where
  "UpdateJobStatus env i status msg d =
     (case job_status_of status of
        None \<Rightarrow> if \<exists>j \<in> set (jobs d). sql_eq (Some (Job_ID j)) i then Inl CheckViolation else Inr d
      | Some st \<Rightarrow>
          Inr (update_jobs env (\<lambda>j. sql_eq (Some (Job_ID j)) i) (set_job_status env st msg) d))"

record GetRepoForJobRow =
  RFJ_ID :: uuid
  RFJ_GithubRepoID :: int
  RFJ_InstallationID :: int
  RFJ_FullName :: string
  RFJ_DefaultBranch :: string

definition GetRepoForJob :: "pg_uuid \<Rightarrow> db \<Rightarrow> dberr + GetRepoForJobRow" where
  "GetRepoForJob i d =
     (case query_one (\<lambda>r. \<exists>j \<in> set (jobs d). sql_eq (Some (Job_ID j)) i \<and> Job_RepoID j = Repo_ID r)
        (repositories d) of
        Inl e \<Rightarrow> Inl e
      | Inr r \<Rightarrow> Inr \<lparr>RFJ_ID = Repo_ID r, RFJ_GithubRepoID = Repo_GithubRepoID r,
          RFJ_InstallationID = Repo_InstallationID r, RFJ_FullName = Repo_FullName r,
          RFJ_DefaultBranch = Repo_DefaultBranch r\<rparr>)"

section \<open>Snapshots\<close>

definition GetSnapshotByID :: "pg_uuid \<Rightarrow> db \<Rightarrow> dberr + Snapshot" where
  "GetSnapshotByID i d = query_one (\<lambda>s. sql_eq (Some (Snap_ID s)) i) (snapshots d)"

definition GetSnapshotsByBranch :: "pg_uuid \<Rightarrow> string \<Rightarrow> db \<Rightarrow> Snapshot list" where
  "GetSnapshotsByBranch repo branch d = order_desc Snap_CreatedAt
     (filter (\<lambda>s. sql_eq (Some (Snap_RepoID s)) repo \<and> Snap_Branch s = branch) (snapshots d))"

definition GetLatestSnapshot :: "pg_uuid \<Rightarrow> string \<Rightarrow> db \<Rightarrow> dberr + Snapshot" where
  "GetLatestSnapshot repo branch d =
     (case order_desc Snap_CreatedAt
        (filter (\<lambda>s. sql_eq (Some (Snap_RepoID s)) repo \<and> Snap_Branch s = branch) (snapshots d)) of
        [] \<Rightarrow> Inl ErrNoRows
      | s # _ \<Rightarrow> Inr s)"

definition snap_key :: "Snapshot \<Rightarrow> uuid \<times> string \<times> string" where
  "snap_key s = (Snap_RepoID s, Snap_Branch s, Snap_CommitSha s)"

definition InsertSnapshot ::
  "env \<Rightarrow> nat \<Rightarrow> pg_uuid \<Rightarrow> pg_uuid \<Rightarrow> string \<Rightarrow> string \<Rightarrow> string \<Rightarrow> int \<Rightarrow> string \<Rightarrow> int \<Rightarrow> db
    \<Rightarrow> dberr + (Snapshot \<times> db)" where
  "InsertSnapshot env n repo job branch sha path ver zz bytes d =
     (case repo of
        None \<Rightarrow> Inl NotNullViolation
      | Some rid \<Rightarrow>
          if e_uuid env n \<in> Snap_ID ` set (snapshots d) then Inl UniqueViolation
          else if (rid, branch, sha) \<in> snap_key ` set (snapshots d) then Inl UniqueViolation
          else if rid \<notin> Repo_ID ` set (repositories d)
            \<or> (job \<noteq> None \<and> the job \<notin> Job_ID ` set (jobs d)) then Inl ForeignKeyViolation
          else let s = \<lparr>Snap_ID = e_uuid env n, Snap_RepoID = rid, Snap_JobID = job,
                 Snap_Branch = branch, Snap_CommitSha = sha, Snap_GcsPath = path,
                 Snap_SnapshotVersion = ver, Snap_ZigzagVersion = zz, Snap_SizeBytes = bytes,
                 Snap_CreatedAt = e_now env, Snap_Metadata = None\<rparr>
               in Inr (s, d\<lparr>snapshots := snapshots d @ [s]\<rparr>))"

definition InsertCLISnapshot ::
  "env \<Rightarrow> nat \<Rightarrow> pg_uuid \<Rightarrow> string \<Rightarrow> string \<Rightarrow> string \<Rightarrow> int \<Rightarrow> string \<Rightarrow> int \<Rightarrow> pg_text \<Rightarrow> db
    \<Rightarrow> dberr + (Snapshot \<times> db)" where
  "InsertCLISnapshot env n repo branch sha path ver zz bytes meta d =
     (case repo of
        None \<Rightarrow> Inl NotNullViolation
      | Some rid \<Rightarrow>
        (case find (\<lambda>s. snap_key s = (rid, branch, sha)) (snapshots d) of
           Some s \<Rightarrow>
             let upd = (\<lambda>x. x\<lparr>Snap_GcsPath := path, Snap_SnapshotVersion := ver,
                          Snap_ZigzagVersion := zz, Snap_SizeBytes := bytes, Snap_Metadata := meta\<rparr>)
             in Inr (upd s, d\<lparr>snapshots :=
                  update_where (\<lambda>x. snap_key x = (rid, branch, sha)) upd (snapshots d)\<rparr>)
         | None \<Rightarrow>
             if e_uuid env n \<in> Snap_ID ` set (snapshots d) then Inl UniqueViolation
             else if rid \<notin> Repo_ID ` set (repositories d) then Inl ForeignKeyViolation
             else let s = \<lparr>Snap_ID = e_uuid env n, Snap_RepoID = rid, Snap_JobID = None,
                    Snap_Branch = branch, Snap_CommitSha = sha, Snap_GcsPath = path,
                    Snap_SnapshotVersion = ver, Snap_ZigzagVersion = zz, Snap_SizeBytes = bytes,
                    Snap_CreatedAt = e_now env, Snap_Metadata = meta\<rparr>
                  in Inr (s, d\<lparr>snapshots := snapshots d @ [s]\<rparr>)))"

section \<open>Lookup interfaces\<close>

interpretation job_table: keyed_table Job_ID jobs GetJobByID
  by unfold_locales (simp add: GetJobByID_def)

interpretation job_lock: keyed_table Job_ID jobs GetJobForUpdate
  by unfold_locales (simp add: GetJobForUpdate_def)

interpretation repo_table: keyed_table Repo_ID repositories GetRepoByID
  by unfold_locales (simp add: GetRepoByID_def)

interpretation snapshot_table: keyed_table Snap_ID snapshots GetSnapshotByID
  by unfold_locales (simp add: GetSnapshotByID_def)

section \<open>Laws of the queries\<close>

lemma jobs_update_jobs:
  "jobs (update_jobs env P f d)
    = map (\<lambda>j. if P j then (f j)\<lparr>Job_UpdatedAt := e_now env\<rparr> else j) (jobs d)"
  by (simp add: update_jobs_def update_where_def)

lemma update_jobs_frame [frame_simps]:
  "repositories (update_jobs env P f d) = repositories d"
  "snapshots (update_jobs env P f d) = snapshots d"
  "organizations (update_jobs env P f d) = organizations d"
  "memberships (update_jobs env P f d) = memberships d"
  "users (update_jobs env P f d) = users d"
  by (simp_all add: update_jobs_def)

lemma update_jobs_nomatch: "(\<And>j. j \<in> set (jobs d) \<Longrightarrow> \<not> P j) \<Longrightarrow> update_jobs env P f d = d"
  by (simp add: update_jobs_def update_where_nomatch)

lemma update_jobs_keys:
  assumes "\<And>j. k (f j) = k j" and "\<And>j t. k (j\<lparr>Job_UpdatedAt := t\<rparr>) = k j"
  shows "map k (jobs (update_jobs env P f d)) = map k (jobs d)"
  by (simp add: jobs_update_jobs assms)

lemma update_jobs_member:
  assumes "j \<in> set (jobs d)" and "\<not> P j"
  shows "j \<in> set (jobs (update_jobs env P f d))"
  using assms by (auto simp: jobs_update_jobs image_iff)

lemma update_jobs_hit:
  assumes "j \<in> set (jobs d)" and "P j"
  shows "(f j)\<lparr>Job_UpdatedAt := e_now env\<rparr> \<in> set (jobs (update_jobs env P f d))"
  using assms by (auto simp: jobs_update_jobs image_iff intro!: bexI [of _ j])

lemma update_jobs_cases:
  assumes "x \<in> set (jobs (update_jobs env P f d))"
  obtains (kept) "x \<in> set (jobs d)" "\<not> P x"
    | (hit) j where "j \<in> set (jobs d)" "P j" "x = (f j)\<lparr>Job_UpdatedAt := e_now env\<rparr>"
  using assms by (auto simp: jobs_update_jobs split: if_splits)

lemma set_job_status_simps [simp]:
  "Job_Status (set_job_status env st msg j) = st"
  "Job_ErrorMessage (set_job_status env st msg j) = msg"
  "Job_ID (set_job_status env st msg j) = Job_ID j"
  "Job_RepoID (set_job_status env st msg j) = Job_RepoID j"
  "Job_Branch (set_job_status env st msg j) = Job_Branch j"
  "Job_CommitSha (set_job_status env st msg j) = Job_CommitSha j"
  "Job_DeliveryID (set_job_status env st msg j) = Job_DeliveryID j"
  by (simp_all add: set_job_status_def)

lemma CreateJob_Inr:
  assumes "CreateJob env n repo branch sha delivery d = Inr (j, d')"
  shows "repo = Some (Job_RepoID j)" "Job_ID j = e_uuid env n" "Job_Branch j = branch"
    "Job_CommitSha j = sha" "Job_Status j = JobStatusQueued" "d' = d\<lparr>jobs := jobs d @ [j]\<rparr>"
    "Job_ID j \<notin> Job_ID ` set (jobs d)" "Job_RepoID j \<in> Repo_ID ` set (repositories d)"
    "\<And>x. x \<in> set (jobs d) \<Longrightarrow> \<not> sql_eq (Job_DeliveryID x) (Job_DeliveryID j)"
    "Job_DeliveryID j = (if delivery = '''' then None else Some delivery)"
    "Job_StartedAt j = None" "Job_FinishedAt j = None" "Job_CreatedAt j = e_now env"
  using assms by (auto simp: CreateJob_def Let_def split: option.splits if_splits)

lemma CreateJob_unique:
  "CreateJob env n (Some rid) branch sha delivery d = Inl UniqueViolation \<longleftrightarrow>
     e_uuid env n \<in> Job_ID ` set (jobs d)
     \<or> (delivery \<noteq> '''' \<and> Some delivery \<in> Job_DeliveryID ` set (jobs d))"
  by (auto simp: CreateJob_def Let_def sql_eq_def image_iff split: if_splits) force+

lemma active_jobs_iff:
  "j \<in> set (GetActiveJobsForBranch (Some r) b d) \<longleftrightarrow>
     j \<in> set (jobs d) \<and> Job_RepoID j = r \<and> Job_Branch j = b \<and> \<not> IsTerminal (Job_Status j)"
  by (auto simp: GetActiveJobsForBranch_def not_terminal_iff)

lemma ClaimJob_Inr:
  assumes "ClaimJob env locked d = Inr (j, d')"
  obtains j0 where "j0 \<in> set (jobs d)" "Job_Status j0 = JobStatusQueued" "Job_ID j0 \<notin> set locked"
    "j = j0\<lparr>Job_Status := JobStatusRunning, Job_StartedAt := Some (e_now env),
            Job_UpdatedAt := e_now env\<rparr>"
    "d' = update_jobs env (\<lambda>x. Job_ID x = Job_ID j0)
       (\<lambda>x. x\<lparr>Job_Status := JobStatusRunning, Job_StartedAt := Some (e_now env)\<rparr>) d"
    "\<And>x. x \<in> set (jobs d) \<Longrightarrow> Job_Status x = JobStatusQueued \<Longrightarrow> Job_ID x \<notin> set locked
       \<Longrightarrow> Job_CreatedAt j0 \<le> Job_CreatedAt x"
proof -
  let ?Q = "filter (\<lambda>j. Job_Status j = JobStatusQueued \<and> Job_ID j \<notin> set locked) (jobs d)"
  obtain j0 js where srt: "sort_key Job_CreatedAt ?Q = j0 # js"
    using assms by (auto simp: ClaimJob_def split: list.splits)
  then have "j0 \<in> set ?Q" by (rule sort_key_hd_in)
  moreover have "Job_CreatedAt j0 \<le> Job_CreatedAt x" if "x \<in> set ?Q" for x
    using sort_key_hd_min [OF srt that] .
  ultimately show thesis
    using assms srt by (intro that [of j0]) (auto simp: ClaimJob_def Let_def)
qed

lemma GetRepoForJob_defined:
  assumes "j \<in> set (jobs d)" and "Job_RepoID j \<in> Repo_ID ` set (repositories d)"
  shows "\<exists>r. GetRepoForJob (Some (Job_ID j)) d = Inr r"
proof (rule ccontr)
  assume "\<not> ?thesis"
  then obtain e where "query_one (\<lambda>r. \<exists>x \<in> set (jobs d). sql_eq (Some (Job_ID x)) (Some (Job_ID j))
      \<and> Job_RepoID x = Repo_ID r) (repositories d) = Inl e"
    by (auto simp: GetRepoForJob_def split: sum.splits)
  then show False using query_one_Inl assms by fastforce
qed

lemma GetLatestSnapshot_Inr:
  assumes "GetLatestSnapshot (Some r) b d = Inr s"
  shows "s \<in> set (snapshots d)" "Snap_RepoID s = r" "Snap_Branch s = b"
    "\<And>x. x \<in> set (snapshots d) \<Longrightarrow> Snap_RepoID x = r \<Longrightarrow> Snap_Branch x = b
       \<Longrightarrow> Snap_CreatedAt x \<le> Snap_CreatedAt s"
proof -
  let ?F = "filter (\<lambda>s. sql_eq (Some (Snap_RepoID s)) (Some r) \<and> Snap_Branch s = b) (snapshots d)"
  obtain ss where ss: "order_desc Snap_CreatedAt ?F = s # ss"
    using assms by (auto simp: GetLatestSnapshot_def split: list.splits)
  then have "s \<in> set ?F" by (rule order_desc_hd_in)
  then show "s \<in> set (snapshots d)" "Snap_RepoID s = r" "Snap_Branch s = b" by auto
  show "Snap_CreatedAt x \<le> Snap_CreatedAt s"
    if "x \<in> set (snapshots d)" "Snap_RepoID x = r" "Snap_Branch x = b" for x
    using order_desc_hd_max [OF ss] that by simp
qed

lemma InsertSnapshot_Inr:
  assumes "InsertSnapshot env n repo job branch sha path ver zz bytes d = Inr (s, d')"
  shows "repo = Some (Snap_RepoID s)" "Snap_JobID s = job" "Snap_Branch s = branch"
    "Snap_CommitSha s = sha" "Snap_GcsPath s = path" "Snap_SnapshotVersion s = ver"
    "d' = d\<lparr>snapshots := snapshots d @ [s]\<rparr>" "Snap_ID s \<notin> Snap_ID ` set (snapshots d)"
    "snap_key s \<notin> snap_key ` set (snapshots d)"
    "Snap_RepoID s \<in> Repo_ID ` set (repositories d)"
  using assms by (auto simp: InsertSnapshot_def Let_def snap_key_def split: option.splits if_splits)

end
