(* ===== verification/GoText.thy ===== *)
theory GoText
  imports Prelude
begin

text \<open>
  The parts of Go's \<open>strings\<close>, \<open>strconv\<close>, \<open>fmt\<close> and \<open>encoding/hex\<close> packages the sources use. A Go
  string and a \<open>[]byte\<close> are a list of bytes, which is what an Isabelle \<open>string\<close> is.
\<close>

section \<open>Prefixes and splitting\<close>

definition has_prefix :: "string \<Rightarrow> string \<Rightarrow> bool" where
  "has_prefix s p \<longleftrightarrow> take (length p) s = p"

text \<open>\<open>strings.CutPrefix\<close>: the rest after the prefix when it is there.\<close>

definition cut_prefix :: "string \<Rightarrow> string \<Rightarrow> string option" where
  "cut_prefix s p = (if has_prefix s p then Some (drop (length p) s) else None)"

definition trim_prefix :: "string \<Rightarrow> string \<Rightarrow> string" where
  "trim_prefix s p = (if has_prefix s p then drop (length p) s else s)"

text \<open>The text before and after the first occurrence of a byte.\<close>

fun cut_at :: "char \<Rightarrow> string \<Rightarrow> (string \<times> string) option" where
  "cut_at c [] = None"
| "cut_at c (x # xs) =
     (if x = c then Some ([], xs) else map_option (\<lambda>(a, b). (x # a, b)) (cut_at c xs))"

text \<open>\<open>strings.SplitN(s, c, 2)\<close> for a one-byte separator.\<close>

definition split2 :: "char \<Rightarrow> string \<Rightarrow> string list" where
  "split2 c s = (case cut_at c s of None \<Rightarrow> [s] | Some (a, b) \<Rightarrow> [a, b])"

lemma cut_prefix_append [simp]: "cut_prefix (p @ s) p = Some s"
  by (simp add: cut_prefix_def has_prefix_def)

lemma cut_prefix_Some_iff: "cut_prefix s p = Some r \<longleftrightarrow> s = p @ r"
proof
  assume "cut_prefix s p = Some r"
  then have "take (length p) s = p" "drop (length p) s = r"
    by (auto simp: cut_prefix_def has_prefix_def split: if_splits)
  then show "s = p @ r" by (metis append_take_drop_id)
qed (simp add: cut_prefix_def has_prefix_def)

lemma trim_prefix_append [simp]: "trim_prefix (p @ s) p = s"
  by (simp add: trim_prefix_def has_prefix_def)

lemma cut_at_append: "c \<notin> set s \<Longrightarrow> cut_at c (s @ c # t) = Some (s, t)"
  by (induction s) auto

lemma cut_at_Some: "cut_at c s = Some (a, b) \<Longrightarrow> s = a @ c # b \<and> c \<notin> set a"
  by (induction s arbitrary: a b) (auto split: if_splits)

lemma split2_append: "c \<notin> set s \<Longrightarrow> split2 c (s @ c # t) = [s, t]"
  by (simp add: split2_def cut_at_append)

lemma split2_pair: "split2 c s = [a, b] \<Longrightarrow> s = a @ c # b \<and> c \<notin> set a"
  by (auto simp: split2_def split: option.splits dest: cut_at_Some)

section \<open>Decimal integers\<close>

definition digit :: "nat \<Rightarrow> char" where
  "digit n = char_of (48 + n)"

definition digit_val :: "char \<Rightarrow> nat option" where
  "digit_val c = (let n = of_char c :: nat in if 48 \<le> n \<and> n \<le> 57 then Some (n - 48) else None)"

fun nat_text :: "nat \<Rightarrow> string" where
  "nat_text n = (if n < 10 then [digit n] else nat_text (n div 10) @ [digit (n mod 10)])"

declare nat_text.simps [simp del]

text \<open>\<open>fmt.Sprintf("%d", i)\<close> and \<open>strconv.FormatInt(i, 10)\<close>.\<close>

definition int_text :: "int \<Rightarrow> string" where
  "int_text i = (if i < 0 then CHR ''-'' # nat_text (nat (- i)) else nat_text (nat i))"

fun digits_val :: "nat \<Rightarrow> string \<Rightarrow> nat option" where
  "digits_val acc [] = Some acc"
| "digits_val acc (c # cs) =
     (case digit_val c of None \<Rightarrow> None | Some v \<Rightarrow> digits_val (10 * acc + v) cs)"

definition int64_range :: "int \<Rightarrow> bool" where
  "int64_range i \<longleftrightarrow> - (2 ^ 63) \<le> i \<and> i < 2 ^ 63"

definition check_int64 :: "int \<Rightarrow> int option" where
  "check_int64 i = (if int64_range i then Some i else None)"

text \<open>\<open>strconv.ParseInt(s, 10, 64)\<close> and \<open>strconv.Atoi\<close> on a 64-bit platform: an optional sign,
  at least one digit, nothing else, and a value that fits.\<close>

definition parse_int :: "string \<Rightarrow> int option" where
  "parse_int s =
     (case s of
        [] \<Rightarrow> None
      | c # cs \<Rightarrow>
          if c = CHR ''-'' then
            (if cs = [] then None else
             case digits_val 0 cs of None \<Rightarrow> None | Some n \<Rightarrow> check_int64 (- int n))
          else if c = CHR ''+'' then
            (if cs = [] then None else
             case digits_val 0 cs of None \<Rightarrow> None | Some n \<Rightarrow> check_int64 (int n))
          else (case digits_val 0 s of None \<Rightarrow> None | Some n \<Rightarrow> check_int64 (int n)))"

lemma of_char_digit: "n < 10 \<Longrightarrow> (of_char (digit n) :: nat) = 48 + n"
  by (simp add: digit_def)

lemma digit_val_digit: "n < 10 \<Longrightarrow> digit_val (digit n) = Some n"
  by (simp add: digit_val_def of_char_digit)

lemma digit_neq:
  assumes "n < 10" and "(of_char c :: nat) < 48 \<or> (of_char c :: nat) > 57"
  shows "digit n \<noteq> c"
  using assms of_char_digit [of n] by auto

lemma digits_val_append:
  "digits_val acc (xs @ ys) = (case digits_val acc xs of None \<Rightarrow> None | Some v \<Rightarrow> digits_val v ys)"
  by (induction acc xs rule: digits_val.induct) (auto split: option.splits)

lemma digits_val_nat_text: "digits_val 0 (nat_text n) = Some n"
proof (induction n rule: nat_text.induct)
  case (1 n)
  show ?case
  proof (cases "n < 10")
    case True
    then show ?thesis by (simp add: nat_text.simps [of n] digit_val_digit)
  next
    case False
    with 1 have "digits_val 0 (nat_text (n div 10)) = Some (n div 10)" by simp
    with False show ?thesis
      by (simp add: nat_text.simps [of n] digits_val_append digit_val_digit)
  qed
qed

lemma nat_text_digits: "c \<in> set (nat_text n) \<Longrightarrow> \<exists>v < 10. c = digit v"
proof (induction n rule: nat_text.induct)
  case (1 n)
  then show ?case
    by (cases "n < 10") (auto simp: nat_text.simps [of n] intro: exI [of _ "n mod 10"])
qed

lemma nat_text_notin:
  "(of_char c :: nat) < 48 \<or> (of_char c :: nat) > 57 \<Longrightarrow> c \<notin> set (nat_text n)"
  using nat_text_digits digit_neq by blast

lemma nat_text_nonempty [simp]: "nat_text n \<noteq> []"
  by (subst nat_text.simps) simp

theorem parse_int_text: "int64_range i \<Longrightarrow> parse_int (int_text i) = Some i"
proof (cases "i < 0")
  case True
  then show "int64_range i \<Longrightarrow> ?thesis"
    by (simp add: int_text_def parse_int_def digits_val_nat_text check_int64_def)
next
  case False
  obtain c cs where c: "nat_text (nat i) = c # cs" by (cases "nat_text (nat i)") auto
  have "c \<noteq> CHR ''-''" "c \<noteq> CHR ''+''"
    using c nat_text_notin [of "CHR ''-''" "nat i"] nat_text_notin [of "CHR ''+''" "nat i"] by auto
  then show "int64_range i \<Longrightarrow> ?thesis"
    using False digits_val_nat_text [of "nat i"]
    by (simp add: int_text_def parse_int_def c check_int64_def)
qed

lemma parse_int_range: "parse_int s = Some i \<Longrightarrow> int64_range i"
  by (auto simp: parse_int_def check_int64_def split: list.splits if_splits option.splits)

section \<open>Hexadecimal\<close>

definition hex_digit :: "nat \<Rightarrow> char" where
  "hex_digit n = (if n < 10 then char_of (48 + n) else char_of (87 + n))"

definition hex_byte :: "char \<Rightarrow> string" where
  "hex_byte c = (let n = of_char c :: nat in [hex_digit (n div 16), hex_digit (n mod 16)])"

definition hex_encode :: "string \<Rightarrow> string" where
  "hex_encode s = concat (map hex_byte s)"

lemma hex_digit_no_colon: "n < 16 \<Longrightarrow> hex_digit n \<noteq> CHR '':''"
proof
  assume "n < 16" and "hex_digit n = CHR '':''"
  then have "(of_char (hex_digit n) :: nat) = 58" by simp
  then show False using \<open>n < 16\<close> by (auto simp: hex_digit_def split: if_splits)
qed

lemma hex_byte_no_colon: "CHR '':'' \<notin> set (hex_byte c)"
proof -
  let ?n = "of_char c :: nat"
  have "?n div 16 < 16" by (rule less_mult_imp_div_less) simp
  then have "hex_digit (?n div 16) \<noteq> CHR '':''" by (rule hex_digit_no_colon)
  moreover have "hex_digit (?n mod 16) \<noteq> CHR '':''" by (rule hex_digit_no_colon) simp
  ultimately show ?thesis by (auto simp: hex_byte_def Let_def)
qed

lemma hex_encode_no_colon: "CHR '':'' \<notin> set (hex_encode s)"
  by (simp add: hex_encode_def hex_byte_no_colon)

lemma length_hex_encode: "length (hex_encode s) = 2 * length s"
  by (induction s) (auto simp: hex_encode_def hex_byte_def Let_def)

section \<open>White space\<close>

text \<open>The UTF-8 encodings of the white space \<open>strings.TrimSpace\<close> removes.\<close>

definition white_space :: "string list" where
  "white_space = map (\<lambda>n. [char_of (n::nat)]) [9, 10, 11, 12, 13, 32]
     @ map (map (\<lambda>n. char_of (n::nat))) ([[194, 133], [194, 160], [225, 154, 128]]
       @ map (\<lambda>n. [226, 128, n]) ([128, 129, 130, 131, 132, 133, 134, 135, 136, 137, 138, 168, 169, 175])
       @ [[226, 129, 159], [227, 128, 128]])"

fun trim_with :: "string list \<Rightarrow> nat \<Rightarrow> string \<Rightarrow> string" where
  "trim_with ws 0 s = s"
| "trim_with ws (Suc n) s =
     (case find (\<lambda>w. has_prefix s w) ws of None \<Rightarrow> s | Some w \<Rightarrow> trim_with ws n (drop (length w) s))"

text \<open>As many rounds as the text has bytes are enough: each removes at least one.\<close>

definition TrimSpace :: "string \<Rightarrow> string" where
  "TrimSpace s =
     (let l = trim_with white_space (length s) s
      in rev (trim_with (map rev white_space) (length l) (rev l)))"

end
