(* ===== verification/Http.thy ===== *)
theory Http
  imports GoText
begin

text \<open>
  Requests, responses and JSON as the handlers see them (\<open>shared/go/httputil\<close>), and the struct
  validation wrapper of the API (\<open>api/internal/validate/validate.go\<close>).

  A response is the call the handler makes on the \<open>ResponseWriter\<close>. A JSON text is read by
  \<open>encoding/json\<close> into a value of type \<open>json\<close>: the reader is the parameter \<open>x_json\<close> of the record
  \<open>ext\<close>, and how a struct is filled from the value is modelled here. The validation library
  (go-playground/validator) is the parameter \<open>x_validate\<close>: it takes the fields of a struct with the
  rules of their tags and returns the field errors.
\<close>

section \<open>Responses\<close>

datatype 'a reply =
    ErrResponse nat string \<comment> \<open>\<open>httputil.ErrResponse\<close>: a JSON error envelope\<close>
  | HttpError nat string \<comment> \<open>\<open>http.Error\<close>: plain text\<close>
  | WriteHeader nat \<comment> \<open>a status and no body\<close>
  | WriteJSON nat 'a \<comment> \<open>\<open>httputil.WriteJSON\<close>\<close>

fun reply_status :: "'a reply \<Rightarrow> nat" where
  "reply_status (ErrResponse c _) = c"
| "reply_status (HttpError c _) = c"
| "reply_status (WriteHeader c) = c"
| "reply_status (WriteJSON c _) = c"

definition OkResponse :: "'a \<Rightarrow> 'a reply" where
  "OkResponse v = WriteJSON 200 v"

abbreviation ErrInternal :: string where "ErrInternal \<equiv> ''internal error''"
abbreviation ErrInvalidBody :: string where "ErrInvalidBody \<equiv> ''invalid request body''"
abbreviation ErrNotFound :: string where "ErrNotFound \<equiv> ''not found''"
abbreviation ErrForbidden :: string where "ErrForbidden \<equiv> ''forbidden''"

section \<open>JSON values and struct fields\<close>

datatype json =
    JNull
  | JBool bool
  | JNum int
  | JFloat string \<comment> \<open>a number that is not written as an integer\<close>
  | JStr string
  | JArr "json list"
  | JObj "(string \<times> json) list"

definition lower :: "char \<Rightarrow> char" where
  "lower c = (let n = of_char c :: nat in if 65 \<le> n \<and> n \<le> 90 then char_of (n + 32) else c)"

text \<open>A member belongs to a field when the names agree up to case (\<open>encoding/json\<close>).\<close>

definition field_match :: "string \<Rightarrow> string \<Rightarrow> bool" where
  "field_match name k \<longleftrightarrow> map lower name = map lower k"

text \<open>
  The value of a string field after decoding: the last matching member wins, \<open>null\<close> leaves the
  field as it is, another kind of value is a type error. \<open>None\<close> is the decoder's error.
\<close>

fun str_field :: "string \<Rightarrow> string \<Rightarrow> (string \<times> json) list \<Rightarrow> string option" where
  "str_field name v [] = Some v"
| "str_field name v ((k, j) # ms) =
     (if field_match name k
      then (case j of JStr s \<Rightarrow> str_field name s ms | JNull \<Rightarrow> str_field name v ms | _ \<Rightarrow> None)
      else str_field name v ms)"

text \<open>The same for an \<open>int64\<close> field; a number outside the range is a type error.\<close>

fun int_field :: "string \<Rightarrow> int \<Rightarrow> (string \<times> json) list \<Rightarrow> int option" where
  "int_field name v [] = Some v"
| "int_field name v ((k, j) # ms) =
     (if field_match name k
      then (case j of
          JNum n \<Rightarrow> (if int64_range n then int_field name n ms else None)
        | JNull \<Rightarrow> int_field name v ms
        | _ \<Rightarrow> None)
      else int_field name v ms)"

text \<open>A \<open>bool\<close> field.\<close>

fun bool_field :: "string \<Rightarrow> bool \<Rightarrow> (string \<times> json) list \<Rightarrow> bool option" where
  "bool_field name v [] = Some v"
| "bool_field name v ((k, j) # ms) =
     (if field_match name k
      then (case j of JBool b \<Rightarrow> bool_field name b ms | JNull \<Rightarrow> bool_field name v ms | _ \<Rightarrow> None)
      else bool_field name v ms)"

text \<open>A pointer-to-string field: \<open>null\<close> sets it to nil.\<close>

fun opt_str_field :: "string \<Rightarrow> string option \<Rightarrow> (string \<times> json) list \<Rightarrow> string option option" where
  "opt_str_field name v [] = Some v"
| "opt_str_field name v ((k, j) # ms) =
     (if field_match name k
      then (case j of
          JStr s \<Rightarrow> opt_str_field name (Some s) ms
        | JNull \<Rightarrow> opt_str_field name None ms
        | _ \<Rightarrow> None)
      else opt_str_field name v ms)"

text \<open>The elements of a \<open>[]string\<close>; \<open>null\<close> is the zero value.\<close>

fun str_elems :: "json list \<Rightarrow> string list option" where
  "str_elems [] = Some []"
| "str_elems (JStr s # js) = map_option ((#) s) (str_elems js)"
| "str_elems (JNull # js) = map_option ((#) '''') (str_elems js)"
| "str_elems (_ # js) = None"

fun strs_field :: "string \<Rightarrow> string list \<Rightarrow> (string \<times> json) list \<Rightarrow> string list option" where
  "strs_field name v [] = Some v"
| "strs_field name v ((k, j) # ms) =
     (if field_match name k
      then (case j of
          JArr js \<Rightarrow> (case str_elems js of None \<Rightarrow> None | Some ss \<Rightarrow> strs_field name ss ms)
        | JNull \<Rightarrow> strs_field name [] ms
        | _ \<Rightarrow> None)
      else strs_field name v ms)"

section \<open>Code outside the repository\<close>

datatype vrule =
    VRequired
  | VRequiredIf string string
  | VUUID
  | VEmail
  | VOneof "string list"
  | VGte int
  | VMin int
  | VMax int
  | VLen int
  | VUrl
  | VOmitEmpty

datatype vvalue = VStr string | VInt int | VPtr "string option" | VStrs "string list"

record FieldError =
  FE_Field :: string
  FE_Tag :: string
  FE_Param :: string

type_synonym vfield = "string \<times> vrule list \<times> vvalue"

text \<open>
  The functions of packages outside the repository that the handlers call: reading the first JSON
  value of a text (\<open>Decoder.Decode\<close>) or the whole text (\<open>json.Unmarshal\<close>), writing a JSON text, validating the
  fields of a struct, pgtype's reading and printing of UUIDs, the keyed hash and the plain hash.
\<close>

record ext =
  x_json :: "string \<Rightarrow> json option"
  x_unmarshal :: "string \<Rightarrow> json option"
  x_marshal :: "json \<Rightarrow> string"
  x_validate :: "vfield list \<Rightarrow> FieldError list"
  x_uuid_scan :: "string \<Rightarrow> uuid option"
  x_uuid_string :: "uuid \<Rightarrow> string"
  x_mac :: "string \<Rightarrow> string \<Rightarrow> string"
  x_sha256 :: "string \<Rightarrow> string"

text \<open>
  Documented behaviour of the validator that some theorems rely on: a struct without field errors
  satisfies the rules of its tags. \<open>required\<close> means not the zero value; \<open>min\<close> on a string counts
  characters, of which there are at most as many as bytes.
\<close>

fun rule_holds :: "vfield list \<Rightarrow> vvalue \<Rightarrow> vrule \<Rightarrow> bool" where
  "rule_holds fs (VStr s) VRequired = (s \<noteq> '''')"
| "rule_holds fs (VInt i) VRequired = (i \<noteq> 0)"
| "rule_holds fs (VStrs ss) VRequired = (ss \<noteq> [])"
| "rule_holds fs (VStr s) (VRequiredIf f v) =
     ((\<exists>g \<in> set fs. fst g = f \<and> snd (snd g) = VStr v) \<longrightarrow> s \<noteq> '''')"
| "rule_holds fs (VStr s) (VOneof ss) = (s \<in> set ss)"
| "rule_holds fs (VInt i) (VGte n) = (n \<le> i)"
| "rule_holds fs (VStr s) (VMin n) = (n \<le> int (length s))"
| "rule_holds fs (VStrs ss) (VMin n) = (n \<le> int (length ss))"
| "rule_holds fs _ _ = True"

definition validator_sound :: "ext \<Rightarrow> bool" where
  "validator_sound x \<longleftrightarrow> (\<forall>fs. x_validate x fs = [] \<longrightarrow>
     (\<forall>(f, rs, v) \<in> set fs. VOmitEmpty \<notin> set rs \<longrightarrow> (\<forall>r \<in> set rs. rule_holds fs v r)))"

section \<open>Struct validation (\<open>validate.go\<close>)\<close>

definition fieldError :: "FieldError \<Rightarrow> string" where
  "fieldError fe =
     (let field = FE_Field fe; param = FE_Param fe; tag = FE_Tag fe in
      if tag = ''required'' then field @ '' is required''
      else if tag = ''required_if'' then field @ '' is required when '' @ param
      else if tag = ''uuid'' then field @ '' must be a valid UUID''
      else if tag = ''oneof'' then field @ '' must be one of: '' @ param
      else if tag = ''gt'' then field @ '' must be greater than '' @ param
      else if tag = ''gte'' then field @ '' must be greater than or equal to '' @ param
      else if tag = ''max'' then field @ '' must be at most '' @ param @ '' characters''
      else if tag = ''min'' then field @ '' must be at least '' @ param @ '' characters''
      else field @ '' failed on '' @ tag @ '' validation'')"

fun join :: "string \<Rightarrow> string list \<Rightarrow> string" where
  "join sep [] = ''''"
| "join sep [s] = s"
| "join sep (s # ss) = s @ sep @ join sep ss"

definition formatErrors :: "FieldError list \<Rightarrow> string" where
  "formatErrors ve = join ''; '' (map fieldError ve)"

definition validate_struct :: "ext \<Rightarrow> vfield list \<Rightarrow> string option" where
  "validate_struct x fs = (case x_validate x fs of [] \<Rightarrow> None | ve \<Rightarrow> Some (formatErrors ve))"

lemma validate_struct_rule:
  assumes "validator_sound x" and "validate_struct x fs = None" and "(f, rs, v) \<in> set fs"
    and "r \<in> set rs" and "VOmitEmpty \<notin> set rs"
  shows "rule_holds fs v r"
proof -
  have "x_validate x fs = []" using assms(2) by (auto simp: validate_struct_def split: list.splits)
  then show ?thesis using assms(1,3-5) unfolding validator_sound_def by fastforce
qed

section \<open>Query parameters (\<open>params.go\<close>)\<close>

abbreviation DefaultPageLimit :: int where "DefaultPageLimit \<equiv> 50"
abbreviation MaxPageLimit :: int where "MaxPageLimit \<equiv> 100"

definition ParseLimit :: "string \<Rightarrow> int" where
  "ParseLimit s =
     (if s = '''' then DefaultPageLimit
      else case parse_int s of
        None \<Rightarrow> DefaultPageLimit
      | Some n \<Rightarrow> if n < 1 then DefaultPageLimit
                  else if n > MaxPageLimit then MaxPageLimit
                  else n)"

text \<open>\<open>ParseCursor\<close>; the reading of an RFC 3339 timestamp (\<open>time.Parse\<close>) is a parameter.\<close>

definition ParseCursor :: "(string \<Rightarrow> timestamp option) \<Rightarrow> env \<Rightarrow> string \<Rightarrow> string + timestamp" where
  "ParseCursor parse env raw =
     (if raw = '''' then Inr (e_now env)
      else case parse raw of
        None \<Rightarrow> Inl ''invalid cursor, expected RFC3339''
      | Some t \<Rightarrow> Inr t)"

definition UUIDToString :: "ext \<Rightarrow> pg_uuid \<Rightarrow> string" where
  "UUIDToString x u = (case u of None \<Rightarrow> '''' | Some i \<Rightarrow> x_uuid_string x i)"

lemma ParseLimit_range: "1 \<le> ParseLimit s \<and> ParseLimit s \<le> MaxPageLimit"
  by (auto simp: ParseLimit_def split: option.splits)

lemma int_text_nonempty [simp]: "int_text i \<noteq> ''''"
  by (simp add: int_text_def)

lemma ParseLimit_int_text: "1 \<le> n \<Longrightarrow> n \<le> MaxPageLimit \<Longrightarrow> ParseLimit (int_text n) = n"
  by (simp add: ParseLimit_def parse_int_text int64_range_def)

text \<open>
  The page size a listing uses is between 1 and 100 whatever the query string holds, and every
  size in that range, written in decimal, is read back as it is.
\<close>

theorem ParseLimit_bounds:
  "1 \<le> ParseLimit s \<and> ParseLimit s \<le> MaxPageLimit
    \<and> ParseLimit (int_text (max 1 (min n MaxPageLimit))) = max 1 (min n MaxPageLimit)"
proof -
  have "ParseLimit (int_text (max 1 (min n MaxPageLimit))) = max 1 (min n MaxPageLimit)"
    by (rule ParseLimit_int_text) auto
  then show ?thesis using ParseLimit_range [of s] by simp
qed

end
