(* ===== verification/JobToken.thy ===== *)
theory JobToken
  imports GoText
begin

text \<open>
  Signed job tokens (\<open>shared/go/jobtoken/jobtoken.go\<close>). A token is the hexadecimal MAC of
  \<open>jobID:expiry\<close>, a colon and the expiry in seconds. The keyed hash (\<open>crypto/hmac\<close> over SHA-256)
  is the parameter \<open>mac\<close>, from a key and a message to the digest: nothing is assumed about it, so
  that the theorems describe what the code adds to it. \<open>hmac.Equal\<close> is equality.
\<close>

type_synonym mac = "string \<Rightarrow> string \<Rightarrow> string"

datatype tokenerr = ErrInvalidToken | ErrTokenExpired

record Signer =
  sig_key :: string
  sig_prevKey :: "string option"
  sig_ttl :: timestamp

definition NewSigner :: "string \<Rightarrow> timestamp \<Rightarrow> Signer" where
  "NewSigner key ttl = \<lparr>sig_key = key, sig_prevKey = None, sig_ttl = ttl\<rparr>"

definition WithPreviousKey :: "Signer \<Rightarrow> string \<Rightarrow> Signer" where
  "WithPreviousKey s prev = \<lparr>sig_key = sig_key s, sig_prevKey = Some prev, sig_ttl = sig_ttl s\<rparr>"

text \<open>\<open>Time.Unix()\<close>: whole seconds of a clock reading.\<close>

definition unix :: "timestamp \<Rightarrow> int" where
  "unix t = t div usec_per_sec"

text \<open>The package-level function \<open>sign\<close>.\<close>

definition sign_token :: "mac \<Rightarrow> string \<Rightarrow> string \<Rightarrow> int \<Rightarrow> string" where
  "sign_token mac key jobID expiry =
     (let payload = jobID @ '':'' @ int_text expiry;
          sig = hex_encode (mac key payload)
      in sig @ '':'' @ int_text expiry)"

definition Sign :: "mac \<Rightarrow> env \<Rightarrow> Signer \<Rightarrow> string \<Rightarrow> string" where
  "Sign mac env s jobID = sign_token mac (sig_key s) jobID (unix (e_now env + sig_ttl s))"

text \<open>The package-level function \<open>validate\<close>; \<open>None\<close> is Go's nil error.\<close>

definition validate_token :: "mac \<Rightarrow> env \<Rightarrow> string \<Rightarrow> string \<Rightarrow> string \<Rightarrow> tokenerr option" where
  "validate_token mac env key jobID token =
     (case split2 CHR '':'' token of
        [_, expiryStr] \<Rightarrow>
          (case parse_int expiryStr of
             None \<Rightarrow> Some ErrInvalidToken
           | Some expiry \<Rightarrow>
               if token \<noteq> sign_token mac key jobID expiry then Some ErrInvalidToken
               else if unix (e_now env) > expiry then Some ErrTokenExpired
               else None)
      | _ \<Rightarrow> Some ErrInvalidToken)"

definition Validate :: "mac \<Rightarrow> env \<Rightarrow> Signer \<Rightarrow> string \<Rightarrow> string \<Rightarrow> tokenerr option" where
  "Validate mac env s jobID token =
     (case validate_token mac env (sig_key s) jobID token of
        None \<Rightarrow> None
      | Some err \<Rightarrow>
          (case sig_prevKey s of
             Some prev \<Rightarrow>
               if err = ErrInvalidToken then validate_token mac env prev jobID token else Some err
           | None \<Rightarrow> Some err))"

section \<open>What a token proves\<close>

lemma sign_token_split:
  "split2 CHR '':'' (sign_token mac key jobID expiry)
    = [hex_encode (mac key (jobID @ '':'' @ int_text expiry)), int_text expiry]"
  by (simp add: sign_token_def Let_def split2_append hex_encode_no_colon)

lemma sign_token_expiry_inj:
  assumes "sign_token mac key jobID e = sign_token mac' key' jobID' e'"
    and "int64_range e" and "int64_range e'"
  shows "e = e'"
proof -
  have "int_text e = int_text e'"
    using assms(1) sign_token_split [of mac key jobID e] sign_token_split [of mac' key' jobID' e']
    by simp
  then show ?thesis using parse_int_text assms(2,3) by (metis option.inject)
qed

lemma validate_token_cases:
  "validate_token mac env key jobID token =
     (if \<exists>e. int64_range e \<and> token = sign_token mac key jobID e \<and> unix (e_now env) \<le> e then None
      else if \<exists>e. int64_range e \<and> token = sign_token mac key jobID e then Some ErrTokenExpired
      else Some ErrInvalidToken)"
proof (cases "\<exists>e. int64_range e \<and> token = sign_token mac key jobID e")
  case True
  then obtain e where e: "int64_range e" "token = sign_token mac key jobID e" by blast
  have "e' = e" if "int64_range e'" "token = sign_token mac key jobID e'" for e'
    using sign_token_expiry_inj that e by metis
  then have "(\<exists>e'. int64_range e' \<and> token = sign_token mac key jobID e' \<and> unix (e_now env) \<le> e')
      \<longleftrightarrow> unix (e_now env) \<le> e"
    using e by blast
  moreover have "validate_token mac env key jobID token
      = (if unix (e_now env) > e then Some ErrTokenExpired else None)"
    using e by (simp add: validate_token_def sign_token_split parse_int_text)
  ultimately show ?thesis using True by auto
next
  case False
  then have "validate_token mac env key jobID token = Some ErrInvalidToken"
    by (auto simp: validate_token_def split: list.splits option.splits dest: parse_int_range)
  with False show ?thesis by auto
qed

lemma validate_token_ok_iff:
  "validate_token mac env key jobID token = None \<longleftrightarrow>
     (\<exists>e. int64_range e \<and> token = sign_token mac key jobID e \<and> unix (e_now env) \<le> e)"
  by (simp add: validate_token_cases)

definition accepted_keys :: "Signer \<Rightarrow> string set" where
  "accepted_keys s = insert (sig_key s) (set_option (sig_prevKey s))"

lemma Validate_ok_iff:
  "Validate mac env s jobID token = None \<longleftrightarrow>
     (\<exists>key \<in> accepted_keys s. \<exists>e. int64_range e \<and> token = sign_token mac key jobID e
        \<and> unix (e_now env) \<le> e)"
proof (cases "sig_prevKey s")
  case None
  then have "Validate mac env s jobID token = validate_token mac env (sig_key s) jobID token"
    by (simp add: Validate_def split: option.splits)
  then show ?thesis using None by (simp add: validate_token_ok_iff accepted_keys_def)
next
  case (Some prev)
  have expired: "\<not> (\<exists>e. int64_range e \<and> token = sign_token mac prev jobID e \<and> unix (e_now env) \<le> e)"
    if "validate_token mac env (sig_key s) jobID token = Some ErrTokenExpired"
  proof -
    from that obtain e where e: "int64_range e" "token = sign_token mac (sig_key s) jobID e"
      and "\<not> unix (e_now env) \<le> e"
      by (fastforce simp: validate_token_cases split: if_splits)
    then show ?thesis using sign_token_expiry_inj by metis
  qed
  show ?thesis
  proof (cases "validate_token mac env (sig_key s) jobID token")
    case None
    then show ?thesis
      unfolding accepted_keys_def by (simp add: Validate_def) (use validate_token_ok_iff in blast)
  next
    case err: (Some err)
    then have no: "\<not> (\<exists>e. int64_range e \<and> token = sign_token mac (sig_key s) jobID e
        \<and> unix (e_now env) \<le> e)"
      using validate_token_ok_iff [of mac env "sig_key s" jobID token] by simp
    show ?thesis
      using err no Some expired
      by (cases err) (auto simp: Validate_def accepted_keys_def validate_token_ok_iff)
  qed
qed

lemma Validate_expired_iff:
  "Validate mac env s jobID token = Some ErrTokenExpired \<longleftrightarrow>
     (\<exists>key \<in> accepted_keys s. \<exists>e. int64_range e \<and> token = sign_token mac key jobID e
        \<and> e < unix (e_now env))"
  (is "?L \<longleftrightarrow> ?R")
proof
  assume ?L
  then obtain key where "key \<in> accepted_keys s"
    and "validate_token mac env key jobID token = Some ErrTokenExpired"
    by (auto simp: Validate_def accepted_keys_def split: option.splits if_splits)
  then show ?R by (fastforce simp: validate_token_cases split: if_splits)
next
  assume ?R
  then obtain key e where key: "key \<in> accepted_keys s" and e: "int64_range e"
    "token = sign_token mac key jobID e" "e < unix (e_now env)" by blast
  have same: "e' = e" if "int64_range e'" "token = sign_token mac key' jobID e'" for e' key'
    using sign_token_expiry_inj that e by metis
  have "validate_token mac env k jobID token \<noteq> None" for k
    using same e(3) by (auto simp: validate_token_ok_iff)
  moreover have "validate_token mac env key jobID token = Some ErrTokenExpired"
    using e by (simp add: validate_token_def sign_token_split parse_int_text)
  ultimately show ?L
    using key by (auto simp: Validate_def accepted_keys_def split: option.splits)
      (metis tokenerr.exhaust)
qed

text \<open>
  C9. What \<open>Validate\<close> answers, in full. It accepts exactly the tokens that \<open>sign\<close> renders for this
  job identifier under the current or the previous key, with an expiry that fits 64 bits and has
  not passed. A token so rendered whose expiry has passed is reported as expired; every other text
  (another spelling, another job's token, a foreign key) is invalid. Nothing is assumed of the MAC.
\<close>

theorem Validate_spec:
  "Validate mac env s jobID token =
     (if \<exists>key \<in> accepted_keys s. \<exists>e. int64_range e \<and> token = sign_token mac key jobID e
           \<and> unix (e_now env) \<le> e then None
      else if \<exists>key \<in> accepted_keys s. \<exists>e. int64_range e \<and> token = sign_token mac key jobID e
        then Some ErrTokenExpired
      else Some ErrInvalidToken)"
proof -
  consider "Validate mac env s jobID token = None"
    | "Validate mac env s jobID token = Some ErrTokenExpired"
    | "Validate mac env s jobID token = Some ErrInvalidToken"
    by (metis option.exhaust tokenerr.exhaust)
  then show ?thesis
  proof cases
    case 1
    then show ?thesis using Validate_ok_iff [of mac env s jobID token] by simp
  next
    case 2
    then have "Validate mac env s jobID token \<noteq> None" by simp
    then show ?thesis
      using 2 Validate_ok_iff [of mac env s jobID token]
        Validate_expired_iff [of mac env s jobID token] by auto
  next
    case 3
    then have "\<not> (\<exists>key \<in> accepted_keys s. \<exists>e. int64_range e \<and> token = sign_token mac key jobID e)"
      using Validate_ok_iff [of mac env s jobID token]
        Validate_expired_iff [of mac env s jobID token] by (metis linorder_not_less option.distinct(1)
          option.inject tokenerr.distinct(1))
    then show ?thesis using 3 by auto
  qed
qed

lemma Sign_accepted:
  assumes "int64_range (unix (e_now env + sig_ttl s))"
    and "unix (e_now env') \<le> unix (e_now env + sig_ttl s)"
    and "sig_key s \<in> accepted_keys s'"
  shows "Validate mac env' s' jobID (Sign mac env s jobID) = None"
  using assms by (auto simp: Validate_ok_iff Sign_def)

text \<open>
  Round trip, with key rotation: a token signed under one key is accepted until its expiry by
  every signer that still knows that key, as its current or as its previous one. The API and the
  worker share the key, so the token put into a Cloud Task is good for the callbacks.
\<close>

theorem Sign_then_Validate:
  assumes "int64_range (unix (e_now env + sig_ttl s))"
    and "unix (e_now env') \<le> unix (e_now env + sig_ttl s)"
    and "s' = s \<or> s' = WithPreviousKey (NewSigner new ttl) (sig_key s)"
  shows "Validate mac env' s' jobID (Sign mac env s jobID) = None"
proof (rule Sign_accepted)
  show "sig_key s \<in> accepted_keys s'"
    using assms(3) by (auto simp: accepted_keys_def WithPreviousKey_def)
qed (use assms in auto)

theorem Sign_then_Validate_witness:
  "Validate (\<lambda>k m. k @ m) \<lparr>e_now = 1000000, e_uuid = (\<lambda>_. 0), e_fault = (\<lambda>_ _. False)\<rparr>
     (WithPreviousKey (NewSigner ''new'' 5) ''old'') ''job-1''
     (Sign (\<lambda>k m. k @ m) \<lparr>e_now = 0, e_uuid = (\<lambda>_. 0), e_fault = (\<lambda>_ _. False)\<rparr>
        (NewSigner ''old'' 2000000) ''job-1'') = None"
  by (rule Sign_then_Validate [where new = "''new''" and ttl = 5])
    (simp_all add: unix_def NewSigner_def int64_range_def)

end
