(* ===== verification/Samples.thy ===== *)
theory Samples
  imports StoreJobs Http JobToken
begin

text \<open>
  A concrete environment, a concrete instance of the external functions and a small database, on
  which definitions are evaluated. The instance prints JSON in the usual form and reads back the
  texts of a given list of values; its validator checks the rules of the tags; an identifier is
  written as a run of letters.
\<close>

fun json_text :: "json \<Rightarrow> string" and members_text :: "(string \<times> json) list \<Rightarrow> string"
  and elems_text :: "json list \<Rightarrow> string" where
  "json_text JNull = ''null''"
| "json_text (JBool b) = (if b then ''true'' else ''false'')"
| "json_text (JNum n) = int_text n"
| "json_text (JFloat s) = s"
| "json_text (JStr s) = [CHR 0x22] @ s @ [CHR 0x22]"
| "json_text (JArr js) = ''['' @ elems_text js @ '']''"
| "json_text (JObj ms) = ''{'' @ members_text ms @ ''}''"
| "members_text [] = ''''"
| "members_text ((k, v) # ms) = [CHR 0x22] @ k @ [CHR 0x22] @ '':'' @ json_text v
     @ (if ms = [] then '''' else '','' @ members_text ms)"
| "elems_text [] = ''''"
| "elems_text (v # vs) = json_text v @ (if vs = [] then '''' else '','' @ elems_text vs)"

definition sample_validate :: "vfield list \<Rightarrow> FieldError list" where
  "sample_validate fs =
     (if \<forall>(f, rs, v) \<in> set fs. VOmitEmpty \<in> set rs \<or> list_all (rule_holds fs v) rs then []
      else [\<lparr>FE_Field = ''Field'', FE_Tag = ''required'', FE_Param = ''''\<rparr>])"

definition sample_ext :: "json list \<Rightarrow> ext" where
  "sample_ext js =
     \<lparr>x_json = (\<lambda>s. find (\<lambda>j. json_text j = s) js),
      x_unmarshal = (\<lambda>s. find (\<lambda>j. json_text j = s) js),
      x_marshal = json_text,
      x_validate = sample_validate,
      x_uuid_scan = (\<lambda>s. if s = '''' then None else Some (of_nat (length s))),
      x_uuid_string = (\<lambda>u. replicate (unat u) CHR ''u''),
      x_mac = (\<lambda>k m. k @ m),
      x_sha256 = rev\<rparr>"

lemma sample_validator_sound: "validator_sound (sample_ext js)"
  by (fastforce simp: validator_sound_def sample_ext_def sample_validate_def list_all_iff
      split: if_splits)

definition sample_env :: "timestamp \<Rightarrow> env" where
  "sample_env t = \<lparr>e_now = t, e_uuid = (\<lambda>n. of_nat (n + 1)), e_fault = (\<lambda>_ _. False)\<rparr>"

definition sample_repo :: Repository where
  "sample_repo = \<lparr>Repo_ID = 7, Repo_OrgID = Some 5, Repo_GithubRepoID = 42, Repo_InstallationID = 9,
     Repo_FullName = ''acme/app'', Repo_DefaultBranch = ''main'', Repo_InstalledAt = 0,
     Repo_UserID = None\<rparr>"

definition sample_db :: db where
  "sample_db = empty_db\<lparr>repositories := [sample_repo]\<rparr>"

definition sample_job :: "JobStatus \<Rightarrow> Job" where
  "sample_job st = \<lparr>Job_ID = 1, Job_RepoID = 7, Job_Branch = ''main'', Job_CommitSha = ''c1'',
     Job_DeliveryID = Some ''dl'', Job_Status = st, Job_ErrorMessage = None, Job_CreatedAt = 0,
     Job_UpdatedAt = 0, Job_StartedAt = (if st = JobStatusQueued then None else Some 0),
     Job_FinishedAt = (if IsTerminal st then Some 0 else None)\<rparr>"

definition sample_signer :: Signer where
  "sample_signer = NewSigner ''k'' (30 * usec_per_min)"

lemma sample_ext_simps [simp]:
  "x_json (sample_ext js) s = find (\<lambda>j. json_text j = s) js"
  "x_unmarshal (sample_ext js) s = find (\<lambda>j. json_text j = s) js"
  "x_marshal (sample_ext js) = json_text"
  "x_validate (sample_ext js) = sample_validate"
  "x_uuid_scan (sample_ext js) t = (if t = '''' then None else Some (of_nat (length t)))"
  "x_uuid_string (sample_ext js) u = replicate (unat u) CHR ''u''"
  "x_mac (sample_ext js) k m = k @ m"
  "x_sha256 (sample_ext js) t = rev t"
  by (simp_all add: sample_ext_def)

lemmas sample_defs = sample_env_def sample_repo_def sample_db_def
  sample_job_def sample_signer_def empty_db_def

end
