(* ===== verification/JobService.thy ===== *)
theory JobService
  imports Samples
begin

text \<open>
  From a GitHub webhook to a queued job: signature check and payload parsing
  (\<open>shared/go/provider/github\<close>), the webhook handler (\<open>api/internal/handler/webhook\<close>), job creation
  with deduplication (\<open>api/internal/service/job.go\<close>) and the task enqueuers
  (\<open>api/internal/engine\<close>).
\<close>

section \<open>GitHub webhooks\<close>

record WebhookEvent =
  Ev_EventType :: string
  Ev_Action :: string
  Ev_RepoID :: int
  Ev_RepoName :: string
  Ev_CloneURL :: string
  Ev_Branch :: string
  Ev_CommitSHA :: string
  Ev_InstallationID :: int

record PushPayload =
  PP_Ref :: string
  PP_After :: string
  PP_Action :: string
  PP_RepoID :: int
  PP_RepoFullName :: string
  PP_RepoCloneURL :: string
  PP_InstallationID :: int

text \<open>The members of a nested struct field: repeated objects are decoded one after the other.\<close>

fun obj_field :: "string \<Rightarrow> (string \<times> json) list \<Rightarrow> (string \<times> json) list option" where
  "obj_field name [] = Some []"
| "obj_field name ((k, j) # ms) =
     (if field_match name k
      then (case j of
          JObj ms' \<Rightarrow> map_option ((@) ms') (obj_field name ms)
        | JNull \<Rightarrow> obj_field name ms
        | _ \<Rightarrow> None)
      else obj_field name ms)"

definition decode_PushPayload :: "json \<Rightarrow> PushPayload option" where
  "decode_PushPayload j =
     (case j of
        JNull \<Rightarrow> Some \<lparr>PP_Ref = '''', PP_After = '''', PP_Action = '''', PP_RepoID = 0,
          PP_RepoFullName = '''', PP_RepoCloneURL = '''', PP_InstallationID = 0\<rparr>
      | JObj ms \<Rightarrow>
          (case (str_field ''ref'' '''' ms, str_field ''after'' '''' ms, str_field ''action'' '''' ms,
                 obj_field ''repository'' ms, obj_field ''installation'' ms) of
             (Some ref, Some aft, Some act, Some repo, Some inst) \<Rightarrow>
               (case (int_field ''id'' 0 repo, str_field ''full_name'' '''' repo,
                      str_field ''clone_url'' '''' repo, int_field ''id'' 0 inst) of
                  (Some rid, Some name, Some url, Some iid) \<Rightarrow>
                    Some \<lparr>PP_Ref = ref, PP_After = aft, PP_Action = act, PP_RepoID = rid,
                      PP_RepoFullName = name, PP_RepoCloneURL = url, PP_InstallationID = iid\<rparr>
                | _ \<Rightarrow> None)
           | _ \<Rightarrow> None)
      | _ \<Rightarrow> None)"

definition ParsePayload :: "ext \<Rightarrow> string \<Rightarrow> PushPayload option" where
  "ParsePayload x payload =
     (case x_unmarshal x payload of None \<Rightarrow> None | Some j \<Rightarrow> decode_PushPayload j)"

definition BranchFromRef :: "string \<Rightarrow> string" where
  "BranchFromRef ref = trim_prefix ref ''refs/heads/''"

datatype webhookerr = ErrInvalidSignature | ErrPayload

definition ValidateWebhook ::
  "ext \<Rightarrow> string \<Rightarrow> string \<Rightarrow> string \<Rightarrow> string \<Rightarrow> webhookerr + WebhookEvent" where
  "ValidateWebhook x secret payload signature eventType =
     (let expected = ''sha256='' @ hex_encode (x_mac x secret payload) in
      if expected \<noteq> signature then Inl ErrInvalidSignature
      else case ParsePayload x payload of
        None \<Rightarrow> Inl ErrPayload
      | Some p \<Rightarrow> Inr \<lparr>Ev_EventType = eventType, Ev_Action = PP_Action p, Ev_RepoID = PP_RepoID p,
          Ev_RepoName = PP_RepoFullName p, Ev_CloneURL = PP_RepoCloneURL p,
          Ev_Branch = BranchFromRef (PP_Ref p), Ev_CommitSHA = PP_After p,
          Ev_InstallationID = PP_InstallationID p\<rparr>)"

section \<open>Task enqueuers\<close>

record CloudTasksConfig =
  CT_Project :: string
  CT_Location :: string
  CT_Queue :: string
  CT_WorkerURL :: string
  CT_ServiceAccount :: string

record Task =
  Task_Parent :: string
  Task_Url :: string
  Task_JobID :: string
  Task_JobToken :: string
  Task_ServiceAccountEmail :: string
  Task_Audience :: string

text \<open>
  The two implementations of \<open>TaskEnqueuer\<close>. Creating a task fails when the circuit breaker is open
  or the call fails; \<open>True\<close> in the result is success.
\<close>

datatype TaskEnqueuer = NoopEnqueuer | CloudTasksEnqueuer CloudTasksConfig

fun Enqueue :: "env \<Rightarrow> TaskEnqueuer \<Rightarrow> string \<Rightarrow> string \<Rightarrow> Task list \<Rightarrow> bool \<times> Task list" where
  "Enqueue env NoopEnqueuer jobID token ts = (True, ts)"
| "Enqueue env (CloudTasksEnqueuer cfg) jobID token ts =
     (let queuePath = ''projects/'' @ CT_Project cfg @ ''/locations/'' @ CT_Location cfg
            @ ''/queues/'' @ CT_Queue cfg;
          task = \<lparr>Task_Parent = queuePath, Task_Url = CT_WorkerURL cfg @ ''/run'',
            Task_JobID = jobID, Task_JobToken = token,
            Task_ServiceAccountEmail = CT_ServiceAccount cfg, Task_Audience = CT_WorkerURL cfg\<rparr>
      in if e_fault env ''cb.Run'' 0 \<or> e_fault env ''CreateTask'' 0 then (False, ts)
         else (True, ts @ [task]))"

section \<open>Job creation\<close>

record world =
  w_db :: db
  w_tasks :: "Task list"

record JobService =
  JS_enqueuer :: TaskEnqueuer
  JS_signer :: Signer

text \<open>
  \<open>HandlePush\<close>. The error is \<open>None\<close> for Go's nil and otherwise the prefix the code wraps the cause
  with. The parameter \<open>others\<close> is what concurrent transactions commit between this transaction's
  read of the active jobs and its write: the advisory lock keeps other pushes to the same branch
  out, but \<open>Start\<close>, \<open>Complete\<close>, the watchdog and the poller do not take it. Without concurrency
  it is the identity. A return before the commit rolls the transaction back.
\<close>

definition HandlePush ::
  "ext \<Rightarrow> env \<Rightarrow> JobService \<Rightarrow> (db \<Rightarrow> db) \<Rightarrow> WebhookEvent \<Rightarrow> string \<Rightarrow> world \<Rightarrow> string option \<times> world"
  where
  "HandlePush x env s others event deliveryID w =
     (let d = w_db w in
      if e_fault env ''Begin'' 0 then (Some ''begin tx'', w)
      else case guarded env ''GetRepoByGithubID'' 0 (GetRepoByGithubID (Ev_RepoID event) d) of
        Inl e \<Rightarrow> if e = ErrNoRows then (None, w) else (Some ''get repo'', w)
      | Inr repo \<Rightarrow>
        if e_fault env ''pg_advisory_xact_lock'' 0 then (Some ''acquire advisory lock'', w)
        else if e_fault env ''GetActiveJobsForBranch'' 0 then (Some ''get active jobs'', w)
        else
          let active = GetActiveJobsForBranch (Some (Repo_ID repo)) (Ev_Branch event) d;
              d1 = others d;
              w1 = w\<lparr>w_db := d1\<rparr>
          in case find (\<lambda>j. Job_Status j = JobStatusQueued) active of
            Some j \<Rightarrow>
              if e_fault env ''UpdateJobCommitSHA'' 0 then (Some ''update job commit sha'', w1)
              else if e_fault env ''Commit'' 0 then (Some ''commit tx'', w1)
              else (None, w\<lparr>w_db := UpdateJobCommitSHA env (Some (Job_ID j)) (Ev_CommitSHA event) d1\<rparr>)
          | None \<Rightarrow>
              (case guarded env ''CreateJob'' 0 (CreateJob env 0 (Some (Repo_ID repo))
                      (Ev_Branch event) (Ev_CommitSHA event) deliveryID d1) of
                 Inl e \<Rightarrow> if e = UniqueViolation then (None, w1) else (Some ''create job'', w1)
               | Inr (job, d2) \<Rightarrow>
                   if e_fault env ''Commit'' 0 then (Some ''commit tx'', w1)
                   else let jobID = x_uuid_string x (Job_ID job);
                            token = Sign (x_mac x) env (JS_signer s) jobID;
                            enq = Enqueue env (JS_enqueuer s) jobID token (w_tasks w)
                        in (None, w\<lparr>w_db := d2, w_tasks := snd enq\<rparr>)))"

section \<open>The webhook endpoint\<close>

abbreviation maxPayloadBytes :: nat where
  "maxPayloadBytes \<equiv> 25 * 1024 * 1024"

definition supportedEvents :: "string \<Rightarrow> bool" where
  "supportedEvents e \<longleftrightarrow> e = ''push''"

record webhook_request =
  WR_Signature :: string \<comment> \<open>header \<open>X-Hub-Signature-256\<close>\<close>
  WR_Event :: string \<comment> \<open>header \<open>X-GitHub-Event\<close>\<close>
  WR_Delivery :: string \<comment> \<open>header \<open>X-GitHub-Delivery\<close>\<close>

text \<open>
  \<open>ServeHTTP\<close>. The argument \<open>read\<close> is \<open>io.ReadAll(io.LimitReader(r.Body, n))\<close>: the first \<open>n\<close> bytes
  of the body, or \<open>None\<close> when reading fails.
\<close>

definition ServeHTTP ::
  "ext \<Rightarrow> env \<Rightarrow> string \<Rightarrow> JobService \<Rightarrow> (db \<Rightarrow> db) \<Rightarrow> webhook_request \<Rightarrow> (nat \<Rightarrow> string option)
    \<Rightarrow> world \<Rightarrow> unit reply \<times> world" where
  "ServeHTTP x env secret s others r read w =
     (if WR_Signature r = '''' then (HttpError 401 ''missing signature'', w)
      else case read (maxPayloadBytes + 1) of
        None \<Rightarrow> (HttpError 500 ''failed to read body'', w)
      | Some body \<Rightarrow>
        if length body > maxPayloadBytes then (HttpError 413 ''payload too large'', w)
        else case ValidateWebhook x secret body (WR_Signature r) (WR_Event r) of
          Inl ErrInvalidSignature \<Rightarrow> (HttpError 401 ''invalid signature'', w)
        | Inl _ \<Rightarrow> (HttpError 500 ''validation error'', w)
        | Inr event \<Rightarrow>
          if \<not> supportedEvents (Ev_EventType event) then (WriteHeader 200, w)
          else case HandlePush x env s others event (WR_Delivery r) w of
            (Some _, w') \<Rightarrow> (HttpError 500 ErrInternal, w')
          | (None, w') \<Rightarrow> (WriteHeader 202, w'))"

text \<open>
  \<open>bodylimit.Limit\<close>: \<open>http.MaxBytesReader\<close> makes reading past \<open>maxBytes\<close> fail for the methods that
  carry a body; \<open>io.LimitReader\<close> stops at its own limit without an error.
\<close>

definition hasBody :: "string \<Rightarrow> bool" where
  "hasBody m \<longleftrightarrow> m = ''POST'' \<or> m = ''PUT'' \<or> m = ''PATCH''"

definition Limit :: "nat \<Rightarrow> string \<Rightarrow> string \<Rightarrow> nat \<Rightarrow> string option" where
  "Limit maxBytes meth body n =
     (if hasBody meth \<and> maxBytes < length body \<and> maxBytes < n then None else Some (take n body))"

section \<open>What a push does to the database\<close>

lemma HandlePush_cases:
  assumes "HandlePush x env s others event deliveryID w = (r, w')"
  obtains (untouched) "w' = w"
    | (failed) repo where "GetRepoByGithubID (Ev_RepoID event) (w_db w) = Inr repo"
        "w' = w\<lparr>w_db := others (w_db w)\<rparr>"
    | (updated) repo j where "GetRepoByGithubID (Ev_RepoID event) (w_db w) = Inr repo"
        "j \<in> set (jobs (w_db w))" "Job_Status j = JobStatusQueued" "Job_RepoID j = Repo_ID repo"
        "Job_Branch j = Ev_Branch event" "r = None"
        "w' = w\<lparr>w_db := UpdateJobCommitSHA env (Some (Job_ID j)) (Ev_CommitSHA event) (others (w_db w))\<rparr>"
    | (created) repo job d' where "GetRepoByGithubID (Ev_RepoID event) (w_db w) = Inr repo"
        "\<And>j. j \<in> set (jobs (w_db w)) \<Longrightarrow> Job_RepoID j = Repo_ID repo \<Longrightarrow> Job_Branch j = Ev_Branch event
           \<Longrightarrow> Job_Status j \<noteq> JobStatusQueued"
        "CreateJob env 0 (Some (Repo_ID repo)) (Ev_Branch event) (Ev_CommitSHA event) deliveryID
           (others (w_db w)) = Inr (job, d')" "r = None" "w_db w' = d'"
        "w_tasks w' = snd (Enqueue env (JS_enqueuer s) (x_uuid_string x (Job_ID job))
           (Sign (x_mac x) env (JS_signer s) (x_uuid_string x (Job_ID job))) (w_tasks w))"
proof (cases "guarded env ''GetRepoByGithubID'' 0 (GetRepoByGithubID (Ev_RepoID event) (w_db w))")
  case (Inl e)
  then show thesis using assms untouched by (auto simp: HandlePush_def Let_def split: if_splits)
next
  case (Inr repo)
  then have repo: "GetRepoByGithubID (Ev_RepoID event) (w_db w) = Inr repo" by simp
  let ?active = "GetActiveJobsForBranch (Some (Repo_ID repo)) (Ev_Branch event) (w_db w)"
  show thesis
  proof (cases "find (\<lambda>j. Job_Status j = JobStatusQueued) ?active")
    case (Some j)
    then have "j \<in> set ?active" "Job_Status j = JobStatusQueued" by (auto simp: find_Some_iff)
    then have "j \<in> set (jobs (w_db w))" "Job_RepoID j = Repo_ID repo" "Job_Branch j = Ev_Branch event"
      by (auto simp: active_jobs_iff)
    moreover have "w' = w \<or> w' = w\<lparr>w_db := others (w_db w)\<rparr> \<or> (r = None \<and>
        w' = w\<lparr>w_db := UpdateJobCommitSHA env (Some (Job_ID j)) (Ev_CommitSHA event) (others (w_db w))\<rparr>)"
      using assms Inr Some unfolding HandlePush_def Let_def
      by (auto simp: guarded_nofault split: if_splits)
    ultimately show thesis
      using untouched failed [OF repo] updated [OF repo] \<open>Job_Status j = JobStatusQueued\<close> by blast
  next
    case None
    then have "\<forall>j \<in> set ?active. Job_Status j \<noteq> JobStatusQueued" by (auto simp: find_None_iff)
    then have nq: "\<And>j. j \<in> set (jobs (w_db w)) \<Longrightarrow> Job_RepoID j = Repo_ID repo
        \<Longrightarrow> Job_Branch j = Ev_Branch event \<Longrightarrow> Job_Status j \<noteq> JobStatusQueued"
      using active_jobs_iff by (metis IsTerminal.simps(5))
    have "w' = w \<or> w' = w\<lparr>w_db := others (w_db w)\<rparr> \<or>
      (\<exists>job d'. CreateJob env 0 (Some (Repo_ID repo)) (Ev_Branch event) (Ev_CommitSHA event) deliveryID
           (others (w_db w)) = Inr (job, d') \<and> r = None \<and> w_db w' = d' \<and>
        w_tasks w' = snd (Enqueue env (JS_enqueuer s) (x_uuid_string x (Job_ID job))
           (Sign (x_mac x) env (JS_signer s) (x_uuid_string x (Job_ID job))) (w_tasks w)))"
      using assms Inr None unfolding HandlePush_def Let_def
      by (auto simp: guarded_def split: if_splits sum.splits)
    then show thesis using untouched failed [OF repo] created [OF repo nq] by blast
  qed
qed

section \<open>Properties\<close>

text \<open>
  C14. Only GitHub can queue work: the webhook endpoint changes the database or the task queue only
  for a push event whose body carries a correct signature under the shared secret and decodes.
\<close>

theorem webhook_needs_signature:
  assumes "snd (ServeHTTP x env secret s others r read w) \<noteq> w"
  shows "WR_Event r = ''push'' \<and> (\<exists>body. read (maxPayloadBytes + 1) = Some body
    \<and> WR_Signature r = ''sha256='' @ hex_encode (x_mac x secret body)
    \<and> ParsePayload x body \<noteq> None)"
proof -
  obtain body event where "read (maxPayloadBytes + 1) = Some body"
    "ValidateWebhook x secret body (WR_Signature r) (WR_Event r) = Inr event"
    "supportedEvents (Ev_EventType event)"
    using assms unfolding ServeHTTP_def
    by (auto split: if_splits option.splits sum.splits webhookerr.splits)
  then show ?thesis
    by (auto simp: ValidateWebhook_def Let_def supportedEvents_def split: if_splits option.splits)
qed

definition sample_push_json :: json where
  "sample_push_json = JObj [(''ref'', JStr ''refs/heads/main''), (''after'', JStr ''c1''),
     (''repository'', JObj [(''id'', JNum 42)])]"

definition sample_webhook :: webhook_request where
  "sample_webhook = \<lparr>WR_Signature = ''sha256='' @ hex_encode (''s'' @ json_text sample_push_json),
     WR_Event = ''push'', WR_Delivery = ''dl''\<rparr>"

lemma sample_ValidateWebhook:
  "ValidateWebhook (sample_ext [sample_push_json]) ''s'' (json_text sample_push_json)
     (WR_Signature sample_webhook) ''push'' = Inr \<lparr>Ev_EventType = ''push'', Ev_Action = '''', Ev_RepoID = 42,
       Ev_RepoName = '''', Ev_CloneURL = '''', Ev_Branch = ''main'', Ev_CommitSHA = ''c1'', Ev_InstallationID = 0\<rparr>"
proof -
  have "decode_PushPayload sample_push_json = Some \<lparr>PP_Ref = ''refs/heads/main'', PP_After = ''c1'',
      PP_Action = '''', PP_RepoID = 42, PP_RepoFullName = '''', PP_RepoCloneURL = '''', PP_InstallationID = 0\<rparr>"
    by code_simp
  moreover have "BranchFromRef ''refs/heads/main'' = ''main''" by code_simp
  ultimately show ?thesis
    by (simp add: ValidateWebhook_def ParsePayload_def sample_webhook_def sample_ext_def Let_def)
qed

theorem webhook_needs_signature_witness:
  "\<exists>body. WR_Signature sample_webhook = ''sha256='' @ hex_encode (''s'' @ body)"
proof -
  let ?r = "ServeHTTP (sample_ext [sample_push_json]) (sample_env 0) ''s''
    \<lparr>JS_enqueuer = NoopEnqueuer, JS_signer = sample_signer\<rparr> id sample_webhook
    (\<lambda>_. Some (json_text sample_push_json)) \<lparr>w_db = sample_db, w_tasks = []\<rparr>"
  have "length (json_text sample_push_json) \<le> maxPayloadBytes"
    by (simp add: sample_push_json_def int_text_def nat_text.simps [of 42] nat_text.simps [of 4])
  moreover have "WR_Signature sample_webhook \<noteq> ''''" "WR_Event sample_webhook = ''push''"
    by (simp_all add: sample_webhook_def)
  ultimately have "jobs (w_db (snd ?r)) \<noteq> []"
    by (simp add: ServeHTTP_def sample_ValidateWebhook supportedEvents_def HandlePush_def sample_defs
        guarded_def GetRepoByGithubID_def query_one_def GetActiveJobsForBranch_def CreateJob_def Let_def)
  then have "snd ?r \<noteq> \<lparr>w_db = sample_db, w_tasks = []\<rparr>" by (auto simp: sample_defs)
  from webhook_needs_signature [OF this] show ?thesis by (auto simp: sample_ext_def)
qed

end
