(* ===== verification/RateLimit.thy ===== *)
theory RateLimit
  imports Http
begin

text \<open>
  The sliding-window rate limiter (\<open>api/internal/middleware/ratelimit/ratelimit.go\<close>). Redis keeps,
  per key, a sorted set whose members and scores are both the request's time in microseconds, so
  the set is a list of distinct times here. The expiry of a key only removes entries that are
  outside the window, which the next check removes as well.
\<close>

record RateLimitConfig =
  RL_MaxRequests :: int
  RL_Window :: timestamp

type_synonym redis_zsets = "string \<Rightarrow> int list"

text \<open>The key: by the subject of the token's claims, else by the client's address.\<close>

definition keyFunc :: "(string \<Rightarrow> string option) \<Rightarrow> string option \<Rightarrow> string \<Rightarrow> string \<Rightarrow> string" where
  "keyFunc split_host claims remoteAddr prefix =
     (case claims of
        Some subject \<Rightarrow> ''rl:'' @ prefix @ '':user:'' @ subject
      | None \<Rightarrow> ''rl:'' @ prefix @ '':ip:''
          @ (case split_host remoteAddr of None \<Rightarrow> remoteAddr | Some ip \<Rightarrow> ip))"

text \<open>\<open>checkRateLimit\<close> on one key: whether the request is allowed, how many remain, the new set.\<close>

definition checkRateLimit :: "RateLimitConfig \<Rightarrow> timestamp \<Rightarrow> int list \<Rightarrow> bool \<times> int \<times> int list" where
  "checkRateLimit cfg now z =
     (let windowStart = now - RL_Window cfg;
          z1 = filter (\<lambda>m. \<not> m \<le> windowStart) z;
          count = int (length z1);
          z2 = (if now \<in> set z1 then z1 else z1 @ [now]);
          remaining = max (RL_MaxRequests cfg - count - 1) 0
      in if count \<ge> RL_MaxRequests cfg then (False, 0, z2) else (True, remaining, z2))"

definition limit_requests ::
  "env \<Rightarrow> RateLimitConfig \<Rightarrow> string \<Rightarrow> ('s \<Rightarrow> 'a reply \<times> 's) \<Rightarrow> 's \<times> redis_zsets
    \<Rightarrow> 'a reply \<times> 's \<times> redis_zsets" where
  "limit_requests env cfg key next st =
     (let pass = (\<lambda>rdb. let (r, s') = next (fst st) in (r, s', rdb)) in
      if e_fault env ''redis'' 0 then pass (snd st)
      else case checkRateLimit cfg (e_now env) (snd st key) of (allowed, remaining, z) \<Rightarrow>
        if allowed then pass ((snd st)(key := z))
        else (ErrResponse 429 ''rate limit exceeded'', fst st, (snd st)(key := z)))"

section \<open>The bound\<close>

text \<open>The verdicts on a sequence of requests for one key.\<close>

fun rl_run :: "RateLimitConfig \<Rightarrow> int list \<Rightarrow> timestamp list \<Rightarrow> (timestamp \<times> bool) list" where
  "rl_run cfg z [] = []"
| "rl_run cfg z (t # ts) =
     (case checkRateLimit cfg t z of (allowed, _, z') \<Rightarrow> (t, allowed) # rl_run cfg z' ts)"

definition zset_ok :: "timestamp \<Rightarrow> int set \<Rightarrow> int list \<Rightarrow> bool" where
  "zset_ok w P z \<longleftrightarrow> distinct z \<and> set z \<subseteq> P
     \<and> (\<forall>t u. (\<forall>p \<in> P. p \<le> t) \<longrightarrow> u \<in> P \<longrightarrow> t - w < u \<longrightarrow> u \<in> set z)"

lemma checkRateLimit_step:
  assumes "zset_ok (RL_Window cfg) P z" and "\<forall>p \<in> P. p \<le> t"
    and "checkRateLimit cfg t z = (allowed, rest, z')"
  shows "zset_ok (RL_Window cfg) (insert t P) z'"
    and "allowed \<longleftrightarrow> int (card {u \<in> P. t - RL_Window cfg < u}) < RL_MaxRequests cfg"
proof -
  let ?z = "filter (\<lambda>m. \<not> m \<le> t - RL_Window cfg) z"
  have z: "set ?z = {u \<in> P. t - RL_Window cfg < u}" "distinct ?z"
    using assms(1,2) by (auto simp: zset_ok_def not_le)
  then have "length ?z = card {u \<in> P. t - RL_Window cfg < u}" by (metis distinct_card)
  then show "allowed \<longleftrightarrow> int (card {u \<in> P. t - RL_Window cfg < u}) < RL_MaxRequests cfg"
    using assms(3) by (auto simp: checkRateLimit_def Let_def split: if_splits)
  have z': "z' = (if t \<in> set ?z then ?z else ?z @ [t])"
    using assms(3) by (auto simp: checkRateLimit_def Let_def split: if_splits)
  have "set z' = insert t {u \<in> P. t - RL_Window cfg < u}" "distinct z'"
    unfolding z' z(1) [symmetric] using z(2) by (cases "t \<in> set ?z"; simp add: insert_absorb)+
  then show "zset_ok (RL_Window cfg) (insert t P) z'" by (auto simp: zset_ok_def)
qed

lemma rl_run_bound:
  assumes "zset_ok (RL_Window cfg) P z" and "sorted ts" and "\<forall>p \<in> P. \<forall>t \<in> set ts. p \<le> t" and "finite P"
    and "(a, True) \<in> set (rl_run cfg z ts)"
  shows "int (card {u \<in> P \<union> set ts. a - RL_Window cfg < u \<and> u < a}) < RL_MaxRequests cfg"
  using assms
proof (induction ts arbitrary: z P)
  case (Cons t ts)
  obtain al re z' where c: "checkRateLimit cfg t z = (al, re, z')" by (metis prod_cases3)
  have P: "\<forall>p \<in> P. p \<le> t" using Cons.prems(3) by simp
  note step = checkRateLimit_step [OF Cons.prems(1) P c]
  show ?case
  proof (cases "(a, True) \<in> set (rl_run cfg z' ts)")
    case True
    have "int (card {u \<in> insert t P \<union> set ts. a - RL_Window cfg < u \<and> u < a}) < RL_MaxRequests cfg"
      using Cons.prems(2-4) by (intro Cons.IH [OF step(1)] True) auto
    moreover have "insert t P \<union> set ts = P \<union> set (t # ts)" by simp
    ultimately show ?thesis by (simp only:)
  next
    case False
    then have "a = t" "al" using Cons.prems(5) c by auto
    moreover have "{u \<in> P \<union> set (t # ts). t - RL_Window cfg < u \<and> u < t} \<subseteq> {u \<in> P. t - RL_Window cfg < u}"
      using Cons.prems(2) by auto
    then have "card {u \<in> P \<union> set (t # ts). t - RL_Window cfg < u \<and> u < t} \<le> card {u \<in> P. t - RL_Window cfg < u}"
      using Cons.prems(4) by (intro card_mono) auto
    ultimately show ?thesis using step(2) by simp
  qed
qed simp

lemma rl_run_times: "map fst (rl_run cfg z ts) = ts"
  by (induction ts arbitrary: z) (auto split: prod.splits)



end
