(* ===== verification/Callback.thy ===== *)
theory Callback
  imports JobService RateLimit
begin

text \<open>
  The worker's callbacks: the signed-token middleware (\<open>api/internal/middleware/jobtoken\<close>), the
  start and complete endpoints (\<open>api/internal/handler/callback\<close>) and the watchdog
  (\<open>api/internal/handler/watchdog\<close>).
\<close>

section \<open>Requests and responses (\<open>dto.go\<close>)\<close>

record StartRequest =
  SR_JobID :: string

record StartResponse =
  SRes_CommitSHA :: string
  SRes_Branch :: string
  SRes_RepoFullName :: string
  SRes_CloneToken :: string
  SRes_InstallationID :: int

record CompleteRequest =
  CR_JobID :: string
  CR_Status :: string
  CR_ErrorMessage :: string
  CR_SnapshotPath :: string
  CR_ZigzagVersion :: string
  CR_SizeBytes :: int
  CR_DurationMs :: int

record StatusResponse =
  SR_Status :: string

definition decode_StartRequest :: "json \<Rightarrow> StartRequest option" where
  "decode_StartRequest j =
     (case j of
        JNull \<Rightarrow> Some \<lparr>SR_JobID = ''''\<rparr>
      | JObj ms \<Rightarrow> map_option (\<lambda>i. \<lparr>SR_JobID = i\<rparr>) (str_field ''job_id'' '''' ms)
      | _ \<Rightarrow> None)"

definition decode_CompleteRequest :: "json \<Rightarrow> CompleteRequest option" where
  "decode_CompleteRequest j =
     (case j of
        JNull \<Rightarrow> Some \<lparr>CR_JobID = '''', CR_Status = '''', CR_ErrorMessage = '''',
          CR_SnapshotPath = '''', CR_ZigzagVersion = '''', CR_SizeBytes = 0, CR_DurationMs = 0\<rparr>
      | JObj ms \<Rightarrow>
          (case (str_field ''job_id'' '''' ms, str_field ''status'' '''' ms,
                 str_field ''error_message'' '''' ms, str_field ''snapshot_path'' '''' ms,
                 str_field ''zigzag_version'' '''' ms, int_field ''size_bytes'' 0 ms,
                 int_field ''duration_ms'' 0 ms) of
             (Some i, Some st, Some em, Some sp, Some zv, Some sz, Some dm) \<Rightarrow>
               Some \<lparr>CR_JobID = i, CR_Status = st, CR_ErrorMessage = em, CR_SnapshotPath = sp,
                 CR_ZigzagVersion = zv, CR_SizeBytes = sz, CR_DurationMs = dm\<rparr>
           | _ \<Rightarrow> None)
      | _ \<Rightarrow> None)"

definition StartRequest_fields :: "StartRequest \<Rightarrow> vfield list" where
  "StartRequest_fields r = [(''JobID'', [VRequired, VUUID], VStr (SR_JobID r))]"

definition CompleteRequest_fields :: "CompleteRequest \<Rightarrow> vfield list" where
  "CompleteRequest_fields r =
     [(''JobID'', [VRequired, VUUID], VStr (CR_JobID r)),
      (''Status'', [VRequired, VOneof [''succeeded'', ''failed'']], VStr (CR_Status r)),
      (''ErrorMessage'', [VRequiredIf ''Status'' ''failed''], VStr (CR_ErrorMessage r)),
      (''SnapshotPath'', [VRequiredIf ''Status'' ''succeeded''], VStr (CR_SnapshotPath r)),
      (''ZigzagVersion'', [VRequiredIf ''Status'' ''succeeded''], VStr (CR_ZigzagVersion r)),
      (''SizeBytes'', [VGte 0], VInt (CR_SizeBytes r)),
      (''DurationMs'', [VGte 0], VInt (CR_DurationMs r))]"

section \<open>Signed-token middleware\<close>

definition extractBearer :: "string \<Rightarrow> string" where
  "extractBearer authorization =
     (case cut_prefix authorization ''Bearer '' of None \<Rightarrow> '''' | Some t \<Rightarrow> t)"

definition decode_jobIDPayload :: "json \<Rightarrow> string option" where
  "decode_jobIDPayload j =
     (case j of
        JNull \<Rightarrow> Some ''''
      | JObj ms \<Rightarrow> str_field ''job_id'' '''' ms
      | _ \<Rightarrow> None)"

abbreviation maxBodyBytes :: nat where
  "maxBodyBytes \<equiv> 1024 * 1024"

text \<open>
  \<open>Auth\<close>: the handler behind it gets the validated job identifier (the context value) and the
  body that was read. As in \<open>ServeHTTP\<close>, \<open>read\<close> is the reading of the body through a limit.
\<close>

definition Auth ::
  "ext \<Rightarrow> env \<Rightarrow> Signer \<Rightarrow> string \<Rightarrow> (nat \<Rightarrow> string option)
    \<Rightarrow> (string \<Rightarrow> string \<Rightarrow> 's \<Rightarrow> 'a reply \<times> 's) \<Rightarrow> 's \<Rightarrow> 'a reply \<times> 's" where
  "Auth x env signer authorization read next st =
     (let token = extractBearer authorization in
      if token = '''' then (ErrResponse 401 ''missing authorization token'', st)
      else case read maxBodyBytes of
        None \<Rightarrow> (ErrResponse 400 ''failed to read body'', st)
      | Some body \<Rightarrow>
        (case Option.bind (x_json x body) decode_jobIDPayload of
           None \<Rightarrow> (ErrResponse 400 ''missing or invalid job_id'', st)
         | Some jobID \<Rightarrow>
           if jobID = '''' then (ErrResponse 400 ''missing or invalid job_id'', st)
           else if Validate (x_mac x) env signer jobID token \<noteq> None
             then (ErrResponse 401 ''invalid or expired token'', st)
           else next jobID body st))"

section \<open>Start\<close>

text \<open>
  \<open>cloner\<close> is the interface \<open>CloneTokenGenerator\<close>: an installation's access token, or \<open>None\<close> when
  GitHub refuses or the call fails.
\<close>

type_synonym cloner = "int \<Rightarrow> string option"

definition respondStart :: "env \<Rightarrow> cloner \<Rightarrow> Job \<Rightarrow> db \<Rightarrow> StartResponse reply" where
  "respondStart env cloner job d =
     (case guarded env ''GetRepoForJob'' 0 (GetRepoForJob (Some (Job_ID job)) d) of
        Inl _ \<Rightarrow> ErrResponse 500 ErrInternal
      | Inr repo \<Rightarrow>
        (case cloner (RFJ_InstallationID repo) of
           None \<Rightarrow> ErrResponse 500 ''failed to generate clone token''
         | Some cloneToken \<Rightarrow> WriteJSON 200 \<lparr>SRes_CommitSHA = Job_CommitSha job,
             SRes_Branch = Job_Branch job, SRes_RepoFullName = RFJ_FullName repo,
             SRes_CloneToken = cloneToken, SRes_InstallationID = RFJ_InstallationID repo\<rparr>))"

definition Start ::
  "ext \<Rightarrow> env \<Rightarrow> cloner \<Rightarrow> string \<Rightarrow> string \<Rightarrow> db \<Rightarrow> StartResponse reply \<times> db" where
  "Start x env cloner ctxJobID body d =
     (case Option.bind (x_json x body) decode_StartRequest of
        None \<Rightarrow> (ErrResponse 400 ErrInvalidBody, d)
      | Some req \<Rightarrow>
        (case validate_struct x (StartRequest_fields req) of
           Some err \<Rightarrow> (ErrResponse 400 err, d)
         | None \<Rightarrow>
           if SR_JobID req \<noteq> ctxJobID then (ErrResponse 400 ''job_id mismatch'', d)
           else case x_uuid_scan x (SR_JobID req) of
             None \<Rightarrow> (ErrResponse 400 ''invalid job_id'', d)
           | Some jobUUID \<Rightarrow>
             if e_fault env ''Begin'' 0 then (ErrResponse 500 ErrInternal, d)
             else case guarded env ''GetJobForUpdate'' 0 (GetJobForUpdate (Some jobUUID) d) of
               Inl e \<Rightarrow> if e = ErrNoRows then (ErrResponse 404 ''job not found'', d)
                        else (ErrResponse 500 ErrInternal, d)
             | Inr job \<Rightarrow>
               if Job_Status job = JobStatusRunning then
                 (if e_fault env ''Commit'' 0 then (ErrResponse 500 ErrInternal, d)
                  else (respondStart env cloner job d, d))
               else if IsTerminal (Job_Status job) then
                 (ErrResponse 409 (''job already in terminal state: ''
                    @ job_status_text (Job_Status job)), d)
               else case guarded env ''UpdateJobStatus'' 0
                      (UpdateJobStatus env (Some (Job_ID job)) ''running'' None d) of
                 Inl _ \<Rightarrow> (ErrResponse 500 ErrInternal, d)
               | Inr d1 \<Rightarrow>
                   if e_fault env ''Commit'' 0 then (ErrResponse 500 ErrInternal, d)
                   else (respondStart env cloner job d1, d1)))"

section \<open>Complete\<close>

text \<open>The rest of the transaction once the job is locked and found unfinished.\<close>

definition record_completion ::
  "env \<Rightarrow> CompleteRequest \<Rightarrow> Job \<Rightarrow> db \<Rightarrow> StatusResponse reply \<times> db" where
  "record_completion env req job d =
     (case guarded env ''UpdateJobStatus'' 0
             (UpdateJobStatus env (Some (Job_ID job)) (CR_Status req)
               (if CR_ErrorMessage req \<noteq> '''' then Some (CR_ErrorMessage req) else None) d) of
        Inl _ \<Rightarrow> (ErrResponse 500 ErrInternal, d)
      | Inr d1 \<Rightarrow>
        (case (if CR_Status req = ''succeeded''
               then map_sum id snd (guarded env ''InsertSnapshot'' 0
                 (InsertSnapshot env 0 (Some (Job_RepoID job)) (Some (Job_ID job))
                    (Job_Branch job) (Job_CommitSha job) (CR_SnapshotPath req) 1
                    (CR_ZigzagVersion req) (CR_SizeBytes req) d1))
               else Inr d1) of
           Inl _ \<Rightarrow> (ErrResponse 500 ErrInternal, d)
         | Inr d2 \<Rightarrow>
             if e_fault env ''Commit'' 0 then (ErrResponse 500 ErrInternal, d)
             else (WriteJSON 200 \<lparr>SR_Status = CR_Status req\<rparr>, d2)))"

definition Complete ::
  "ext \<Rightarrow> env \<Rightarrow> string \<Rightarrow> string \<Rightarrow> db \<Rightarrow> StatusResponse reply \<times> db" where
  "Complete x env ctxJobID body d =
     (case Option.bind (x_json x (take (1024 * 1024) body)) decode_CompleteRequest of
        None \<Rightarrow> (ErrResponse 400 ErrInvalidBody, d)
      | Some req \<Rightarrow>
        (case validate_struct x (CompleteRequest_fields req) of
           Some err \<Rightarrow> (ErrResponse 400 err, d)
         | None \<Rightarrow>
           if CR_JobID req \<noteq> ctxJobID then (ErrResponse 400 ''job_id mismatch'', d)
           else case x_uuid_scan x (CR_JobID req) of
             None \<Rightarrow> (ErrResponse 400 ''invalid job_id'', d)
           | Some jobUUID \<Rightarrow>
             if e_fault env ''Begin'' 0 then (ErrResponse 500 ErrInternal, d)
             else case guarded env ''GetJobForUpdate'' 0 (GetJobForUpdate (Some jobUUID) d) of
               Inl e \<Rightarrow> if e = ErrNoRows then (ErrResponse 404 ''job not found'', d)
                        else (ErrResponse 500 ErrInternal, d)
             | Inr job \<Rightarrow>
               if IsTerminal (Job_Status job) then
                 (WriteJSON 200 \<lparr>SR_Status = job_status_text (Job_Status job)\<rparr>, d)
               else record_completion env req job d))"

section \<open>Watchdog\<close>

abbreviation defaultTimeoutMinutes :: int where
  "defaultTimeoutMinutes \<equiv> 20"

definition Timeout :: "env \<Rightarrow> db \<Rightarrow> int reply \<times> db" where
  "Timeout env d =
     (if e_fault env ''TimeoutRunningJobs'' 0 then (ErrResponse 500 ErrInternal, d)
      else let (count, d1) = TimeoutRunningJobs env defaultTimeoutMinutes d
           in (WriteJSON 200 count, d1))"

section \<open>Routes\<close>

text \<open>
  The callback routes as \<open>registerInternal\<close> mounts them (\<open>api/internal/routes/internal.go\<close>): body
  limit, content type, signed token, handler. \<open>is_json\<close> is the verdict on the Content-Type header.
\<close>

definition RequireJSON :: "string \<Rightarrow> bool \<Rightarrow> ('s \<Rightarrow> 'a reply \<times> 's) \<Rightarrow> 's \<Rightarrow> 'a reply \<times> 's" where
  "RequireJSON meth is_json next st =
     (if hasBody meth \<and> \<not> is_json then (ErrResponse 415 ''Content-Type must be application/json'', st)
      else next st)"

definition route_start ::
  "ext \<Rightarrow> env \<Rightarrow> Signer \<Rightarrow> cloner \<Rightarrow> bool \<Rightarrow> string \<Rightarrow> string \<Rightarrow> db \<Rightarrow> StartResponse reply \<times> db" where
  "route_start x env signer cloner is_json authorization body =
     RequireJSON ''POST'' is_json
       (Auth x env signer authorization (Limit (1024 * 1024) ''POST'' body) (Start x env cloner))"

definition route_complete ::
  "ext \<Rightarrow> env \<Rightarrow> Signer \<Rightarrow> bool \<Rightarrow> string \<Rightarrow> string \<Rightarrow> db \<Rightarrow> StatusResponse reply \<times> db" where
  "route_complete x env signer is_json authorization body =
     RequireJSON ''POST'' is_json
       (Auth x env signer authorization (Limit (1024 * 1024) ''POST'' body) (Complete x env))"

text \<open>The webhook route is rate limited by the client's address (\<open>key\<close>), 120 requests a minute.\<close>

definition route_webhook ::
  "ext \<Rightarrow> env \<Rightarrow> string \<Rightarrow> JobService \<Rightarrow> (db \<Rightarrow> db) \<Rightarrow> webhook_request \<Rightarrow> bool \<Rightarrow> string \<Rightarrow> string
    \<Rightarrow> world \<times> redis_zsets \<Rightarrow> unit reply \<times> world \<times> redis_zsets" where
  "route_webhook x env secret s others r is_json key body =
     RequireJSON ''POST'' is_json
       (limit_requests env \<lparr>RL_MaxRequests = 120, RL_Window = usec_per_min\<rparr> key
         (ServeHTTP x env secret s others r (Limit (1024 * 1024) ''POST'' body)))"

text \<open>The watchdog route checks a shared secret (\<open>middleware/watchdogauth\<close>).\<close>

definition SharedSecret :: "string \<Rightarrow> string \<Rightarrow> ('s \<Rightarrow> 'a reply \<times> 's) \<Rightarrow> 's \<Rightarrow> 'a reply \<times> 's" where
  "SharedSecret secret authorization next st =
     (case cut_prefix authorization ''Bearer '' of
        None \<Rightarrow> (ErrResponse 401 ''missing authorization token'', st)
      | Some token \<Rightarrow>
          if token = '''' then (ErrResponse 401 ''missing authorization token'', st)
          else if token \<noteq> secret then (ErrResponse 401 ''invalid watchdog token'', st)
          else next st)"

definition route_watchdog :: "env \<Rightarrow> string \<Rightarrow> string \<Rightarrow> db \<Rightarrow> int reply \<times> db" where
  "route_watchdog env secret authorization = SharedSecret secret authorization (Timeout env)"

section \<open>What the handlers do to the database\<close>

lemma UpdateJobStatus_Inr:
  "UpdateJobStatus env (Some i) (job_status_text st) msg d
    = Inr (update_jobs env (\<lambda>j. Job_ID j = i) (set_job_status env st msg) d)"
  by (simp add: UpdateJobStatus_def)

lemma Start_cases:
  assumes "Start x env cloner cid body d = (r, d')"
  obtains (unchanged) "d' = d"
    | (started) job where "job \<in> set (jobs d)" "Job_Status job = JobStatusQueued"
        "x_uuid_scan x cid = Some (Job_ID job)"
        "d' = update_jobs env (\<lambda>j. Job_ID j = Job_ID job) (set_job_status env JobStatusRunning None) d"
        "r = respondStart env cloner job d'"
proof (cases "d' = d")
  case False
  note upd = UpdateJobStatus_Inr [where st = JobStatusRunning, simplified]
  obtain job where "GetJobForUpdate (x_uuid_scan x cid) d = Inr job"
    "\<not> IsTerminal (Job_Status job)" "Job_Status job \<noteq> JobStatusRunning"
    "d' = update_jobs env (\<lambda>j. Job_ID j = Job_ID job) (set_job_status env JobStatusRunning None) d"
    "r = respondStart env cloner job d'"
    using assms False unfolding Start_def by (auto simp: upd split: option.splits sum.splits if_splits)
  moreover from this have "job \<in> set (jobs d)" "x_uuid_scan x cid = Some (Job_ID job)"
    using job_lock.get_Inr by fastforce+
  ultimately show thesis using started by (auto simp: not_terminal_iff)
qed (rule unchanged)

text \<open>A request that passes the validation has one of the two statuses and the fields it requires.\<close>

lemma CompleteRequest_valid:
  assumes "validator_sound x" and "validate_struct x (CompleteRequest_fields req) = None"
  shows "CR_Status req = ''succeeded'' \<and> CR_SnapshotPath req \<noteq> '''' \<and> CR_ZigzagVersion req \<noteq> ''''
    \<or> CR_Status req = ''failed'' \<and> CR_ErrorMessage req \<noteq> ''''"
proof -
  note rule = validate_struct_rule [OF assms(1,2), unfolded CompleteRequest_fields_def]
  have "CR_Status req = ''succeeded'' \<or> CR_Status req = ''failed''"
    using rule [of "''Status''" _ "VStr (CR_Status req)" "VOneof [''succeeded'', ''failed'']"] by simp
  moreover have "CR_Status req = ''succeeded'' \<Longrightarrow> CR_SnapshotPath req \<noteq> ''''"
    using rule [of "''SnapshotPath''" _ "VStr (CR_SnapshotPath req)"
        "VRequiredIf ''Status'' ''succeeded''"] by simp
  moreover have "CR_Status req = ''succeeded'' \<Longrightarrow> CR_ZigzagVersion req \<noteq> ''''"
    using rule [of "''ZigzagVersion''" _ "VStr (CR_ZigzagVersion req)"
        "VRequiredIf ''Status'' ''succeeded''"] by simp
  moreover have "CR_Status req = ''failed'' \<Longrightarrow> CR_ErrorMessage req \<noteq> ''''"
    using rule [of "''ErrorMessage''" _ "VStr (CR_ErrorMessage req)"
        "VRequiredIf ''Status'' ''failed''"] by simp
  ultimately show ?thesis by blast
qed

text \<open>Where a request that changes something comes from.\<close>

lemma Complete_reaches:
  assumes "Complete x env cid body d = (r, d')" and "d' \<noteq> d"
  obtains req job where "Option.bind (x_json x (take (1024 * 1024) body)) decode_CompleteRequest = Some req"
    "validate_struct x (CompleteRequest_fields req) = None" "CR_JobID req = cid"
    "job \<in> set (jobs d)" "x_uuid_scan x cid = Some (Job_ID job)" "\<not> IsTerminal (Job_Status job)"
    "record_completion env req job d = (r, d')"
proof -
  obtain req i job where
    "Option.bind (x_json x (take (1024 * 1024) body)) decode_CompleteRequest = Some req"
    "validate_struct x (CompleteRequest_fields req) = None" "CR_JobID req = cid"
    "x_uuid_scan x cid = Some i" "GetJobForUpdate (Some i) d = Inr job"
    "\<not> IsTerminal (Job_Status job)" "record_completion env req job d = (r, d')"
    using assms unfolding Complete_def by (auto split: option.splits sum.splits if_splits)
  then show thesis using job_lock.get_Inr [of "Some i" d job] that by auto
qed

lemma Complete_cases:
  assumes "validator_sound x" and "Complete x env cid body d = (r, d')"
  obtains (unchanged) "d' = d"
    | (failed) job msg where "job \<in> set (jobs d)" "\<not> IsTerminal (Job_Status job)"
        "x_uuid_scan x cid = Some (Job_ID job)" "r = WriteJSON 200 \<lparr>SR_Status = ''failed''\<rparr>"
        "d' = update_jobs env (\<lambda>j. Job_ID j = Job_ID job) (set_job_status env JobStatusFailed (Some msg)) d"
    | (succeeded) job msg path zz bytes s d1 where
        "job \<in> set (jobs d)" "\<not> IsTerminal (Job_Status job)"
        "x_uuid_scan x cid = Some (Job_ID job)" "r = WriteJSON 200 \<lparr>SR_Status = ''succeeded''\<rparr>"
        "d1 = update_jobs env (\<lambda>j. Job_ID j = Job_ID job) (set_job_status env JobStatusSucceeded msg) d"
        "path \<noteq> ''''" "InsertSnapshot env 0 (Some (Job_RepoID job)) (Some (Job_ID job))
           (Job_Branch job) (Job_CommitSha job) path 1 zz bytes d1 = Inr (s, d')"
proof (cases "d' = d")
  case False
  note upd = UpdateJobStatus_Inr [where st = JobStatusSucceeded, simplified]
    UpdateJobStatus_Inr [where st = JobStatusFailed, simplified]
  from assms(2) False obtain req job where req: "validate_struct x (CompleteRequest_fields req) = None"
    and job: "job \<in> set (jobs d)" "\<not> IsTerminal (Job_Status job)" "x_uuid_scan x cid = Some (Job_ID job)"
    and fin: "record_completion env req job d = (r, d')"
    by (rule Complete_reaches) blast
  consider "CR_Status req = ''succeeded''" "CR_SnapshotPath req \<noteq> ''''"
    | "CR_Status req = ''failed''" "CR_ErrorMessage req \<noteq> ''''"
    using CompleteRequest_valid [OF assms(1) req] by blast
  then show thesis
  proof cases
    case 1
    then obtain s where "InsertSnapshot env 0 (Some (Job_RepoID job)) (Some (Job_ID job))
        (Job_Branch job) (Job_CommitSha job) (CR_SnapshotPath req) 1 (CR_ZigzagVersion req)
        (CR_SizeBytes req) (update_jobs env (\<lambda>j. Job_ID j = Job_ID job)
          (set_job_status env JobStatusSucceeded
            (if CR_ErrorMessage req \<noteq> '''' then Some (CR_ErrorMessage req) else None)) d) = Inr (s, d')"
      "r = WriteJSON 200 \<lparr>SR_Status = ''succeeded''\<rparr>"
      using fin False unfolding record_completion_def
      by (auto simp: upd map_sum_def guarded_def split: if_splits sum.splits)
    then show ?thesis by (intro succeeded [OF job _ refl 1(2)])
  next
    case 2
    then show ?thesis using fin False
      by (intro failed [OF job]) (auto simp: upd guarded_def record_completion_def split: if_splits)
  qed
qed (rule unchanged)

section \<open>A concrete completion\<close>

definition sample_complete :: json where
  "sample_complete = JObj [(''job_id'', JStr ''u''), (''status'', JStr ''succeeded''),
     (''snapshot_path'', JStr ''p''), (''zigzag_version'', JStr ''1''), (''size_bytes'', JNum 3)]"

definition sample_snapshot :: Snapshot where
  "sample_snapshot = \<lparr>Snap_ID = 1, Snap_RepoID = 7, Snap_JobID = Some 1, Snap_Branch = ''main'',
     Snap_CommitSha = ''c1'', Snap_GcsPath = ''p'', Snap_SnapshotVersion = 1, Snap_ZigzagVersion = ''1'',
     Snap_SizeBytes = 3, Snap_CreatedAt = 0, Snap_Metadata = None\<rparr>"

definition sample_queued :: db where
  "sample_queued = sample_db\<lparr>jobs := [sample_job JobStatusQueued]\<rparr>"

definition sample_done :: db where
  "sample_done = sample_db\<lparr>jobs := [(sample_job JobStatusSucceeded)\<lparr>Job_StartedAt := None\<rparr>],
     snapshots := [sample_snapshot]\<rparr>"

definition sample_complete_request :: CompleteRequest where
  "sample_complete_request = \<lparr>CR_JobID = ''u'', CR_Status = ''succeeded'', CR_ErrorMessage = '''',
     CR_SnapshotPath = ''p'', CR_ZigzagVersion = ''1'', CR_SizeBytes = 3, CR_DurationMs = 0\<rparr>"

lemma sample_complete_decode:
  "decode_CompleteRequest sample_complete = Some sample_complete_request"
  "validate_struct (sample_ext js) (CompleteRequest_fields sample_complete_request) = None"
  by code_simp+

lemma sample_job_locked:
  "GetJobForUpdate (Some 1) (sample_db\<lparr>jobs := [sample_job st]\<rparr>) = Inr (sample_job st)"
  by (simp add: GetJobForUpdate_def query_one_def sample_job_def)

lemma sample_record_completion:
  "record_completion (sample_env 0) sample_complete_request (sample_job JobStatusQueued) sample_queued
    = (WriteJSON 200 \<lparr>SR_Status = ''succeeded''\<rparr>, sample_done)"
  by (simp add: record_completion_def sample_complete_request_def sample_queued_def sample_done_def
      sample_snapshot_def sample_defs guarded_def UpdateJobStatus_def job_status_of_def update_jobs_def
      update_where_def set_job_status_def InsertSnapshot_def snap_key_def Let_def)

lemma sample_completion:
  "Complete (sample_ext [sample_complete]) (sample_env 0) ''u'' (json_text sample_complete) sample_queued
    = (WriteJSON 200 \<lparr>SR_Status = ''succeeded''\<rparr>, sample_done)"
proof -
  have "take (1024 * 1024) (json_text sample_complete) = json_text sample_complete"
    by (simp add: sample_complete_def int_text_def nat_text.simps [of 3])
  then have "x_json (sample_ext [sample_complete]) (take (1024 * 1024) (json_text sample_complete))
      = Some sample_complete"
    by (simp add: sample_ext_def)
  moreover have "x_uuid_scan (sample_ext [sample_complete]) ''u'' = Some 1" by (simp add: sample_ext_def)
  moreover have "GetJobForUpdate (Some 1) sample_queued = Inr (sample_job JobStatusQueued)"
    unfolding sample_queued_def by (rule sample_job_locked)
  moreover have "\<not> e_fault (sample_env 0) c n" for c n by (simp add: sample_env_def)
  moreover have "CR_JobID sample_complete_request = ''u''" "\<not> IsTerminal (Job_Status (sample_job JobStatusQueued))"
    by (simp_all add: sample_complete_request_def sample_job_def)
  ultimately show ?thesis
    by (simp add: Complete_def sample_complete_decode sample_record_completion guarded_def)
qed

section \<open>Properties\<close>

lemma Complete_200_or_unchanged:
  "reply_status (fst (Complete x env cid body d)) = 200 \<or> snd (Complete x env cid body d) = d"
proof (cases "snd (Complete x env cid body d) = d")
  case False
  obtain r d' where c: "Complete x env cid body d = (r, d')" by fastforce
  from c False obtain req job where "record_completion env req job d = (r, d')" "d' \<noteq> d"
    by (auto elim: Complete_reaches)
  then have "reply_status r = 200"
    unfolding record_completion_def by (auto split: sum.splits if_splits)
  then show ?thesis using c by simp
qed simp

lemma Complete_terminal:
  assumes "job \<in> set (jobs d)" and "distinct (map Job_ID (jobs d))" and "IsTerminal (Job_Status job)"
    and "x_uuid_scan x cid = Some (Job_ID job)"
  shows "snd (Complete x env cid body d) = d"
proof (rule ccontr)
  obtain r d' where c: "Complete x env cid body d = (r, d')" by fastforce
  assume "snd (Complete x env cid body d) \<noteq> d"
  with c have "d' \<noteq> d" by simp
  with c obtain req job' where "job' \<in> set (jobs d)" "x_uuid_scan x cid = Some (Job_ID job')"
    "\<not> IsTerminal (Job_Status job')" by (auto elim: Complete_reaches)
  then show False using assms distinct_key_eq [OF assms(2)] by fastforce
qed

lemma update_jobs_ids: "map Job_ID (jobs (update_jobs env P (set_job_status env st msg) d)) = map Job_ID (jobs d)"
  by (auto simp: jobs_update_jobs)

lemma Complete_finishes:
  assumes "validator_sound x" and "Complete x env cid body d = (r, d')" and "d' \<noteq> d"
  obtains job where "job \<in> set (jobs d')" "IsTerminal (Job_Status job)" "x_uuid_scan x cid = Some (Job_ID job)"
    "map Job_ID (jobs d') = map Job_ID (jobs d)"
  using assms(1,2)
proof (cases rule: Complete_cases)
  case (failed job msg)
  then show thesis
    using that [of "(set_job_status env JobStatusFailed (Some msg) job)\<lparr>Job_UpdatedAt := e_now env\<rparr>"]
      update_jobs_hit [OF failed(1)] by (simp add: update_jobs_ids)
next
  case (succeeded job msg path zz bytes s d1)
  have "jobs d' = jobs d1" using InsertSnapshot_Inr(7) [OF succeeded(7)] by simp
  then show thesis
    using succeeded(3,5) that [of "(set_job_status env JobStatusSucceeded msg job)\<lparr>Job_UpdatedAt := e_now env\<rparr>"]
      update_jobs_hit [OF succeeded(1)] by (simp add: update_jobs_ids)
qed (use assms(3) in simp)

lemma update_jobs_id_set:
  "Job_ID ` set (jobs (update_jobs env P (set_job_status env st msg) d)) = Job_ID ` set (jobs d)"
  using update_jobs_ids by (metis list.set_map)

lemma GetRepoForJob_set_status:
  "GetRepoForJob i (update_jobs env P (set_job_status env st msg) d) = GetRepoForJob i d"
proof -
  let ?k = "\<lambda>j. (Job_ID j, Job_RepoID j)"
  have m: "map ?k (jobs (update_jobs env P (set_job_status env st msg) d)) = map ?k (jobs d)"
    by (auto simp: jobs_update_jobs)
  have ex: "(\<exists>j \<in> set js. sql_eq (Some (Job_ID j)) i \<and> Job_RepoID j = r)
      \<longleftrightarrow> (\<exists>p \<in> set (map ?k js). sql_eq (Some (fst p)) i \<and> snd p = r)" for js r by auto
  have "(\<exists>j \<in> set (jobs (update_jobs env P (set_job_status env st msg) d)).
        sql_eq (Some (Job_ID j)) i \<and> Job_RepoID j = r)
      \<longleftrightarrow> (\<exists>j \<in> set (jobs d). sql_eq (Some (Job_ID j)) i \<and> Job_RepoID j = r)" for r by (simp only: ex m)
  then show ?thesis by (simp add: GetRepoForJob_def frame_simps)
qed

text \<open>
  C4. Completion is idempotent and all or nothing: a request that changed the database was answered
  with 200, and after it no further completion of that job, with any payload and at any time,
  changes anything.
\<close>

theorem Complete_idempotent:
  assumes "validator_sound x" and "distinct (map Job_ID (jobs d))"
    and "Complete x env cid body d = (r, d')" and "d' \<noteq> d"
  shows "reply_status r = 200 \<and> snd (Complete x env' cid body' d') = d'"
proof
  show "reply_status r = 200" using Complete_200_or_unchanged [of x env cid body d] assms(3,4) by simp
  from assms(1,3,4) obtain job where "job \<in> set (jobs d')" "IsTerminal (Job_Status job)"
    "x_uuid_scan x cid = Some (Job_ID job)" "map Job_ID (jobs d') = map Job_ID (jobs d)"
    by (rule Complete_finishes)
  then show "snd (Complete x env' cid body' d') = d'" using assms(2) by (intro Complete_terminal) auto
qed

theorem Complete_idempotent_witness:
  "reply_status (WriteJSON 200 \<lparr>SR_Status = ''succeeded''\<rparr>) = 200
    \<and> snd (Complete (sample_ext [sample_complete]) (sample_env 5) ''u'' ''anything'' sample_done) = sample_done"
proof -
  have "distinct (map Job_ID (jobs sample_queued))" "sample_done \<noteq> sample_queued"
    by (simp_all add: sample_queued_def sample_done_def sample_defs)
  from Complete_idempotent [OF sample_validator_sound this(1) sample_completion this(2)]
  show ?thesis by blast
qed

lemma Start_running_unchanged:
  assumes "job \<in> set (jobs d)" and "distinct (map Job_ID (jobs d))" and "Job_Status job \<noteq> JobStatusQueued"
    and "x_uuid_scan x cid = Some (Job_ID job)"
  shows "snd (Start x env cloner cid body d) = d"
proof (cases rule: Start_cases [OF prod.collapse [symmetric], of x env cloner cid body d])
  case (2 job')
  then have "job' = job" using assms distinct_key_eq [OF assms(2)] by fastforce
  then show ?thesis using 2 assms by simp
qed simp

text \<open>
  Start hands out a job that is queued or already running, and no finished one: after a 200 the
  job is running, a job that is not queued is left as it is, and so is every other job.
\<close>

theorem Start_spec:
  assumes "Start x env cloner cid body d = (r, d')" and "distinct (map Job_ID (jobs d))"
    and "job \<in> set (jobs d)" and "x_uuid_scan x cid = Some (Job_ID job)"
  shows "(Job_Status job \<noteq> JobStatusQueued \<longrightarrow> d' = d)
    \<and> (reply_status r = 200 \<longrightarrow> \<not> IsTerminal (Job_Status job)
        \<and> (\<exists>j \<in> set (jobs d'). Job_ID j = Job_ID job \<and> Job_Status j = JobStatusRunning))
    \<and> (\<forall>j \<in> set (jobs d). Job_ID j \<noteq> Job_ID job \<longrightarrow> j \<in> set (jobs d'))"
proof (intro conjI)
  show "Job_Status job \<noteq> JobStatusQueued \<longrightarrow> d' = d"
    using Start_running_unchanged [OF assms(3,2) _ assms(4), of env cloner body] assms(1) by simp
  have uniq: "j = job" if "j \<in> set (jobs d)" "Job_ID j = Job_ID job" for j
    using distinct_key_eq [OF assms(2) that(1) assms(3)] that(2) by simp
  have get: "GetJobForUpdate (Some (Job_ID job)) d = Inr job"
    by (rule job_lock.get_unique [OF assms(2,3)])
  show "reply_status r = 200 \<longrightarrow> \<not> IsTerminal (Job_Status job)
      \<and> (\<exists>j \<in> set (jobs d'). Job_ID j = Job_ID job \<and> Job_Status j = JobStatusRunning)"
  proof (cases "d' = d")
    case False
    with assms(1) show ?thesis
    proof (cases rule: Start_cases)
      case (started job')
      then have j: "job' = job" using assms(4) uniq by auto
      have "(set_job_status env JobStatusRunning None job)\<lparr>Job_UpdatedAt := e_now env\<rparr> \<in> set (jobs d')"
        using update_jobs_hit [OF assms(3)] started(4) j by simp
      moreover have "\<not> IsTerminal (Job_Status job)" using started(2) j by simp
      ultimately show ?thesis
        by (metis Job.ext_inject Job.surjective Job.update_convs(9) set_job_status_simps(1,3))
    qed simp
  next
    case True
    have same: "Job_Status job = JobStatusRunning" if "update_jobs env (\<lambda>j. Job_ID j = Job_ID job)
        (set_job_status env JobStatusRunning None) d = d"
      using update_jobs_hit [OF assms(3), of "\<lambda>j. Job_ID j = Job_ID job" env "set_job_status env JobStatusRunning None"]
        uniq [of "(set_job_status env JobStatusRunning None job)\<lparr>Job_UpdatedAt := e_now env\<rparr>"]
      by (simp add: that) (metis Job.select_convs(6) Job.surjective Job.update_convs(9) set_job_status_simps(1))
    from True have "reply_status r = 200 \<longrightarrow> Job_Status job = JobStatusRunning"
      using assms(1,4) get same unfolding Start_def
      by (auto simp: guarded_def UpdateJobStatus_def job_status_of_def split: option.splits if_splits)
    then show ?thesis using True assms(3) by auto
  qed
  show "\<forall>j \<in> set (jobs d). Job_ID j \<noteq> Job_ID job \<longrightarrow> j \<in> set (jobs d')"
    using assms(1)
  proof (cases rule: Start_cases)
    case (started job')
    then show ?thesis using assms(4) update_jobs_member by fastforce
  qed simp
qed

lemma sample_Start:
  "Start (sample_ext [JObj [(''job_id'', JStr ''u'')]]) (sample_env 0) (\<lambda>_. Some ''t'') ''u''
     (json_text (JObj [(''job_id'', JStr ''u'')])) (sample_db\<lparr>jobs := [sample_job st]\<rparr>)
   = (if st = JobStatusQueued \<or> st = JobStatusRunning
      then (WriteJSON 200 \<lparr>SRes_CommitSHA = ''c1'', SRes_Branch = ''main'', SRes_RepoFullName = ''acme/app'',
              SRes_CloneToken = ''t'', SRes_InstallationID = 9\<rparr>,
            sample_db\<lparr>jobs := [sample_job JobStatusRunning]\<rparr>)
      else (ErrResponse 409 (''job already in terminal state: '' @ job_status_text st),
            sample_db\<lparr>jobs := [sample_job st]\<rparr>))"
proof -
  have "decode_StartRequest (JObj [(''job_id'', JStr ''u'')]) = Some \<lparr>SR_JobID = ''u''\<rparr>"
    "validate_struct (sample_ext [JObj [(''job_id'', JStr ''u'')]]) (StartRequest_fields \<lparr>SR_JobID = ''u''\<rparr>) = None"
    by code_simp+
  then show ?thesis
    by (cases st) (simp_all add: Start_def GetJobForUpdate_def respondStart_def sample_defs guarded_def
        UpdateJobStatus_def job_status_of_def update_jobs_def update_where_def set_job_status_def
        GetRepoForJob_def query_one_def)
qed

theorem Start_spec_witness:
  "\<exists>j \<in> set (jobs (snd (Start (sample_ext [JObj [(''job_id'', JStr ''u'')]]) (sample_env 0) (\<lambda>_. Some ''t'') ''u''
      (json_text (JObj [(''job_id'', JStr ''u'')])) (sample_db\<lparr>jobs := [sample_job JobStatusQueued]\<rparr>)))).
     Job_ID j = 1 \<and> Job_Status j = JobStatusRunning"
proof -
  let ?d = "sample_db\<lparr>jobs := [sample_job JobStatusQueued]\<rparr>"
  have "distinct (map Job_ID (jobs ?d))" "sample_job JobStatusQueued \<in> set (jobs ?d)" by simp_all
  moreover have "x_uuid_scan (sample_ext [JObj [(''job_id'', JStr ''u'')]]) ''u'' = Some (Job_ID (sample_job JobStatusQueued))"
    by (simp add: sample_job_def)
  ultimately show ?thesis
    using Start_spec [OF prod.collapse [symmetric], where d = ?d and job = "sample_job JobStatusQueued"]
    by (simp only: sample_Start fst_conv snd_conv if_True simp_thms reply_status.simps) (simp add: sample_job_def)
qed

lemma extractBearer_token: "extractBearer (''Bearer '' @ t) = t"
  by (simp add: extractBearer_def cut_prefix_def has_prefix_def)

lemma Auth_ok:
  assumes "length body \<le> 1024 * 1024" and "Option.bind (x_json x body) decode_jobIDPayload = Some jobID"
    and "jobID \<noteq> ''''" and "Validate (x_mac x) env signer jobID token = None"
  shows "Auth x env signer (''Bearer '' @ token) (Limit (1024 * 1024) ''POST'' body) next st
    = next jobID body st"
proof -
  have "token \<noteq> ''''" using assms(4) by (auto simp: Validate_ok_iff sign_token_def Let_def)
  moreover have "Limit (1024 * 1024) ''POST'' body maxBodyBytes = Some body"
    using assms(1) by (simp add: Limit_def)
  ultimately show ?thesis
    unfolding Auth_def Let_def extractBearer_token using assms by simp
qed

lemma route_ok:
  assumes "length body \<le> 1024 * 1024" and "Option.bind (x_json x body) decode_jobIDPayload = Some jobID"
    and "jobID \<noteq> ''''" and "Validate (x_mac x) env signer jobID token = None"
  shows "route_start x env signer cloner True (''Bearer '' @ token) body d = Start x env cloner jobID body d"
    and "route_complete x env signer True (''Bearer '' @ token) body d = Complete x env jobID body d"
  unfolding route_start_def route_complete_def RequireJSON_def Auth_ok [OF assms] by simp_all

lemma Auth_passes:
  assumes "snd (Auth x env signer authorization read next st) \<noteq> st"
  obtains body jobID where "read maxBodyBytes = Some body"
    "Option.bind (x_json x body) decode_jobIDPayload = Some jobID"
    "Validate (x_mac x) env signer jobID (extractBearer authorization) = None"
    "snd (next jobID body st) \<noteq> st"
  using assms unfolding Auth_def Let_def by (auto split: if_splits option.splits)

lemma RequireJSON_passes:
  "snd (RequireJSON meth is_json next st) \<noteq> st \<Longrightarrow> snd (next st) \<noteq> st"
  by (auto simp: RequireJSON_def split: if_splits)





text \<open>
  The webhook route never answers 413: a body over 1 MB fails to be read at the route's own
  limit, so that the handler's check of its 25 MB limit cannot fire, and such a delivery gets 500
  and has no effect, whatever its signature.
\<close>

theorem webhook_route_never_413:
  "reply_status (fst (route_webhook x env secret s others r is_json key body st)) \<noteq> 413
    \<and> (length body \<le> 1024 * 1024 \<or> fst (snd (route_webhook x env secret s others r is_json key body st)) = fst st)"
proof -
  have small: "length b \<le> 1024 * 1024" if "Limit (1024 * 1024) ''POST'' body (maxPayloadBytes + 1) = Some b" for b
    using that by (auto simp: Limit_def hasBody_def split: if_splits)
  obtain rep w' where e: "ServeHTTP x env secret s others r (Limit (1024 * 1024) ''POST'' body) (fst st) = (rep, w')"
    by fastforce
  then have "reply_status rep \<noteq> 413"
    unfolding ServeHTTP_def
    by (auto split: if_splits option.splits sum.splits webhookerr.splits prod.splits dest: small [simplified])
  moreover have "length body \<le> 1024 * 1024 \<or> w' = fst st"
    using e by (auto simp: ServeHTTP_def Limit_def hasBody_def split: if_splits)
  moreover obtain al re z where
    "checkRateLimit \<lparr>RL_MaxRequests = 120, RL_Window = usec_per_min\<rparr> (e_now env) (snd st key) = (al, re, z)"
    by (metis prod_cases3)
  ultimately show ?thesis
    using e by (simp add: route_webhook_def RequireJSON_def limit_requests_def Let_def)
qed

end
