(* ===== verification/Worker.thy ===== *)
theory Worker
  imports Callback
begin

text \<open>
  The worker: the job runner (\<open>shared/go/runner/runner.go\<close>), the snapshot storage
  (\<open>shared/go/storage/gcs.go\<close>), the callback client (\<open>worker/internal/apiclient\<close>), the executor, the
  Cloud Tasks endpoint and the poller (\<open>worker/internal/worker\<close>). The client's requests go to the
  API's own routes (\<open>route_start\<close>, \<open>route_complete\<close> of \<open>Callback\<close>).
\<close>

section \<open>Snapshot storage\<close>

type_synonym gcs = "string \<Rightarrow> string option"

text \<open>\<open>Client.Upload\<close> behind the circuit breaker; \<open>True\<close> is success.\<close>

definition Upload :: "env \<Rightarrow> string \<Rightarrow> string \<Rightarrow> gcs \<Rightarrow> bool \<times> gcs" where
  "Upload env path data g =
     (if e_fault env ''gcs.cb'' 0 then (False, g)
      else if e_fault env ''gcs.Write'' 0 then (False, g)
      else if e_fault env ''gcs.Close'' 0 then (False, g)
      else (True, g(path \<mapsto> data)))"

datatype gcserr = ErrObjectNotFound | ErrGcs

definition Download :: "env \<Rightarrow> string \<Rightarrow> gcs \<Rightarrow> gcserr + string" where
  "Download env path g =
     (if e_fault env ''gcs.cb'' 0 then Inl ErrGcs
      else case g path of
        None \<Rightarrow> Inl ErrObjectNotFound
      | Some data \<Rightarrow> if e_fault env ''gcs.Read'' 0 then Inl ErrGcs else Inr data)"

definition SnapshotPath :: "string \<Rightarrow> string \<Rightarrow> string \<Rightarrow> string" where
  "SnapshotPath orgID repoID commitSHA = orgID @ ''/'' @ repoID @ ''/'' @ commitSHA @ ''/snapshot.json''"

section \<open>Runner\<close>

record Result =
  Res_ReportsDir :: string
  Res_ZigzagVersion :: string
  Res_SizeBytes :: int

record JobInfo =
  JI_RepoFullName :: string
  JI_Branch :: string
  JI_CommitSHA :: string
  JI_CloneToken :: string
  JI_InstallationID :: int

text \<open>
  What the operating system, git and zigzag do in one run: making the workspace, the name of the
  fresh temporary directory, the clone (by URL, branch, token and directory), the zigzag run, the
  report found in the reports directory, and the files it measures.
\<close>

record os =
  os_mkdir :: bool
  os_mkdtemp :: "string option"
  os_clone :: "string \<Rightarrow> string \<Rightarrow> string \<Rightarrow> string \<Rightarrow> string option" \<comment> \<open>\<open>None\<close> is success\<close>
  os_zigzag :: "string option"
  os_report :: "string option" \<comment> \<open>the text of \<open>report.json\<close>\<close>
  os_files :: "(int option) list option" \<comment> \<open>the walk of the reports directory: sizes, or failure\<close>

text \<open>
  \<open>collectResult\<close>: the two goroutines only write disjoint variables, so their order does not matter
  (when both fail, the error returned here is the report's). A file that cannot be measured is
  skipped. The sum is an \<open>atomic.Int64\<close> and wraps.
\<close>

definition wrap64 :: "int \<Rightarrow> int" where
  "wrap64 i = (i + 2 ^ 63) mod 2 ^ 64 - 2 ^ 63"

fun total_size :: "int \<Rightarrow> int option list \<Rightarrow> int" where
  "total_size acc [] = acc"
| "total_size acc (None # ss) = total_size acc ss"
| "total_size acc (Some n # ss) = total_size (wrap64 (acc + n)) ss"

definition decode_report :: "json \<Rightarrow> string option" where
  "decode_report j =
     (case j of
        JNull \<Rightarrow> Some ''''
      | JObj ms \<Rightarrow> (case obj_field ''meta'' ms of
            None \<Rightarrow> None
          | Some meta \<Rightarrow> str_field ''version'' '''' meta)
      | _ \<Rightarrow> None)"

definition collectResult :: "ext \<Rightarrow> os \<Rightarrow> string \<Rightarrow> string + Result" where
  "collectResult x os reportsDir =
     (case os_report os of
        None \<Rightarrow> Inl ''read report.json''
      | Some text \<Rightarrow>
        (case Option.bind (x_unmarshal x text) decode_report of
           None \<Rightarrow> Inl ''parse report.json''
         | Some version \<Rightarrow>
           (case os_files os of
              None \<Rightarrow> Inl ''walk reports dir''
            | Some sizes \<Rightarrow> Inr \<lparr>Res_ReportsDir = reportsDir, Res_ZigzagVersion = version,
                Res_SizeBytes = total_size 0 sizes\<rparr>)))"

text \<open>
  \<open>cloneAndRun\<close>: the temporary directory exists from \<open>MkdirTemp\<close> to the deferred \<open>RemoveAll\<close>, on
  every path. The second result lists the temporary directories left behind.
\<close>

definition cloneAndRun ::
  "ext \<Rightarrow> env \<Rightarrow> os \<Rightarrow> string \<Rightarrow> string \<Rightarrow> string \<Rightarrow> string \<Rightarrow> string list
    \<Rightarrow> (string + Result) \<times> string list" where
  "cloneAndRun x env os reportsDir cloneURL branch token dirs =
     (if \<not> os_mkdir os then (Inl ''create workspace dir'', dirs)
      else case os_mkdtemp os of
        None \<Rightarrow> (Inl ''create work dir'', dirs)
      | Some workDir \<Rightarrow>
        let dirs1 = workDir # dirs;
            cleanup = (\<lambda>ds. if e_fault env ''RemoveAll'' 0 then ds else removeAll workDir ds);
            repoDir = workDir @ ''/repo'';
            result =
              (case os_clone os cloneURL branch token repoDir of
                 Some e \<Rightarrow> Inl (''clone repo: '' @ e)
               | None \<Rightarrow>
                 (case os_zigzag os of
                    Some e \<Rightarrow> Inl (''zigzag run: '' @ e)
                  | None \<Rightarrow>
                    (case collectResult x os reportsDir of
                       Inl e \<Rightarrow> Inl (''collect result: '' @ e)
                     | Inr r \<Rightarrow> Inr r)))
        in (result, cleanup dirs1))"

definition RunWithToken ::
  "ext \<Rightarrow> env \<Rightarrow> os \<Rightarrow> string \<Rightarrow> JobInfo \<Rightarrow> string list \<Rightarrow> (string + Result) \<times> string list" where
  "RunWithToken x env os reportsDir info dirs =
     cloneAndRun x env os reportsDir (''https://github.com/'' @ JI_RepoFullName info @ ''.git'')
       (JI_Branch info) (JI_CloneToken info) dirs"

section \<open>Callback client\<close>

datatype apierr =
    ErrEmptyJobID
  | ErrEmptyStatus
  | ErrInvalidStatus
  | ErrStartFailed nat
  | ErrCompleteFailed nat
  | ErrTransport

text \<open>
  A request may be refused by the breaker or lost before it reaches the API (\<open>http.Do\<close>), and its
  response may be lost on the way back (\<open>http.Resp\<close>), when the API has already acted on it.
\<close>

definition Client_Start ::
  "ext \<Rightarrow> env \<Rightarrow> Signer \<Rightarrow> cloner \<Rightarrow> string \<Rightarrow> db \<Rightarrow> (apierr + StartResponse) \<times> db" where
  "Client_Start x env signer cloner jobID d =
     (if jobID = '''' then (Inl ErrEmptyJobID, d)
      else let body = x_marshal x (JObj [(''job_id'', JStr jobID)]);
               token = Sign (x_mac x) env signer jobID
           in if e_fault env ''api.cb'' 0 \<or> e_fault env ''http.Do'' 0 then (Inl ErrTransport, d)
              else case route_start x env signer cloner True (''Bearer '' @ token) body d of
                (reply, d1) \<Rightarrow>
                  if e_fault env ''http.Resp'' 0 then (Inl ErrTransport, d1)
                  else if reply_status reply \<noteq> 200 then (Inl (ErrStartFailed (reply_status reply)), d1)
                  else (case reply of WriteJSON _ res \<Rightarrow> (Inr res, d1) | _ \<Rightarrow> (Inl ErrTransport, d1)))"

text \<open>The request of the worker's client; \<open>omitempty\<close> leaves zero values out.\<close>

definition complete_body :: "CompleteRequest \<Rightarrow> json" where
  "complete_body r = JObj ([(''job_id'', JStr (CR_JobID r)), (''status'', JStr (CR_Status r))]
     @ (if CR_ErrorMessage r = '''' then [] else [(''error_message'', JStr (CR_ErrorMessage r))])
     @ (if CR_SnapshotPath r = '''' then [] else [(''snapshot_path'', JStr (CR_SnapshotPath r))])
     @ (if CR_ZigzagVersion r = '''' then [] else [(''zigzag_version'', JStr (CR_ZigzagVersion r))])
     @ (if CR_SizeBytes r = 0 then [] else [(''size_bytes'', JNum (CR_SizeBytes r))]))"

definition Client_Complete ::
  "ext \<Rightarrow> env \<Rightarrow> Signer \<Rightarrow> CompleteRequest \<Rightarrow> db \<Rightarrow> apierr option \<times> db" where
  "Client_Complete x env signer req d =
     (if CR_JobID req = '''' then (Some ErrEmptyJobID, d)
      else if CR_Status req = '''' then (Some ErrEmptyStatus, d)
      else if CR_Status req \<noteq> ''succeeded'' \<and> CR_Status req \<noteq> ''failed'' then (Some ErrInvalidStatus, d)
      else let body = x_marshal x (complete_body req);
               token = Sign (x_mac x) env signer (CR_JobID req)
           in if e_fault env ''api.cb'' 0 \<or> e_fault env ''http.Do'' 0 then (Some ErrTransport, d)
              else case route_complete x env signer True (''Bearer '' @ token) body d of
                (reply, d1) \<Rightarrow>
                  if e_fault env ''http.Resp'' 0 then (Some ErrTransport, d1)
                  else if reply_status reply \<noteq> 200
                    then (Some (ErrCompleteFailed (reply_status reply)), d1)
                  else (None, d1))"

section \<open>Executor\<close>

record cluster =
  c_db :: db
  c_gcs :: gcs
  c_dirs :: "string list"

definition failed_request :: "string \<Rightarrow> string \<Rightarrow> CompleteRequest" where
  "failed_request jobID errMsg = \<lparr>CR_JobID = jobID, CR_Status = ''failed'', CR_ErrorMessage = errMsg,
     CR_SnapshotPath = '''', CR_ZigzagVersion = '''', CR_SizeBytes = 0, CR_DurationMs = 0\<rparr>"

definition completeFailed ::
  "ext \<Rightarrow> env \<Rightarrow> Signer \<Rightarrow> string \<Rightarrow> string \<Rightarrow> cluster \<Rightarrow> cluster" where
  "completeFailed x env signer jobID errMsg c =
     c\<lparr>c_db := snd (Client_Complete x env signer (failed_request jobID errMsg) (c_db c))\<rparr>"

text \<open>
  \<open>Execute\<close>: \<open>envS\<close> is the environment of the start callback, \<open>envR\<close> of the run and the upload,
  \<open>envC\<close> of the complete callback. The texts of error messages keep the code's prefix.
\<close>

definition Execute ::
  "ext \<Rightarrow> env \<Rightarrow> env \<Rightarrow> env \<Rightarrow> Signer \<Rightarrow> cloner \<Rightarrow> os \<Rightarrow> string \<Rightarrow> string \<Rightarrow> string \<Rightarrow> string
    \<Rightarrow> cluster \<Rightarrow> cluster" where
  "Execute x envS envR envC signer cloner os reportsDir jobID orgID repoID c =
     (case Client_Start x envS signer cloner jobID (c_db c) of
        (Inl _, d1) \<Rightarrow> completeFailed x envC signer jobID ''start callback: '' (c\<lparr>c_db := d1\<rparr>)
      | (Inr info, d1) \<Rightarrow>
        (case RunWithToken x envR os reportsDir
               \<lparr>JI_RepoFullName = SRes_RepoFullName info, JI_Branch = SRes_Branch info,
                JI_CommitSHA = SRes_CommitSHA info, JI_CloneToken = SRes_CloneToken info,
                JI_InstallationID = SRes_InstallationID info\<rparr> (c_dirs c) of
           (Inl e, dirs) \<Rightarrow> completeFailed x envC signer jobID e (c\<lparr>c_db := d1, c_dirs := dirs\<rparr>)
         | (Inr result, dirs) \<Rightarrow>
           let c1 = c\<lparr>c_db := d1, c_dirs := dirs\<rparr>;
               gcsPath = SnapshotPath orgID repoID (SRes_CommitSHA info)
           in case os_report os of
                None \<Rightarrow> completeFailed x envC signer jobID ''read report: '' c1
              | Some snapshotData \<Rightarrow>
                (case Upload envR gcsPath snapshotData (c_gcs c) of
                   (False, g) \<Rightarrow> completeFailed x envC signer jobID ''gcs upload: '' (c1\<lparr>c_gcs := g\<rparr>)
                 | (True, g) \<Rightarrow>
                   c1\<lparr>c_gcs := g, c_db := snd (Client_Complete x envC signer
                     \<lparr>CR_JobID = jobID, CR_Status = ''succeeded'', CR_ErrorMessage = '''',
                      CR_SnapshotPath = gcsPath, CR_ZigzagVersion = Res_ZigzagVersion result,
                      CR_SizeBytes = Res_SizeBytes result, CR_DurationMs = 0\<rparr> d1)\<rparr>)))"

section \<open>Cloud Tasks endpoint (\<open>worker/handler\<close>)\<close>

definition decode_runRequest :: "json \<Rightarrow> (string \<times> string) option" where
  "decode_runRequest j =
     (case j of
        JNull \<Rightarrow> Some ('''', '''')
      | JObj ms \<Rightarrow>
          (case (str_field ''job_id'' '''' ms, str_field ''job_token'' '''' ms) of
             (Some i, Some t) \<Rightarrow> Some (i, t)
           | _ \<Rightarrow> None)
      | _ \<Rightarrow> None)"

definition Run ::
  "ext \<Rightarrow> env \<Rightarrow> env \<Rightarrow> env \<Rightarrow> env \<Rightarrow> Signer \<Rightarrow> cloner \<Rightarrow> os \<Rightarrow> string \<Rightarrow> string \<Rightarrow> cluster
    \<Rightarrow> unit reply \<times> cluster" where
  "Run x env envS envR envC signer cloner os reportsDir body c =
     (case Option.bind (x_json x body) decode_runRequest of
        None \<Rightarrow> (HttpError 400 ''invalid request body'', c)
      | Some (jobID, jobToken) \<Rightarrow>
        if jobID = '''' \<or> jobToken = '''' then (HttpError 400 ''job_id and job_token are required'', c)
        else if Validate (x_mac x) env signer jobID jobToken \<noteq> None
          then (HttpError 401 ''unauthorized'', c)
        else case x_uuid_scan x jobID of
          None \<Rightarrow> (HttpError 400 ''invalid job_id'', c)
        | Some jobUUID \<Rightarrow>
          (case guarded env ''GetRepoForJob'' 0 (GetRepoForJob (Some jobUUID) (c_db c)) of
             Inl _ \<Rightarrow> (HttpError 500 ''job lookup failed'', c)
           | Inr repo \<Rightarrow>
             let repoID = x_uuid_string x (RFJ_ID repo)
             in (WriteHeader 200,
                 Execute x envS envR envC signer cloner os reportsDir jobID repoID repoID c)))"

section \<open>Poller\<close>

datatype claimerr = errNoJobs | ErrClaimJob | ErrGetRepoForJob

record Launch =
  La_JobID :: string
  La_OrgID :: string
  La_RepoID :: string

text \<open>
  \<open>claimOne\<close>: on success the job is handed to \<open>GoWait\<close>, which counts it as in flight until the
  executor returns. The three statements are separate transactions: \<open>others\<close> is what concurrent
  ones commit after the claim (\<open>HandlePush\<close> has the same parameter).
\<close>

definition claimOne ::
  "ext \<Rightarrow> env \<Rightarrow> uuid list \<Rightarrow> (db \<Rightarrow> db) \<Rightarrow> db \<Rightarrow> (claimerr + Launch) \<times> db" where
  "claimOne x env locked others d =
     (case guarded env ''ClaimJob'' 0 (ClaimJob env locked d) of
        Inl e \<Rightarrow> (Inl (if e = ErrNoRows then errNoJobs else ErrClaimJob), d)
      | Inr (job, d0) \<Rightarrow>
        let d1 = others d0 in
        (case guarded env ''GetRepoForJob'' 0 (GetRepoForJob (Some (Job_ID job)) d1) of
           Inl _ \<Rightarrow>
             (case guarded env ''UpdateJobStatus'' 0 (UpdateJobStatus env (Some (Job_ID job))
                     ''failed'' (Some ''repo not found for job'') d1) of
                Inl _ \<Rightarrow> (Inl ErrGetRepoForJob, d1)
              | Inr d2 \<Rightarrow> (Inl ErrGetRepoForJob, d2))
         | Inr repo \<Rightarrow> (Inr \<lparr>La_JobID = x_uuid_string x (Job_ID job),
             La_OrgID = x_uuid_string x (RFJ_ID repo),
             La_RepoID = x_uuid_string x (Job_RepoID job)\<rparr>, d1)))"

text \<open>
  \<open>pollBatch\<close>: the number of free slots is read once; each round has its own environment, the rows
  locked at that moment, what runs concurrently, and whether the context has been cancelled.
\<close>

record round =
  ro_env :: env
  ro_locked :: "uuid list"
  ro_others :: "db \<Rightarrow> db"
  ro_cancelled :: bool

fun poll_rounds :: "ext \<Rightarrow> (nat \<Rightarrow> round) \<Rightarrow> nat \<Rightarrow> nat \<Rightarrow> db \<Rightarrow> Launch list \<times> db" where
  "poll_rounds x rs i 0 d = ([], d)"
| "poll_rounds x rs i (Suc slots) d =
     (if ro_cancelled (rs i) then ([], d)
      else case claimOne x (ro_env (rs i)) (ro_locked (rs i)) (ro_others (rs i)) d of
        (Inl _, d1) \<Rightarrow> ([], d1)
      | (Inr la, d1) \<Rightarrow>
          let (las, d2) = poll_rounds x rs (Suc i) slots d1 in (la # las, d2))"

definition pollBatch ::
  "ext \<Rightarrow> (nat \<Rightarrow> round) \<Rightarrow> int \<Rightarrow> int \<Rightarrow> db \<Rightarrow> Launch list \<times> db" where
  "pollBatch x rs maxConcurrency inflight d = poll_rounds x rs 0 (nat (maxConcurrency - inflight)) d"

section \<open>What a claim does to the database\<close>

definition claim_update :: "env \<Rightarrow> Job \<Rightarrow> db \<Rightarrow> db" where
  "claim_update env j d = update_jobs env (\<lambda>x. Job_ID x = Job_ID j)
     (\<lambda>x. x\<lparr>Job_Status := JobStatusRunning, Job_StartedAt := Some (e_now env)\<rparr>) d"

lemma claimOne_cases:
  assumes "claimOne x env locked others d = (r, d')"
  obtains (none) e where "r = Inl e" "d' = d"
    | (claimed) j j' where "j \<in> set (jobs d)" "Job_Status j = JobStatusQueued" "Job_ID j \<notin> set locked"
        "ClaimJob env locked d = Inr (j', claim_update env j d)" "d' = others (claim_update env j d)"
    | (failed) j j' where "j \<in> set (jobs d)" "Job_Status j = JobStatusQueued" "Job_ID j \<notin> set locked"
        "ClaimJob env locked d = Inr (j', claim_update env j d)" "r = Inl ErrGetRepoForJob"
        "d' = update_jobs env (\<lambda>x. Job_ID x = Job_ID j)
           (set_job_status env JobStatusFailed (Some ''repo not found for job''))
           (others (claim_update env j d))"
proof (cases "guarded env ''ClaimJob'' 0 (ClaimJob env locked d)")
  case (Inl e)
  then show thesis using assms none by (auto simp: claimOne_def)
next
  case (Inr p)
  obtain j d0 where p: "p = (j, d0)" by (cases p)
  with Inr have cl: "ClaimJob env locked d = Inr (j, d0)" by simp
  then obtain j0 where j0: "j0 \<in> set (jobs d)" "Job_Status j0 = JobStatusQueued" "Job_ID j0 \<notin> set locked"
    "Job_ID j = Job_ID j0" "d0 = claim_update env j0 d"
    by (rule ClaimJob_Inr) (auto simp: claim_update_def)
  have cl0: "ClaimJob env locked d = Inr (j, claim_update env j0 d)" using cl j0 by simp
  note upd = UpdateJobStatus_Inr [where st = JobStatusFailed, simplified]
  show thesis
    using assms Inr p j0 claimed [OF j0(1-3) cl0] failed [OF j0(1-3) cl0]
    by (auto simp: claimOne_def Let_def upd guarded_def split: sum.splits if_splits)
qed

section \<open>The client and the API agree\<close>

lemma lower_names:
  "map lower ''job_id'' = ''job_id''" "map lower ''status'' = ''status''"
  "map lower ''error_message'' = ''error_message''" "map lower ''snapshot_path'' = ''snapshot_path''"
  "map lower ''zigzag_version'' = ''zigzag_version''" "map lower ''size_bytes'' = ''size_bytes''"
  "map lower ''duration_ms'' = ''duration_ms''"
  by code_simp+

lemmas field_match_names = field_match_def lower_names [simplified]

lemma decode_start_body:
  "decode_StartRequest (JObj [(''job_id'', JStr i)]) = Some \<lparr>SR_JobID = i\<rparr>"
  "decode_jobIDPayload (JObj [(''job_id'', JStr i)]) = Some i"
  by (simp_all add: decode_StartRequest_def decode_jobIDPayload_def field_match_def)

lemma decode_complete_jobID: "decode_jobIDPayload (complete_body r) = Some (CR_JobID r)"
  by (simp add: decode_jobIDPayload_def complete_body_def field_match_names)

lemma decode_complete_body:
  assumes "int64_range (CR_SizeBytes r)"
  shows "decode_CompleteRequest (complete_body r) = Some (r\<lparr>CR_DurationMs := 0\<rparr>)"
  using assms by (simp add: decode_CompleteRequest_def complete_body_def field_match_names)

text \<open>
  What the worker's client sends is what the API reads: a completion request survives printing
  with omitted zero fields and decoding unchanged (the client does not send a duration).
\<close>

theorem complete_request_roundtrip:
  assumes "int64_range (CR_SizeBytes r)"
  shows "decode_CompleteRequest (complete_body r) = Some (r\<lparr>CR_DurationMs := 0\<rparr>)
    \<and> decode_jobIDPayload (complete_body r) = Some (CR_JobID r)"
  using assms by (simp add: decode_complete_body decode_complete_jobID)

theorem complete_request_roundtrip_witness:
  "decode_CompleteRequest (complete_body (failed_request ''u'' ''boom'')) = Some (failed_request ''u'' ''boom'')"
  using complete_request_roundtrip [of "failed_request ''u'' ''boom''"]
  by (simp add: failed_request_def int64_range_def)

lemma poll_rounds_length: "length (fst (poll_rounds x rs i n d)) \<le> n"
  by (induction x rs i n d rule: poll_rounds.induct) (auto split: sum.splits prod.splits)

text \<open>
  A poll never overfills the worker: with the jobs in flight it had counted, the jobs it launches
  stay within the configured concurrency (or launch nothing when that is already exceeded).
\<close>

theorem poll_within_concurrency:
  "inflight + int (length (fst (pollBatch x rs maxConcurrency inflight d))) \<le> max maxConcurrency inflight"
  using poll_rounds_length [of x rs 0 "nat (maxConcurrency - inflight)" d] by (auto simp: pollBatch_def)

text \<open>
  A run leaves no temporary directory behind, on success and on every error path, as long as the
  directory can be removed.
\<close>

theorem run_cleans_workspace:
  assumes "\<not> e_fault env ''RemoveAll'' 0"
    and "\<And>w. os_mkdtemp os = Some w \<Longrightarrow> w \<notin> set dirs"
  shows "snd (RunWithToken x env os reportsDir info dirs) = dirs"
  using assms by (auto simp: RunWithToken_def cloneAndRun_def Let_def split: option.splits)

theorem run_cleans_workspace_witness:
  "snd (RunWithToken (sample_ext []) (sample_env 0) \<lparr>os_mkdir = True, os_mkdtemp = Some ''t1'',
      os_clone = (\<lambda>_ _ _ _. Some ''denied''), os_zigzag = None, os_report = None, os_files = None\<rparr> ''r''
      \<lparr>JI_RepoFullName = ''a/b'', JI_Branch = ''main'', JI_CommitSHA = ''c'', JI_CloneToken = ''t'',
       JI_InstallationID = 1\<rparr> [''t0'']) = [''t0'']"
  by (rule run_cleans_workspace) (auto simp: sample_env_def)

section \<open>A whole execution\<close>

text \<open>
  What a fault-free request needs of the environment: no call fails, and the token signed for it
  has not expired when it is checked.
\<close>

definition calm :: "Signer \<Rightarrow> env \<Rightarrow> bool" where
  "calm signer env \<longleftrightarrow> (\<forall>c n. \<not> e_fault env c n) \<and> 0 \<le> sig_ttl signer
     \<and> int64_range (unix (e_now env + sig_ttl signer))"

lemma calm_token:
  assumes "calm signer env"
  shows "Validate mac env signer jobID (Sign mac env signer jobID) = None"
  using assms by (intro Sign_accepted) (auto simp: calm_def accepted_keys_def unix_def intro: zdiv_mono1)

text \<open>The documented behaviour of the packages the exchange goes through.\<close>

definition faithful :: "ext \<Rightarrow> json \<Rightarrow> bool" where
  "faithful x j \<longleftrightarrow> x_json x (x_marshal x j) = Some j \<and> length (x_marshal x j) \<le> 1024 * 1024"

lemma Client_Start_ok:
  assumes "calm signer env" and "jobID \<noteq> ''''" and "faithful x (JObj [(''job_id'', JStr jobID)])"
    and "validate_struct x (StartRequest_fields \<lparr>SR_JobID = jobID\<rparr>) = None"
    and "x_uuid_scan x jobID = Some (Job_ID job)" and "distinct (map Job_ID (jobs d))" and "job \<in> set (jobs d)"
    and "\<not> IsTerminal (Job_Status job)"
    and "GetRepoForJob (Some (Job_ID job)) d = Inr repo" and "cloner (RFJ_InstallationID repo) = Some t"
  shows "\<exists>d1. Client_Start x env signer cloner jobID d = (Inr \<lparr>SRes_CommitSHA = Job_CommitSha job,
      SRes_Branch = Job_Branch job, SRes_RepoFullName = RFJ_FullName repo, SRes_CloneToken = t,
      SRes_InstallationID = RFJ_InstallationID repo\<rparr>, d1)
    \<and> (d1 = d \<or> d1 = update_jobs env (\<lambda>j. Job_ID j = Job_ID job) (set_job_status env JobStatusRunning None) d)"
proof -
  let ?b = "x_marshal x (JObj [(''job_id'', JStr jobID)])"
  let ?d = "update_jobs env (\<lambda>j. Job_ID j = Job_ID job) (set_job_status env JobStatusRunning None) d"
  have nf: "\<not> e_fault env c n" for c n using assms(1) by (simp add: calm_def)
  have get: "GetJobForUpdate (Some (Job_ID job)) d = Inr job" by (rule job_lock.get_unique [OF assms(6,7)])
  have repo: "GetRepoForJob (Some (Job_ID job)) ?d = Inr repo"
    using assms(9) by (simp only: GetRepoForJob_set_status)
  define d1 where "d1 = (if Job_Status job = JobStatusRunning then d else ?d)"
  have "Start x env cloner jobID ?b d = (respondStart env cloner job d1, d1)"
    using assms(3-5,8) get
    by (simp add: Start_def faithful_def decode_start_body nf guarded_def d1_def
        UpdateJobStatus_Inr [where st = JobStatusRunning, simplified])
  moreover have "route_start x env signer cloner True (''Bearer '' @ Sign (x_mac x) env signer jobID) ?b d
      = Start x env cloner jobID ?b d"
    using assms(1-3) by (intro route_ok calm_token) (simp_all add: faithful_def decode_start_body)
  moreover have "respondStart env cloner job d1 = WriteJSON 200 \<lparr>SRes_CommitSHA = Job_CommitSha job,
      SRes_Branch = Job_Branch job, SRes_RepoFullName = RFJ_FullName repo, SRes_CloneToken = t,
      SRes_InstallationID = RFJ_InstallationID repo\<rparr>"
    using assms(9,10) repo by (simp add: respondStart_def guarded_def nf d1_def)
  ultimately show ?thesis
    using assms(2) by (simp add: Client_Start_def nf Let_def d1_def)
qed

lemma Client_Complete_ok:
  assumes "calm signer env" and "CR_JobID req \<noteq> ''''" and "CR_Status req = ''succeeded''" and "CR_DurationMs req = 0"
    and "int64_range (CR_SizeBytes req)" and "faithful x (complete_body req)"
    and "validate_struct x (CompleteRequest_fields req) = None"
    and "x_uuid_scan x (CR_JobID req) = Some (Job_ID job)"
    and "distinct (map Job_ID (jobs d))" and "job \<in> set (jobs d)" and "\<not> IsTerminal (Job_Status job)"
    and "Job_RepoID job \<in> Repo_ID ` set (repositories d)"
    and "e_uuid env 0 \<notin> Snap_ID ` set (snapshots d)"
    and "(Job_RepoID job, Job_Branch job, Job_CommitSha job) \<notin> snap_key ` set (snapshots d)"
  shows "\<exists>d' s. Client_Complete x env signer req d = (None, d') \<and> s \<in> set (snapshots d')
    \<and> Snap_JobID s = Some (Job_ID job) \<and> Snap_GcsPath s = CR_SnapshotPath req
    \<and> snap_key s = (Job_RepoID job, Job_Branch job, Job_CommitSha job)
    \<and> (\<exists>j \<in> set (jobs d'). Job_ID j = Job_ID job \<and> Job_Status j = JobStatusSucceeded)"
proof -
  let ?b = "x_marshal x (complete_body req)"
  let ?msg = "if CR_ErrorMessage req \<noteq> '''' then Some (CR_ErrorMessage req) else None"
  let ?d1 = "update_jobs env (\<lambda>j. Job_ID j = Job_ID job) (set_job_status env JobStatusSucceeded ?msg) d"
  have nf: "\<not> e_fault env c n" for c n using assms(1) by (simp add: calm_def)
  have get: "GetJobForUpdate (Some (Job_ID job)) d = Inr job" by (rule job_lock.get_unique [OF assms(9,10)])
  have hit: "(set_job_status env JobStatusSucceeded ?msg job)\<lparr>Job_UpdatedAt := e_now env\<rparr> \<in> set (jobs ?d1)"
    by (rule update_jobs_hit [OF assms(10)]) simp
  have "Job_ID job \<in> Job_ID ` set (jobs ?d1)" unfolding update_jobs_id_set using assms(10) by simp
  then obtain s d' where ins: "InsertSnapshot env 0 (Some (Job_RepoID job)) (Some (Job_ID job)) (Job_Branch job)
      (Job_CommitSha job) (CR_SnapshotPath req) 1 (CR_ZigzagVersion req) (CR_SizeBytes req) ?d1 = Inr (s, d')"
    using assms(12-14) by (simp add: InsertSnapshot_def frame_simps Let_def)
  have "record_completion env req job d = (WriteJSON 200 \<lparr>SR_Status = ''succeeded''\<rparr>, d')"
    using ins assms(3) by (simp add: record_completion_def guarded_def nf
        UpdateJobStatus_Inr [where st = JobStatusSucceeded, simplified])
  moreover have "req\<lparr>CR_DurationMs := 0\<rparr> = req" using assms(4) by simp
  ultimately have "Complete x env (CR_JobID req) ?b d = (WriteJSON 200 \<lparr>SR_Status = ''succeeded''\<rparr>, d')"
    using assms(5-8,11) get by (simp add: Complete_def faithful_def decode_complete_body nf guarded_def)
  moreover have "route_complete x env signer True (''Bearer '' @ Sign (x_mac x) env signer (CR_JobID req)) ?b d
      = Complete x env (CR_JobID req) ?b d"
    using assms(1,2,6) by (intro route_ok calm_token) (simp_all add: faithful_def decode_complete_jobID)
  ultimately have "Client_Complete x env signer req d = (None, d')"
    using assms(2,3) by (simp add: Client_Complete_def nf Let_def)
  moreover note si = InsertSnapshot_Inr [OF ins]
  moreover have "jobs d' = jobs ?d1" "s \<in> set (snapshots d')" using si(7) by simp_all
  ultimately show ?thesis
    using hit si(1-5) by (intro exI [of _ d'] exI [of _ s]) (force simp: snap_key_def)
qed

text \<open>
  C12. A whole execution, from the claimed job to the snapshot: when the worker's calls go through and
  zigzag produces a report with a version, the report is stored under the job's commit, the job ends
  succeeded, and the database has a snapshot of its repository, branch and commit that points to the
  stored report.
\<close>

theorem Execute_succeeds:
  assumes "calm signer envS" and "calm signer envR" and "calm signer envC"
    and "distinct (map Job_ID (jobs (c_db c)))" and "job \<in> set (jobs (c_db c))"
    and "\<not> IsTerminal (Job_Status job)" and "jobID \<noteq> ''''" and "x_uuid_scan x jobID = Some (Job_ID job)"
    and "GetRepoForJob (Some (Job_ID job)) (c_db c) = Inr repo"
    and "Job_RepoID job \<in> Repo_ID ` set (repositories (c_db c))"
    and "cloner (RFJ_InstallationID repo) = Some t"
    and "e_uuid envC 0 \<notin> Snap_ID ` set (snapshots (c_db c))"
    and "(Job_RepoID job, Job_Branch job, Job_CommitSha job) \<notin> snap_key ` set (snapshots (c_db c))"
    and "os_mkdir os" and "os_mkdtemp os = Some dir" and "\<And>u b k r. os_clone os u b k r = None"
    and "os_zigzag os = None" and "os_report os = Some report" and "os_files os = Some sizes"
    and "Option.bind (x_unmarshal x report) decode_report = Some version"
    and "int64_range (total_size 0 sizes)"
    and "req = \<lparr>CR_JobID = jobID, CR_Status = ''succeeded'', CR_ErrorMessage = '''',
      CR_SnapshotPath = SnapshotPath orgID repoID (Job_CommitSha job), CR_ZigzagVersion = version,
      CR_SizeBytes = total_size 0 sizes, CR_DurationMs = 0\<rparr>"
    and "faithful x (JObj [(''job_id'', JStr jobID)])" and "faithful x (complete_body req)"
    and "validate_struct x (StartRequest_fields \<lparr>SR_JobID = jobID\<rparr>) = None"
    and "validate_struct x (CompleteRequest_fields req) = None"
  shows "\<exists>s j. let c' = Execute x envS envR envC signer cloner os reportsDir jobID orgID repoID c in
    c_gcs c' (Snap_GcsPath s) = Some report \<and> s \<in> set (snapshots (c_db c'))
    \<and> Snap_JobID s = Some (Job_ID job) \<and> snap_key s = (Job_RepoID job, Job_Branch job, Job_CommitSha job)
    \<and> j \<in> set (jobs (c_db c')) \<and> Job_ID j = Job_ID job \<and> Job_Status j = JobStatusSucceeded"
proof -
  from Client_Start_ok [where cloner = cloner, OF assms(1,7,23,25,8,4,5,6,9,11)] obtain d1 where
    start: "Client_Start x envS signer cloner jobID (c_db c) = (Inr \<lparr>SRes_CommitSHA = Job_CommitSha job,
      SRes_Branch = Job_Branch job, SRes_RepoFullName = RFJ_FullName repo, SRes_CloneToken = t,
      SRes_InstallationID = RFJ_InstallationID repo\<rparr>, d1)"
    and d1: "d1 = c_db c \<or> d1 = update_jobs envS (\<lambda>j. Job_ID j = Job_ID job) (set_job_status envS JobStatusRunning None) (c_db c)"
    by blast
  obtain job1 where job1: "job1 \<in> set (jobs d1)" "Job_ID job1 = Job_ID job" "\<not> IsTerminal (Job_Status job1)"
    "Job_RepoID job1 = Job_RepoID job" "Job_Branch job1 = Job_Branch job" "Job_CommitSha job1 = Job_CommitSha job"
    using d1
  proof
    assume "d1 = c_db c" then show thesis using that [of job] assms(5,6) by simp
  next
    assume "d1 = update_jobs envS (\<lambda>j. Job_ID j = Job_ID job) (set_job_status envS JobStatusRunning None) (c_db c)"
    then show thesis
      using that [of "(set_job_status envS JobStatusRunning None job)\<lparr>Job_UpdatedAt := e_now envS\<rparr>"]
        update_jobs_hit [OF assms(5)] by simp
  qed
  have frame: "snapshots d1 = snapshots (c_db c)" "repositories d1 = repositories (c_db c)"
    "distinct (map Job_ID (jobs d1))"
    using d1 assms(4) by (auto simp: frame_simps update_jobs_ids)
  have "\<exists>d' s. Client_Complete x envC signer req d1 = (None, d') \<and> s \<in> set (snapshots d')
    \<and> Snap_JobID s = Some (Job_ID job1) \<and> Snap_GcsPath s = CR_SnapshotPath req
    \<and> snap_key s = (Job_RepoID job1, Job_Branch job1, Job_CommitSha job1)
    \<and> (\<exists>j \<in> set (jobs d'). Job_ID j = Job_ID job1 \<and> Job_Status j = JobStatusSucceeded)"
    by (rule Client_Complete_ok) (use assms job1 frame in simp_all)
  then obtain d' s j where fin: "Client_Complete x envC signer req d1 = (None, d')" "s \<in> set (snapshots d')"
    "Snap_JobID s = Some (Job_ID job)" "Snap_GcsPath s = CR_SnapshotPath req"
    "snap_key s = (Job_RepoID job, Job_Branch job, Job_CommitSha job)"
    "j \<in> set (jobs d')" "Job_ID j = Job_ID job" "Job_Status j = JobStatusSucceeded"
    unfolding job1 by blast
  have nf: "\<not> e_fault envR a n" for a n using assms(2) by (simp add: calm_def)
  have "\<exists>ds. RunWithToken x envR os reportsDir info dirs = (Inr \<lparr>Res_ReportsDir = reportsDir,
      Res_ZigzagVersion = version, Res_SizeBytes = total_size 0 sizes\<rparr>, ds)" for info dirs
    using assms(14-20) by (simp add: RunWithToken_def cloneAndRun_def collectResult_def Let_def)
  then obtain ds where run: "RunWithToken x envR os reportsDir info dirs = (Inr \<lparr>Res_ReportsDir = reportsDir,
      Res_ZigzagVersion = version, Res_SizeBytes = total_size 0 sizes\<rparr>, ds info dirs)" for info dirs by metis
  have up: "Upload envR p data g = (True, g(p \<mapsto> data))" for p data g by (simp add: Upload_def nf)
  let ?c' = "Execute x envS envR envC signer cloner os reportsDir jobID orgID repoID c"
  have "c_db ?c' = d' \<and> c_gcs ?c' = (c_gcs c)(CR_SnapshotPath req \<mapsto> report)"
    using fin(1) assms(18) by (simp add: Execute_def start run up assms(22) Let_def)
  then show ?thesis using fin(2-8) by (intro exI [of _ s] exI [of _ j]) (simp add: Let_def)
qed

definition sample_report :: json where
  "sample_report = JObj [(''meta'', JObj [(''version'', JStr ''1'')])]"

definition sample_os :: os where
  "sample_os = \<lparr>os_mkdir = True, os_mkdtemp = Some ''t1'', os_clone = (\<lambda>_ _ _ _. None), os_zigzag = None,
     os_report = Some (json_text sample_report), os_files = Some [Some 2, None, Some 1]\<rparr>"

definition sample_result :: CompleteRequest where
  "sample_result = \<lparr>CR_JobID = ''u'', CR_Status = ''succeeded'', CR_ErrorMessage = '''',
     CR_SnapshotPath = ''o/r/c1/snapshot.json'', CR_ZigzagVersion = ''1'', CR_SizeBytes = 3, CR_DurationMs = 0\<rparr>"

definition sample_worker_ext :: ext where
  "sample_worker_ext = sample_ext [JObj [(''job_id'', JStr ''u'')], complete_body sample_result, sample_report]"

lemma sample_worker:
  "faithful sample_worker_ext (JObj [(''job_id'', JStr ''u'')])"
  "faithful sample_worker_ext (complete_body sample_result)"
  "x_unmarshal sample_worker_ext (json_text sample_report) = Some sample_report"
  "decode_report sample_report = Some ''1''"
  "validate_struct sample_worker_ext (StartRequest_fields \<lparr>SR_JobID = ''u''\<rparr>) = None"
  "validate_struct sample_worker_ext (CompleteRequest_fields sample_result) = None"
  "total_size 0 [Some 2, None, Some 1] = 3"
  "calm sample_signer (sample_env 0)"
proof -
  show "faithful sample_worker_ext (JObj [(''job_id'', JStr ''u'')])"
    by (simp add: faithful_def sample_worker_ext_def)
  show "faithful sample_worker_ext (complete_body sample_result)"
    "x_unmarshal sample_worker_ext (json_text sample_report) = Some sample_report"
    by (simp_all add: faithful_def sample_worker_ext_def complete_body_def sample_result_def sample_report_def
        int_text_def nat_text.simps [of 3])
  show "decode_report sample_report = Some ''1''"
    "validate_struct sample_worker_ext (StartRequest_fields \<lparr>SR_JobID = ''u''\<rparr>) = None"
    "validate_struct sample_worker_ext (CompleteRequest_fields sample_result) = None" by code_simp+
  show "total_size 0 [Some 2, None, Some 1] = 3" by (simp add: wrap64_def)
  show "calm sample_signer (sample_env 0)"
    by (simp add: calm_def sample_defs NewSigner_def unix_def int64_range_def)
qed

theorem Execute_succeeds_witness:
  "\<exists>s. s \<in> set (snapshots (c_db (Execute sample_worker_ext (sample_env 0) (sample_env 0) (sample_env 0)
     sample_signer (\<lambda>_. Some ''t'') sample_os ''reports'' ''u'' ''o'' ''r''
     \<lparr>c_db = sample_db\<lparr>jobs := [sample_job JobStatusRunning]\<rparr>, c_gcs = (\<lambda>_. None), c_dirs = []\<rparr>)))"
proof -
  let ?c = "\<lparr>c_db = sample_db\<lparr>jobs := [sample_job JobStatusRunning]\<rparr>, c_gcs = (\<lambda>_. None), c_dirs = []\<rparr>"
  let ?repo = "\<lparr>RFJ_ID = 7, RFJ_GithubRepoID = 42, RFJ_InstallationID = 9, RFJ_FullName = ''acme/app'',
    RFJ_DefaultBranch = ''main''\<rparr>"
  note w = sample_worker
  have "\<exists>s j. let c' = Execute sample_worker_ext (sample_env 0) (sample_env 0) (sample_env 0)
     sample_signer (\<lambda>_. Some ''t'') sample_os ''reports'' ''u'' ''o'' ''r'' ?c in
    c_gcs c' (Snap_GcsPath s) = Some (json_text sample_report) \<and> s \<in> set (snapshots (c_db c'))
    \<and> Snap_JobID s = Some (Job_ID (sample_job JobStatusRunning))
    \<and> snap_key s = (Job_RepoID (sample_job JobStatusRunning), Job_Branch (sample_job JobStatusRunning),
        Job_CommitSha (sample_job JobStatusRunning))
    \<and> j \<in> set (jobs (c_db c')) \<and> Job_ID j = Job_ID (sample_job JobStatusRunning) \<and> Job_Status j = JobStatusSucceeded"
  proof (rule Execute_succeeds [where req = sample_result and repo = ?repo and t = "''t''" and dir = "''t1''"
        and sizes = "[Some 2, None, Some 1]" and version = "''1''", OF w(8) w(8) w(8)])
    show "GetRepoForJob (Some (Job_ID (sample_job JobStatusRunning))) (c_db ?c) = Inr ?repo"
      by (simp add: GetRepoForJob_def query_one_def sample_defs)
    show "sample_result = \<lparr>CR_JobID = ''u'', CR_Status = ''succeeded'', CR_ErrorMessage = '''',
        CR_SnapshotPath = SnapshotPath ''o'' ''r'' (Job_CommitSha (sample_job JobStatusRunning)),
        CR_ZigzagVersion = ''1'', CR_SizeBytes = total_size 0 [Some 2, None, Some 1], CR_DurationMs = 0\<rparr>"
      by (simp only: w(7)) (simp add: sample_result_def SnapshotPath_def sample_job_def)
    show "Option.bind (x_unmarshal sample_worker_ext (json_text sample_report)) decode_report = Some ''1''"
      by (simp add: w(3,4))
    show "int64_range (total_size 0 [Some 2, None, Some 1])" by (simp only: w(7)) (simp add: int64_range_def)
  qed (use w(1,2,5,6) in \<open>simp_all add: sample_os_def sample_worker_ext_def sample_defs\<close>)
  then show ?thesis by (auto simp: Let_def)
qed

end
