(* ===== verification/JobSystem.thy ===== *)
theory JobSystem
  imports Worker
begin

text \<open>
  The life of jobs across the whole system: pushes, worker callbacks, the watchdog, the poller and
  CLI uploads as steps of one transition relation on the database, with what they do concurrently,
  and the invariant they all keep.
\<close>

section \<open>The invariant\<close>

definition queued_at :: "uuid \<times> string \<Rightarrow> Job \<Rightarrow> bool" where
  "queued_at k j \<longleftrightarrow> Job_Status j = JobStatusQueued \<and> (Job_RepoID j, Job_Branch j) = k"

text \<open>The snapshot a job has produced.\<close>

definition snapshot_of :: "Job \<Rightarrow> Snapshot \<Rightarrow> bool" where
  "snapshot_of j s \<longleftrightarrow> Snap_JobID s = Some (Job_ID j)
     \<and> snap_key s = (Job_RepoID j, Job_Branch j, Job_CommitSha j)"

definition keys_ok :: "db \<Rightarrow> bool" where
  "keys_ok d \<longleftrightarrow> distinct (map Job_ID (jobs d)) \<and> distinct (map Snap_ID (snapshots d))
     \<and> distinct (map snap_key (snapshots d))
     \<and> (\<forall>j \<in> set (jobs d). Job_RepoID j \<in> Repo_ID ` set (repositories d))
     \<and> (\<forall>i \<in> set (jobs d). \<forall>j \<in> set (jobs d).
          sql_eq (Job_DeliveryID i) (Job_DeliveryID j) \<longrightarrow> Job_ID i = Job_ID j)"

definition one_queued :: "db \<Rightarrow> bool" where
  "one_queued d \<longleftrightarrow> (\<forall>k. \<forall>i \<in> set (jobs d). \<forall>j \<in> set (jobs d).
     queued_at k i \<longrightarrow> queued_at k j \<longrightarrow> Job_ID i = Job_ID j)"

definition job_times_ok :: "Job \<Rightarrow> bool" where
  "job_times_ok j \<longleftrightarrow> (Job_Status j = JobStatusRunning \<longrightarrow> Job_StartedAt j \<noteq> None)
     \<and> (IsTerminal (Job_Status j) \<longrightarrow> Job_FinishedAt j \<noteq> None)"

definition results_ok :: "db \<Rightarrow> bool" where
  "results_ok d \<longleftrightarrow>
     (\<forall>j \<in> set (jobs d). Job_Status j = JobStatusSucceeded \<longrightarrow> (\<exists>s \<in> set (snapshots d). snapshot_of j s))
     \<and> (\<forall>s \<in> set (snapshots d). Snap_JobID s \<noteq> None \<longrightarrow>
          (\<exists>j \<in> set (jobs d). IsTerminal (Job_Status j) \<and> snapshot_of j s))"

definition job_inv :: "db \<Rightarrow> bool" where
  "job_inv d \<longleftrightarrow> keys_ok d \<and> one_queued d \<and> (\<forall>j \<in> set (jobs d). job_times_ok j) \<and> results_ok d"

section \<open>Steps\<close>

text \<open>
  \<open>job_step x L\<close> is one operation, by a caller that may send anything, while the pushes holding
  the advisory locks \<open>L\<close> are under way. A push takes the lock of its repository and branch; until
  it commits, any other steps may run, except pushes that need a lock already held.
\<close>

definition push_key :: "WebhookEvent \<Rightarrow> db \<Rightarrow> (uuid \<times> string) option" where
  "push_key event d = (case GetRepoByGithubID (Ev_RepoID event) d of
     Inl _ \<Rightarrow> None | Inr repo \<Rightarrow> Some (Repo_ID repo, Ev_Branch event))"

inductive job_step :: "ext \<Rightarrow> (uuid \<times> string) set \<Rightarrow> db \<Rightarrow> db \<Rightarrow> bool" for x where
  start: "Start x env cloner cid body d = (r, d') \<Longrightarrow> job_step x L d d'"
| complete: "Complete x env cid body d = (r, d') \<Longrightarrow> job_step x L d d'"
| timeout: "Timeout env d = (r, d') \<Longrightarrow> job_step x L d d'"
| upload: "InsertCLISnapshot env n repo branch sha path ver zz bytes meta d = Inr (s, d')
    \<Longrightarrow> job_step x L d d'"
| poll: "claimOne x env locked others d = (r, d')
    \<Longrightarrow> (\<And>j d1. ClaimJob env locked d = Inr (j, d1) \<Longrightarrow> (job_step x L)\<^sup>*\<^sup>* d1 (others d1))
    \<Longrightarrow> job_step x L d d'"
| push: "push_key event (w_db w) = Some k \<Longrightarrow> k \<notin> L
    \<Longrightarrow> (job_step x (insert k L))\<^sup>*\<^sup>* (w_db w) (others (w_db w))
    \<Longrightarrow> HandlePush x env s others event deliveryID w = (r, w') \<Longrightarrow> job_step x L (w_db w) (w_db w')"

section \<open>How rows evolve\<close>

text \<open>
  What every operation other than job creation does to the job rows and the snapshot rows, and
  that it keeps the invariant.
\<close>

definition row_evolves :: "Job \<Rightarrow> Job \<Rightarrow> bool" where
  "row_evolves j j' \<longleftrightarrow> Job_ID j' = Job_ID j \<and> Job_RepoID j' = Job_RepoID j \<and> Job_Branch j' = Job_Branch j
     \<and> Job_DeliveryID j' = Job_DeliveryID j
     \<and> (Job_Status j' = JobStatusQueued \<longrightarrow> Job_Status j = JobStatusQueued)
     \<and> (Job_Status j \<noteq> JobStatusQueued \<longrightarrow> Job_CommitSha j' = Job_CommitSha j)
     \<and> (IsTerminal (Job_Status j) \<longrightarrow> IsTerminal (Job_Status j'))"

definition snap_evolves :: "Snapshot \<Rightarrow> Snapshot \<Rightarrow> bool" where
  "snap_evolves s s' \<longleftrightarrow> Snap_ID s' = Snap_ID s \<and> snap_key s' = snap_key s \<and> Snap_JobID s' = Snap_JobID s"

lemma row_evolves_refl [simp]: "row_evolves j j"
  by (simp add: row_evolves_def)

lemma snap_evolves_refl [simp]: "snap_evolves s s"
  by (simp add: snap_evolves_def)

lemma snapshot_of_evolves:
  "row_evolves j j' \<Longrightarrow> IsTerminal (Job_Status j) \<Longrightarrow> snap_evolves s s' \<Longrightarrow> snapshot_of j s \<Longrightarrow> snapshot_of j' s'"
  by (auto simp: row_evolves_def snap_evolves_def snapshot_of_def)

lemma keys_ok_evolve:
  assumes "keys_ok d" and "repositories d' = repositories d"
    and "jobs d' = map g (jobs d)" and "\<And>j. j \<in> set (jobs d) \<Longrightarrow> row_evolves j (g j)"
    and "distinct (map Snap_ID (snapshots d'))" "distinct (map snap_key (snapshots d'))"
  shows "keys_ok d'"
proof -
  have ids: "map Job_ID (jobs d') = map Job_ID (jobs d)"
    using assms(3,4) by (auto simp: row_evolves_def)
  have "Job_RepoID j \<in> Repo_ID ` set (repositories d')" if "j \<in> set (jobs d')" for j
    using that assms(1-4) by (auto simp: keys_ok_def row_evolves_def)
  moreover have "Job_ID i = Job_ID j"
    if "i \<in> set (jobs d')" "j \<in> set (jobs d')" "sql_eq (Job_DeliveryID i) (Job_DeliveryID j)" for i j
    using that assms(1,3,4) by (auto simp: keys_ok_def row_evolves_def)
  moreover have "distinct (map Job_ID (jobs d'))" using assms(1) unfolding ids by (simp add: keys_ok_def)
  ultimately show ?thesis using assms(5,6) unfolding keys_ok_def by blast
qed

lemma one_queued_evolve:
  assumes "one_queued d" and "jobs d' = map g (jobs d)"
    and "\<And>j. j \<in> set (jobs d) \<Longrightarrow> row_evolves j (g j)"
  shows "one_queued d'"
  unfolding one_queued_def
proof (intro allI ballI impI)
  fix k i' j' assume "i' \<in> set (jobs d')" "j' \<in> set (jobs d')" and q: "queued_at k i'" "queued_at k j'"
  then obtain i j where ij: "i \<in> set (jobs d)" "i' = g i" "j \<in> set (jobs d)" "j' = g j"
    using assms(2) by auto
  with q have "queued_at k i" "queued_at k j"
    using assms(3) by (auto simp: queued_at_def row_evolves_def)
  with ij have "Job_ID i = Job_ID j" using assms(1) unfolding one_queued_def by blast
  then show "Job_ID i' = Job_ID j'" using ij assms(3) by (simp add: row_evolves_def)
qed

lemma results_ok_evolve:
  assumes inv: "results_ok d" and js: "jobs d' = map g (jobs d)"
    and g: "\<And>j. j \<in> set (jobs d) \<Longrightarrow> row_evolves j (g j)"
    and ss: "snapshots d' = map h (snapshots d) @ new" and h: "\<And>s. s \<in> set (snapshots d) \<Longrightarrow> snap_evolves s (h s)"
    and succ: "\<And>j. j \<in> set (jobs d) \<Longrightarrow> Job_Status (g j) = JobStatusSucceeded
        \<Longrightarrow> Job_Status j = JobStatusSucceeded \<or> (\<exists>s \<in> set new. snapshot_of (g j) s)"
    and new: "\<And>s. s \<in> set new \<Longrightarrow> Snap_JobID s \<noteq> None
        \<Longrightarrow> \<exists>j \<in> set (jobs d). IsTerminal (Job_Status (g j)) \<and> snapshot_of (g j) s"
  shows "results_ok d'"
  unfolding results_ok_def
proof (intro conjI ballI impI)
  fix j' assume "j' \<in> set (jobs d')" and st: "Job_Status j' = JobStatusSucceeded"
  then obtain j where j: "j \<in> set (jobs d)" "j' = g j" using js by auto
  show "\<exists>s \<in> set (snapshots d'). snapshot_of j' s"
  proof (cases "Job_Status j = JobStatusSucceeded")
    case True
    then obtain s where "s \<in> set (snapshots d)" "snapshot_of j s"
      using inv j by (auto simp: results_ok_def)
    moreover have "row_evolves j (g j)" using g j by simp
    ultimately have "snapshot_of j' (h s)" "h s \<in> set (snapshots d')"
      using j h True ss snapshot_of_evolves [of j "g j" s "h s"] by auto
    then show ?thesis by blast
  qed (use succ [OF j(1)] st j ss in auto)
next
  fix s' assume s': "s' \<in> set (snapshots d')" "Snap_JobID s' \<noteq> None"
  show "\<exists>j \<in> set (jobs d'). IsTerminal (Job_Status j) \<and> snapshot_of j s'"
  proof (cases "s' \<in> set new")
    case False
    then obtain s where s: "s \<in> set (snapshots d)" "s' = h s" using s' ss by auto
    then obtain j where j: "j \<in> set (jobs d)" "IsTerminal (Job_Status j)" "snapshot_of j s"
      using inv s' h by (fastforce simp: results_ok_def snap_evolves_def)
    then have "IsTerminal (Job_Status (g j))" "snapshot_of (g j) s'"
      using g [OF j(1)] h [OF s(1)] s snapshot_of_evolves [of j "g j" s "h s"]
      by (auto simp: row_evolves_def)
    then show ?thesis using j js by auto
  qed (use new s' js in auto)
qed

lemma job_inv_evolve:
  assumes "job_inv d" and "repositories d' = repositories d"
    and "jobs d' = map g (jobs d)" and "\<And>j. j \<in> set (jobs d) \<Longrightarrow> row_evolves j (g j) \<and> job_times_ok (g j)"
    and "snapshots d' = map h (snapshots d) @ new" and "\<And>s. s \<in> set (snapshots d) \<Longrightarrow> snap_evolves s (h s)"
    and "distinct (map Snap_ID (snapshots d'))" "distinct (map snap_key (snapshots d'))"
    and "\<And>j. j \<in> set (jobs d) \<Longrightarrow> Job_Status (g j) = JobStatusSucceeded
        \<Longrightarrow> Job_Status j = JobStatusSucceeded \<or> (\<exists>s \<in> set new. snapshot_of (g j) s)"
    and "\<And>s. s \<in> set new \<Longrightarrow> Snap_JobID s \<noteq> None
        \<Longrightarrow> \<exists>j \<in> set (jobs d). IsTerminal (Job_Status (g j)) \<and> snapshot_of (g j) s"
  shows "job_inv d'"
proof -
  have "keys_ok d'" using assms keys_ok_evolve [of d d' g] by (simp add: job_inv_def)
  moreover have "one_queued d'" using assms one_queued_evolve [of d d' g] by (simp add: job_inv_def)
  moreover have "results_ok d'"
    using assms results_ok_evolve [of d d' g h new] by (simp add: job_inv_def)
  ultimately show ?thesis using assms(3,4) by (auto simp: job_inv_def)
qed

text \<open>A statement on the jobs table only, that does not make a job succeed.\<close>

lemma job_inv_update_jobs:
  assumes inv: "job_inv d"
    and f: "\<And>j. j \<in> set (jobs d) \<Longrightarrow> P j \<Longrightarrow> row_evolves j (f j) \<and> job_times_ok (f j)
      \<and> Job_Status (f j) \<noteq> JobStatusSucceeded"
  shows "job_inv (update_jobs env P f d)"
proof -
  let ?g = "\<lambda>j. if P j then (f j)\<lparr>Job_UpdatedAt := e_now env\<rparr> else j"
  have g: "row_evolves j (?g j) \<and> job_times_ok (?g j)" if "j \<in> set (jobs d)" for j
    using f [OF that] inv that by (auto simp: row_evolves_def job_times_ok_def job_inv_def)
  show ?thesis
    by (rule job_inv_evolve [OF inv _ jobs_update_jobs g, where h = "\<lambda>s. s" and new = "[]"])
      (use f inv in \<open>auto simp: frame_simps job_inv_def keys_ok_def split: if_splits\<close>)
qed

section \<open>Each operation keeps the invariant\<close>

definition unqueued :: "uuid \<times> string \<Rightarrow> db \<Rightarrow> bool" where
  "unqueued k d \<longleftrightarrow> (\<forall>j \<in> set (jobs d). \<not> queued_at k j)"

definition jobs_evolve :: "db \<Rightarrow> db \<Rightarrow> bool" where
  "jobs_evolve d d' \<longleftrightarrow> (\<forall>j \<in> set (jobs d). \<exists>j' \<in> set (jobs d'). row_evolves j j')"

definition step_ok :: "(uuid \<times> string) set \<Rightarrow> db \<Rightarrow> db \<Rightarrow> bool" where
  "step_ok L d d' \<longleftrightarrow> job_inv d' \<and> jobs_evolve d d' \<and> repositories d' = repositories d
     \<and> (\<forall>k \<in> L. unqueued k d \<longrightarrow> unqueued k d')"

lemma row_evolves_trans: "row_evolves a b \<Longrightarrow> row_evolves b c \<Longrightarrow> row_evolves a c"
  by (auto simp: row_evolves_def)

lemma step_ok_refl: "job_inv d \<Longrightarrow> step_ok L d d"
  by (auto simp: step_ok_def jobs_evolve_def intro: bexI [of _ d] row_evolves_refl)

lemma step_ok_trans:
  assumes "step_ok L a b" and "step_ok L b c"
  shows "step_ok L a c"
proof -
  have "jobs_evolve a c"
    using assms row_evolves_trans unfolding step_ok_def jobs_evolve_def by meson
  then show ?thesis using assms by (auto simp: step_ok_def)
qed

lemma step_ok_map:
  assumes "job_inv d'" and "repositories d' = repositories d" and "jobs d' = map g (jobs d)"
    and "\<And>j. j \<in> set (jobs d) \<Longrightarrow> row_evolves j (g j)"
  shows "step_ok L d d'"
  using assms unfolding step_ok_def jobs_evolve_def unqueued_def
  by (auto simp: queued_at_def row_evolves_def)

lemma step_ok_update_jobs:
  assumes inv: "job_inv d"
    and f: "\<And>j. j \<in> set (jobs d) \<Longrightarrow> P j \<Longrightarrow> row_evolves j (f j) \<and> job_times_ok (f j)
      \<and> Job_Status (f j) \<noteq> JobStatusSucceeded"
  shows "step_ok L d (update_jobs env P f d)"
proof (rule step_ok_map [OF _ _ jobs_update_jobs])
  show "job_inv (update_jobs env P f d)" using inv f by (rule job_inv_update_jobs)
qed (use f in \<open>auto simp: frame_simps row_evolves_def\<close>)

lemma set_job_status_ok:
  assumes "st \<noteq> JobStatusQueued" and "IsTerminal (Job_Status j) \<longrightarrow> IsTerminal st"
  shows "row_evolves j (set_job_status env st msg j)" "job_times_ok (set_job_status env st msg j)"
  using assms by (auto simp: row_evolves_def job_times_ok_def set_job_status_def)

text \<open>Setting the status of one job, found unfinished, to running or failed.\<close>

lemma step_ok_set_status:
  assumes inv: "job_inv d" and st: "st = JobStatusFailed \<or> (st = JobStatusRunning \<and> \<not> IsTerminal (Job_Status job))"
    and job: "job \<in> set (jobs d)"
  shows "step_ok L d (update_jobs env (\<lambda>j. Job_ID j = Job_ID job) (set_job_status env st msg) d)"
proof (rule step_ok_update_jobs [OF inv])
  fix j assume "j \<in> set (jobs d)" "Job_ID j = Job_ID job"
  then have "j = job" using inv job distinct_key_eq by (fastforce simp: job_inv_def keys_ok_def)
  then show "row_evolves j (set_job_status env st msg j) \<and> job_times_ok (set_job_status env st msg j)
      \<and> Job_Status (set_job_status env st msg j) \<noteq> JobStatusSucceeded"
    using st set_job_status_ok [of st j] by auto
qed

lemma job_unique: "job_inv d \<Longrightarrow> i \<in> set (jobs d) \<Longrightarrow> j \<in> set (jobs d) \<Longrightarrow> Job_ID i = Job_ID j \<Longrightarrow> i = j"
  using distinct_key_eq by (fastforce simp: job_inv_def keys_ok_def)

lemma Start_ok:
  assumes "job_inv d" and "Start x env cloner cid body d = (r, d')"
  shows "step_ok L d d'"
  using assms(2)
proof (cases rule: Start_cases)
  case (started job)
  then show ?thesis using step_ok_set_status [OF assms(1)] by simp
qed (simp add: step_ok_refl assms(1))

lemma Timeout_ok:
  assumes "job_inv d" and "Timeout env d = (r, d')"
  shows "step_ok L d d'"
proof (cases "e_fault env ''TimeoutRunningJobs'' 0")
  case False
  then have d': "d' = update_jobs env (timed_out env defaultTimeoutMinutes)
        (\<lambda>j. j\<lparr>Job_Status := JobStatusFailed, Job_ErrorMessage := Some ''Job timed out'',
               Job_FinishedAt := Some (e_now env)\<rparr>) d"
    using assms(2) by (auto simp: Timeout_def TimeoutRunningJobs_def)
  show ?thesis unfolding d'
    by (rule step_ok_update_jobs [OF assms(1)]) (auto simp: row_evolves_def job_times_ok_def timed_out_def)
qed (use assms in \<open>auto simp: Timeout_def step_ok_refl\<close>)

lemma claim_update_ok:
  assumes "job_inv d" and "j \<in> set (jobs d)" and "Job_Status j = JobStatusQueued"
  shows "step_ok L d (claim_update env j d)"
  unfolding claim_update_def
proof (rule step_ok_update_jobs [OF assms(1)])
  fix i assume "i \<in> set (jobs d)" "Job_ID i = Job_ID j"
  then have "i = j" using job_unique assms by blast
  then show "row_evolves i (i\<lparr>Job_Status := JobStatusRunning, Job_StartedAt := Some (e_now env)\<rparr>)
      \<and> job_times_ok (i\<lparr>Job_Status := JobStatusRunning, Job_StartedAt := Some (e_now env)\<rparr>)
      \<and> Job_Status (i\<lparr>Job_Status := JobStatusRunning, Job_StartedAt := Some (e_now env)\<rparr>) \<noteq> JobStatusSucceeded"
    using assms(3) by (simp add: row_evolves_def job_times_ok_def)
qed

lemma UpdateJobCommitSHA_ok:
  assumes "job_inv d"
  shows "step_ok L d (UpdateJobCommitSHA env i sha d)"
  unfolding UpdateJobCommitSHA_def
  by (rule step_ok_update_jobs [OF assms]) (auto simp: row_evolves_def job_times_ok_def)

lemma InsertCLISnapshot_cases:
  assumes "InsertCLISnapshot env n repo branch sha path ver zz bytes meta d = Inr (s, d')"
  obtains (replaced) f where "d' = d\<lparr>snapshots := map f (snapshots d)\<rparr>" "\<And>s. snap_evolves s (f s)"
    | (inserted) "d' = d\<lparr>snapshots := snapshots d @ [s]\<rparr>" "Snap_JobID s = None"
        "Snap_ID s \<notin> Snap_ID ` set (snapshots d)" "snap_key s \<notin> snap_key ` set (snapshots d)"
proof -
  obtain rid where rid: "repo = Some rid"
    using assms by (cases repo) (auto simp: InsertCLISnapshot_def)
  show thesis
  proof (cases "find (\<lambda>s. snap_key s = (rid, branch, sha)) (snapshots d)")
    case None
    then have "(rid, branch, sha) \<notin> snap_key ` set (snapshots d)" by (auto simp: find_None_iff)
    then show thesis using assms None rid inserted
      by (auto simp: InsertCLISnapshot_def Let_def snap_key_def split: if_splits)
  next
    case (Some s0)
    let ?f = "\<lambda>x. if snap_key x = (rid, branch, sha) then x\<lparr>Snap_GcsPath := path,
      Snap_SnapshotVersion := ver, Snap_ZigzagVersion := zz, Snap_SizeBytes := bytes,
      Snap_Metadata := meta\<rparr> else x"
    have "d' = d\<lparr>snapshots := map ?f (snapshots d)\<rparr>"
      using assms Some rid by (auto simp: InsertCLISnapshot_def update_where_def)
    then show thesis by (rule replaced) (auto simp: snap_evolves_def snap_key_def)
  qed
qed

lemma InsertCLISnapshot_ok:
  assumes inv: "job_inv d"
    and "InsertCLISnapshot env n repo branch sha path ver zz bytes meta d = Inr (s, d')"
  shows "step_ok L d d'"
  using assms(2)
proof (cases rule: InsertCLISnapshot_cases)
  case (replaced f)
  then have keys: "Snap_ID \<circ> f = Snap_ID" "snap_key \<circ> f = snap_key"
    by (auto simp: snap_evolves_def fun_eq_iff)
  have "job_inv d'"
    by (rule job_inv_evolve [OF inv, where g = "\<lambda>j. j" and h = f and new = "[]"])
      (use inv replaced keys in \<open>auto simp: job_inv_def keys_ok_def\<close>)
  then show ?thesis by (rule step_ok_map [where g = "\<lambda>j. j"]) (auto simp: replaced)
next
  case inserted
  have "job_inv d'"
    by (rule job_inv_evolve [OF inv, where g = "\<lambda>j. j" and h = "\<lambda>s. s" and new = "[s]"])
      (use inv inserted in \<open>auto simp: job_inv_def keys_ok_def\<close>)
  then show ?thesis by (rule step_ok_map [where g = "\<lambda>j. j"]) (auto simp: inserted)
qed

lemma Complete_ok:
  assumes inv: "job_inv d" and "validator_sound x" and "Complete x env cid body d = (r, d')"
  shows "step_ok L d d'"
  using assms(2,3)
proof (cases rule: Complete_cases)
  case (failed job msg)
  then show ?thesis using step_ok_set_status [OF inv] by simp
next
  case (succeeded job msg path zz bytes s d1)
  let ?g = "\<lambda>j. if Job_ID j = Job_ID job
    then (set_job_status env JobStatusSucceeded msg j)\<lparr>Job_UpdatedAt := e_now env\<rparr> else j"
  note ins = InsertSnapshot_Inr [OF succeeded(7)]
  have js: "jobs d' = map ?g (jobs d)" using ins(7) by (simp add: succeeded(5) jobs_update_jobs)
  have g: "row_evolves j (?g j) \<and> job_times_ok (?g j)" if "j \<in> set (jobs d)" for j
    using inv that set_job_status_ok [of JobStatusSucceeded j env msg]
    by (auto simp: row_evolves_def job_times_ok_def job_inv_def)
  have sn: "snapshots d1 = snapshots d" by (simp add: succeeded(5) frame_simps)
  have new: "snapshot_of (?g job) s" using ins(1-4) by (auto simp: snapshot_of_def snap_key_def)
  have repos: "repositories d' = repositories d" using ins(7) by (simp add: succeeded(5) frame_simps)
  have "job_inv d'"
  proof (rule job_inv_evolve [OF inv repos js g, where h = "\<lambda>s. s" and new = "[s]"])
    show "Job_Status j = JobStatusSucceeded \<or> (\<exists>s \<in> set [s]. snapshot_of (?g j) s)"
      if "j \<in> set (jobs d)" "Job_Status (?g j) = JobStatusSucceeded" for j
      using that new job_unique [OF inv that(1) succeeded(1)] by (cases "Job_ID j = Job_ID job") auto
    show "\<exists>j \<in> set (jobs d). IsTerminal (Job_Status (?g j)) \<and> snapshot_of (?g j) s'"
      if "s' \<in> set [s]" "Snap_JobID s' \<noteq> None" for s'
      using that new succeeded(1) by (intro bexI [of _ job]) auto
  qed (use inv ins(7-9) sn in \<open>auto simp: job_inv_def keys_ok_def\<close>)
  then show ?thesis by (rule step_ok_map [OF _ repos js]) (use g in blast)
qed (simp add: step_ok_refl inv)

lemma CreateJob_ok:
  assumes inv: "job_inv d"
    and cr: "CreateJob env n (Some rid) branch sha delivery d = Inr (job, d')"
    and free: "unqueued (rid, branch) d" and L: "(rid, branch) \<notin> L"
  shows "step_ok L d d'"
proof -
  note c = CreateJob_Inr [OF cr]
  have "keys_ok d'" unfolding keys_ok_def
  proof (intro conjI ballI impI)
    fix i j assume ij: "i \<in> set (jobs d')" "j \<in> set (jobs d')"
      and eq: "sql_eq (Job_DeliveryID i) (Job_DeliveryID j)"
    have "sql_eq (Job_DeliveryID j) (Job_DeliveryID i)" by (rule sql_eq_sym [OF eq])
    then have "i = job \<longleftrightarrow> j = job" using eq ij c(9) by (auto simp: c(6))
    moreover have "Job_ID i = Job_ID j" if "i \<in> set (jobs d)" "j \<in> set (jobs d)"
      using inv eq that by (simp add: job_inv_def keys_ok_def)
    ultimately show "Job_ID i = Job_ID j" using ij by (auto simp: c(6))
  qed (use inv c(1,6-8) in \<open>auto simp: job_inv_def keys_ok_def\<close>)
  moreover have "one_queued d'" unfolding one_queued_def
  proof (intro allI ballI impI)
    fix k i j assume ij: "i \<in> set (jobs d')" "j \<in> set (jobs d')" and q: "queued_at k i" "queued_at k j"
    have job: "queued_at k job \<Longrightarrow> k = (rid, branch)"
      using c(1-5) by (auto simp: queued_at_def)
    have "\<not> queued_at (rid, branch) i" if "i \<in> set (jobs d)" for i
      using free that by (simp add: unqueued_def)
    then have "i = job \<longleftrightarrow> j = job" using ij q job by (auto simp: c(6))
    moreover have "Job_ID i = Job_ID j" if "i \<in> set (jobs d)" "j \<in> set (jobs d)"
      using inv q that unfolding job_inv_def one_queued_def by blast
    ultimately show "Job_ID i = Job_ID j" using ij by (auto simp: c(6))
  qed
  moreover have "results_ok d'" using inv c(5,6) by (auto simp: job_inv_def results_ok_def)
  ultimately have "job_inv d'"
    using inv c(5,6) by (auto simp: job_inv_def job_times_ok_def)
  moreover have "jobs_evolve d d'" using c(6) by (auto simp: jobs_evolve_def intro: row_evolves_refl)
  moreover have "unqueued k d'" if "k \<in> L" "unqueued k d" for k
    using that L c(1-6) by (auto simp: unqueued_def queued_at_def)
  ultimately show ?thesis using c(6) by (simp add: step_ok_def)
qed

text \<open>The interference of a run of steps that keep the invariant.\<close>

lemma run_ok:
  assumes "(\<lambda>a b. job_step x L a b \<and> (job_inv a \<longrightarrow> step_ok L a b))\<^sup>*\<^sup>* d d'" and "job_inv d"
  shows "step_ok L d d'"
  using assms(1)
proof (induction rule: rtranclp_induct)
  case (step b c)
  then have "step_ok L b c" by (simp add: step_ok_def)
  with step show ?case using step_ok_trans by blast
qed (rule step_ok_refl [OF assms(2)])

lemma job_step_ok:
  assumes "job_step x L d d'" and "validator_sound x" and "job_inv d"
  shows "step_ok L d d'"
  using assms(1,3)
proof (induction rule: job_step.induct)
  case (poll env locked others d r d' L)
  from poll(1) show ?case
  proof (cases rule: claimOne_cases)
    case (claimed j j')
    have "step_ok L d (claim_update env j d)" by (rule claim_update_ok [OF poll(3) claimed(1,2)])
    moreover from this have "step_ok L (claim_update env j d) d'"
      unfolding claimed(5) using poll(2) [OF claimed(4)] by (intro run_ok) (auto simp: step_ok_def)
    ultimately show ?thesis by (rule step_ok_trans)
  next
    case (failed j j')
    let ?d = "others (claim_update env j d)"
    have 1: "step_ok L d (claim_update env j d)" by (rule claim_update_ok [OF poll(3) failed(1,2)])
    then have 2: "step_ok L (claim_update env j d) ?d"
      using poll(2) [OF failed(4)] by (intro run_ok) (auto simp: step_ok_def)
    have "step_ok L ?d d'"
    proof (cases "\<exists>job \<in> set (jobs ?d). Job_ID job = Job_ID j")
      case True
      then obtain job where "job \<in> set (jobs ?d)" "Job_ID j = Job_ID job" by auto
      then show ?thesis using step_ok_set_status [of ?d JobStatusFailed job] 2 failed(6)
        by (simp add: step_ok_def)
    next
      case False
      then have "d' = ?d" unfolding failed(6) by (intro update_jobs_nomatch) auto
      moreover have "job_inv ?d" using 2 by (simp add: step_ok_def)
      ultimately show ?thesis by (simp add: step_ok_refl)
    qed
    with 1 2 show ?thesis by (blast intro: step_ok_trans)
  qed (simp add: step_ok_refl poll(3))
next
  case (push event w k L others env s deliveryID r w')
  have ok: "step_ok (insert k L) (w_db w) (others (w_db w))" by (rule run_ok [OF push(4) push(5)])
  then have ok': "step_ok L (w_db w) (others (w_db w))" and inv: "job_inv (others (w_db w))"
    by (auto simp: step_ok_def)
  from push(3) show ?case
  proof (cases rule: HandlePush_cases)
    case (updated repo j)
    then show ?thesis using step_ok_trans [OF ok' UpdateJobCommitSHA_ok [OF inv]] by simp
  next
    case (created repo job d')
    then have k: "k = (Repo_ID repo, Ev_Branch event)" using push(1) by (simp add: push_key_def)
    have "unqueued k (w_db w)" using created(2) by (auto simp: unqueued_def queued_at_def k)
    then have "unqueued k (others (w_db w))" using ok by (simp add: step_ok_def)
    then have "step_ok L (others (w_db w)) d'" using CreateJob_ok [OF inv created(3)] push(2) k by simp
    then show ?thesis using step_ok_trans [OF ok'] created(5) by simp
  qed (use ok' push(5) in \<open>simp_all add: step_ok_refl\<close>)
qed (blast intro: Start_ok Complete_ok Timeout_ok InsertCLISnapshot_ok assms(2))+

interpretation job_system: invariant_system "\<lambda>a b. validator_sound x \<and> job_step x {} a b" job_inv
  by unfold_locales (auto dest: job_step_ok simp: step_ok_def)

lemma job_run_ok:
  assumes "validator_sound x" and "(job_step x {})\<^sup>*\<^sup>* d d'" and "job_inv d"
  shows "step_ok {} d d'"
proof -
  have "(\<lambda>a b. job_step x {} a b \<and> (job_inv a \<longrightarrow> step_ok {} a b))\<^sup>*\<^sup>* d d'"
    using assms(2) by (rule rtranclp_mono [THEN predicate2D, rotated]) (auto intro: job_step_ok assms(1))
  then show ?thesis using assms(3) by (rule run_ok)
qed

lemma job_inv_initial: "jobs d = [] \<Longrightarrow> snapshots d = [] \<Longrightarrow> job_inv d"
  by (simp add: job_inv_def keys_ok_def one_queued_def results_ok_def)

lemma job_inv_reachable:
  assumes "validator_sound x" and "jobs d0 = []" and "snapshots d0 = []" and "(job_step x {})\<^sup>*\<^sup>* d0 d"
  shows "job_inv d"
proof (rule job_system.run_inv [where x = x])
  show "(\<lambda>a b. validator_sound x \<and> job_step x {} a b)\<^sup>*\<^sup>* d0 d" using assms(1,4) by simp
qed (simp add: job_inv_initial assms)

section \<open>A run\<close>

definition sample_service :: JobService where
  "sample_service = \<lparr>JS_enqueuer = NoopEnqueuer, JS_signer = sample_signer\<rparr>"

definition sample_event :: "string \<Rightarrow> WebhookEvent" where
  "sample_event sha = \<lparr>Ev_EventType = ''push'', Ev_Action = '''', Ev_RepoID = 42, Ev_RepoName = ''acme/app'',
     Ev_CloneURL = '''', Ev_Branch = ''main'', Ev_CommitSHA = sha, Ev_InstallationID = 9\<rparr>"

lemma sample_push:
  "HandlePush (sample_ext js) (sample_env 0) sample_service id (sample_event ''c1'') ''dl''
     \<lparr>w_db = sample_db, w_tasks = []\<rparr> = (None, \<lparr>w_db = sample_queued, w_tasks = []\<rparr>)"
  by (simp add: HandlePush_def sample_event_def sample_service_def sample_queued_def sample_defs
      guarded_def GetRepoByGithubID_def query_one_def GetActiveJobsForBranch_def CreateJob_def Let_def)

lemma sample_run: "(job_step (sample_ext [sample_complete]) {})\<^sup>*\<^sup>* sample_db sample_done"
proof (rule converse_rtranclp_into_rtranclp)
  have "push_key (sample_event ''c1'') sample_db = Some (7, ''main'')"
    by (simp add: push_key_def GetRepoByGithubID_def query_one_def sample_event_def sample_defs)
  then show "job_step (sample_ext [sample_complete]) {} sample_db sample_queued"
    using job_step.push [where w = "\<lparr>w_db = sample_db, w_tasks = []\<rparr>" and others = id and L = "{}"
        and event = "sample_event ''c1''", OF _ _ _ sample_push]
    by simp
  show "(job_step (sample_ext [sample_complete]) {})\<^sup>*\<^sup>* sample_queued sample_done"
    using job_step.complete [OF sample_completion] by blast
qed

section \<open>Properties\<close>

text \<open>
  C1. However pushes, callbacks, the watchdog, pollers and uploads interleave, a branch of a
  repository never has two queued jobs: the advisory lock and the check of the active jobs make the
  deduplication exact.
\<close>

theorem one_queued_job_per_branch:
  assumes "validator_sound x" and "jobs d0 = []" and "snapshots d0 = []" and "(job_step x {})\<^sup>*\<^sup>* d0 d"
    and "i \<in> set (jobs d)" and "j \<in> set (jobs d)"
    and "Job_Status i = JobStatusQueued" and "Job_Status j = JobStatusQueued"
    and "Job_RepoID i = Job_RepoID j" and "Job_Branch i = Job_Branch j"
  shows "i = j"
proof -
  have inv: "job_inv d" by (rule job_inv_reachable [OF assms(1-4)])
  have "queued_at (Job_RepoID j, Job_Branch j) i" "queued_at (Job_RepoID j, Job_Branch j) j"
    using assms by (simp_all add: queued_at_def)
  then have "Job_ID i = Job_ID j"
    using inv assms(5,6) unfolding job_inv_def one_queued_def by blast
  then show ?thesis using job_unique [OF inv] assms(5,6) by blast
qed

theorem one_queued_job_per_branch_witness:
  "\<exists>x d0 d. validator_sound x \<and> (job_step x {})\<^sup>*\<^sup>* d0 d \<and> jobs d \<noteq> []
     \<and> (\<forall>i \<in> set (jobs d). \<forall>j \<in> set (jobs d). i = j)"
proof -
  let ?x = "sample_ext [sample_complete]"
  have "push_key (sample_event ''c1'') sample_db = Some (7, ''main'')"
    by (simp add: push_key_def GetRepoByGithubID_def query_one_def sample_event_def sample_defs)
  then have run: "(job_step ?x {})\<^sup>*\<^sup>* sample_db sample_queued"
    using job_step.push [where w = "\<lparr>w_db = sample_db, w_tasks = []\<rparr>" and others = id and L = "{}"
        and event = "sample_event ''c1''", OF _ _ _ sample_push] by auto
  have "i = j" if "i \<in> set (jobs sample_queued)" "j \<in> set (jobs sample_queued)" for i j
    by (rule one_queued_job_per_branch [OF sample_validator_sound _ _ run])
      (use that in \<open>simp_all add: sample_queued_def sample_defs\<close>)
  moreover have "jobs sample_queued \<noteq> []" by (simp add: sample_queued_def)
  ultimately show ?thesis using run sample_validator_sound by blast
qed

text \<open>
  C3. A job that has finished stays finished, for the same repository, branch and commit, in
  every continuation of the run.
\<close>

theorem finished_jobs_stay_finished:
  assumes "validator_sound x" and "job_inv d" and "(job_step x {})\<^sup>*\<^sup>* d d'"
    and "j \<in> set (jobs d)" and "IsTerminal (Job_Status j)"
  shows "\<exists>j' \<in> set (jobs d'). Job_ID j' = Job_ID j \<and> IsTerminal (Job_Status j')
    \<and> Job_RepoID j' = Job_RepoID j \<and> Job_Branch j' = Job_Branch j \<and> Job_CommitSha j' = Job_CommitSha j
    \<and> Job_FinishedAt j' \<noteq> None"
proof -
  have ok: "step_ok {} d d'" by (rule job_run_ok [OF assms(1,3,2)])
  then obtain j' where "j' \<in> set (jobs d')" "row_evolves j j'"
    using assms(4) by (auto simp: step_ok_def jobs_evolve_def)
  moreover have "job_times_ok j'" using calculation ok by (simp add: step_ok_def job_inv_def)
  ultimately show ?thesis using assms(5) by (auto simp: row_evolves_def job_times_ok_def)
qed

theorem finished_jobs_stay_finished_witness:
  "job_inv sample_done \<and> (\<exists>j' \<in> set (jobs sample_done). Job_ID j' = 1 \<and> IsTerminal (Job_Status j'))"
proof -
  have inv: "job_inv sample_done"
    by (rule job_inv_reachable [OF sample_validator_sound _ _ sample_run]) (simp_all add: sample_defs)
  show ?thesis
    using inv finished_jobs_stay_finished [OF sample_validator_sound inv rtranclp.rtrancl_refl,
        of "(sample_job JobStatusSucceeded)\<lparr>Job_StartedAt := None\<rparr>"]
    by (auto simp: sample_done_def sample_job_def)
qed

text \<open>
  C2. In every reachable state a job that succeeded has a snapshot of its repository, branch and
  commit, and a snapshot that names a job belongs to a finished job with the same repository,
  branch and commit: the status change and the insertion are one transaction.
\<close>

theorem success_and_snapshot_agree:
  assumes "validator_sound x" and "jobs d0 = []" and "snapshots d0 = []" and "(job_step x {})\<^sup>*\<^sup>* d0 d"
  shows "(\<forall>j \<in> set (jobs d). Job_Status j = JobStatusSucceeded \<longrightarrow>
      (\<exists>s \<in> set (snapshots d). Snap_JobID s = Some (Job_ID j) \<and> Snap_RepoID s = Job_RepoID j
         \<and> Snap_Branch s = Job_Branch j \<and> Snap_CommitSha s = Job_CommitSha j))
    \<and> (\<forall>s \<in> set (snapshots d). Snap_JobID s \<noteq> None \<longrightarrow>
      (\<exists>j \<in> set (jobs d). Snap_JobID s = Some (Job_ID j) \<and> IsTerminal (Job_Status j)
         \<and> Snap_RepoID s = Job_RepoID j \<and> Snap_Branch s = Job_Branch j \<and> Snap_CommitSha s = Job_CommitSha j))"
proof -
  have "results_ok d" using job_inv_reachable [OF assms] by (simp add: job_inv_def)
  then show ?thesis unfolding results_ok_def snapshot_of_def snap_key_def prod.inject by blast
qed

theorem success_and_snapshot_agree_witness:
  "(job_step (sample_ext [sample_complete]) {})\<^sup>*\<^sup>* sample_db sample_done
    \<and> (\<exists>s \<in> set (snapshots sample_done). Snap_JobID s = Some 1 \<and> Snap_CommitSha s = ''c1'')"
proof -
  let ?j = "(sample_job JobStatusSucceeded)\<lparr>Job_StartedAt := None\<rparr>"
  have j: "?j \<in> set (jobs sample_done)" "Job_Status ?j = JobStatusSucceeded" "Job_ID ?j = 1"
    "Job_CommitSha ?j = ''c1''" by (simp_all add: sample_done_def sample_job_def)
  have "jobs sample_db = []" "snapshots sample_db = []" by (simp_all add: sample_defs)
  from success_and_snapshot_agree [OF sample_validator_sound this sample_run] j
  show ?thesis using sample_run by fastforce
qed

text \<open>
  The rows of finished jobs are untouched by the callbacks, the watchdog and pushes: no
  request, however wrong or late, changes even a column of them.
\<close>

theorem finished_rows_untouched:
  assumes "validator_sound x" and "job_inv d" and "j \<in> set (jobs d)" and "IsTerminal (Job_Status j)"
  shows "j \<in> set (jobs (snd (Start x env cloner cid body d)))
    \<and> j \<in> set (jobs (snd (Complete x env cid body d)))
    \<and> j \<in> set (jobs (snd (Timeout env d)))
    \<and> j \<in> set (jobs (w_db (snd (HandlePush x env s id event deliveryID \<lparr>w_db = d, w_tasks = ts\<rparr>))))"
proof (intro conjI)
  have other: "Job_ID j \<noteq> Job_ID job" if "job \<in> set (jobs d)" "\<not> IsTerminal (Job_Status job)" for job
    using job_unique [OF assms(2,3) that(1)] assms(4) that(2) by auto
  show "j \<in> set (jobs (snd (Start x env cloner cid body d)))"
  proof (cases rule: Start_cases [OF prod.collapse [symmetric], of x env cloner cid body d])
    case (2 job)
    then show ?thesis using other [of job] update_jobs_member [OF assms(3)] by simp
  qed (use assms(3) in simp)
  show "j \<in> set (jobs (snd (Complete x env cid body d)))"
  proof (cases rule: Complete_cases [OF assms(1) prod.collapse [symmetric], of env cid body d])
    case (2 job msg)
    then show ?thesis using other [of job] update_jobs_member [OF assms(3)] by simp
  next
    case (3 job msg path zz bytes s d1)
    then have "jobs (snd (Complete x env cid body d)) = jobs d1" using InsertSnapshot_Inr(7) by fastforce
    then show ?thesis using 3 other [of job] update_jobs_member [OF assms(3)] by simp
  qed (use assms(3) in simp)
  show "j \<in> set (jobs (snd (Timeout env d)))"
    using assms(3,4) by (auto simp: Timeout_def TimeoutRunningJobs_def timed_out_def intro!: update_jobs_member)
  show "j \<in> set (jobs (w_db (snd (HandlePush x env s id event deliveryID \<lparr>w_db = d, w_tasks = ts\<rparr>))))"
    (is "j \<in> set (jobs (w_db (snd ?p)))")
  proof (cases rule: HandlePush_cases [OF prod.collapse [symmetric],
        of x env s id event deliveryID "\<lparr>w_db = d, w_tasks = ts\<rparr>"])
    case (3 repo job)
    then show ?thesis using assms(3,4) by (auto simp: UpdateJobCommitSHA_def intro!: update_jobs_member)
  next
    case (4 repo job d')
    then show ?thesis using assms(3) CreateJob_Inr(6) [OF 4(3)] by simp
  qed (use assms(3) in simp_all)
qed

theorem finished_rows_untouched_witness:
  "(sample_job JobStatusSucceeded)\<lparr>Job_StartedAt := None\<rparr>
    \<in> set (jobs (snd (Complete (sample_ext [sample_complete]) (sample_env 1) ''u''
        (json_text sample_complete) sample_done)))"
proof -
  let ?j = "(sample_job JobStatusSucceeded)\<lparr>Job_StartedAt := None\<rparr>"
  have j: "?j \<in> set (jobs sample_done)" "IsTerminal (Job_Status ?j)"
    by (simp_all add: sample_done_def sample_job_def)
  have inv: "job_inv sample_done"
    by (rule job_inv_reachable [OF sample_validator_sound _ _ sample_run]) (simp_all add: sample_defs)
  show ?thesis using finished_rows_untouched [OF sample_validator_sound inv j] by blast
qed

lemma not_queued_stays:
  assumes "step_ok L d d'" and "i \<in> set (jobs d)" and "Job_Status i \<noteq> JobStatusQueued"
    and "j \<in> set (jobs d')" and "Job_ID j = Job_ID i"
  shows "Job_Status j \<noteq> JobStatusQueued"
proof -
  obtain i' where i': "i' \<in> set (jobs d')" "row_evolves i i'"
    using assms(1,2) by (auto simp: step_ok_def jobs_evolve_def)
  then have "i' = j" using assms job_unique [of d' i' j] by (auto simp: step_ok_def row_evolves_def)
  then show ?thesis using i' assms(3) by (auto simp: row_evolves_def)
qed

text \<open>
  C11. Claiming is first in, first out and exclusive: the job claimed is the oldest queued one that
  is not locked, it becomes running, and in no continuation of the run is it claimed again.
\<close>

theorem claim_fifo_and_once:
  assumes "validator_sound x" and "job_inv d" and "ClaimJob env locked d = Inr (j, d1)"
    and "(job_step x {})\<^sup>*\<^sup>* d1 d2" and "ClaimJob env' locked' d2 = Inr (j', d3)"
  shows "Job_Status j = JobStatusRunning \<and> Job_ID j \<notin> set locked
    \<and> (\<forall>i \<in> set (jobs d). Job_Status i = JobStatusQueued \<longrightarrow> Job_ID i \<notin> set locked
         \<longrightarrow> Job_CreatedAt j \<le> Job_CreatedAt i)
    \<and> Job_ID j' \<noteq> Job_ID j"
proof -
  obtain j0 where j0: "j0 \<in> set (jobs d)" "Job_Status j0 = JobStatusQueued" "Job_ID j0 \<notin> set locked"
    "j = j0\<lparr>Job_Status := JobStatusRunning, Job_StartedAt := Some (e_now env), Job_UpdatedAt := e_now env\<rparr>"
    "d1 = claim_update env j0 d" "\<And>i. i \<in> set (jobs d) \<Longrightarrow> Job_Status i = JobStatusQueued
       \<Longrightarrow> Job_ID i \<notin> set locked \<Longrightarrow> Job_CreatedAt j0 \<le> Job_CreatedAt i"
    using assms(3) by (rule ClaimJob_Inr) (auto simp: claim_update_def)
  have ok1: "step_ok {} d d1" unfolding j0(5) by (rule claim_update_ok [OF assms(2) j0(1,2)])
  then have ok: "step_ok {} d1 d2"
    using job_run_ok [OF assms(1,4)] by (simp add: step_ok_def)
  have "j \<in> set (jobs d1)"
    using update_jobs_hit [OF j0(1), where P = "\<lambda>x. Job_ID x = Job_ID j0" and env = env
        and f = "\<lambda>x. x\<lparr>Job_Status := JobStatusRunning, Job_StartedAt := Some (e_now env)\<rparr>"] j0(4,5)
    by (simp add: claim_update_def)
  then have nq: "Job_Status i \<noteq> JobStatusQueued" if "i \<in> set (jobs d2)" "Job_ID i = Job_ID j" for i
    using not_queued_stays [OF ok _ _ that] j0(4) by simp
  from assms(5) obtain j1 where "j1 \<in> set (jobs d2)" "Job_Status j1 = JobStatusQueued" "Job_ID j' = Job_ID j1"
    by (rule ClaimJob_Inr) auto
  then have "Job_ID j' \<noteq> Job_ID j" using nq by auto
  then show ?thesis using j0 by auto
qed

definition sample_two :: db where
  "sample_two = sample_db\<lparr>jobs := [(sample_job JobStatusQueued)\<lparr>Job_CreatedAt := 5\<rparr>,
     (sample_job JobStatusQueued)\<lparr>Job_ID := 2, Job_Branch := ''dev'', Job_DeliveryID := None\<rparr>]\<rparr>"

theorem claim_fifo_and_once_witness:
  "\<exists>j d1 j' d3. ClaimJob (sample_env 9) [] sample_two = Inr (j, d1)
     \<and> ClaimJob (sample_env 9) [] d1 = Inr (j', d3) \<and> Job_ID j = 2 \<and> Job_ID j' = 1 \<and> Job_ID j' \<noteq> Job_ID j"
proof -
  have inv: "job_inv sample_two"
    by (auto simp: sample_two_def job_inv_def keys_ok_def one_queued_def queued_at_def job_times_ok_def
        results_ok_def sample_defs sql_eq_def)
  obtain j d1 where c1: "ClaimJob (sample_env 9) [] sample_two = Inr (j, d1)" and j: "Job_ID j = 2"
    by (simp add: ClaimJob_def sample_two_def sample_defs)
  obtain j' d3 where c2: "ClaimJob (sample_env 9) [] d1 = Inr (j', d3)" and j': "Job_ID j' = 1"
    using c1 by (auto simp: ClaimJob_def sample_two_def sample_defs jobs_update_jobs Let_def)
  have "Job_ID j' \<noteq> Job_ID j"
    using claim_fifo_and_once [OF sample_validator_sound inv c1 rtranclp.rtrancl_refl c2] by blast
  then show ?thesis using c1 c2 j j' by blast
qed

text \<open>
  C10. A push to a registered repository that runs undisturbed queues its commit: afterwards there is a
  queued job of that repository and branch at the pushed commit, unless this delivery has created a
  job before (or the new identifier is taken), in which case nothing changes.
\<close>

theorem push_queues_commit:
  assumes "HandlePush x env s id event deliveryID w = (None, w')"
    and "GetRepoByGithubID (Ev_RepoID event) (w_db w) = Inr repo" and "\<And>c n. \<not> e_fault env c n"
  shows "(\<exists>j \<in> set (jobs (w_db w')). Job_Status j = JobStatusQueued \<and> Job_RepoID j = Repo_ID repo
        \<and> Job_Branch j = Ev_Branch event \<and> Job_CommitSha j = Ev_CommitSHA event)
    \<or> (w' = w \<and> (e_uuid env 0 \<in> Job_ID ` set (jobs (w_db w))
        \<or> Some deliveryID \<in> Job_DeliveryID ` set (jobs (w_db w))))"
proof (cases "\<exists>j \<in> set (jobs (w_db w)). queued_at (Repo_ID repo, Ev_Branch event) j")
  case True
  let ?active = "GetActiveJobsForBranch (Some (Repo_ID repo)) (Ev_Branch event) (w_db w)"
  obtain j0 where "j0 \<in> set (jobs (w_db w))" "queued_at (Repo_ID repo, Ev_Branch event) j0" using True ..
  then have "j0 \<in> set ?active" "Job_Status j0 = JobStatusQueued"
    by (auto simp: active_jobs_iff queued_at_def)
  then obtain j where j: "find (\<lambda>j. Job_Status j = JobStatusQueued) ?active = Some j"
    by (cases "find (\<lambda>j. Job_Status j = JobStatusQueued) ?active") (auto simp: find_None_iff)
  then have "j \<in> set ?active" and q: "Job_Status j = JobStatusQueued" by (auto simp: find_Some_iff)
  then have mem: "j \<in> set (jobs (w_db w))" "Job_RepoID j = Repo_ID repo" "Job_Branch j = Ev_Branch event"
    by (auto simp: active_jobs_iff)
  have "w' = w\<lparr>w_db := UpdateJobCommitSHA env (Some (Job_ID j)) (Ev_CommitSHA event) (w_db w)\<rparr>"
    using assms j by (simp add: HandlePush_def guarded_def Let_def)
  then have "j\<lparr>Job_CommitSha := Ev_CommitSHA event, Job_UpdatedAt := e_now env\<rparr> \<in> set (jobs (w_db w'))"
    using update_jobs_hit [OF mem(1)] q by (simp add: UpdateJobCommitSHA_def)
  then show ?thesis using mem q by fastforce
next
  case False
  then have "find (\<lambda>j. Job_Status j = JobStatusQueued)
      (GetActiveJobsForBranch (Some (Repo_ID repo)) (Ev_Branch event) (w_db w)) = None"
    by (auto simp: find_None_iff active_jobs_iff queued_at_def)
  then have "case CreateJob env 0 (Some (Repo_ID repo)) (Ev_Branch event) (Ev_CommitSHA event) deliveryID (w_db w) of
      Inl e \<Rightarrow> e = UniqueViolation \<and> w' = w | Inr (j, d') \<Rightarrow> w_db w' = d'"
    using assms by (auto simp: HandlePush_def guarded_def Let_def split: sum.splits if_splits)
  then consider "CreateJob env 0 (Some (Repo_ID repo)) (Ev_Branch event) (Ev_CommitSHA event) deliveryID (w_db w)
        = Inl UniqueViolation" "w' = w"
    | j where "CreateJob env 0 (Some (Repo_ID repo)) (Ev_Branch event) (Ev_CommitSHA event) deliveryID (w_db w)
        = Inr (j, w_db w')"
    by (auto split: sum.splits)
  then show ?thesis
  proof cases
    case 1
    then show ?thesis unfolding CreateJob_unique by blast
  next
    case 2
    note c = CreateJob_Inr [OF 2]
    have "j \<in> set (jobs (w_db w'))" unfolding c(6) by simp
    moreover have "Job_RepoID j = Repo_ID repo" using c(1) by simp
    ultimately show ?thesis using c(3-5) by (intro disjI1 bexI [of _ j]) simp_all
  qed
qed

theorem push_queues_commit_witness:
  "\<exists>j \<in> set (jobs sample_queued). Job_Status j = JobStatusQueued \<and> Job_CommitSha j = ''c1''"
proof -
  have "GetRepoByGithubID (Ev_RepoID (sample_event ''c1'')) (w_db \<lparr>w_db = sample_db, w_tasks = []\<rparr>) = Inr sample_repo"
    by (simp add: GetRepoByGithubID_def query_one_def sample_event_def sample_defs)
  moreover have "\<not> e_fault (sample_env 0) c n" for c n by (simp add: sample_env_def)
  ultimately show ?thesis
    using push_queues_commit [OF sample_push] by (auto simp: sample_event_def sample_db_def empty_db_def)
qed

text \<open>
  A task is created only together with a new queued job, and carries a token that the callback
  routes accept for that job for the whole time to live.
\<close>

theorem push_task_authorised:
  assumes "HandlePush x env s others event deliveryID w = (r, w')"
    and "w_tasks w' \<noteq> w_tasks w"
    and "int64_range (unix (e_now env + sig_ttl (JS_signer s)))"
    and "unix (e_now env') \<le> unix (e_now env + sig_ttl (JS_signer s))"
  shows "\<exists>t job. w_tasks w' = w_tasks w @ [t] \<and> job \<in> set (jobs (w_db w'))
    \<and> Job_Status job = JobStatusQueued \<and> Job_CommitSha job = Ev_CommitSHA event
    \<and> Task_JobID t = x_uuid_string x (Job_ID job)
    \<and> Validate (x_mac x) env' (JS_signer s) (Task_JobID t) (Task_JobToken t) = None"
  using assms(1)
proof (cases rule: HandlePush_cases)
  case (created repo job d')
  note c = CreateJob_Inr [OF created(3)]
  let ?id = "x_uuid_string x (Job_ID job)"
  obtain cfg where cfg: "JS_enqueuer s = CloudTasksEnqueuer cfg"
    using assms(2) created(6) by (cases "JS_enqueuer s") auto
  then obtain t where "w_tasks w' = w_tasks w @ [t]" "Task_JobID t = ?id"
    "Task_JobToken t = Sign (x_mac x) env (JS_signer s) ?id"
    using assms(2) created(6) by (auto simp: Let_def split: if_splits)
  moreover have "job \<in> set (jobs (w_db w'))" using created(5) c(6) by simp
  moreover have "Validate (x_mac x) env' (JS_signer s) ?id (Sign (x_mac x) env (JS_signer s) ?id) = None"
    using assms(3,4) by (intro Sign_accepted) (simp_all add: accepted_keys_def)
  ultimately show ?thesis using c(4,5) by auto
qed (use assms(2) in simp_all)

definition sample_cloud_service :: JobService where
  "sample_cloud_service = \<lparr>JS_enqueuer = CloudTasksEnqueuer \<lparr>CT_Project = ''p'', CT_Location = ''l'',
     CT_Queue = ''q'', CT_WorkerURL = ''w'', CT_ServiceAccount = ''a''\<rparr>, JS_signer = sample_signer\<rparr>"

theorem push_task_authorised_witness:
  "\<exists>t. w_tasks (snd (HandlePush (sample_ext []) (sample_env 0) sample_cloud_service id (sample_event ''c1'') ''dl''
      \<lparr>w_db = sample_db, w_tasks = []\<rparr>)) = [t]
    \<and> Validate (x_mac (sample_ext [])) (sample_env usec_per_min) sample_signer (Task_JobID t) (Task_JobToken t) = None"
proof -
  let ?p = "HandlePush (sample_ext []) (sample_env 0) sample_cloud_service id (sample_event ''c1'') ''dl''
    \<lparr>w_db = sample_db, w_tasks = []\<rparr>"
  have "w_tasks (snd ?p) \<noteq> w_tasks \<lparr>w_db = sample_db, w_tasks = []\<rparr>"
    by (simp add: HandlePush_def sample_event_def sample_cloud_service_def sample_defs guarded_def
        GetRepoByGithubID_def query_one_def GetActiveJobsForBranch_def CreateJob_def Let_def)
  from push_task_authorised [OF prod.collapse [symmetric] this, of "sample_env usec_per_min"]
  show ?thesis
    by (auto simp: sample_cloud_service_def sample_env_def sample_signer_def NewSigner_def unix_def int64_range_def)
qed

section \<open>Limits of the design\<close>

text \<open>
  A queued job whose task was lost is not recovered: while it stays queued, no push to its
  branch creates a task for it, and the watchdog, which the code relies on for orphaned jobs, leaves
  it as it is however old it gets.
\<close>

theorem orphaned_job_not_recovered:
  assumes "j \<in> set (jobs (w_db w))" and "Job_Status j = JobStatusQueued"
    and "GetRepoByGithubID (Ev_RepoID event) (w_db w) = Inr repo"
    and "Job_RepoID j = Repo_ID repo" and "Job_Branch j = Ev_Branch event"
  shows "w_tasks (snd (HandlePush x env s id event deliveryID w)) = w_tasks w
    \<and> j \<in> set (jobs (snd (Timeout env' (w_db w))))"
proof
  show "w_tasks (snd (HandlePush x env s id event deliveryID w)) = w_tasks w"
  proof (cases rule: HandlePush_cases [OF prod.collapse [symmetric], of x env s id event deliveryID w])
    case (4 repo' job d')
    then show ?thesis using assms by auto
  qed simp_all
  show "j \<in> set (jobs (snd (Timeout env' (w_db w))))"
    using assms(1,2) by (auto simp: Timeout_def TimeoutRunningJobs_def timed_out_def intro!: update_jobs_member)
qed

theorem orphaned_job_not_recovered_witness:
  "w_tasks (snd (HandlePush (sample_ext []) (sample_env 0) sample_cloud_service id (sample_event ''c2'') ''d2''
     \<lparr>w_db = sample_queued, w_tasks = []\<rparr>)) = []"
proof -
  have "GetRepoByGithubID (Ev_RepoID (sample_event ''c2'')) sample_queued = Inr sample_repo"
    by (simp add: GetRepoByGithubID_def query_one_def sample_event_def sample_queued_def sample_defs)
  then show ?thesis
    using orphaned_job_not_recovered [of "sample_job JobStatusQueued" "\<lparr>w_db = sample_queued, w_tasks = []\<rparr>"
        "sample_event ''c2''" sample_repo "sample_ext []" "sample_env 0" sample_cloud_service "''d2''"]
    by (simp add: sample_queued_def sample_job_def sample_repo_def sample_event_def)
qed

text \<open>
  A branch cannot be snapshotted twice at the same commit: a second job for a repository, branch
  and commit that already has a snapshot never succeeds, whatever the worker reports, because the
  insertion violates the unique key and the transaction is rolled back.
\<close>

theorem duplicate_commit_never_succeeds:
  assumes "validator_sound x" and "job_inv d" and "job \<in> set (jobs d)" and "\<not> IsTerminal (Job_Status job)"
    and "x_uuid_scan x cid = Some (Job_ID job)"
    and "(Job_RepoID job, Job_Branch job, Job_CommitSha job) \<in> snap_key ` set (snapshots d)"
    and "j \<in> set (jobs (snd (Complete x env cid body d)))" and "Job_ID j = Job_ID job"
  shows "Job_Status j \<noteq> JobStatusSucceeded"
proof (cases rule: Complete_cases [OF assms(1) prod.collapse [symmetric], of env cid body d])
  case 1
  then show ?thesis using assms(3,4,7,8) job_unique [OF assms(2)] by fastforce
next
  case (2 job' msg)
  from assms(7) [unfolded 2(5)] show ?thesis
    by (cases rule: update_jobs_cases) (use 2(3) assms(5,8) in auto)
next
  case (3 job' msg path zz bytes s d1)
  then have "job' = job" using assms(3,5) job_unique [OF assms(2) 3(1)] by auto
  then have "snap_key s \<in> snap_key ` set (snapshots d1)"
    using InsertSnapshot_Inr(1-4) [OF 3(7)] assms(6) 3(5) by (simp add: snap_key_def frame_simps)
  then show ?thesis using InsertSnapshot_Inr(9) [OF 3(7)] by blast
qed

lemma sample_done_inv: "job_inv sample_done"
  by (rule job_inv_reachable [OF sample_validator_sound _ _ sample_run]) (simp_all add: sample_defs)

definition sample_again :: db where
  "sample_again = sample_done\<lparr>jobs := jobs sample_done
     @ [(sample_job JobStatusQueued)\<lparr>Job_ID := 2, Job_DeliveryID := None\<rparr>]\<rparr>"

theorem duplicate_commit_never_succeeds_witness:
  "JobStatusSucceeded \<noteq> Job_Status (last (jobs (snd (Complete (sample_ext []) (sample_env 0) ''uu'' ''x'' sample_again))))"
proof -
  let ?j = "(sample_job JobStatusQueued)\<lparr>Job_ID := 2, Job_DeliveryID := None\<rparr>"
  have inv: "job_inv sample_again"
    by (auto simp: sample_again_def sample_done_def sample_snapshot_def job_inv_def keys_ok_def one_queued_def
        queued_at_def job_times_ok_def results_ok_def snapshot_of_def snap_key_def sample_defs sql_eq_def)
  have same: "Complete (sample_ext []) (sample_env 0) ''uu'' ''x'' sample_again
      = (ErrResponse 400 ErrInvalidBody, sample_again)"
    by (simp add: Complete_def)
  show ?thesis
    using duplicate_commit_never_succeeds [OF sample_validator_sound inv, of ?j "[]" "''uu''" ?j "sample_env 0" "''x''"]
    unfolding same
    by (simp add: sample_again_def sample_done_def sample_snapshot_def snap_key_def sample_job_def)
qed

text \<open>
  A push can be lost: when the queued job it is about to update is started between the read of
  the active jobs and the update, the guarded update matches no row, the push is reported as
  successful, and no job carries the pushed commit.
\<close>

theorem push_race_loses_commit:
  "\<exists>x env s others event deliveryID w w' k. validator_sound x \<and> job_inv (w_db w)
     \<and> push_key event (w_db w) = Some k \<and> (job_step x {k})\<^sup>*\<^sup>* (w_db w) (others (w_db w))
     \<and> HandlePush x env s others event deliveryID w = (None, w')
     \<and> Ev_CommitSHA event \<notin> Job_CommitSha ` set (jobs (w_db w'))"
proof -
  let ?x = "sample_ext [JObj [(''job_id'', JStr ''u'')]]"
  let ?others = "\<lambda>d. snd (Start ?x (sample_env 0) (\<lambda>_. Some ''t'') ''u'' (json_text (JObj [(''job_id'', JStr ''u'')])) d)"
  let ?w = "\<lparr>w_db = sample_queued, w_tasks = []\<rparr>"
  have others: "?others sample_queued = sample_db\<lparr>jobs := [sample_job JobStatusRunning]\<rparr>"
    unfolding sample_queued_def sample_Start by simp
  have "push_key (sample_event ''c2'') sample_queued = Some (7, ''main'')"
    by (simp add: push_key_def GetRepoByGithubID_def query_one_def sample_event_def sample_queued_def sample_defs)
  moreover have "(job_step ?x {(7, ''main'')})\<^sup>*\<^sup>* sample_queued (?others sample_queued)"
    by (rule r_into_rtranclp, rule job_step.start, rule prod.collapse [symmetric])
  moreover have "HandlePush ?x (sample_env 0) sample_service ?others (sample_event ''c2'') ''d2'' ?w
      = (None, ?w\<lparr>w_db := sample_db\<lparr>jobs := [sample_job JobStatusRunning]\<rparr>\<rparr>)"
    unfolding HandlePush_def Let_def world.select_convs others
    by (simp add: sample_queued_def sample_event_def sample_defs guarded_def GetRepoByGithubID_def query_one_def
        GetActiveJobsForBranch_def order_desc_def UpdateJobCommitSHA_def update_jobs_def update_where_def)
  moreover have "job_inv sample_queued"
    by (auto simp: sample_queued_def job_inv_def keys_ok_def one_queued_def job_times_ok_def results_ok_def sample_defs)
  moreover have "Ev_CommitSHA (sample_event ''c2'') \<notin> Job_CommitSha ` set (jobs (w_db
      (?w\<lparr>w_db := sample_db\<lparr>jobs := [sample_job JobStatusRunning]\<rparr>\<rparr>)))"
    by (simp add: sample_event_def sample_job_def)
  ultimately show ?thesis using sample_validator_sound [of "[JObj [(''job_id'', JStr ''u'')]]"]
    by (metis world.select_convs(1))
qed

text \<open>
  Deliveries are deduplicated only when they create a job: redelivering an old push while a job
  is queued moves that job back to the old commit.
\<close>

theorem redelivery_regresses_commit:
  "\<exists>x env s e1 e2 w0 w1 w2 w3. Ev_CommitSHA e1 \<noteq> Ev_CommitSHA e2
     \<and> HandlePush x env s id e1 ''d1'' w0 = (None, w1) \<and> HandlePush x env s id e2 ''d2'' w1 = (None, w2)
     \<and> HandlePush x env s id e1 ''d1'' w2 = (None, w3)
     \<and> map Job_CommitSha (jobs (w_db w2)) = [Ev_CommitSHA e2]
     \<and> map Job_CommitSha (jobs (w_db w3)) = [Ev_CommitSHA e1]"
proof -
  let ?e = "\<lambda>sha. sample_event sha"
  let ?d = "\<lambda>sha. sample_db\<lparr>jobs := [(sample_job JobStatusQueued)\<lparr>Job_CommitSha := sha, Job_DeliveryID := Some ''d1''\<rparr>]\<rparr>"
  have upd: "HandlePush (sample_ext []) (sample_env 0) sample_service id (?e sha') dl \<lparr>w_db = ?d sha, w_tasks = []\<rparr>
      = (None, \<lparr>w_db = ?d sha', w_tasks = []\<rparr>)" for sha sha' dl
    by (simp add: HandlePush_def sample_event_def sample_service_def sample_defs guarded_def
        GetRepoByGithubID_def query_one_def GetActiveJobsForBranch_def UpdateJobCommitSHA_def
        order_desc_def update_jobs_def update_where_def Let_def)
  have "HandlePush (sample_ext []) (sample_env 0) sample_service id (?e ''c1'') ''d1'' \<lparr>w_db = sample_db, w_tasks = []\<rparr>
      = (None, \<lparr>w_db = ?d ''c1'', w_tasks = []\<rparr>)"
    by (simp add: HandlePush_def sample_event_def sample_service_def sample_defs guarded_def
        GetRepoByGithubID_def query_one_def GetActiveJobsForBranch_def CreateJob_def Let_def)
  moreover note upd [of "''c2''" "''d2''" "''c1''"] upd [of "''c1''" "''d1''" "''c2''"]
  moreover have "Ev_CommitSHA (?e ''c1'') \<noteq> Ev_CommitSHA (?e ''c2'')"
    "map Job_CommitSha (jobs (w_db \<lparr>w_db = ?d ''c2'', w_tasks = []\<rparr>)) = [Ev_CommitSHA (?e ''c2'')]"
    "map Job_CommitSha (jobs (w_db \<lparr>w_db = ?d ''c1'', w_tasks = []\<rparr>)) = [Ev_CommitSHA (?e ''c1'')]"
    by (simp_all add: sample_event_def)
  ultimately show ?thesis
    by (intro exI [of _ "sample_ext []"] exI [of _ "sample_env 0"] exI [of _ sample_service]
        exI [of _ "?e ''c1''"] exI [of _ "?e ''c2''"] exI [of _ "\<lparr>w_db = sample_db, w_tasks = []\<rparr>"]
        exI [of _ "\<lparr>w_db = ?d ''c1'', w_tasks = []\<rparr>"] exI [of _ "\<lparr>w_db = ?d ''c2'', w_tasks = []\<rparr>"] conjI)
qed

end
