(* ===== verification/StoreOrgs.thy ===== *)
theory StoreOrgs
  imports StoreJobs
begin

text \<open>
  The queries on users, organizations, memberships, sessions and the audit log
  (\<open>shared/go/store/{users,organizations,memberships,sessions,audit_log}.sql.go\<close>), with the
  constraints and the deletion rules of the migrations: a foreign key declared \<open>ON DELETE CASCADE\<close>
  removes the referring rows, one without makes the deletion fail while referring rows remain.
\<close>

section \<open>Users\<close>

definition GetUserByAuthID :: "string \<Rightarrow> db \<Rightarrow> dberr + User" where
  "GetUserByAuthID a d = query_one (\<lambda>u. User_AuthUserID u = a) (users d)"

definition GetUserByEmail :: "string \<Rightarrow> db \<Rightarrow> dberr + User" where
  "GetUserByEmail e d = query_one (\<lambda>u. User_Email u = e) (users d)"

definition GetUserByID :: "pg_uuid \<Rightarrow> db \<Rightarrow> dberr + User" where
  "GetUserByID i d = query_one (\<lambda>u. sql_eq (Some (User_ID u)) i) (users d)"

definition GetUserByUsername :: "string \<Rightarrow> db \<Rightarrow> dberr + User" where
  "GetUserByUsername n d = query_one (\<lambda>u. User_Username u = n) (users d)"

text \<open>The unique columns of another user's row.\<close>

definition user_conflict :: "uuid \<Rightarrow> string \<Rightarrow> string \<Rightarrow> db \<Rightarrow> bool" where
  "user_conflict i name email d \<longleftrightarrow>
     (\<exists>u \<in> set (users d). User_ID u \<noteq> i \<and> (User_Username u = name \<or> User_Email u = email))"

definition UpdateUser ::
  "env \<Rightarrow> string \<Rightarrow> string \<Rightarrow> bool \<Rightarrow> pg_text \<Rightarrow> pg_text \<Rightarrow> pg_uuid \<Rightarrow> db \<Rightarrow> dberr + (User \<times> db)" where
  "UpdateUser env name email verified phone avatar i d =
     (case query_one (\<lambda>u. sql_eq (Some (User_ID u)) i) (users d) of
        Inl e \<Rightarrow> Inl e
      | Inr u \<Rightarrow>
          let upd = (\<lambda>u. u\<lparr>User_Username := (if name = '''' then User_Username u else name),
                User_Email := (if email = '''' then User_Email u else email),
                User_EmailVerified := verified, User_Phone := phone, User_AvatarUrl := avatar,
                User_UpdatedAt := e_now env\<rparr>)
          in if user_conflict (User_ID u) (User_Username (upd u)) (User_Email (upd u)) d
             then Inl UniqueViolation
             else Inr (upd u, d\<lparr>users := update_where (\<lambda>x. sql_eq (Some (User_ID x)) i) upd (users d)\<rparr>))"

definition UpsertUser ::
  "env \<Rightarrow> nat \<Rightarrow> string \<Rightarrow> string \<Rightarrow> string \<Rightarrow> bool \<Rightarrow> pg_text \<Rightarrow> pg_text \<Rightarrow> db \<Rightarrow> dberr + (User \<times> db)" where
  "UpsertUser env n auth name email verified phone avatar d =
     (case find (\<lambda>u. User_AuthUserID u = auth) (users d) of
        Some u \<Rightarrow>
          let upd = (\<lambda>u. u\<lparr>User_Username := name, User_Email := email, User_EmailVerified := verified,
                User_Phone := phone, User_AvatarUrl := avatar, User_UpdatedAt := e_now env\<rparr>)
          in if user_conflict (User_ID u) name email d then Inl UniqueViolation
             else Inr (upd u, d\<lparr>users := update_where (\<lambda>x. User_AuthUserID x = auth) upd (users d)\<rparr>)
      | None \<Rightarrow>
          if e_uuid env n \<in> User_ID ` set (users d) \<or> user_conflict (e_uuid env n) name email d
          then Inl UniqueViolation
          else let u = \<lparr>User_ID = e_uuid env n, User_AuthUserID = auth, User_Username = name,
                 User_Email = email, User_EmailVerified = verified, User_Phone = phone,
                 User_AvatarUrl = avatar, User_CreatedAt = e_now env, User_UpdatedAt = e_now env\<rparr>
               in Inr (u, d\<lparr>users := users d @ [u]\<rparr>))"

text \<open>
  Deleting a user cascades to memberships, sessions, keys, context tokens and repositories of that
  user (and to what cascades from those); it fails while the audit log, the invitations of other
  members, or the jobs and snapshots of the user's repositories refer to it.
\<close>

definition repos_of_user :: "uuid \<Rightarrow> db \<Rightarrow> uuid set" where
  "repos_of_user u d = Repo_ID ` {r \<in> set (repositories d). Repo_UserID r = Some u}"

definition tokens_of_user :: "uuid \<Rightarrow> db \<Rightarrow> uuid set" where
  "tokens_of_user u d = Tok_ID ` {t \<in> set (context_tokens d). Tok_UserID t = Some u
     \<or> Tok_RepoID t \<in> repos_of_user u d}"

definition user_referenced :: "uuid \<Rightarrow> db \<Rightarrow> bool" where
  "user_referenced u d \<longleftrightarrow>
     (\<exists>a \<in> set (audit_log d). Audit_ActorID a = u \<or> Audit_UserID a = Some u)
     \<or> (\<exists>m \<in> set (memberships d). Mem_UserID m \<noteq> u \<and> Mem_InvitedBy m = Some u)
     \<or> (\<exists>j \<in> set (jobs d). Job_RepoID j \<in> repos_of_user u d)
     \<or> (\<exists>s \<in> set (snapshots d). Snap_RepoID s \<in> repos_of_user u d)"

definition DeleteUser :: "pg_uuid \<Rightarrow> db \<Rightarrow> dberr + db" where
  "DeleteUser i d =
     (case find (\<lambda>u. sql_eq (Some (User_ID u)) i) (users d) of
        None \<Rightarrow> Inr d
      | Some usr \<Rightarrow>
          let u = User_ID usr in
          if user_referenced u d then Inl ForeignKeyViolation
          else Inr (d\<lparr>users := delete_where (\<lambda>x. User_ID x = u) (users d),
            memberships := delete_where (\<lambda>m. Mem_UserID m = u) (memberships d),
            repositories := delete_where (\<lambda>r. Repo_UserID r = Some u) (repositories d),
            context_tokens := delete_where (\<lambda>t. Tok_ID t \<in> tokens_of_user u d) (context_tokens d),
            allowed_users := delete_where (\<lambda>a. Allow_UserID a = u \<or> Allow_TokenID a \<in> tokens_of_user u d)
              (allowed_users d),
            ai_provider_keys := delete_where (\<lambda>k. AiKey_UserID k = Some u) (ai_provider_keys d),
            cli_api_keys := delete_where (\<lambda>k. CliKey_UserID k = Some u) (cli_api_keys d),
            sessions := delete_where (\<lambda>s. Sess_UserID s = u) (sessions d)\<rparr>))"

section \<open>Organizations\<close>

definition GetOrgByAuthID :: "string \<Rightarrow> db \<Rightarrow> dberr + Organization" where
  "GetOrgByAuthID a d = query_one (\<lambda>g. Org_AuthOrgID g = a) (organizations d)"

definition GetOrganizationByID :: "pg_uuid \<Rightarrow> db \<Rightarrow> dberr + Organization" where
  "GetOrganizationByID i d = query_one (\<lambda>g. sql_eq (Some (Org_ID g)) i) (organizations d)"

definition GetOrganizationBySlug :: "string \<Rightarrow> db \<Rightarrow> dberr + Organization" where
  "GetOrganizationBySlug s d = query_one (\<lambda>g. Org_Slug g = s) (organizations d)"

definition UpdateOrganization :: "pg_uuid \<Rightarrow> string \<Rightarrow> string \<Rightarrow> db \<Rightarrow> dberr + (Organization \<times> db)" where
  "UpdateOrganization i name slug d =
     (case query_one (\<lambda>g. sql_eq (Some (Org_ID g)) i) (organizations d) of
        Inl e \<Rightarrow> Inl e
      | Inr g \<Rightarrow>
          if \<exists>h \<in> set (organizations d). Org_ID h \<noteq> Org_ID g \<and> Org_Slug h = slug then Inl UniqueViolation
          else let upd = (\<lambda>g. g\<lparr>Org_Name := name, Org_Slug := slug\<rparr>)
               in Inr (upd g, d\<lparr>organizations :=
                    update_where (\<lambda>x. sql_eq (Some (Org_ID x)) i) upd (organizations d)\<rparr>))"

definition UpsertOrg ::
  "env \<Rightarrow> nat \<Rightarrow> string \<Rightarrow> string \<Rightarrow> string \<Rightarrow> db \<Rightarrow> dberr + (Organization \<times> db)" where
  "UpsertOrg env n auth slug name d =
     (case find (\<lambda>g. Org_AuthOrgID g = auth) (organizations d) of
        Some g \<Rightarrow> Inr (g\<lparr>Org_Name := name\<rparr>, d\<lparr>organizations :=
          update_where (\<lambda>x. Org_AuthOrgID x = auth) (\<lambda>x. x\<lparr>Org_Name := name\<rparr>) (organizations d)\<rparr>)
      | None \<Rightarrow>
          if e_uuid env n \<in> Org_ID ` set (organizations d) \<or> slug \<in> Org_Slug ` set (organizations d)
          then Inl UniqueViolation
          else let g = \<lparr>Org_ID = e_uuid env n, Org_Slug = slug, Org_Name = name,
                 Org_CreatedAt = e_now env, Org_AuthOrgID = auth\<rparr>
               in Inr (g, d\<lparr>organizations := organizations d @ [g]\<rparr>))"

text \<open>
  Deleting an organization cascades to memberships, keys and audit entries, and fails while it has
  repositories or context tokens.
\<close>

definition DeleteOrganization :: "pg_uuid \<Rightarrow> db \<Rightarrow> dberr + db" where
  "DeleteOrganization i d =
     (case find (\<lambda>g. sql_eq (Some (Org_ID g)) i) (organizations d) of
        None \<Rightarrow> Inr d
      | Some org \<Rightarrow>
          let g = Org_ID org in
          if (\<exists>r \<in> set (repositories d). Repo_OrgID r = Some g)
            \<or> (\<exists>t \<in> set (context_tokens d). Tok_OrgID t = Some g) then Inl ForeignKeyViolation
          else Inr (d\<lparr>organizations := delete_where (\<lambda>x. Org_ID x = g) (organizations d),
            memberships := delete_where (\<lambda>m. Mem_OrgID m = g) (memberships d),
            ai_provider_keys := delete_where (\<lambda>k. AiKey_OrgID k = Some g) (ai_provider_keys d),
            cli_api_keys := delete_where (\<lambda>k. CliKey_OrgID k = Some g) (cli_api_keys d),
            audit_log := delete_where (\<lambda>a. Audit_OrgID a = Some g) (audit_log d)\<rparr>))"

section \<open>Memberships\<close>

definition mem_hit :: "pg_uuid \<Rightarrow> pg_uuid \<Rightarrow> Membership \<Rightarrow> bool" where
  "mem_hit usr org m \<longleftrightarrow> sql_eq (Some (Mem_UserID m)) usr \<and> sql_eq (Some (Mem_OrgID m)) org"

definition CountMembershipsByOrg :: "pg_uuid \<Rightarrow> db \<Rightarrow> int" where
  "CountMembershipsByOrg org d =
     int (length (filter (\<lambda>m. sql_eq (Some (Mem_OrgID m)) org) (memberships d)))"

definition CountOwnersByOrg :: "pg_uuid \<Rightarrow> db \<Rightarrow> int" where
  "CountOwnersByOrg org d =
     int (length (filter (\<lambda>m. sql_eq (Some (Mem_OrgID m)) org \<and> Mem_Role m = ''owner'') (memberships d)))"

definition valid_role :: "string \<Rightarrow> bool" where
  "valid_role r \<longleftrightarrow> r \<in> {''owner'', ''admin'', ''member''}"

definition CreateMembership ::
  "env \<Rightarrow> nat \<Rightarrow> pg_uuid \<Rightarrow> pg_uuid \<Rightarrow> string \<Rightarrow> pg_uuid \<Rightarrow> db \<Rightarrow> dberr + (Membership \<times> db)" where
  "CreateMembership env n usr org role inviter d =
     (case (usr, org) of
        (Some u, Some g) \<Rightarrow>
          if \<not> valid_role role then Inl CheckViolation
          else if e_uuid env n \<in> Mem_ID ` set (memberships d)
            \<or> (\<exists>m \<in> set (memberships d). Mem_UserID m = u \<and> Mem_OrgID m = g) then Inl UniqueViolation
          else if u \<notin> User_ID ` set (users d) \<or> g \<notin> Org_ID ` set (organizations d)
            \<or> (inviter \<noteq> None \<and> the inviter \<notin> User_ID ` set (users d)) then Inl ForeignKeyViolation
          else let m = \<lparr>Mem_ID = e_uuid env n, Mem_UserID = u, Mem_OrgID = g, Mem_Role = role,
                 Mem_InvitedBy = inviter, Mem_JoinedAt = e_now env\<rparr>
               in Inr (m, d\<lparr>memberships := memberships d @ [m]\<rparr>)
      | _ \<Rightarrow> Inl NotNullViolation)"

definition DeleteMembership :: "pg_uuid \<Rightarrow> pg_uuid \<Rightarrow> db \<Rightarrow> db" where
  "DeleteMembership usr org d = d\<lparr>memberships := delete_where (mem_hit usr org) (memberships d)\<rparr>"

definition GetMembership :: "pg_uuid \<Rightarrow> pg_uuid \<Rightarrow> db \<Rightarrow> dberr + Membership" where
  "GetMembership usr org d = query_one (mem_hit usr org) (memberships d)"

record ListMembershipsByOrgRow =
  LMO_Membership :: Membership
  LMO_Username :: string
  LMO_Email :: string
  LMO_AvatarUrl :: pg_text

definition ListMembershipsByOrg :: "pg_uuid \<Rightarrow> db \<Rightarrow> ListMembershipsByOrgRow list" where
  "ListMembershipsByOrg org d = concat (map (\<lambda>m. map (\<lambda>u. \<lparr>LMO_Membership = m,
       LMO_Username = User_Username u, LMO_Email = User_Email u, LMO_AvatarUrl = User_AvatarUrl u\<rparr>)
       (filter (\<lambda>u. User_ID u = Mem_UserID m) (users d)))
     (sort_key Mem_JoinedAt (filter (\<lambda>m. sql_eq (Some (Mem_OrgID m)) org) (memberships d))))"

record ListMembershipsByUserRow =
  LMU_Membership :: Membership
  LMU_OrgSlug :: string
  LMU_OrgName :: string

definition ListMembershipsByUser :: "pg_uuid \<Rightarrow> db \<Rightarrow> ListMembershipsByUserRow list" where
  "ListMembershipsByUser usr d = concat (map (\<lambda>m. map (\<lambda>g. \<lparr>LMU_Membership = m,
       LMU_OrgSlug = Org_Slug g, LMU_OrgName = Org_Name g\<rparr>)
       (filter (\<lambda>g. Org_ID g = Mem_OrgID m) (organizations d)))
     (sort_key Mem_JoinedAt (filter (\<lambda>m. sql_eq (Some (Mem_UserID m)) usr) (memberships d))))"

definition UpdateMembershipRole ::
  "pg_uuid \<Rightarrow> pg_uuid \<Rightarrow> string \<Rightarrow> db \<Rightarrow> dberr + (Membership \<times> db)" where
  "UpdateMembershipRole usr org role d =
     (case query_one (mem_hit usr org) (memberships d) of
        Inl e \<Rightarrow> Inl e
      | Inr m \<Rightarrow> if \<not> valid_role role then Inl CheckViolation
          else Inr (m\<lparr>Mem_Role := role\<rparr>,
            d\<lparr>memberships := update_where (mem_hit usr org) (\<lambda>x. x\<lparr>Mem_Role := role\<rparr>) (memberships d)\<rparr>))"

section \<open>Audit log\<close>

definition InsertAuditLog ::
  "env \<Rightarrow> nat \<Rightarrow> pg_uuid \<Rightarrow> pg_uuid \<Rightarrow> pg_uuid \<Rightarrow> string \<Rightarrow> pg_uuid \<Rightarrow> pg_text \<Rightarrow> db
    \<Rightarrow> dberr + (AuditLog \<times> db)" where
  "InsertAuditLog env n usr org actor action target meta d =
     (case actor of
        None \<Rightarrow> Inl NotNullViolation
      | Some a \<Rightarrow>
          if \<not> one_owner usr org then Inl CheckViolation
          else if e_uuid env n \<in> Audit_ID ` set (audit_log d) then Inl UniqueViolation
          else if (usr \<noteq> None \<and> the usr \<notin> User_ID ` set (users d))
            \<or> (org \<noteq> None \<and> the org \<notin> Org_ID ` set (organizations d))
            \<or> a \<notin> User_ID ` set (users d) then Inl ForeignKeyViolation
          else let l = \<lparr>Audit_ID = e_uuid env n, Audit_UserID = usr, Audit_OrgID = org, Audit_ActorID = a,
                 Audit_Action = action, Audit_TargetID = target, Audit_Metadata = meta,
                 Audit_CreatedAt = e_now env\<rparr>
               in Inr (l, d\<lparr>audit_log := audit_log d @ [l]\<rparr>))"

text \<open>A page of the log, each entry with its actor's name (the join with \<open>users\<close>).\<close>

definition audit_page :: "(AuditLog \<Rightarrow> bool) \<Rightarrow> int \<Rightarrow> db \<Rightarrow> (AuditLog \<times> string) list" where
  "audit_page P lim d = take (nat lim) (concat (map (\<lambda>a. map (\<lambda>u. (a, User_Username u))
       (filter (\<lambda>u. User_ID u = Audit_ActorID a) (users d)))
     (order_desc Audit_CreatedAt (filter P (audit_log d)))))"

definition ListAuditLogByOrg :: "pg_uuid \<Rightarrow> timestamp \<Rightarrow> int \<Rightarrow> db \<Rightarrow> (AuditLog \<times> string) list" where
  "ListAuditLogByOrg org before lim d =
     audit_page (\<lambda>a. sql_eq (Audit_OrgID a) org \<and> Audit_CreatedAt a < before) lim d"

definition ListAuditLogByUser :: "pg_uuid \<Rightarrow> timestamp \<Rightarrow> int \<Rightarrow> db \<Rightarrow> (AuditLog \<times> string) list" where
  "ListAuditLogByUser usr before lim d =
     audit_page (\<lambda>a. sql_eq (Audit_UserID a) usr \<and> Audit_CreatedAt a < before) lim d"

section \<open>Sessions\<close>

definition DeleteAllSessionsByUser :: "pg_uuid \<Rightarrow> db \<Rightarrow> db" where
  "DeleteAllSessionsByUser usr d =
     d\<lparr>sessions := delete_where (\<lambda>s. sql_eq (Some (Sess_UserID s)) usr) (sessions d)\<rparr>"

definition DeleteSession :: "pg_uuid \<Rightarrow> pg_uuid \<Rightarrow> db \<Rightarrow> db" where
  "DeleteSession i usr d = d\<lparr>sessions :=
     delete_where (\<lambda>s. sql_eq (Some (Sess_ID s)) i \<and> sql_eq (Some (Sess_UserID s)) usr) (sessions d)\<rparr>"

definition DeleteSessionByAuthID :: "string \<Rightarrow> db \<Rightarrow> db" where
  "DeleteSessionByAuthID a d = d\<lparr>sessions := delete_where (\<lambda>s. Sess_AuthSessionID s = a) (sessions d)\<rparr>"

definition ListSessionsByUser :: "pg_uuid \<Rightarrow> db \<Rightarrow> Session list" where
  "ListSessionsByUser usr d =
     order_desc Sess_LastActiveAt (filter (\<lambda>s. sql_eq (Some (Sess_UserID s)) usr) (sessions d))"

definition UpsertSession ::
  "env \<Rightarrow> nat \<Rightarrow> pg_uuid \<Rightarrow> string \<Rightarrow> pg_text \<Rightarrow> pg_text \<Rightarrow> db \<Rightarrow> dberr + (Session \<times> db)" where
  "UpsertSession env n usr auth dev ip d =
     (case usr of
        None \<Rightarrow> Inl NotNullViolation
      | Some u \<Rightarrow>
        (case find (\<lambda>s. Sess_AuthSessionID s = auth) (sessions d) of
           Some s \<Rightarrow>
             let upd = (\<lambda>x. x\<lparr>Sess_LastActiveAt := e_now env, Sess_DeviceName := dev, Sess_IpAddress := ip\<rparr>)
             in Inr (upd s, d\<lparr>sessions := update_where (\<lambda>x. Sess_AuthSessionID x = auth) upd (sessions d)\<rparr>)
         | None \<Rightarrow>
             if e_uuid env n \<in> Sess_ID ` set (sessions d) then Inl UniqueViolation
             else if u \<notin> User_ID ` set (users d) then Inl ForeignKeyViolation
             else let s = \<lparr>Sess_ID = e_uuid env n, Sess_UserID = u, Sess_AuthSessionID = auth,
                    Sess_DeviceName = dev, Sess_IpAddress = ip, Sess_LastActiveAt = e_now env,
                    Sess_CreatedAt = e_now env\<rparr>
                  in Inr (s, d\<lparr>sessions := sessions d @ [s]\<rparr>)))"

section \<open>Interfaces\<close>

interpretation user_table: keyed_table User_ID users GetUserByID
  by unfold_locales (simp add: GetUserByID_def)

interpretation org_table: keyed_table Org_ID organizations GetOrganizationByID
  by unfold_locales (simp add: GetOrganizationByID_def)

interpretation session_table: tenant_table "\<lambda>s. Some (Sess_UserID s)" sessions
  "\<lambda>i s. sql_eq (Some (Sess_ID s)) i" id ListSessionsByUser DeleteSession
  by unfold_locales (auto simp: ListSessionsByUser_def DeleteSession_def)

end
