(* ===== verification/StoreTokens.thy ===== *)
theory StoreTokens
  imports StoreOrgs "HOL-Library.Char_ord" "HOL-Library.List_Lexorder"
begin

text \<open>
  The queries on context tokens and their allow lists, CLI keys and AI provider keys
  (\<open>shared/go/store/{context_tokens,context_token_allowed_users,cli_api_keys,ai_provider_keys}.sql.go\<close>).
  The list queries return rows without the hash or the ciphertext, as the source's row types do.
\<close>

section \<open>Foreign keys of an owner\<close>

definition owner_exists :: "pg_uuid \<Rightarrow> pg_uuid \<Rightarrow> db \<Rightarrow> bool" where
  "owner_exists usr org d \<longleftrightarrow>
     (usr \<noteq> None \<longrightarrow> the usr \<in> User_ID ` set (users d))
     \<and> (org \<noteq> None \<longrightarrow> the org \<in> Org_ID ` set (organizations d))"

section \<open>Context tokens\<close>

text \<open>Deleting a token cascades to its allow list.\<close>

definition drop_tokens :: "(ContextToken \<Rightarrow> bool) \<Rightarrow> db \<Rightarrow> db" where
  "drop_tokens P d = d\<lparr>context_tokens := delete_where P (context_tokens d),
     allowed_users := delete_where (\<lambda>a. \<exists>t \<in> set (context_tokens d). P t \<and> Tok_ID t = Allow_TokenID a)
       (allowed_users d)\<rparr>"

definition DeleteContextTokenForOrg :: "pg_uuid \<Rightarrow> pg_uuid \<Rightarrow> db \<Rightarrow> db" where
  "DeleteContextTokenForOrg i org d =
     drop_tokens (\<lambda>t. sql_eq (Some (Tok_ID t)) i \<and> sql_eq (Tok_OrgID t) org) d"

definition DeleteContextTokenForUser :: "pg_uuid \<Rightarrow> pg_uuid \<Rightarrow> db \<Rightarrow> db" where
  "DeleteContextTokenForUser i usr d =
     drop_tokens (\<lambda>t. sql_eq (Some (Tok_ID t)) i \<and> sql_eq (Tok_UserID t) usr) d"

definition DeleteExpiredContextTokens :: "env \<Rightarrow> db \<Rightarrow> db" where
  "DeleteExpiredContextTokens env d =
     drop_tokens (\<lambda>t. case Tok_ExpiresAt t of None \<Rightarrow> False | Some e \<Rightarrow> e < e_now env) d"

definition GetContextTokenByHash :: "string \<Rightarrow> db \<Rightarrow> dberr + ContextToken" where
  "GetContextTokenByHash h d = query_one (\<lambda>t. Tok_TokenHash t = h) (context_tokens d)"

definition InsertContextToken ::
  "env \<Rightarrow> nat \<Rightarrow> pg_uuid \<Rightarrow> pg_uuid \<Rightarrow> pg_uuid \<Rightarrow> pg_uuid \<Rightarrow> string \<Rightarrow> pg_text \<Rightarrow> pg_time \<Rightarrow> ContextVisibility
    \<Rightarrow> db \<Rightarrow> dberr + (ContextToken \<times> db)" where
  "InsertContextToken env n repo usr org target h label expires vis d =
     (case repo of
        None \<Rightarrow> Inl NotNullViolation
      | Some r \<Rightarrow>
          if \<not> one_owner usr org then Inl CheckViolation
          else if e_uuid env n \<in> Tok_ID ` set (context_tokens d)
            \<or> h \<in> Tok_TokenHash ` set (context_tokens d) then Inl UniqueViolation
          else if r \<notin> Repo_ID ` set (repositories d) \<or> \<not> owner_exists usr org d
            \<or> (target \<noteq> None \<and> the target \<notin> Snap_ID ` set (snapshots d)) then Inl ForeignKeyViolation
          else let t = \<lparr>Tok_ID = e_uuid env n, Tok_RepoID = r, Tok_OrgID = org, Tok_TargetSnapshotID = target,
                 Tok_TokenHash = h, Tok_Label = label, Tok_LastUsedAt = None, Tok_ExpiresAt = expires,
                 Tok_CreatedAt = e_now env, Tok_UserID = usr, Tok_Visibility = vis\<rparr>
               in Inr (t, d\<lparr>context_tokens := context_tokens d @ [t]\<rparr>))"

record ListContextTokensByRepoRow =
  LCT_ID :: uuid
  LCT_RepoID :: uuid
  LCT_UserID :: pg_uuid
  LCT_OrgID :: pg_uuid
  LCT_TargetSnapshotID :: pg_uuid
  LCT_Label :: pg_text
  LCT_LastUsedAt :: pg_time
  LCT_ExpiresAt :: pg_time
  LCT_Visibility :: ContextVisibility
  LCT_CreatedAt :: timestamp
  LCT_AllowedUserCount :: int

definition ListContextTokensByRepo :: "pg_uuid \<Rightarrow> db \<Rightarrow> ListContextTokensByRepoRow list" where
  "ListContextTokensByRepo repo d = map (\<lambda>t. \<lparr>LCT_ID = Tok_ID t, LCT_RepoID = Tok_RepoID t,
       LCT_UserID = Tok_UserID t, LCT_OrgID = Tok_OrgID t, LCT_TargetSnapshotID = Tok_TargetSnapshotID t,
       LCT_Label = Tok_Label t, LCT_LastUsedAt = Tok_LastUsedAt t, LCT_ExpiresAt = Tok_ExpiresAt t,
       LCT_Visibility = Tok_Visibility t, LCT_CreatedAt = Tok_CreatedAt t,
       LCT_AllowedUserCount = int (length (filter (\<lambda>a. Allow_TokenID a = Tok_ID t) (allowed_users d)))\<rparr>)
     (order_desc Tok_CreatedAt (filter (\<lambda>t. sql_eq (Some (Tok_RepoID t)) repo) (context_tokens d)))"

definition UpdateContextTokenLastUsed :: "env \<Rightarrow> pg_uuid \<Rightarrow> db \<Rightarrow> db" where
  "UpdateContextTokenLastUsed env i d = d\<lparr>context_tokens :=
     update_where (\<lambda>t. sql_eq (Some (Tok_ID t)) i) (\<lambda>t. t\<lparr>Tok_LastUsedAt := Some (e_now env)\<rparr>)
       (context_tokens d)\<rparr>"

section \<open>Allow lists\<close>

definition allow_hit :: "pg_uuid \<Rightarrow> pg_uuid \<Rightarrow> ContextTokenAllowedUser \<Rightarrow> bool" where
  "allow_hit tok usr a \<longleftrightarrow> sql_eq (Some (Allow_TokenID a)) tok \<and> sql_eq (Some (Allow_UserID a)) usr"

definition DeleteContextTokenAllowedUser :: "pg_uuid \<Rightarrow> pg_uuid \<Rightarrow> db \<Rightarrow> db" where
  "DeleteContextTokenAllowedUser tok usr d =
     d\<lparr>allowed_users := delete_where (allow_hit tok usr) (allowed_users d)\<rparr>"

definition InsertContextTokenAllowedUser :: "env \<Rightarrow> nat \<Rightarrow> pg_uuid \<Rightarrow> pg_uuid \<Rightarrow> db \<Rightarrow> dberr + db" where
  "InsertContextTokenAllowedUser env n tok usr d =
     (case (tok, usr) of
        (Some t, Some u) \<Rightarrow>
          if \<exists>a \<in> set (allowed_users d). allow_hit tok usr a then Inr d
          else if e_uuid env n \<in> Allow_ID ` set (allowed_users d) then Inl UniqueViolation
          else if t \<notin> Tok_ID ` set (context_tokens d) \<or> u \<notin> User_ID ` set (users d)
          then Inl ForeignKeyViolation
          else Inr (d\<lparr>allowed_users := allowed_users d @ [\<lparr>Allow_ID = e_uuid env n, Allow_TokenID = t,
                 Allow_UserID = u, Allow_CreatedAt = e_now env\<rparr>]\<rparr>)
      | _ \<Rightarrow> Inl NotNullViolation)"

definition IsUserAllowedForToken :: "pg_uuid \<Rightarrow> pg_uuid \<Rightarrow> db \<Rightarrow> bool" where
  "IsUserAllowedForToken tok usr d \<longleftrightarrow> (\<exists>a \<in> set (allowed_users d). allow_hit tok usr a)"

record ListContextTokenAllowedUsersRow =
  LAU_ID :: uuid
  LAU_UserID :: uuid
  LAU_Username :: string
  LAU_Email :: string
  LAU_CreatedAt :: timestamp

definition ListContextTokenAllowedUsers :: "pg_uuid \<Rightarrow> db \<Rightarrow> ListContextTokenAllowedUsersRow list" where
  "ListContextTokenAllowedUsers tok d = concat (map (\<lambda>a. map (\<lambda>u. \<lparr>LAU_ID = Allow_ID a,
       LAU_UserID = Allow_UserID a, LAU_Username = User_Username u, LAU_Email = User_Email u,
       LAU_CreatedAt = Allow_CreatedAt a\<rparr>) (filter (\<lambda>u. User_ID u = Allow_UserID a) (users d)))
     (order_desc Allow_CreatedAt (filter (\<lambda>a. sql_eq (Some (Allow_TokenID a)) tok) (allowed_users d))))"

definition ReplaceContextTokenAllowedUsers :: "pg_uuid \<Rightarrow> db \<Rightarrow> db" where
  "ReplaceContextTokenAllowedUsers tok d =
     d\<lparr>allowed_users := delete_where (\<lambda>a. sql_eq (Some (Allow_TokenID a)) tok) (allowed_users d)\<rparr>"

section \<open>CLI keys\<close>

definition DeleteCLIAPIKeyForOrg :: "pg_uuid \<Rightarrow> pg_uuid \<Rightarrow> db \<Rightarrow> db" where
  "DeleteCLIAPIKeyForOrg i org d = d\<lparr>cli_api_keys :=
     delete_where (\<lambda>k. sql_eq (Some (CliKey_ID k)) i \<and> sql_eq (CliKey_OrgID k) org) (cli_api_keys d)\<rparr>"

definition DeleteCLIAPIKeyForUser :: "pg_uuid \<Rightarrow> pg_uuid \<Rightarrow> db \<Rightarrow> db" where
  "DeleteCLIAPIKeyForUser i usr d = d\<lparr>cli_api_keys :=
     delete_where (\<lambda>k. sql_eq (Some (CliKey_ID k)) i \<and> sql_eq (CliKey_UserID k) usr) (cli_api_keys d)\<rparr>"

definition GetCLIAPIKeyByHash :: "string \<Rightarrow> db \<Rightarrow> dberr + CliApiKey" where
  "GetCLIAPIKeyByHash h d = query_one (\<lambda>k. CliKey_KeyHash k = h) (cli_api_keys d)"

definition InsertCLIAPIKey ::
  "env \<Rightarrow> nat \<Rightarrow> pg_uuid \<Rightarrow> pg_uuid \<Rightarrow> string \<Rightarrow> string \<Rightarrow> string \<Rightarrow> db \<Rightarrow> dberr + (CliApiKey \<times> db)" where
  "InsertCLIAPIKey env n org usr h hint label d =
     (if \<not> one_owner usr org then Inl CheckViolation
      else if e_uuid env n \<in> CliKey_ID ` set (cli_api_keys d)
        \<or> h \<in> CliKey_KeyHash ` set (cli_api_keys d) then Inl UniqueViolation
      else if \<not> owner_exists usr org d then Inl ForeignKeyViolation
      else let k = \<lparr>CliKey_ID = e_uuid env n, CliKey_UserID = usr, CliKey_OrgID = org, CliKey_KeyHash = h,
             CliKey_KeyHint = hint, CliKey_Label = label, CliKey_CreatedAt = e_now env\<rparr>
           in Inr (k, d\<lparr>cli_api_keys := cli_api_keys d @ [k]\<rparr>))"

record ListCLIAPIKeysRow =
  LCK_ID :: uuid
  LCK_OrgID :: pg_uuid
  LCK_UserID :: pg_uuid
  LCK_KeyHint :: string
  LCK_Label :: string
  LCK_CreatedAt :: timestamp

definition cli_key_row :: "CliApiKey \<Rightarrow> ListCLIAPIKeysRow" where
  "cli_key_row k = \<lparr>LCK_ID = CliKey_ID k, LCK_OrgID = CliKey_OrgID k, LCK_UserID = CliKey_UserID k,
     LCK_KeyHint = CliKey_KeyHint k, LCK_Label = CliKey_Label k, LCK_CreatedAt = CliKey_CreatedAt k\<rparr>"

definition ListCLIAPIKeysByOrg :: "pg_uuid \<Rightarrow> db \<Rightarrow> ListCLIAPIKeysRow list" where
  "ListCLIAPIKeysByOrg org d = map cli_key_row
     (order_desc CliKey_CreatedAt (filter (\<lambda>k. sql_eq (CliKey_OrgID k) org) (cli_api_keys d)))"

definition ListCLIAPIKeysByUser :: "pg_uuid \<Rightarrow> db \<Rightarrow> ListCLIAPIKeysRow list" where
  "ListCLIAPIKeysByUser usr d = map cli_key_row
     (order_desc CliKey_CreatedAt (filter (\<lambda>k. sql_eq (CliKey_UserID k) usr) (cli_api_keys d)))"

section \<open>AI provider keys\<close>

definition valid_provider :: "string \<Rightarrow> bool" where
  "valid_provider p \<longleftrightarrow> p \<in> {''openai'', ''anthropic'', ''google'', ''xai''}"

definition DeleteAIProviderKeyForOrg :: "pg_uuid \<Rightarrow> string \<Rightarrow> db \<Rightarrow> db" where
  "DeleteAIProviderKeyForOrg org p d = d\<lparr>ai_provider_keys :=
     delete_where (\<lambda>k. sql_eq (AiKey_OrgID k) org \<and> AiKey_Provider k = p) (ai_provider_keys d)\<rparr>"

definition DeleteAIProviderKeyForUser :: "pg_uuid \<Rightarrow> string \<Rightarrow> db \<Rightarrow> db" where
  "DeleteAIProviderKeyForUser usr p d = d\<lparr>ai_provider_keys :=
     delete_where (\<lambda>k. sql_eq (AiKey_UserID k) usr \<and> AiKey_Provider k = p) (ai_provider_keys d)\<rparr>"

definition GetAIProviderKeyForOrg :: "pg_uuid \<Rightarrow> string \<Rightarrow> db \<Rightarrow> dberr + AiProviderKey" where
  "GetAIProviderKeyForOrg org p d =
     query_one (\<lambda>k. sql_eq (AiKey_OrgID k) org \<and> AiKey_Provider k = p) (ai_provider_keys d)"

definition GetAIProviderKeyForUser :: "pg_uuid \<Rightarrow> string \<Rightarrow> db \<Rightarrow> dberr + AiProviderKey" where
  "GetAIProviderKeyForUser usr p d =
     query_one (\<lambda>k. sql_eq (AiKey_UserID k) usr \<and> AiKey_Provider k = p) (ai_provider_keys d)"

record ListAIProviderKeysRow =
  LAK_ID :: uuid
  LAK_UserID :: pg_uuid
  LAK_OrgID :: pg_uuid
  LAK_Provider :: string
  LAK_KeyHint :: string
  LAK_CreatedAt :: timestamp

definition ai_key_row :: "AiProviderKey \<Rightarrow> ListAIProviderKeysRow" where
  "ai_key_row k = \<lparr>LAK_ID = AiKey_ID k, LAK_UserID = AiKey_UserID k, LAK_OrgID = AiKey_OrgID k,
     LAK_Provider = AiKey_Provider k, LAK_KeyHint = AiKey_KeyHint k, LAK_CreatedAt = AiKey_CreatedAt k\<rparr>"

definition ListAIProviderKeysByOrg :: "pg_uuid \<Rightarrow> db \<Rightarrow> ListAIProviderKeysRow list" where
  "ListAIProviderKeysByOrg org d = map ai_key_row
     (sort_key AiKey_Provider (filter (\<lambda>k. sql_eq (AiKey_OrgID k) org) (ai_provider_keys d)))"

definition ListAIProviderKeysByUser :: "pg_uuid \<Rightarrow> db \<Rightarrow> ListAIProviderKeysRow list" where
  "ListAIProviderKeysByUser usr d = map ai_key_row
     (sort_key AiKey_Provider (filter (\<lambda>k. sql_eq (AiKey_UserID k) usr) (ai_provider_keys d)))"

text \<open>
  The insertion of both upserts: with the partial unique index on the owner's column and the
  provider, a second key of the same owner and provider replaces ciphertext and hint.
\<close>

definition upsert_ai_key ::
  "env \<Rightarrow> nat \<Rightarrow> (AiProviderKey \<Rightarrow> bool) \<Rightarrow> pg_uuid \<Rightarrow> pg_uuid \<Rightarrow> string \<Rightarrow> string \<Rightarrow> string \<Rightarrow> db
    \<Rightarrow> dberr + (AiProviderKey \<times> db)" where
  "upsert_ai_key env n same usr org p cipher hint d =
     (if \<not> valid_provider p \<or> \<not> one_owner usr org then Inl CheckViolation
      else case find same (ai_provider_keys d) of
        Some k \<Rightarrow>
          let upd = (\<lambda>k. k\<lparr>AiKey_KeyCipher := cipher, AiKey_KeyHint := hint\<rparr>)
          in Inr (upd k, d\<lparr>ai_provider_keys := update_where same upd (ai_provider_keys d)\<rparr>)
      | None \<Rightarrow>
          if e_uuid env n \<in> AiKey_ID ` set (ai_provider_keys d) then Inl UniqueViolation
          else if \<not> owner_exists usr org d then Inl ForeignKeyViolation
          else let k = \<lparr>AiKey_ID = e_uuid env n, AiKey_OrgID = org, AiKey_Provider = p,
                 AiKey_KeyCipher = cipher, AiKey_KeyHint = hint, AiKey_CreatedAt = e_now env,
                 AiKey_UserID = usr\<rparr>
               in Inr (k, d\<lparr>ai_provider_keys := ai_provider_keys d @ [k]\<rparr>))"

definition UpsertAIProviderKeyForOrg ::
  "env \<Rightarrow> nat \<Rightarrow> pg_uuid \<Rightarrow> string \<Rightarrow> string \<Rightarrow> string \<Rightarrow> db \<Rightarrow> dberr + (AiProviderKey \<times> db)" where
  "UpsertAIProviderKeyForOrg env n org p cipher hint d =
     upsert_ai_key env n (\<lambda>k. sql_eq (AiKey_OrgID k) org \<and> AiKey_Provider k = p) None org p cipher hint d"

definition UpsertAIProviderKeyForUser ::
  "env \<Rightarrow> nat \<Rightarrow> pg_uuid \<Rightarrow> string \<Rightarrow> string \<Rightarrow> string \<Rightarrow> db \<Rightarrow> dberr + (AiProviderKey \<times> db)" where
  "UpsertAIProviderKeyForUser env n usr p cipher hint d =
     upsert_ai_key env n (\<lambda>k. sql_eq (AiKey_UserID k) usr \<and> AiKey_Provider k = p) usr None p cipher hint d"


section \<open>Interfaces\<close>

interpretation cli_keys_of_org: tenant_table CliKey_OrgID cli_api_keys
  "\<lambda>i k. sql_eq (Some (CliKey_ID k)) i" cli_key_row ListCLIAPIKeysByOrg DeleteCLIAPIKeyForOrg
  by unfold_locales (auto simp: ListCLIAPIKeysByOrg_def DeleteCLIAPIKeyForOrg_def)

interpretation cli_keys_of_user: tenant_table CliKey_UserID cli_api_keys
  "\<lambda>i k. sql_eq (Some (CliKey_ID k)) i" cli_key_row ListCLIAPIKeysByUser DeleteCLIAPIKeyForUser
  by unfold_locales (auto simp: ListCLIAPIKeysByUser_def DeleteCLIAPIKeyForUser_def)

interpretation ai_keys_of_org: tenant_table AiKey_OrgID ai_provider_keys
  "\<lambda>p k. AiKey_Provider k = p" ai_key_row ListAIProviderKeysByOrg
  "\<lambda>p org. DeleteAIProviderKeyForOrg org p"
  by unfold_locales (auto simp: ListAIProviderKeysByOrg_def DeleteAIProviderKeyForOrg_def conj_commute)

interpretation ai_keys_of_user: tenant_table AiKey_UserID ai_provider_keys
  "\<lambda>p k. AiKey_Provider k = p" ai_key_row ListAIProviderKeysByUser
  "\<lambda>p usr. DeleteAIProviderKeyForUser usr p"
  by unfold_locales (auto simp: ListAIProviderKeysByUser_def DeleteAIProviderKeyForUser_def conj_commute)

section \<open>Laws of the queries\<close>

lemma upsert_ai_key_get:
  assumes "UpsertAIProviderKeyForOrg env n org p c h d = Inr (k, d')"
  shows "GetAIProviderKeyForOrg org p d' = Inr k \<and> AiKey_KeyCipher k = c"
proof -
  let ?P = "\<lambda>k. sql_eq (AiKey_OrgID k) org \<and> AiKey_Provider k = p"
  have own: "one_owner None org"
    using assms by (auto simp: UpsertAIProviderKeyForOrg_def upsert_ai_key_def split: if_splits)
  show ?thesis
  proof (cases "find ?P (ai_provider_keys d)")
    case None
    then have "query_one ?P (ai_provider_keys d) = Inl ErrNoRows" by (simp add: query_one_def)
    then show ?thesis using assms own None
      by (auto simp: UpsertAIProviderKeyForOrg_def upsert_ai_key_def Let_def GetAIProviderKeyForOrg_def
          query_one_append one_owner_def split: if_splits)
  next
    case (Some r)
    let ?u = "\<lambda>k. k\<lparr>AiKey_KeyCipher := c, AiKey_KeyHint := h\<rparr>"
    have "query_one ?P (update_where ?P ?u (ai_provider_keys d)) = Inr (?u r)"
      using Some by (subst query_one_update_same) (auto simp: query_one_def)
    then show ?thesis using assms Some
      by (auto simp: UpsertAIProviderKeyForOrg_def upsert_ai_key_def Let_def GetAIProviderKeyForOrg_def
          split: if_splits)
  qed
qed

lemma upsert_ai_key_foreign:
  assumes "UpsertAIProviderKeyForOrg env n org p c h d = Inr (k, d')" and "g \<noteq> org"
  shows "GetAIProviderKeyForOrg g q d' = GetAIProviderKeyForOrg g q d"
proof -
  let ?P = "\<lambda>k. sql_eq (AiKey_OrgID k) org \<and> AiKey_Provider k = p"
  let ?Q = "\<lambda>k. sql_eq (AiKey_OrgID k) g \<and> AiKey_Provider k = q"
  have "query_one ?Q (update_where ?P f (ai_provider_keys d)) = query_one ?Q (ai_provider_keys d)"
    if "\<And>k. AiKey_OrgID (f k) = AiKey_OrgID k" for f
    by (rule query_one_update_other) (use assms(2) that in \<open>auto simp: sql_eq_def\<close>)
  then show ?thesis using assms
    by (auto simp: UpsertAIProviderKeyForOrg_def upsert_ai_key_def Let_def GetAIProviderKeyForOrg_def
        query_one_append sql_eq_def split: if_splits option.splits sum.splits)
qed

lemma InsertCLIAPIKey_Inr:
  assumes "InsertCLIAPIKey env n org usr h hint label d = Inr (k, d')"
  shows "one_owner usr org" "CliKey_OrgID k = org" "CliKey_UserID k = usr" "CliKey_KeyHash k = h"
    "CliKey_Label k = label" "CliKey_ID k = e_uuid env n"
    "d' = d\<lparr>cli_api_keys := cli_api_keys d @ [k]\<rparr>" "h \<notin> CliKey_KeyHash ` set (cli_api_keys d)"
    "GetCLIAPIKeyByHash h d' = Inr k"
proof -
  show "one_owner usr org" "CliKey_OrgID k = org" "CliKey_UserID k = usr" "CliKey_KeyHash k = h"
    "CliKey_Label k = label" "CliKey_ID k = e_uuid env n"
    and d': "d' = d\<lparr>cli_api_keys := cli_api_keys d @ [k]\<rparr>"
    and h: "h \<notin> CliKey_KeyHash ` set (cli_api_keys d)"
    using assms by (auto simp: InsertCLIAPIKey_def Let_def split: if_splits)
  have "query_one (\<lambda>k. CliKey_KeyHash k = h) (cli_api_keys d) = Inl ErrNoRows"
    using h by (auto simp: query_one_NoRows_iff)
  then show "GetCLIAPIKeyByHash h d' = Inr k"
    using \<open>CliKey_KeyHash k = h\<close> by (simp add: d' GetCLIAPIKeyByHash_def query_one_append)
qed

lemma InsertContextToken_Inr:
  assumes "InsertContextToken env n repo usr org tgt h label e vis d = Inr (t, d')"
  shows "repo = Some (Tok_RepoID t)" "Tok_OrgID t = org" "Tok_UserID t = usr" "Tok_TokenHash t = h"
    "Tok_TargetSnapshotID t = tgt" "Tok_ExpiresAt t = e" "Tok_Visibility t = vis" "Tok_ID t = e_uuid env n"
    "Tok_ID t \<notin> Tok_ID ` set (context_tokens d)"
    "d' = d\<lparr>context_tokens := context_tokens d @ [t]\<rparr>" "GetContextTokenByHash h d' = Inr t"
proof -
  show "repo = Some (Tok_RepoID t)" "Tok_OrgID t = org" "Tok_UserID t = usr" "Tok_TokenHash t = h"
    "Tok_TargetSnapshotID t = tgt" "Tok_ExpiresAt t = e" "Tok_Visibility t = vis" "Tok_ID t = e_uuid env n"
    "Tok_ID t \<notin> Tok_ID ` set (context_tokens d)"
    and d': "d' = d\<lparr>context_tokens := context_tokens d @ [t]\<rparr>"
    using assms by (auto simp: InsertContextToken_def Let_def split: if_splits option.splits)
  have "h \<notin> Tok_TokenHash ` set (context_tokens d)"
    using assms by (auto simp: InsertContextToken_def split: if_splits option.splits)
  then have "query_one (\<lambda>t. Tok_TokenHash t = h) (context_tokens d) = Inl ErrNoRows"
    by (auto simp: query_one_NoRows_iff)
  then show "GetContextTokenByHash h d' = Inr t"
    using \<open>Tok_TokenHash t = h\<close> by (simp add: d' GetContextTokenByHash_def query_one_append)
qed

end
