(* ===== verification/Secrets.thy ===== *)
theory Secrets
  imports Http
begin

text \<open>
  Random secrets and their storage: the unpadded base64url encoding of random bytes
  (\<open>encoding/base64\<close>), the hash under which a secret is stored (\<open>handlerpkg.SHA256Hash\<close>) and the
  encryption services of both programs (\<open>service/encryption/encryption.go\<close>). The random source gives
  the bytes of a read of a given length, or an error; SHA-256 and AES-GCM are parameters.
\<close>

section \<open>Base64url without padding\<close>

definition b64_char :: "nat \<Rightarrow> char" where
  "b64_char n =
     (if n < 26 then char_of (65 + n)
      else if n < 52 then char_of (97 + (n - 26))
      else if n < 62 then char_of (48 + (n - 52))
      else if n = 62 then CHR ''-'' else CHR ''_'')"

abbreviation byte :: "char \<Rightarrow> nat" where
  "byte c \<equiv> of_char c"

fun Base64URLEncode :: "string \<Rightarrow> string" where
  "Base64URLEncode (a # b # c # s) =
     [b64_char (byte a div 4), b64_char (byte a mod 4 * 16 + byte b div 16),
      b64_char (byte b mod 16 * 4 + byte c div 64), b64_char (byte c mod 64)] @ Base64URLEncode s"
| "Base64URLEncode [a, b] =
     [b64_char (byte a div 4), b64_char (byte a mod 4 * 16 + byte b div 16), b64_char (byte b mod 16 * 4)]"
| "Base64URLEncode [a] = [b64_char (byte a div 4), b64_char (byte a mod 4 * 16)]"
| "Base64URLEncode [] = []"

text \<open>The value of a character of the alphabet, and the reading of a text back into bytes.\<close>

definition b64_val :: "char \<Rightarrow> nat" where
  "b64_val c = (let n = byte c in
     if 97 \<le> n then n - 97 + 26 else if n = 95 then 63 else if 65 \<le> n then n - 65
     else if 48 \<le> n then n - 48 + 52 else 62)"

fun b64_decode :: "string \<Rightarrow> string" where
  "b64_decode (p # q # r # t # s) =
     [char_of (b64_val p * 4 + b64_val q div 16), char_of (b64_val q mod 16 * 16 + b64_val r div 4),
      char_of (b64_val r mod 4 * 64 + b64_val t)] @ b64_decode s"
| "b64_decode [p, q, r] =
     [char_of (b64_val p * 4 + b64_val q div 16), char_of (b64_val q mod 16 * 16 + b64_val r div 4)]"
| "b64_decode [p, q] = [char_of (b64_val p * 4 + b64_val q div 16)]"
| "b64_decode _ = []"

lemma b64_val_char: "n < 64 \<Longrightarrow> b64_val (b64_char n) = n"
  by (auto simp: b64_val_def b64_char_def Let_def)

lemma sextets:
  fixes a b :: nat
  assumes "b < 256"
  shows "b div 4 < 64" "a mod 4 * 16 + b div 16 < 64" "a mod 16 * 4 + b div 64 < 64"
    "(a mod 4 * 16 + b div 16) div 16 = a mod 4" "(a mod 4 * 16 + b div 16) mod 16 = b div 16"
    "(a mod 16 * 4 + b div 64) div 4 = a mod 16" "(a mod 16 * 4 + b div 64) mod 4 = b div 64"
    "a mod 16 * 4 < 64" "a mod 4 * 16 < 64"
    "b div 16 div 16 = 0" "b div 64 div 4 = 0" "b div 16 mod 16 = b div 16" "b div 64 mod 4 = b div 64"
  using assms by (auto simp: div_mult2_eq [symmetric])

lemma b64_decode_encode: "b64_decode (Base64URLEncode s) = s"
  by (induction s rule: Base64URLEncode.induct) (auto simp: b64_val_char sextets)

lemma Base64URLEncode_inj: "Base64URLEncode s = Base64URLEncode t \<Longrightarrow> s = t"
  by (metis b64_decode_encode)

lemma length_Base64URLEncode: "length (Base64URLEncode s) = (4 * length s + 2) div 3"
  by (induction s rule: Base64URLEncode.induct) auto


section \<open>Stored hashes\<close>

definition SHA256Hash :: "ext \<Rightarrow> string \<Rightarrow> string" where
  "SHA256Hash x s = hex_encode (x_sha256 x s)"

lemma hex_digit_inj: "m < 16 \<Longrightarrow> n < 16 \<Longrightarrow> hex_digit m = hex_digit n \<Longrightarrow> m = n"
proof -
  assume "m < 16" "n < 16" "hex_digit m = hex_digit n"
  then have "(of_char (hex_digit m) :: nat) = of_char (hex_digit n)" by simp
  then show "m = n" using \<open>m < 16\<close> \<open>n < 16\<close> by (auto simp: hex_digit_def split: if_splits)
qed

lemma hex_byte_inj: "hex_byte a = hex_byte b \<Longrightarrow> a = b"
proof -
  let ?a = "byte a" and ?b = "byte b"
  assume "hex_byte a = hex_byte b"
  moreover have "?a div 16 < 16" "?b div 16 < 16" by (rule less_mult_imp_div_less, simp)+
  ultimately have "?a div 16 = ?b div 16" "?a mod 16 = ?b mod 16"
    by (auto simp: hex_byte_def Let_def intro!: hex_digit_inj)
  then have "?a = ?b" by (metis div_mult_mod_eq)
  then show "a = b" by simp
qed

lemma hex_encode_inj: "hex_encode s = hex_encode t \<Longrightarrow> s = t"
proof (induction s arbitrary: t)
  case Nil
  then have "length (hex_encode t) = 0" by (simp add: hex_encode_def)
  then show ?case by (simp add: length_hex_encode)
next
  case (Cons a s)
  then obtain b t' where t: "t = b # t'"
    using length_hex_encode [of t] length_hex_encode [of "a # s"] by (cases t) auto
  have len: "length (hex_byte c) = 2" for c by (simp add: hex_byte_def Let_def)
  have "hex_byte a @ hex_encode s = hex_byte b @ hex_encode t'"
    using Cons.prems by (simp add: t hex_encode_def)
  then have "hex_byte a = hex_byte b \<and> hex_encode s = hex_encode t'" by (simp add: len)
  then show ?case using Cons.IH hex_byte_inj t by blast
qed

lemma SHA256Hash_inj: "SHA256Hash x s = SHA256Hash x t \<Longrightarrow> x_sha256 x s = x_sha256 x t"
  unfolding SHA256Hash_def by (rule hex_encode_inj)

section \<open>Encryption services\<close>

text \<open>
  An AEAD cipher with its key: sealing and opening under a nonce. Both services use AES-GCM, whose
  nonces have 12 bytes; \<open>aead_ok\<close> is what the interface promises.
\<close>

record aead =
  seal :: "string \<Rightarrow> string \<Rightarrow> string"
  unseal :: "string \<Rightarrow> string \<Rightarrow> string option"

definition aead_ok :: "aead \<Rightarrow> bool" where
  "aead_ok a \<longleftrightarrow> (\<forall>n p. length n = 12 \<longrightarrow> unseal a n (seal a n p) = Some p)"

abbreviation NonceSize :: nat where "NonceSize \<equiv> 12"
abbreviation KeyByteSize :: nat where "KeyByteSize \<equiv> 32"

type_synonym rand = "nat \<Rightarrow> string option"

definition rand_ok :: "rand \<Rightarrow> bool" where
  "rand_ok r \<longleftrightarrow> (\<forall>n b. r n = Some b \<longrightarrow> length b = n)"

text \<open>\<open>encryption.New\<close>: the cipher of a key is a parameter, its length is checked here.\<close>

definition New_encryption :: "(string \<Rightarrow> aead) \<Rightarrow> string \<Rightarrow> aead option" where
  "New_encryption gcm key = (if length key \<noteq> KeyByteSize then None else Some (gcm key))"

definition Encrypt :: "aead \<Rightarrow> rand \<Rightarrow> string \<Rightarrow> string option" where
  "Encrypt s rand plaintext =
     (case rand NonceSize of None \<Rightarrow> None | Some nonce \<Rightarrow> Some (nonce @ seal s nonce plaintext))"

definition Decrypt :: "aead \<Rightarrow> string \<Rightarrow> string option" where
  "Decrypt s data =
     (if length data < NonceSize then None else unseal s (take NonceSize data) (drop NonceSize data))"

lemma Decrypt_Encrypt:
  "aead_ok s \<Longrightarrow> rand_ok rand \<Longrightarrow> Encrypt s rand p = Some c \<Longrightarrow> Decrypt s c = Some p"
  by (auto simp: Encrypt_def Decrypt_def aead_ok_def rand_ok_def split: option.splits)

end
