(* ===== verification/Orgs.thy ===== *)
theory Orgs
  imports StoreOrgs Samples
begin

text \<open>
  The organization endpoints (\<open>api/internal/handler/org/handler.go\<close>): roles, memberships and the
  audit log. \<open>usr\<close> is the caller's user identifier from the request context, path parameters and
  the body are texts. The handlers run each statement on its own; where one reads before it writes,
  \<open>others\<close> is what concurrent requests commit in between (the identity without concurrency).
\<close>

abbreviation ErrBadUUID :: string where
  "ErrBadUUID \<equiv> ''cannot parse UUID''" \<comment> \<open>stands for the message of pgtype\<close>

abbreviation errOrgNotFound :: string where "errOrgNotFound \<equiv> ''organization not found''"
abbreviation errAlreadyMember :: string where "errAlreadyMember \<equiv> ''user is already a member''"
abbreviation errUserNotFound :: string where "errUserNotFound \<equiv> ''user not found''"
abbreviation errLastOwner :: string where "errLastOwner \<equiv> ''cannot remove the last owner''"
abbreviation errCannotDemote :: string where "errCannotDemote \<equiv> ''only owners can change owner roles''"

section \<open>Requests\<close>

record orgRequest =
  OR_Name :: string
  OR_Slug :: string

record inviteRequest =
  IR_Email :: string
  IR_Role :: string

record roleRequest =
  RR_Role :: string

definition decode_orgRequest :: "json \<Rightarrow> orgRequest option" where
  "decode_orgRequest j =
     (case j of
        JNull \<Rightarrow> Some \<lparr>OR_Name = '''', OR_Slug = ''''\<rparr>
      | JObj ms \<Rightarrow> (case (str_field ''name'' '''' ms, str_field ''slug'' '''' ms) of
          (Some n, Some s) \<Rightarrow> Some \<lparr>OR_Name = n, OR_Slug = s\<rparr> | _ \<Rightarrow> None)
      | _ \<Rightarrow> None)"

definition decode_inviteRequest :: "json \<Rightarrow> inviteRequest option" where
  "decode_inviteRequest j =
     (case j of
        JNull \<Rightarrow> Some \<lparr>IR_Email = '''', IR_Role = ''''\<rparr>
      | JObj ms \<Rightarrow> (case (str_field ''email'' '''' ms, str_field ''role'' '''' ms) of
          (Some e, Some r) \<Rightarrow> Some \<lparr>IR_Email = e, IR_Role = r\<rparr> | _ \<Rightarrow> None)
      | _ \<Rightarrow> None)"

definition decode_roleRequest :: "json \<Rightarrow> roleRequest option" where
  "decode_roleRequest j =
     (case j of
        JNull \<Rightarrow> Some \<lparr>RR_Role = ''''\<rparr>
      | JObj ms \<Rightarrow> map_option (\<lambda>r. \<lparr>RR_Role = r\<rparr>) (str_field ''role'' '''' ms)
      | _ \<Rightarrow> None)"

definition orgRequest_fields :: "orgRequest \<Rightarrow> vfield list" where
  "orgRequest_fields r = [(''Name'', [VRequired], VStr (OR_Name r)), (''Slug'', [VRequired], VStr (OR_Slug r))]"

definition inviteRequest_fields :: "inviteRequest \<Rightarrow> vfield list" where
  "inviteRequest_fields r = [(''Email'', [VRequired, VEmail], VStr (IR_Email r)),
     (''Role'', [VOmitEmpty, VOneof [''owner'', ''admin'', ''member'']], VStr (IR_Role r))]"

definition roleRequest_fields :: "roleRequest \<Rightarrow> vfield list" where
  "roleRequest_fields r = [(''Role'', [VRequired, VOneof [''owner'', ''admin'', ''member'']], VStr (RR_Role r))]"

section \<open>Handlers\<close>

text \<open>\<open>requireRole\<close>: the caller's membership when its role is allowed, else \<open>ErrForbidden\<close>.\<close>

definition requireRole :: "env \<Rightarrow> pg_uuid \<Rightarrow> pg_uuid \<Rightarrow> string list \<Rightarrow> db \<Rightarrow> Membership option" where
  "requireRole env org usr allowed d =
     (case guarded env ''requireRole'' 0 (GetMembership usr org d) of
        Inl _ \<Rightarrow> None
      | Inr m \<Rightarrow> if Mem_Role m \<in> set allowed then Some m else None)"

text \<open>\<open>audit\<close>: a failure to write is only logged.\<close>

definition audit :: "env \<Rightarrow> nat \<Rightarrow> pg_uuid \<Rightarrow> pg_uuid \<Rightarrow> pg_uuid \<Rightarrow> string \<Rightarrow> pg_uuid \<Rightarrow> db \<Rightarrow> db" where
  "audit env n actor usr org action target d =
     (case guarded env ''InsertAuditLog'' 0 (InsertAuditLog env n usr org actor action target None d) of
        Inl _ \<Rightarrow> d
      | Inr (_, d') \<Rightarrow> d')"

text \<open>The placeholder \<open>fmt.Sprintf("local_%s", body.Slug)\<close>.\<close>

definition local_org_id :: "string \<Rightarrow> string" where
  "local_org_id slug = ''local_'' @ slug"

definition CreateOrg ::
  "ext \<Rightarrow> env \<Rightarrow> pg_uuid \<Rightarrow> string \<Rightarrow> db \<Rightarrow> Organization reply \<times> db" where
  "CreateOrg x env usr body d =
     (case Option.bind (x_json x body) decode_orgRequest of
        None \<Rightarrow> (ErrResponse 400 ErrInvalidBody, d)
      | Some req \<Rightarrow>
        (case validate_struct x (orgRequest_fields req) of
           Some err \<Rightarrow> (ErrResponse 400 err, d)
         | None \<Rightarrow>
           (case guarded env ''UpsertOrg'' 0
                   (UpsertOrg env 0 (local_org_id (OR_Slug req)) (OR_Slug req) (OR_Name req) d) of
              Inl _ \<Rightarrow> (ErrResponse 500 ErrInternal, d)
            | Inr (org, d1) \<Rightarrow>
              (case guarded env ''CreateMembership'' 0
                      (CreateMembership env 1 usr (Some (Org_ID org)) ''owner'' None d1) of
                 Inl _ \<Rightarrow> (ErrResponse 500 ErrInternal, d1)
               | Inr (_, d2) \<Rightarrow>
                   (WriteJSON 201 org,
                    audit env 2 usr usr (Some (Org_ID org)) ''org.created'' (Some (Org_ID org)) d2)))))"

definition ListOrgs :: "env \<Rightarrow> pg_uuid \<Rightarrow> db \<Rightarrow> ListMembershipsByUserRow list reply" where
  "ListOrgs env usr d =
     (if e_fault env ''ListMembershipsByUser'' 0 then ErrResponse 500 ErrInternal
      else OkResponse (ListMembershipsByUser usr d))"

definition UpdateOrg ::
  "ext \<Rightarrow> env \<Rightarrow> pg_uuid \<Rightarrow> string \<Rightarrow> string \<Rightarrow> db \<Rightarrow> Organization reply \<times> db" where
  "UpdateOrg x env usr orgID body d =
     (case x_uuid_scan x orgID of
        None \<Rightarrow> (ErrResponse 400 ErrBadUUID, d)
      | Some g \<Rightarrow>
        (case requireRole env (Some g) usr [''owner'', ''admin''] d of
           None \<Rightarrow> (ErrResponse 403 ErrForbidden, d)
         | Some _ \<Rightarrow>
           (case Option.bind (x_json x body) decode_orgRequest of
              None \<Rightarrow> (ErrResponse 400 ErrInvalidBody, d)
            | Some req \<Rightarrow>
              (case validate_struct x (orgRequest_fields req) of
                 Some err \<Rightarrow> (ErrResponse 400 err, d)
               | None \<Rightarrow>
                 (case guarded env ''UpdateOrganization'' 0
                         (UpdateOrganization (Some g) (OR_Name req) (OR_Slug req) d) of
                    Inl e \<Rightarrow> if e = ErrNoRows then (ErrResponse 404 errOrgNotFound, d)
                             else (ErrResponse 500 ErrInternal, d)
                  | Inr (org, d1) \<Rightarrow>
                      (OkResponse org, audit env 0 usr None (Some g) ''org.updated'' (Some g) d1))))))"

definition DeleteOrg :: "ext \<Rightarrow> env \<Rightarrow> pg_uuid \<Rightarrow> string \<Rightarrow> db \<Rightarrow> unit reply \<times> db" where
  "DeleteOrg x env usr orgID d =
     (case x_uuid_scan x orgID of
        None \<Rightarrow> (ErrResponse 400 ErrBadUUID, d)
      | Some g \<Rightarrow>
        (case requireRole env (Some g) usr [''owner''] d of
           None \<Rightarrow> (ErrResponse 403 ErrForbidden, d)
         | Some _ \<Rightarrow>
           (case guarded env ''DeleteOrganization'' 0 (DeleteOrganization (Some g) d) of
              Inl _ \<Rightarrow> (ErrResponse 500 ErrInternal, d)
            | Inr d1 \<Rightarrow> (WriteHeader 204, d1))))"

definition ListMembers ::
  "ext \<Rightarrow> env \<Rightarrow> pg_uuid \<Rightarrow> string \<Rightarrow> db \<Rightarrow> ListMembershipsByOrgRow list reply" where
  "ListMembers x env usr orgID d =
     (case x_uuid_scan x orgID of
        None \<Rightarrow> ErrResponse 400 ErrBadUUID
      | Some g \<Rightarrow>
        (case requireRole env (Some g) usr [''owner'', ''admin'', ''member''] d of
           None \<Rightarrow> ErrResponse 403 ErrForbidden
         | Some _ \<Rightarrow>
             if e_fault env ''ListMembershipsByOrg'' 0 then ErrResponse 500 ErrInternal
             else OkResponse (ListMembershipsByOrg (Some g) d)))"

definition InviteMember ::
  "ext \<Rightarrow> env \<Rightarrow> pg_uuid \<Rightarrow> string \<Rightarrow> string \<Rightarrow> db \<Rightarrow> Membership reply \<times> db" where
  "InviteMember x env usr orgID body d =
     (case x_uuid_scan x orgID of
        None \<Rightarrow> (ErrResponse 400 ErrBadUUID, d)
      | Some g \<Rightarrow>
        (case requireRole env (Some g) usr [''owner'', ''admin''] d of
           None \<Rightarrow> (ErrResponse 403 ErrForbidden, d)
         | Some _ \<Rightarrow>
           (case Option.bind (x_json x body) decode_inviteRequest of
              None \<Rightarrow> (ErrResponse 400 ErrInvalidBody, d)
            | Some req \<Rightarrow>
              (case validate_struct x (inviteRequest_fields req) of
                 Some err \<Rightarrow> (ErrResponse 400 err, d)
               | None \<Rightarrow>
                 let role = (if IR_Role req = '''' then ''member'' else IR_Role req) in
                 (case guarded env ''GetUserByEmail'' 0 (GetUserByEmail (IR_Email req) d) of
                    Inl e \<Rightarrow> if e = ErrNoRows then (ErrResponse 404 errUserNotFound, d)
                             else (ErrResponse 500 ErrInternal, d)
                  | Inr invitee \<Rightarrow>
                    (case guarded env ''CreateMembership'' 0
                            (CreateMembership env 0 (Some (User_ID invitee)) (Some g) role usr d) of
                       Inl _ \<Rightarrow> (ErrResponse 409 errAlreadyMember, d)
                     | Inr (m, d1) \<Rightarrow>
                         (WriteJSON 201 m, audit env 1 usr None (Some g) ''member.invited''
                            (Some (User_ID invitee)) d1)))))))"

definition UpdateMemberRole ::
  "ext \<Rightarrow> env \<Rightarrow> (db \<Rightarrow> db) \<Rightarrow> pg_uuid \<Rightarrow> string \<Rightarrow> string \<Rightarrow> string \<Rightarrow> db \<Rightarrow> Membership reply \<times> db" where
  "UpdateMemberRole x env others caller orgID userID body d =
     (case (x_uuid_scan x orgID, x_uuid_scan x userID) of
        (Some g, Some t) \<Rightarrow>
        (case requireRole env (Some g) caller [''owner'', ''admin''] d of
           None \<Rightarrow> (ErrResponse 403 ErrForbidden, d)
         | Some callerMembership \<Rightarrow>
           (case Option.bind (x_json x body) decode_roleRequest of
              None \<Rightarrow> (ErrResponse 400 ErrInvalidBody, d)
            | Some req \<Rightarrow>
              (case validate_struct x (roleRequest_fields req) of
                 Some err \<Rightarrow> (ErrResponse 400 err, d)
               | None \<Rightarrow>
                 (case guarded env ''GetMembership'' 0 (GetMembership (Some t) (Some g) d) of
                    Inl _ \<Rightarrow> (ErrResponse 404 errUserNotFound, d)
                  | Inr target \<Rightarrow>
                    if Mem_Role callerMembership = ''admin''
                      \<and> (Mem_Role target = ''owner'' \<or> RR_Role req = ''owner'')
                    then (ErrResponse 403 errCannotDemote, d)
                    else if Mem_Role target = ''owner'' \<and> RR_Role req \<noteq> ''owner''
                      \<and> e_fault env ''CountOwnersByOrg'' 0 then (ErrResponse 500 ErrInternal, d)
                    else if Mem_Role target = ''owner'' \<and> RR_Role req \<noteq> ''owner''
                      \<and> CountOwnersByOrg (Some g) d \<le> 1 then (ErrResponse 409 errLastOwner, d)
                    else let d1 = others d in
                      (case guarded env ''UpdateMembershipRole'' 0
                              (UpdateMembershipRole (Some t) (Some g) (RR_Role req) d1) of
                         Inl _ \<Rightarrow> (ErrResponse 500 ErrInternal, d1)
                       | Inr (updated, d2) \<Rightarrow>
                           (OkResponse updated, audit env 0 caller None (Some g) ''member.role_changed''
                              (Some t) d2))))))
      | _ \<Rightarrow> (ErrResponse 400 ErrBadUUID, d))"

definition RemoveMember ::
  "ext \<Rightarrow> env \<Rightarrow> (db \<Rightarrow> db) \<Rightarrow> pg_uuid \<Rightarrow> string \<Rightarrow> string \<Rightarrow> db \<Rightarrow> unit reply \<times> db" where
  "RemoveMember x env others caller orgID userID d =
     (case (x_uuid_scan x orgID, x_uuid_scan x userID) of
        (Some g, Some t) \<Rightarrow>
        (case requireRole env (Some g) caller [''owner'', ''admin''] d of
           None \<Rightarrow> (ErrResponse 403 ErrForbidden, d)
         | Some _ \<Rightarrow>
           (case guarded env ''GetMembership'' 0 (GetMembership (Some t) (Some g) d) of
              Inl _ \<Rightarrow> (ErrResponse 404 errUserNotFound, d)
            | Inr target \<Rightarrow>
              if Mem_Role target = ''owner'' \<and> e_fault env ''CountOwnersByOrg'' 0
              then (ErrResponse 500 ErrInternal, d)
              else if Mem_Role target = ''owner'' \<and> CountOwnersByOrg (Some g) d \<le> 1
              then (ErrResponse 409 errLastOwner, d)
              else let d1 = others d in
                if e_fault env ''DeleteMembership'' 0 then (ErrResponse 500 ErrInternal, d1)
                else (WriteHeader 204, audit env 0 caller None (Some g) ''member.removed'' (Some t)
                        (DeleteMembership (Some t) (Some g) d1))))
      | _ \<Rightarrow> (ErrResponse 400 ErrBadUUID, d))"

definition ListAuditLog ::
  "ext \<Rightarrow> env \<Rightarrow> (string \<Rightarrow> timestamp option) \<Rightarrow> pg_uuid \<Rightarrow> string \<Rightarrow> string \<Rightarrow> string \<Rightarrow> db
    \<Rightarrow> (AuditLog \<times> string) list reply" where
  "ListAuditLog x env parse usr orgID cursor lim d =
     (case x_uuid_scan x orgID of
        None \<Rightarrow> ErrResponse 400 ErrBadUUID
      | Some g \<Rightarrow>
        (case requireRole env (Some g) usr [''owner'', ''admin''] d of
           None \<Rightarrow> ErrResponse 403 ErrForbidden
         | Some _ \<Rightarrow>
           (case ParseCursor parse env cursor of
              Inl err \<Rightarrow> ErrResponse 400 err
            | Inr before \<Rightarrow>
                if e_fault env ''ListAuditLogByOrg'' 0 then ErrResponse 500 ErrInternal
                else OkResponse (ListAuditLogByOrg (Some g) before (ParseLimit lim) d))))"

section \<open>What the handlers do to memberships\<close>

definition mem_keys :: "db \<Rightarrow> bool" where
  "mem_keys d \<longleftrightarrow> distinct (map (\<lambda>m. (Mem_UserID m, Mem_OrgID m)) (memberships d))"

definition has_owner :: "uuid \<Rightarrow> db \<Rightarrow> bool" where
  "has_owner g d \<longleftrightarrow> (\<exists>m \<in> set (memberships d). Mem_OrgID m = g \<and> Mem_Role m = ''owner'')"

lemma audit_frame [frame_simps]:
  "memberships (audit env n actor usr org act tgt d) = memberships d"
  "organizations (audit env n actor usr org act tgt d) = organizations d"
  "users (audit env n actor usr org act tgt d) = users d"
  by (auto simp: audit_def InsertAuditLog_def guarded_def Let_def split: sum.splits option.splits if_splits)

lemma CreateMembership_Inr:
  assumes "CreateMembership env n usr org role inviter d = Inr (m, d')"
  shows "usr = Some (Mem_UserID m)" "org = Some (Mem_OrgID m)" "Mem_Role m = role"
    "d' = d\<lparr>memberships := memberships d @ [m]\<rparr>"
    "(Mem_UserID m, Mem_OrgID m) \<notin> (\<lambda>m. (Mem_UserID m, Mem_OrgID m)) ` set (memberships d)"
  using assms by (auto simp: CreateMembership_def Let_def split: option.splits if_splits)

lemma UpsertOrg_frame:
  "UpsertOrg env n a s nm d = Inr (g, d') \<Longrightarrow> memberships d' = memberships d \<and> audit_log d' = audit_log d
    \<and> Org_ID ` set (organizations d) \<subseteq> Org_ID ` set (organizations d')"
  by (auto simp: UpsertOrg_def Let_def image_update_where split: option.splits if_splits)

text \<open>A member of an organization with more than one owner other than the given user is an owner.\<close>

lemma other_owner:
  assumes "mem_keys d" and "\<not> CountOwnersByOrg (Some g) d \<le> 1"
  shows "\<exists>m \<in> set (memberships d). Mem_OrgID m = g \<and> Mem_Role m = ''owner'' \<and> Mem_UserID m \<noteq> t"
proof -
  let ?F = "filter (\<lambda>m. Mem_OrgID m = g \<and> Mem_Role m = ''owner'') (memberships d)"
  have len: "2 \<le> length ?F" using assms(2) by (simp add: CountOwnersByOrg_def)
  then obtain a F' where "?F = a # F'" by (cases ?F) auto
  moreover from this len obtain b ms where "F' = b # ms" by (cases F') auto
  ultimately have F: "?F = a # b # ms" by simp
  have "distinct (map (\<lambda>m. (Mem_UserID m, Mem_OrgID m)) ?F)"
    using assms(1) unfolding mem_keys_def by (rule distinct_map_filter_key)
  moreover have ab: "a \<in> set ?F" "b \<in> set ?F" unfolding F by simp_all
  moreover have "Mem_OrgID a = g" "Mem_OrgID b = g" using ab by simp_all
  ultimately have "Mem_UserID a \<noteq> Mem_UserID b" unfolding F by auto
  then consider "Mem_UserID a \<noteq> t" | "Mem_UserID b \<noteq> t" by fastforce
  then show ?thesis using ab by cases (simp_all, blast+)
qed

text \<open>
  What a change of memberships must satisfy for every organization to keep an owner: new rows have a
  new key, and a row that stops being an owner's leaves another owner.
\<close>

definition owners_kept :: "uuid \<Rightarrow> db \<Rightarrow> db \<Rightarrow> bool" where
  "owners_kept g d d' \<longleftrightarrow> mem_keys d' \<and> (has_owner g d \<longrightarrow> g \<in> Org_ID ` set (organizations d') \<longrightarrow> has_owner g d')"

lemma owners_kept_same: "mem_keys d \<Longrightarrow> memberships d' = memberships d \<Longrightarrow> owners_kept g d d'"
  by (simp add: owners_kept_def mem_keys_def has_owner_def)

lemma owners_kept_add:
  assumes "mem_keys d" and "memberships d' = memberships d @ [m]"
    and "(Mem_UserID m, Mem_OrgID m) \<notin> (\<lambda>m. (Mem_UserID m, Mem_OrgID m)) ` set (memberships d)"
  shows "owners_kept g d d'"
  using assms by (auto simp: owners_kept_def mem_keys_def has_owner_def)

lemma owners_kept_filter:
  assumes "mem_keys d" and "memberships d' = filter P (memberships d)"
    and "has_owner g d \<Longrightarrow> g \<in> Org_ID ` set (organizations d') \<Longrightarrow> has_owner g d'"
  shows "owners_kept g d d'"
  using assms distinct_map_filter_key by (simp add: owners_kept_def mem_keys_def)

lemma CreateOrg_cases:
  assumes "CreateOrg x env usr body d = (r, d')"
  obtains (unchanged) "d' = d"
    | (org_only) req :: orgRequest and org where
        "UpsertOrg env 0 (local_org_id (OR_Slug req)) (OR_Slug req) (OR_Name req) d = Inr (org, d')"
    | (created) req :: orgRequest and org d1 m d2 where
        "UpsertOrg env 0 (local_org_id (OR_Slug req)) (OR_Slug req) (OR_Name req) d = Inr (org, d1)"
        "CreateMembership env 1 usr (Some (Org_ID org)) ''owner'' None d1 = Inr (m, d2)"
        "r = WriteJSON 201 org"
        "d' = audit env 2 usr usr (Some (Org_ID org)) ''org.created'' (Some (Org_ID org)) d2"
proof (cases "Option.bind (x_json x body) decode_orgRequest")
  case None
  then show thesis using assms unchanged by (simp add: CreateOrg_def)
next
  case req: (Some req)
  let ?up = "UpsertOrg env 0 (local_org_id (OR_Slug req)) (OR_Slug req) (OR_Name req) d"
  show thesis
  proof (cases "validate_struct x (orgRequest_fields req) \<noteq> None \<or> (\<exists>e. guarded env ''UpsertOrg'' 0 ?up = Inl e)")
    case True
    then show thesis using assms req unchanged by (auto simp: CreateOrg_def split: option.splits)
  next
    case False
    then obtain org d1 where up: "guarded env ''UpsertOrg'' 0 ?up = Inr (org, d1)" and ok: "validate_struct x (orgRequest_fields req) = None"
      by (cases "guarded env ''UpsertOrg'' 0 ?up") auto
    let ?cm = "guarded env ''CreateMembership'' 0 (CreateMembership env 1 usr (Some (Org_ID org)) ''owner'' None d1)"
    from up have up': "?up = Inr (org, d1)" by (simp only: guarded_Inr_iff)
    show thesis
    proof (cases ?cm)
      case (Inl e)
      then have "d' = d1" using assms unfolding CreateOrg_def req option.case ok up sum.case prod.case by simp
      then show thesis using org_only up' by simp
    next
      case (Inr p)
      obtain m d2 where p: "p = (m, d2)" by (cases p)
      with Inr have "CreateMembership env 1 usr (Some (Org_ID org)) ''owner'' None d1 = Inr (m, d2)"
        by (simp only: guarded_Inr_iff)
      moreover have "r = WriteJSON 201 org"
        "d' = audit env 2 usr usr (Some (Org_ID org)) ''org.created'' (Some (Org_ID org)) d2"
        using assms unfolding CreateOrg_def req option.case ok up sum.case prod.case Inr p by simp_all
      ultimately show thesis using created up' by blast
    qed
  qed
qed

lemma CreateOrg_owners:
  assumes "mem_keys d" and "CreateOrg x env usr body d = (r, d')"
  shows "owners_kept g d d'"
  using assms(2)
proof (cases rule: CreateOrg_cases)
  case (org_only req org)
  then show ?thesis by (intro owners_kept_same [OF assms(1)]) (simp add: UpsertOrg_frame)
next
  case (created req org d1 m d2)
  have "memberships d1 = memberships d" using UpsertOrg_frame [OF created(1)] by simp
  moreover note CreateMembership_Inr(4,5) [OF created(2)]
  ultimately show ?thesis
    by (intro owners_kept_add [OF assms(1), of d' m]) (simp_all add: created(4) frame_simps)
qed (simp add: owners_kept_same assms(1))

lemma InviteMember_owners:
  assumes "mem_keys d" and "InviteMember x env usr orgID body d = (r, d')"
  shows "owners_kept g d d'"
proof (cases "memberships d' = memberships d")
  case False
  obtain u h role m d1 where "CreateMembership env 0 u h role usr d = Inr (m, d1)" "memberships d' = memberships d1"
    using assms(2) False unfolding InviteMember_def Let_def
    by (auto simp: frame_simps split: option.splits sum.splits if_splits)
  then show ?thesis
    using CreateMembership_Inr(4,5) [of env 0 u h role usr d m d1]
    by (intro owners_kept_add [OF assms(1), of d' m]) auto
qed (rule owners_kept_same [OF assms(1)])

lemma UpdateOrg_owners:
  assumes "mem_keys d" and "UpdateOrg x env usr orgID body d = (r, d')"
  shows "owners_kept g d d'"
  using assms(2) unfolding UpdateOrg_def
  by (intro owners_kept_same [OF assms(1)])
    (auto simp: frame_simps UpdateOrganization_def Let_def guarded_def
      split: option.splits sum.splits if_splits)

lemma DeleteOrg_owners:
  assumes "mem_keys d" and "DeleteOrg x env usr orgID d = (r, d')"
  shows "owners_kept g d d'"
proof (cases "d' = d")
  case False
  obtain h where "memberships d' = filter (\<lambda>m. Mem_OrgID m \<noteq> h) (memberships d)"
    "organizations d' = filter (\<lambda>a. Org_ID a \<noteq> h) (organizations d)"
    using assms(2) False unfolding DeleteOrg_def
    by (auto simp: DeleteOrganization_def Let_def guarded_def delete_where_def
        split: option.splits sum.splits if_splits)
  then show ?thesis by (intro owners_kept_filter [OF assms(1)]) (auto simp: has_owner_def)
qed (simp add: owners_kept_same assms(1))

lemma RemoveMember_owners:
  assumes "mem_keys d" and "RemoveMember x env id caller orgID userID d = (r, d')"
  shows "owners_kept g d d'"
proof (cases "memberships d' = memberships d")
  case False
  obtain h t target where "GetMembership (Some t) (Some h) d = Inr target"
    and cnt: "Mem_Role target = ''owner'' \<longrightarrow> \<not> CountOwnersByOrg (Some h) d \<le> 1"
    and d': "memberships d' = filter (\<lambda>m. \<not> mem_hit (Some t) (Some h) m) (memberships d)"
    using assms(2) False unfolding RemoveMember_def Let_def
    by (auto simp: frame_simps DeleteMembership_def delete_where_def split: option.splits sum.splits if_splits)
  then have tgt: "target \<in> set (memberships d)" "Mem_UserID target = t" "Mem_OrgID target = h"
    by (auto simp: GetMembership_def mem_hit_def sql_eq_Some_iff dest: query_one_Inr)
  have "has_owner g d'" if ho: "has_owner g d"
  proof -
    obtain m where m: "m \<in> set (memberships d)" "Mem_OrgID m = g" "Mem_Role m = ''owner''"
      using ho by (auto simp: has_owner_def)
    show ?thesis
    proof (cases "mem_hit (Some t) (Some h) m")
      case True
      then have "m = target" using assms(1) m(1) tgt distinct_key_eq [of "\<lambda>m. (Mem_UserID m, Mem_OrgID m)"]
        by (auto simp: mem_keys_def mem_hit_def)
      then show ?thesis using other_owner [OF assms(1), of h t] cnt m tgt d' by (auto simp: has_owner_def mem_hit_def)
    qed (use m d' in \<open>auto simp: has_owner_def\<close>)
  qed
  then show ?thesis by (intro owners_kept_filter [OF assms(1) d']) simp
qed (rule owners_kept_same [OF assms(1)])

lemma UpdateMemberRole_writes:
  assumes "UpdateMemberRole x env others caller orgID userID body d = (r, d')"
    and "memberships d' \<noteq> memberships (others d)" and "memberships d' \<noteq> memberships d"
  obtains g t c target role where "x_uuid_scan x orgID = Some g" "x_uuid_scan x userID = Some t"
    "requireRole env (Some g) caller [''owner'', ''admin''] d = Some c"
    "GetMembership (Some t) (Some g) d = Inr target" "valid_role role"
    "Mem_Role c = ''admin'' \<longrightarrow> Mem_Role target \<noteq> ''owner'' \<and> role \<noteq> ''owner''"
    "Mem_Role target = ''owner'' \<longrightarrow> role \<noteq> ''owner'' \<longrightarrow> \<not> CountOwnersByOrg (Some g) d \<le> 1"
    "memberships d' = update_where (mem_hit (Some t) (Some g)) (\<lambda>m. m\<lparr>Mem_Role := role\<rparr>) (memberships (others d))"
proof -
  obtain g t where gt: "x_uuid_scan x orgID = Some g" "x_uuid_scan x userID = Some t"
    using assms(1,3) by (auto simp: UpdateMemberRole_def split: option.splits)
  obtain c where c: "requireRole env (Some g) caller [''owner'', ''admin''] d = Some c"
    using assms(1,3) gt by (auto simp: UpdateMemberRole_def split: option.splits)
  obtain req where req: "Option.bind (x_json x body) decode_roleRequest = Some req"
    "validate_struct x (roleRequest_fields req) = None"
    using assms(1,3) gt c by (auto simp: UpdateMemberRole_def split: option.splits)
  obtain target where target: "guarded env ''GetMembership'' 0 (GetMembership (Some t) (Some g) d) = Inr target"
    using assms(1,3) gt c req by (auto simp: UpdateMemberRole_def split: sum.splits)
  let ?upd = "guarded env ''UpdateMembershipRole'' 0 (UpdateMembershipRole (Some t) (Some g) (RR_Role req) (others d))"
  have guards: "\<not> (Mem_Role c = ''admin'' \<and> (Mem_Role target = ''owner'' \<or> RR_Role req = ''owner''))"
    "\<not> (Mem_Role target = ''owner'' \<and> RR_Role req \<noteq> ''owner'' \<and> CountOwnersByOrg (Some g) d \<le> 1)"
    and res: "memberships d' = (case ?upd of Inl _ \<Rightarrow> memberships (others d) | Inr (_, d2) \<Rightarrow> memberships d2)"
    using assms(1,3) gt c req target
    by (auto simp: UpdateMemberRole_def Let_def frame_simps split: if_splits sum.splits prod.splits)
  then obtain m d2 where "UpdateMembershipRole (Some t) (Some g) (RR_Role req) (others d) = Inr (m, d2)"
    "memberships d' = memberships d2"
    using assms(2) res by (auto split: sum.splits)
  then have "valid_role (RR_Role req)" "memberships d' = update_where (mem_hit (Some t) (Some g))
      (\<lambda>m. m\<lparr>Mem_Role := RR_Role req\<rparr>) (memberships (others d))"
    by (auto simp: UpdateMembershipRole_def split: sum.splits if_splits)
  then show thesis using that [OF gt c _ _ _ _ , of target "RR_Role req"] target guards by simp blast
qed

lemma GetMembership_Inr:
  "GetMembership (Some t) (Some g) d = Inr m \<Longrightarrow> m \<in> set (memberships d) \<and> Mem_UserID m = t \<and> Mem_OrgID m = g"
  by (auto simp: GetMembership_def mem_hit_def sql_eq_Some_iff dest: query_one_Inr)

lemma UpdateMemberRole_owners:
  assumes "mem_keys d" and "UpdateMemberRole x env id caller orgID userID body d = (r, d')"
  shows "owners_kept g d d'"
proof (cases "memberships d' = memberships d")
  case False
  with assms(2) obtain h t target role where get: "GetMembership (Some t) (Some h) d = Inr target"
    and cnt: "Mem_Role target = ''owner'' \<longrightarrow> role \<noteq> ''owner'' \<longrightarrow> \<not> CountOwnersByOrg (Some h) d \<le> 1"
    and d': "memberships d' = update_where (mem_hit (Some t) (Some h)) (\<lambda>m. m\<lparr>Mem_Role := role\<rparr>) (memberships d)"
    using UpdateMemberRole_writes [OF assms(2)] by (metis id_apply)
  have "mem_keys d'" using assms(1) unfolding mem_keys_def d' by (simp add: map_update_where)
  moreover have "has_owner g d'" if ho: "has_owner g d"
  proof -
    obtain m where m: "m \<in> set (memberships d)" "Mem_OrgID m = g" "Mem_Role m = ''owner''"
      using ho by (auto simp: has_owner_def)
    have keep: "m \<in> set (memberships d')" if "m \<in> set (memberships d)" "\<not> mem_hit (Some t) (Some h) m" for m
      using that by (simp add: d' set_update_where)
    show ?thesis
    proof (cases "mem_hit (Some t) (Some h) m")
      case hit: True
      then have "m = target"
        using assms(1) m(1) GetMembership_Inr [OF get] distinct_key_eq [of "\<lambda>m. (Mem_UserID m, Mem_OrgID m)"]
        by (auto simp: mem_keys_def mem_hit_def)
      show ?thesis
      proof (cases "role = ''owner''")
        case True
        have "m\<lparr>Mem_Role := role\<rparr> \<in> set (memberships d')" using m hit by (auto simp: d' set_update_where)
        moreover have "Mem_OrgID (m\<lparr>Mem_Role := role\<rparr>) = g" "Mem_Role (m\<lparr>Mem_Role := role\<rparr>) = ''owner''"
          using m True by simp_all
        ultimately show ?thesis unfolding has_owner_def by blast
      next
        case False
        then obtain m' where "m' \<in> set (memberships d)" "Mem_OrgID m' = h" "Mem_Role m' = ''owner''" "Mem_UserID m' \<noteq> t"
          using other_owner [OF assms(1), of h t] cnt \<open>m = target\<close> m by auto
        then show ?thesis using keep [of m'] hit m by (auto simp: has_owner_def mem_hit_def)
      qed
    qed (use keep [of m] m in \<open>auto simp: has_owner_def\<close>)
  qed
  ultimately show ?thesis by (simp add: owners_kept_def)
qed (rule owners_kept_same [OF assms(1)])

section \<open>Every organization keeps an owner\<close>

inductive org_step :: "ext \<Rightarrow> db \<Rightarrow> db \<Rightarrow> bool" for x where
  "CreateOrg x env usr body d = (r, d') \<Longrightarrow> org_step x d d'"
| "UpdateOrg x env usr orgID body d = (r, d') \<Longrightarrow> org_step x d d'"
| "DeleteOrg x env usr orgID d = (r, d') \<Longrightarrow> org_step x d d'"
| "InviteMember x env usr orgID body d = (r, d') \<Longrightarrow> org_step x d d'"
| "UpdateMemberRole x env id usr orgID userID body d = (r, d') \<Longrightarrow> org_step x d d'"
| "RemoveMember x env id usr orgID userID d = (r, d') \<Longrightarrow> org_step x d d'"

inductive_cases org_stepE: "org_step x d d'"

lemma org_step_owners: "org_step x d d' \<Longrightarrow> mem_keys d \<Longrightarrow> owners_kept g d d'"
  by (erule org_stepE) (blast intro: CreateOrg_owners UpdateOrg_owners DeleteOrg_owners InviteMember_owners
      UpdateMemberRole_owners RemoveMember_owners)+

interpretation org_system: invariant_system
  "\<lambda>a b. org_step x a b \<and> g \<in> Org_ID ` set (organizations b)" "\<lambda>d. mem_keys d \<and> has_owner g d"
  by unfold_locales (auto dest: org_step_owners [of _ _ _ g] simp: owners_kept_def)

definition sample_user :: "uuid \<Rightarrow> User" where
  "sample_user i = \<lparr>User_ID = i, User_AuthUserID = ''auth'', User_Username = ''ann'', User_Email = ''e@x'',
     User_EmailVerified = True, User_Phone = None, User_AvatarUrl = None, User_CreatedAt = 0, User_UpdatedAt = 0\<rparr>"

definition sample_member :: "uuid \<Rightarrow> string \<Rightarrow> Membership" where
  "sample_member i role = \<lparr>Mem_ID = i, Mem_UserID = i, Mem_OrgID = 5, Mem_Role = role, Mem_InvitedBy = None, Mem_JoinedAt = 0\<rparr>"

text \<open>An organization with the given members (by user and role).\<close>

definition sample_org_db :: "(uuid \<times> string) list \<Rightarrow> db" where
  "sample_org_db ms = empty_db\<lparr>organizations := [\<lparr>Org_ID = 5, Org_Slug = ''acme'', Org_Name = ''Acme'',
     Org_CreatedAt = 0, Org_AuthOrgID = ''local_acme''\<rparr>], users := [sample_user 1, sample_user 2, sample_user 3],
     memberships := map (\<lambda>(i, r). sample_member i r) ms\<rparr>"

lemmas sample_org_defs = sample_org_db_def sample_user_def sample_member_def empty_db_def

text \<open>
  C33. An organization that has an owner keeps one as long as it exists, whatever its members do
  through the organization endpoints, one request after the other.
\<close>

theorem organization_keeps_owner:
  assumes "mem_keys d" and "has_owner g d"
    and "(\<lambda>a b. org_step x a b \<and> g \<in> Org_ID ` set (organizations b))\<^sup>*\<^sup>* d d'"
  shows "has_owner g d'"
  using org_system.run_inv [OF assms(3)] assms(1,2) by blast

theorem organization_keeps_owner_witness:
  "has_owner 5 (snd (RemoveMember (sample_ext []) (sample_env 0) id (Some 1) ''uuuuu'' ''uu''
     (sample_org_db [(1, ''owner''), (2, ''owner'')])))"
proof (rule organization_keeps_owner)
  let ?d = "sample_org_db [(1, ''owner''), (2, ''owner'')]"
  show "mem_keys ?d" "has_owner 5 ?d" by (simp_all add: mem_keys_def has_owner_def sample_org_defs)
  have "5 \<in> Org_ID ` set (organizations (snd (RemoveMember (sample_ext []) (sample_env 0) id (Some 1) ''uuuuu'' ''uu'' ?d)))"
    by (simp add: RemoveMember_def Let_def frame_simps requireRole_def GetMembership_def mem_hit_def query_one_def
        CountOwnersByOrg_def sample_org_defs sample_env_def DeleteMembership_def)
  then show "(\<lambda>a b. org_step (sample_ext []) a b \<and> 5 \<in> Org_ID ` set (organizations b))\<^sup>*\<^sup>* ?d
      (snd (RemoveMember (sample_ext []) (sample_env 0) id (Some 1) ''uuuuu'' ''uu'' ?d))"
    by (intro r_into_rtranclp conjI org_step.intros(6) [OF prod.collapse [symmetric]])
qed

lemma requireRole_Some:
  assumes "requireRole env (Some g) usr allowed d = Some m"
  shows "m \<in> set (memberships d)" "usr = Some (Mem_UserID m)" "Mem_OrgID m = g" "Mem_Role m \<in> set allowed"
  using assms by (auto simp: requireRole_def GetMembership_def mem_hit_def sql_eq_Some_iff
      split: sum.splits if_splits dest: query_one_Inr)



section \<open>Limits of the design\<close>

text \<open>
  Creating an organization never leaves an audit entry: the entry names both a user and an
  organization, which the constraint of the table refuses, and the failure is only logged.
\<close>

theorem CreateOrg_not_audited: "audit_log (snd (CreateOrg x env usr body d)) = audit_log d"
proof (cases rule: CreateOrg_cases [OF prod.collapse [symmetric], of x env usr body d])
  case (2 req org)
  then show ?thesis using UpsertOrg_frame by blast
next
  case (3 req org d1 m d2)
  have "usr \<noteq> None" using CreateMembership_Inr(1) [OF 3(2)] by simp
  then have "audit env 2 usr usr (Some (Org_ID org)) ''org.created'' (Some (Org_ID org)) d2 = d2"
    by (auto simp: audit_def guarded_def InsertAuditLog_def one_owner_def split: option.splits)
  then show ?thesis
    using 3(4) CreateMembership_Inr(4) [OF 3(2)] UpsertOrg_frame [OF 3(1)] by simp
qed simp

text \<open>
  Organizations made through the API can be taken over: creating an organization with the slug
  of an existing one finds the existing row and makes the caller, who need not be a member, its owner.
\<close>

theorem CreateOrg_takes_over:
  assumes "x_json x body = Some j" and "decode_orgRequest j = Some req"
    and "validate_struct x (orgRequest_fields req) = None" and "\<And>c n. \<not> e_fault env c n"
    and "org \<in> set (organizations d)" and "Org_AuthOrgID org = local_org_id (OR_Slug req)"
    and "distinct (map Org_AuthOrgID (organizations d))"
    and "u \<in> User_ID ` set (users d)" and "\<And>m. m \<in> set (memberships d) \<Longrightarrow> Mem_UserID m = u \<Longrightarrow> Mem_OrgID m \<noteq> Org_ID org"
    and "e_uuid env 1 \<notin> Mem_ID ` set (memberships d)"
  shows "\<exists>m \<in> set (memberships (snd (CreateOrg x env (Some u) body d))).
    Mem_UserID m = u \<and> Mem_OrgID m = Org_ID org \<and> Mem_Role m = ''owner''"
proof -
  let ?f = "\<lambda>x. x\<lparr>Org_Name := OR_Name req\<rparr>"
  let ?d1 = "d\<lparr>organizations := update_where (\<lambda>x. Org_AuthOrgID x = local_org_id (OR_Slug req)) ?f (organizations d)\<rparr>"
  have "find (\<lambda>g. Org_AuthOrgID g = local_org_id (OR_Slug req)) (organizations d) = Some org"
    by (rule find_unique) (use assms(5-7) distinct_key_eq in fastforce)+
  then have up: "UpsertOrg env 0 (local_org_id (OR_Slug req)) (OR_Slug req) (OR_Name req) d = Inr (?f org, ?d1)"
    by (simp add: UpsertOrg_def)
  have "Org_ID org \<in> Org_ID ` set (organizations ?d1)" using assms(5) by (simp add: image_update_where)
  then have "\<exists>m d2. CreateMembership env 1 (Some u) (Some (Org_ID org)) ''owner'' None ?d1 = Inr (m, d2)"
    using assms(8-10) by (auto simp: CreateMembership_def valid_role_def Let_def)
  then obtain m d2 where cm: "CreateMembership env 1 (Some u) (Some (Org_ID org)) ''owner'' None ?d1 = Inr (m, d2)" by blast
  have "memberships (snd (CreateOrg x env (Some u) body d)) = memberships d2"
    using assms(1-4) up cm by (simp add: CreateOrg_def frame_simps)
  then show ?thesis using CreateMembership_Inr [OF cm] by auto
qed

definition sample_org_json :: json where
  "sample_org_json = JObj [(''name'', JStr ''Mine''), (''slug'', JStr ''acme'')]"

theorem CreateOrg_takes_over_witness:
  "\<exists>m \<in> set (memberships (snd (CreateOrg (sample_ext [sample_org_json]) (sample_env 0) (Some 3)
     (json_text sample_org_json) (sample_org_db [(1, ''owner'')])))).
     Mem_UserID m = 3 \<and> Mem_OrgID m = 5 \<and> Mem_Role m = ''owner''"
proof -
  let ?org = "\<lparr>Org_ID = 5, Org_Slug = ''acme'', Org_Name = ''Acme'', Org_CreatedAt = 0, Org_AuthOrgID = ''local_acme''\<rparr>"
  let ?req = "\<lparr>OR_Name = ''Mine'', OR_Slug = ''acme''\<rparr>"
  have "decode_orgRequest sample_org_json = Some ?req"
    "validate_struct (sample_ext [sample_org_json]) (orgRequest_fields ?req) = None" by code_simp+
  moreover have "x_json (sample_ext [sample_org_json]) (json_text sample_org_json) = Some sample_org_json" by simp
  ultimately have "\<exists>m \<in> set (memberships (snd (CreateOrg (sample_ext [sample_org_json]) (sample_env 0) (Some 3)
     (json_text sample_org_json) (sample_org_db [(1, ''owner'')])))).
     Mem_UserID m = 3 \<and> Mem_OrgID m = Org_ID ?org \<and> Mem_Role m = ''owner''"
    by (intro CreateOrg_takes_over [where req = ?req]) (auto simp: sample_org_defs sample_env_def local_org_id_def)
  then show ?thesis by simp
qed

text \<open>
  The check for the last owner is not atomic: two owners who remove each other at the same time
  both pass it and leave the organization without an owner.
\<close>

theorem last_owner_race:
  "\<exists>x env a b g d. has_owner g d
     \<and> \<not> has_owner g (snd (RemoveMember x env (\<lambda>d. snd (RemoveMember x env id b ''uuuuu'' ''u'' d)) a ''uuuuu'' ''uu'' d))"
proof -
  let ?d = "sample_org_db [(1, ''owner''), (2, ''owner'')]"
  let ?x = "sample_ext []" and ?e = "sample_env 0"
  have "memberships (snd (RemoveMember ?x ?e id (Some 2) ''uuuuu'' ''u'' ?d)) = [sample_member 2 ''owner'']"
    by (simp add: RemoveMember_def Let_def frame_simps requireRole_def GetMembership_def mem_hit_def query_one_def
        CountOwnersByOrg_def sample_org_defs sample_env_def DeleteMembership_def delete_where_def)
  then have "memberships (snd (RemoveMember ?x ?e (\<lambda>d. snd (RemoveMember ?x ?e id (Some 2) ''uuuuu'' ''u'' d))
      (Some 1) ''uuuuu'' ''uu'' ?d)) = []"
    unfolding RemoveMember_def [of ?x ?e "\<lambda>d. snd (RemoveMember ?x ?e id (Some 2) ''uuuuu'' ''u'' d)"]
    by (simp add: Let_def frame_simps requireRole_def GetMembership_def mem_hit_def query_one_def
        CountOwnersByOrg_def sample_org_db_def sample_member_def sample_env_def DeleteMembership_def delete_where_def)
  then have "\<not> has_owner 5 (snd (RemoveMember ?x ?e (\<lambda>d. snd (RemoveMember ?x ?e id (Some 2) ''uuuuu'' ''u'' d))
      (Some 1) ''uuuuu'' ''uu'' ?d))" by (simp add: has_owner_def)
  moreover have "has_owner 5 ?d" by (simp add: has_owner_def sample_org_defs)
  ultimately show ?thesis by blast
qed

end
