(* ===== verification/Account.thy ===== *)
theory Account
  imports Orgs
begin

text \<open>
  Who the caller is and their own account: the token middleware and the scope middleware
  (\<open>api/internal/middleware/auth\<close>) and the account endpoints (\<open>api/internal/handler/account\<close>).
  Parsing and verifying a JWT (golang-jwt, with the public key and the issuer) is the parameter
  \<open>verify\<close>: the claims of an accepted token.
\<close>

section \<open>Token middleware\<close>

record Claims =
  Cl_Subject :: string
  Cl_Name :: string
  Cl_Email :: string
  Cl_OrgID :: string
  Cl_OrgSlug :: string

definition extractToken :: "string \<Rightarrow> string option \<Rightarrow> string" where
  "extractToken authorization cookie =
     (case cut_prefix authorization ''Bearer '' of
        Some token \<Rightarrow> token
      | None \<Rightarrow> (case cookie of Some v \<Rightarrow> if v \<noteq> '''' then v else '''' | None \<Rightarrow> ''''))"

definition AuthJWT ::
  "(string \<Rightarrow> Claims option) \<Rightarrow> string \<Rightarrow> string option \<Rightarrow> (Claims \<Rightarrow> 's \<Rightarrow> 'a reply \<times> 's) \<Rightarrow> 's \<Rightarrow> 'a reply \<times> 's"
  where
  "AuthJWT verify authorization cookie next st =
     (let token = extractToken authorization cookie in
      if token = '''' then (ErrResponse 401 ''missing authorization token'', st)
      else case verify token of
        None \<Rightarrow> (ErrResponse 401 ''invalid or expired token'', st)
      | Some claims \<Rightarrow> next claims st)"

section \<open>Scope middleware\<close>

definition ensureUser :: "env \<Rightarrow> Claims \<Rightarrow> db \<Rightarrow> dberr + (User \<times> db)" where
  "ensureUser env claims d =
     (case guarded env ''GetUserByAuthID'' 0 (GetUserByAuthID (Cl_Subject claims) d) of
        Inr user \<Rightarrow> Inr (user, d)
      | Inl e \<Rightarrow>
          if e = ErrNoRows
          then guarded env ''UpsertUser'' 0
                 (UpsertUser env 0 (Cl_Subject claims) (Cl_Name claims) (Cl_Email claims) False None None d)
          else Inl e)"

definition ensureOrg :: "env \<Rightarrow> string \<Rightarrow> string \<Rightarrow> string \<Rightarrow> db \<Rightarrow> dberr + (Organization \<times> db)" where
  "ensureOrg env slug authID name d =
     (case guarded env ''GetOrganizationBySlug'' 0 (GetOrganizationBySlug slug d) of
        Inr org \<Rightarrow> Inr (org, d)
      | Inl e \<Rightarrow>
          if e = ErrNoRows \<and> authID \<noteq> ''''
          then guarded env ''UpsertOrg'' 0
                 (UpsertOrg env 1 authID slug (if name = '''' then slug else name) d)
          else Inl e)"

record org_headers =
  H_OrgSlug :: string \<comment> \<open>\<open>X-Org-Slug\<close>\<close>
  H_OrgID :: string \<comment> \<open>\<open>X-Org-ID\<close>\<close>
  H_OrgName :: string \<comment> \<open>\<open>X-Org-Name\<close>\<close>

text \<open>\<open>Scope\<close>: the handler behind it gets the user and, when one is resolved, the organization.\<close>

definition Scope ::
  "env \<Rightarrow> Claims option \<Rightarrow> org_headers \<Rightarrow> (pg_uuid \<Rightarrow> pg_uuid \<Rightarrow> db \<Rightarrow> 'a reply \<times> db) \<Rightarrow> db \<Rightarrow> 'a reply \<times> db"
  where
  "Scope env claims h next d =
     (case claims of
        None \<Rightarrow> (ErrResponse 401 ''auth claims not found in context'', d)
      | Some c \<Rightarrow>
        (case ensureUser env c d of
           Inl _ \<Rightarrow> (ErrResponse 500 ''user not found'', d)
         | Inr (user, d1) \<Rightarrow>
           let fallback = (H_OrgSlug h = '''' \<and> Cl_OrgSlug c \<noteq> '''');
               orgSlug = (if fallback then Cl_OrgSlug c else H_OrgSlug h);
               orgAuthID = (if fallback then Cl_OrgID c else H_OrgID h)
           in if orgSlug = '''' then next (Some (User_ID user)) None d1
              else case ensureOrg env orgSlug orgAuthID (H_OrgName h) d1 of
                Inl _ \<Rightarrow> next (Some (User_ID user)) None d1
              | Inr (org, d2) \<Rightarrow> next (Some (User_ID user)) (Some (Org_ID org)) d2))"

section \<open>Account endpoints\<close>

record profileResponse =
  PR_User :: User
  PR_Memberships :: "ListMembershipsByUserRow list"

definition GetProfile :: "env \<Rightarrow> pg_uuid \<Rightarrow> db \<Rightarrow> profileResponse reply" where
  "GetProfile env usr d =
     (case guarded env ''GetUserByID'' 0 (GetUserByID usr d) of
        Inl _ \<Rightarrow> ErrResponse 500 ErrInternal
      | Inr user \<Rightarrow>
          if e_fault env ''ListMembershipsByUser'' 0 then ErrResponse 500 ErrInternal
          else OkResponse \<lparr>PR_User = user, PR_Memberships = ListMembershipsByUser usr d\<rparr>)"

record updateProfileRequest =
  UP_Username :: string
  UP_Phone :: "string option"

definition decode_updateProfileRequest :: "json \<Rightarrow> updateProfileRequest option" where
  "decode_updateProfileRequest j =
     (case j of
        JNull \<Rightarrow> Some \<lparr>UP_Username = '''', UP_Phone = None\<rparr>
      | JObj ms \<Rightarrow> (case (str_field ''username'' '''' ms, opt_str_field ''phone'' None ms) of
          (Some n, Some p) \<Rightarrow> Some \<lparr>UP_Username = n, UP_Phone = p\<rparr> | _ \<Rightarrow> None)
      | _ \<Rightarrow> None)"

definition UpdateProfile :: "ext \<Rightarrow> env \<Rightarrow> pg_uuid \<Rightarrow> string \<Rightarrow> db \<Rightarrow> User reply \<times> db" where
  "UpdateProfile x env usr body d =
     (case Option.bind (x_json x body) decode_updateProfileRequest of
        None \<Rightarrow> (ErrResponse 400 ErrInvalidBody, d)
      | Some req \<Rightarrow>
        if UP_Username req = '''' \<and> UP_Phone req = None
        then (ErrResponse 400 ''at least one field required'', d)
        else case guarded env ''UpdateUser'' 0
               (UpdateUser env (UP_Username req) '''' False (UP_Phone req) None usr d) of
          Inl _ \<Rightarrow> (ErrResponse 500 ErrInternal, d)
        | Inr (user, d1) \<Rightarrow>
            (OkResponse user, audit env 0 usr usr None ''account.updated'' usr d1))"

definition DeleteAccount :: "env \<Rightarrow> pg_uuid \<Rightarrow> db \<Rightarrow> unit reply \<times> db" where
  "DeleteAccount env usr d =
     (case guarded env ''DeleteUser'' 0 (DeleteUser usr d) of
        Inl _ \<Rightarrow> (ErrResponse 500 ErrInternal, d)
      | Inr d1 \<Rightarrow> (WriteHeader 204, d1))"

definition ListSessions :: "env \<Rightarrow> pg_uuid \<Rightarrow> db \<Rightarrow> Session list reply" where
  "ListSessions env usr d =
     (if e_fault env ''ListSessionsByUser'' 0 then ErrResponse 500 ErrInternal
      else OkResponse (ListSessionsByUser usr d))"

definition RevokeSession :: "ext \<Rightarrow> env \<Rightarrow> pg_uuid \<Rightarrow> string \<Rightarrow> db \<Rightarrow> unit reply \<times> db" where
  "RevokeSession x env usr i d =
     (case x_uuid_scan x i of
        None \<Rightarrow> (ErrResponse 400 ErrBadUUID, d)
      | Some sessionID \<Rightarrow>
          if e_fault env ''DeleteSession'' 0 then (ErrResponse 404 ''session not found'', d)
          else (WriteHeader 204, DeleteSession (Some sessionID) usr d))"

section \<open>Properties\<close>

text \<open>
  Revoking sessions is confined to the caller: another user's sessions are listed to that user
  exactly as before, and the revoked session is gone from the caller's list.
\<close>

theorem RevokeSession_confined:
  assumes "usr \<noteq> other" and "x_uuid_scan x i = Some k" and "RevokeSession x env usr i d = (WriteHeader 204, d')"
  shows "set (ListSessionsByUser other d') = set (ListSessionsByUser other d)
    \<and> (\<forall>s \<in> set (ListSessionsByUser usr d'). Sess_ID s \<noteq> k)"
proof -
  have d': "d' = DeleteSession (Some k) usr d"
    using assms(2,3) by (auto simp: RevokeSession_def split: if_splits)
  have "Sess_ID s \<noteq> k" if "s \<in> set (ListSessionsByUser usr d')" for s
  proof
    assume "Sess_ID s = k"
    then show False
      using that session_table.delete_own [of usr s "Some k" d]
      by (auto simp: d' ListSessionsByUser_def sql_eq_Some_iff)
  qed
  then show ?thesis using session_table.delete_list_other [OF assms(1), of "Some k" d] d' by simp
qed

definition sample_session :: "uuid \<Rightarrow> uuid \<Rightarrow> Session" where
  "sample_session i u = \<lparr>Sess_ID = i, Sess_UserID = u, Sess_AuthSessionID = ''s'', Sess_DeviceName = None,
     Sess_IpAddress = None, Sess_LastActiveAt = 0, Sess_CreatedAt = 0\<rparr>"

theorem RevokeSession_confined_witness:
  "set (ListSessionsByUser (Some 2) (snd (RevokeSession (sample_ext []) (sample_env 0) (Some 1) ''u''
     (empty_db\<lparr>sessions := [sample_session 1 1, sample_session 3 2]\<rparr>))))
   = set (ListSessionsByUser (Some 2) (empty_db\<lparr>sessions := [sample_session 1 1, sample_session 3 2]\<rparr>))"
proof -
  let ?d = "empty_db\<lparr>sessions := [sample_session 1 1, sample_session 3 2]\<rparr>"
  have "RevokeSession (sample_ext []) (sample_env 0) (Some 1) ''u'' ?d
      = (WriteHeader 204, snd (RevokeSession (sample_ext []) (sample_env 0) (Some 1) ''u'' ?d))"
    by (simp add: RevokeSession_def sample_env_def)
  from RevokeSession_confined [OF _ _ this, of "Some 2" 1] show ?thesis by simp
qed

text \<open>
  The scope middleware puts a request into any organization whose slug it names: the handler
  behind it gets that organization whether or not the user is a member of it.
\<close>

theorem Scope_checks_no_membership:
  assumes "ensureUser env c d = Inr (user, d1)" and "H_OrgSlug h \<noteq> ''''"
    and "\<not> e_fault env ''GetOrganizationBySlug'' 0" and "GetOrganizationBySlug (H_OrgSlug h) d1 = Inr org"
  shows "Scope env (Some c) h next d = next (Some (User_ID user)) (Some (Org_ID org)) d1"
  using assms by (simp add: Scope_def ensureOrg_def Let_def)

theorem Scope_checks_no_membership_witness:
  "Scope (sample_env 0) (Some \<lparr>Cl_Subject = ''auth'', Cl_Name = ''n'', Cl_Email = ''e'', Cl_OrgID = '''', Cl_OrgSlug = ''''\<rparr>)
     \<lparr>H_OrgSlug = ''acme'', H_OrgID = '''', H_OrgName = ''''\<rparr> (\<lambda>u g d. (WriteJSON 200 (u, g, memberships d), d)) (sample_org_db [])
   = (WriteJSON 200 (Some 1, Some 5, []), sample_org_db [])"
proof -
  have "ensureUser (sample_env 0) \<lparr>Cl_Subject = ''auth'', Cl_Name = ''n'', Cl_Email = ''e'', Cl_OrgID = '''', Cl_OrgSlug = ''''\<rparr>
      (sample_org_db []) = Inr (sample_user 1, sample_org_db [])"
    by (simp add: ensureUser_def GetUserByAuthID_def query_one_def sample_env_def sample_org_defs)
  moreover have "GetOrganizationBySlug ''acme'' (sample_org_db []) = Inr \<lparr>Org_ID = 5, Org_Slug = ''acme'',
      Org_Name = ''Acme'', Org_CreatedAt = 0, Org_AuthOrgID = ''local_acme''\<rparr>"
    by (simp add: GetOrganizationBySlug_def query_one_def sample_org_defs)
  moreover have "User_ID (sample_user 1) = 1" "memberships (sample_org_db []) = []"
    by (simp_all add: sample_org_defs)
  ultimately show ?thesis
    using Scope_checks_no_membership [of "sample_env 0" _ "sample_org_db []" "sample_user 1" "sample_org_db []"
        "\<lparr>H_OrgSlug = ''acme'', H_OrgID = '''', H_OrgName = ''''\<rparr>" _
        "\<lambda>u g d. (WriteJSON 200 (u, g, memberships d), d)"]
    by (simp add: sample_env_def)
qed

text \<open>
  An account that has ever been updated cannot be deleted: the update leaves an audit entry that
  refers to the user, and the deletion then always fails without an effect.
\<close>

theorem updated_account_undeletable:
  assumes "UpdateProfile x env usr body d = (WriteJSON 200 user, d')" and "audit_log d' \<noteq> audit_log d"
  shows "DeleteAccount env' usr d' = (ErrResponse 500 ErrInternal, d')"
proof -
  obtain req :: updateProfileRequest and d1 where
      "UpdateUser env (UP_Username req) '''' False (UP_Phone req) None usr d = Inr (user, d1)"
      and upd: "d' = audit env 0 usr usr None ''account.updated'' usr d1"
    using assms(1) by (auto simp: UpdateProfile_def OkResponse_def split: option.splits sum.splits if_splits)
  from this(1) have "audit_log d1 = audit_log d"
    by (auto simp: UpdateUser_def Let_def split: sum.splits if_splits)
  with assms(2) obtain l where "InsertAuditLog env 0 usr None usr ''account.updated'' usr None d1 = Inr (l, d')"
    unfolding upd by (auto simp: audit_def guarded_def split: if_splits sum.splits)
  then obtain u where u: "usr = Some u" "u \<in> User_ID ` set (users d')" "user_referenced u d'"
    by (auto simp: InsertAuditLog_def user_referenced_def one_owner_def Let_def split: option.splits if_splits)
  then obtain w where "find (\<lambda>x. sql_eq (Some (User_ID x)) (Some u)) (users d') = Some w" "User_ID w = u"
    by (cases "find (\<lambda>x. sql_eq (Some (User_ID x)) (Some u)) (users d')")
      (auto simp: find_None_iff find_Some_iff sql_eq_Some_iff)
  then show ?thesis using u by (cases "e_fault env' ''DeleteUser'' 0") (simp_all add: DeleteAccount_def DeleteUser_def Let_def)
qed


definition sample_profile_json :: json where
  "sample_profile_json = JObj [(''username'', JStr ''bob'')]"

theorem updated_account_undeletable_witness:
  "\<exists>d'. d' \<noteq> empty_db\<lparr>users := [sample_user 1]\<rparr>
    \<and> UpdateProfile (sample_ext [sample_profile_json]) (sample_env 0) (Some 1) (json_text sample_profile_json)
        (empty_db\<lparr>users := [sample_user 1]\<rparr>) = (WriteJSON 200 ((sample_user 1)\<lparr>User_Username := ''bob'', User_EmailVerified := False\<rparr>), d')
    \<and> DeleteAccount (sample_env 5) (Some 1) d' = (ErrResponse 500 ErrInternal, d')"
proof -
  let ?d = "empty_db\<lparr>users := [sample_user 1]\<rparr>"
  let ?r = "UpdateProfile (sample_ext [sample_profile_json]) (sample_env 0) (Some 1) (json_text sample_profile_json) ?d"
  have "decode_updateProfileRequest sample_profile_json = Some \<lparr>UP_Username = ''bob'', UP_Phone = None\<rparr>"
    by code_simp
  then have r: "fst ?r = WriteJSON 200 ((sample_user 1)\<lparr>User_Username := ''bob'', User_EmailVerified := False\<rparr>)" "audit_log (snd ?r) \<noteq> []"
    by (simp_all add: UpdateProfile_def UpdateUser_def query_one_def user_conflict_def audit_def
        InsertAuditLog_def one_owner_def update_where_def OkResponse_def sample_user_def sample_env_def Let_def
        empty_db_def)
  then have "?r = (WriteJSON 200 ((sample_user 1)\<lparr>User_Username := ''bob'', User_EmailVerified := False\<rparr>), snd ?r)"
    by (metis prod.collapse)
  moreover have "audit_log (snd ?r) \<noteq> audit_log ?d" using r(2) by (simp add: empty_db_def)
  moreover from this have "snd ?r \<noteq> ?d" by metis
  ultimately show ?thesis using updated_account_undeletable [of _ _ _ _ ?d _ "snd ?r" "sample_env 5"] by blast
qed

end
