(* ===== verification/Keys.thy ===== *)
theory Keys
  imports StoreTokens Secrets Account
begin

text \<open>
  Keys of a workspace: CLI keys (\<open>api/internal/handler/clikeys\<close>), the middleware that accepts them
  (\<open>api/internal/middleware/clitoken\<close>), AI provider keys (\<open>api/internal/handler/aikeys\<close>), and the
  repository ownership check the handlers share (\<open>api/internal/handler/helpers.go\<close>). A handler gets
  the user and the organization the scope middleware resolved.
\<close>

section \<open>Repository ownership\<close>

datatype ownership_error = RepoNotFound | RepoLookup dberr

definition VerifyRepoOwnership :: "env \<Rightarrow> pg_uuid \<Rightarrow> pg_uuid \<Rightarrow> db \<Rightarrow> ownership_error option" where
  "VerifyRepoOwnership env repoID orgID d =
     (case guarded env ''GetRepoByID'' 0 (GetRepoByID repoID d) of
        Inl e \<Rightarrow> Some (if e = ErrNoRows then RepoNotFound else RepoLookup e)
      | Inr repo \<Rightarrow> if Repo_OrgID repo \<noteq> orgID then Some RepoNotFound else None)"

section \<open>CLI keys\<close>

abbreviation CLIKeyPrefix :: string where "CLIKeyPrefix \<equiv> ''zf_cli_''"

definition generateKey :: "rand \<Rightarrow> string option" where
  "generateKey rand = map_option (\<lambda>b. CLIKeyPrefix @ Base64URLEncode b) (rand 24)"

record clikeys_createResponse =
  CK_ID :: string
  CK_RawKey :: string
  CK_KeyHint :: string
  CK_Label :: string
  CK_CreatedAt :: timestamp

record clikeys_listItem =
  CL_ID :: string
  CL_KeyHint :: string
  CL_Label :: string
  CL_CreatedAt :: timestamp

definition decode_label :: "json \<Rightarrow> string option" where
  "decode_label j = (case j of JNull \<Rightarrow> Some '''' | JObj ms \<Rightarrow> str_field ''label'' '''' ms | _ \<Rightarrow> None)"

definition key_hint :: "string \<Rightarrow> string" where
  "key_hint raw = take (length CLIKeyPrefix + 4) raw @ ''...'' @ drop (length raw - 4) raw"

definition clikeys_Create ::
  "ext \<Rightarrow> env \<Rightarrow> rand \<Rightarrow> pg_uuid \<Rightarrow> pg_uuid \<Rightarrow> string \<Rightarrow> db \<Rightarrow> clikeys_createResponse reply \<times> db" where
  "clikeys_Create x env rand usr org body d =
     (case Option.bind (x_json x body) decode_label of
        None \<Rightarrow> (ErrResponse 400 ErrInvalidBody, d)
      | Some label \<Rightarrow>
        (case validate_struct x [(''Label'', [VRequired], VStr label)] of
           Some err \<Rightarrow> (ErrResponse 400 err, d)
         | None \<Rightarrow>
           (case generateKey rand of
              None \<Rightarrow> (ErrResponse 500 ErrInternal, d)
            | Some raw \<Rightarrow>
              (case guarded env ''InsertCLIAPIKey'' 0
                 (InsertCLIAPIKey env 0 org (if org \<noteq> None then None else usr)
                   (SHA256Hash x raw) (key_hint raw) label d) of
                 Inl _ \<Rightarrow> (ErrResponse 500 ErrInternal, d)
               | Inr (key, d1) \<Rightarrow>
                   (WriteJSON 201 \<lparr>CK_ID = x_uuid_string x (CliKey_ID key), CK_RawKey = raw,
                      CK_KeyHint = key_hint raw, CK_Label = CliKey_Label key,
                      CK_CreatedAt = CliKey_CreatedAt key\<rparr>, d1)))))"

definition clikeys_List :: "ext \<Rightarrow> env \<Rightarrow> pg_uuid \<Rightarrow> pg_uuid \<Rightarrow> db \<Rightarrow> clikeys_listItem list reply" where
  "clikeys_List x env usr org d =
     (let item = (\<lambda>k. \<lparr>CL_ID = x_uuid_string x (LCK_ID k), CL_KeyHint = LCK_KeyHint k,
                       CL_Label = LCK_Label k, CL_CreatedAt = LCK_CreatedAt k\<rparr>) in
      if org \<noteq> None
      then (if e_fault env ''ListCLIAPIKeysByOrg'' 0 then ErrResponse 500 ErrInternal
            else OkResponse (map item (ListCLIAPIKeysByOrg org d)))
      else (if e_fault env ''ListCLIAPIKeysByUser'' 0 then ErrResponse 500 ErrInternal
            else OkResponse (map item (ListCLIAPIKeysByUser usr d))))"

definition clikeys_Delete :: "ext \<Rightarrow> env \<Rightarrow> pg_uuid \<Rightarrow> pg_uuid \<Rightarrow> string \<Rightarrow> db \<Rightarrow> unit reply \<times> db" where
  "clikeys_Delete x env usr org keyID d =
     (case x_uuid_scan x keyID of
        None \<Rightarrow> (ErrResponse 400 ErrBadUUID, d)
      | Some i \<Rightarrow>
          if org \<noteq> None
          then (if e_fault env ''DeleteCLIAPIKeyForOrg'' 0 then (ErrResponse 500 ErrInternal, d)
                else (WriteHeader 204, DeleteCLIAPIKeyForOrg (Some i) org d))
          else (if e_fault env ''DeleteCLIAPIKeyForUser'' 0 then (ErrResponse 500 ErrInternal, d)
                else (WriteHeader 204, DeleteCLIAPIKeyForUser (Some i) usr d)))"

section \<open>CLI key middleware\<close>

text \<open>
  The handler behind it gets the organization of the key, invalid for the global key. The state it
  works on is of any type; the key is looked up in the database \<open>d\<close>.
\<close>

definition clitoken_Auth ::
  "ext \<Rightarrow> env \<Rightarrow> string \<Rightarrow> string \<Rightarrow> (pg_uuid \<Rightarrow> 's \<Rightarrow> 'a reply \<times> 's) \<Rightarrow> db \<Rightarrow> 's \<Rightarrow> 'a reply \<times> 's"
  where
  "clitoken_Auth x env globalKey authorization next d st =
     (case cut_prefix authorization ''Bearer '' of
        None \<Rightarrow> (ErrResponse 401 ''missing CLI API key'', st)
      | Some token \<Rightarrow>
          if token = '''' then (ErrResponse 401 ''missing CLI API key'', st)
          else if has_prefix token CLIKeyPrefix
          then (case guarded env ''GetCLIAPIKeyByHash'' 0 (GetCLIAPIKeyByHash (SHA256Hash x token) d) of
                  Inl e \<Rightarrow> (if e = ErrNoRows then ErrResponse 401 ''invalid CLI API key''
                            else ErrResponse 500 ErrInternal, st)
                | Inr key \<Rightarrow> next (CliKey_OrgID key) st)
          else if globalKey \<noteq> '''' \<and> token = globalKey then next None st
          else (ErrResponse 401 ''invalid CLI API key'', st))"

section \<open>AI provider keys\<close>

record aikeys_body =
  AK_Provider :: string
  AK_RawKey :: string

definition decode_aikeys_body :: "json \<Rightarrow> aikeys_body option" where
  "decode_aikeys_body j =
     (case j of
        JNull \<Rightarrow> Some \<lparr>AK_Provider = '''', AK_RawKey = ''''\<rparr>
      | JObj ms \<Rightarrow> (case (str_field ''provider'' '''' ms, str_field ''raw_key'' '''' ms) of
          (Some p, Some k) \<Rightarrow> Some \<lparr>AK_Provider = p, AK_RawKey = k\<rparr> | _ \<Rightarrow> None)
      | _ \<Rightarrow> None)"

definition aikeys_fields :: "aikeys_body \<Rightarrow> vfield list" where
  "aikeys_fields b = [(''Provider'', [VRequired], VStr (AK_Provider b)),
     (''RawKey'', [VRequired, VMin 8], VStr (AK_RawKey b))]"

definition aikeys_List :: "env \<Rightarrow> pg_uuid \<Rightarrow> db \<Rightarrow> ListAIProviderKeysRow list reply" where
  "aikeys_List env org d =
     (if e_fault env ''ListAIProviderKeysByOrg'' 0 then ErrResponse 500 ErrInternal
      else OkResponse (ListAIProviderKeysByOrg org d))"

text \<open>
  The hint takes the last four bytes of the key: a shorter key would be a panic, which the
  recovering middleware answers with a bare 500.
\<close>

definition aikeys_Upsert ::
  "ext \<Rightarrow> env \<Rightarrow> aead \<Rightarrow> rand \<Rightarrow> pg_uuid \<Rightarrow> string \<Rightarrow> db \<Rightarrow> unit reply \<times> db" where
  "aikeys_Upsert x env enc rand org body d =
     (case Option.bind (x_json x body) decode_aikeys_body of
        None \<Rightarrow> (ErrResponse 400 ErrInvalidBody, d)
      | Some b \<Rightarrow>
        (case validate_struct x (aikeys_fields b) of
           Some err \<Rightarrow> (ErrResponse 400 err, d)
         | None \<Rightarrow>
           (case Encrypt enc rand (AK_RawKey b) of
              None \<Rightarrow> (ErrResponse 500 ErrInternal, d)
            | Some cipher \<Rightarrow>
                if length (AK_RawKey b) < 4 then (WriteHeader 500, d)
                else (case guarded env ''UpsertAIProviderKeyForOrg'' 0
                   (UpsertAIProviderKeyForOrg env 0 org (AK_Provider b) cipher
                     (''...'' @ drop (length (AK_RawKey b) - 4) (AK_RawKey b)) d) of
                   Inl _ \<Rightarrow> (ErrResponse 500 ErrInternal, d)
                 | Inr (_, d1) \<Rightarrow> (WriteHeader 204, d1)))))"

definition aikeys_Delete :: "env \<Rightarrow> pg_uuid \<Rightarrow> string \<Rightarrow> db \<Rightarrow> unit reply \<times> db" where
  "aikeys_Delete env org provider d =
     (if e_fault env ''DeleteAIProviderKeyForOrg'' 0 then (ErrResponse 500 ErrInternal, d)
      else (WriteHeader 204, DeleteAIProviderKeyForOrg org provider d))"


section \<open>Properties\<close>

lemma clikeys_Create_201:
  assumes "clikeys_Create x env rand usr org body d = (WriteJSON 201 r, d')"
  obtains key b where "rand 24 = Some b" "CK_RawKey r = CLIKeyPrefix @ Base64URLEncode b"
    "CK_ID r = x_uuid_string x (CliKey_ID key)"
    "InsertCLIAPIKey env 0 org (if org \<noteq> None then None else usr) (SHA256Hash x (CK_RawKey r))
       (key_hint (CK_RawKey r)) (CK_Label r) d = Inr (key, d')"
  using assms InsertCLIAPIKey_Inr(5)
  by (fastforce simp: clikeys_Create_def generateKey_def split: option.splits sum.splits)

lemma clitoken_Auth_key:
  "clitoken_Auth x env g (''Bearer '' @ (CLIKeyPrefix @ t)) hdl d st =
     (case guarded env ''GetCLIAPIKeyByHash'' 0 (GetCLIAPIKeyByHash (SHA256Hash x (CLIKeyPrefix @ t)) d) of
        Inl e \<Rightarrow> (if e = ErrNoRows then ErrResponse 401 ''invalid CLI API key'' else ErrResponse 500 ErrInternal, st)
      | Inr key \<Rightarrow> hdl (CliKey_OrgID key) st)"
  unfolding clitoken_Auth_def cut_prefix_append by (simp add: has_prefix_def)

lemma cli_key_deleted_gone:
  assumes "InsertCLIAPIKey env n org usr h hint label d = Inr (key, d')"
    and "d'' = (if org \<noteq> None then DeleteCLIAPIKeyForOrg (Some (CliKey_ID key)) org d'
      else DeleteCLIAPIKeyForUser (Some (CliKey_ID key)) usr d')"
  shows "GetCLIAPIKeyByHash h d'' = Inl ErrNoRows"
proof -
  note key = InsertCLIAPIKey_Inr [OF assms(1)]
  have "\<forall>r \<in> set (cli_api_keys d). CliKey_KeyHash r \<noteq> h" using key(8) by blast
  moreover have "one_owner (CliKey_UserID key) (CliKey_OrgID key)" using key(1-3) by simp
  ultimately show ?thesis
    using assms(2) key(2,3,7)
    by (auto simp: GetCLIAPIKeyByHash_def query_one_NoRows_iff DeleteCLIAPIKeyForOrg_def
        DeleteCLIAPIKeyForUser_def set_delete_where one_owner_def sql_eq_def)
qed

lemma cli_key_survives:
  assumes "GetCLIAPIKeyByHash h d = Inr key" and "(CliKey_UserID key, CliKey_OrgID key) \<noteq> (usr, org)"
    and "one_owner usr org" and "one_owner (CliKey_UserID key) (CliKey_OrgID key)"
  shows "GetCLIAPIKeyByHash h (snd (clikeys_Delete x env usr org i d)) = Inr key"
  using assms by (auto simp: clikeys_Delete_def GetCLIAPIKeyByHash_def DeleteCLIAPIKeyForOrg_def
      DeleteCLIAPIKeyForUser_def sql_eq_def one_owner_def intro!: query_one_delete_other split: option.splits)


definition sample_rand :: rand where
  "sample_rand n = Some (replicate n CHR ''r'')"

definition sample_label :: json where
  "sample_label = JObj [(''label'', JStr ''ci'')]"


end
