(* ===== verification/ApiRead.thy ===== *)
theory ApiRead
  imports Keys
begin

text \<open>
  The reading endpoints of the API (\<open>api/internal/handler/api\<close>): repositories, jobs and snapshots of
  the caller's scope, and the paging of job lists. Printing and reading an RFC 3339 timestamp
  (\<open>time.Format\<close>, \<open>time.Parse\<close>) are the parameters \<open>fmt\<close> and \<open>parse\<close>.
\<close>

section \<open>Branch parameter\<close>

abbreviation maxBranchLength :: nat where "maxBranchLength \<equiv> 256"

definition parseBranch :: "string \<Rightarrow> string + string" where
  "parseBranch raw =
     (let branch = TrimSpace raw in
      if branch = '''' then Inl ''branch query param required''
      else if length branch > maxBranchLength then Inl ''branch name exceeds maximum length''
      else Inr branch)"

section \<open>Jobs\<close>

definition GetJob :: "ext \<Rightarrow> env \<Rightarrow> pg_uuid \<Rightarrow> string \<Rightarrow> string \<Rightarrow> db \<Rightarrow> Job reply" where
  "GetJob x env org repoID jobID d =
     (case x_uuid_scan x repoID of
        None \<Rightarrow> ErrResponse 400 ''invalid repo id''
      | Some rid \<Rightarrow>
        if VerifyRepoOwnership env (Some rid) org d \<noteq> None then ErrResponse 404 ''repo not found''
        else (case x_uuid_scan x jobID of
           None \<Rightarrow> ErrResponse 400 ''invalid job id''
         | Some jid \<Rightarrow>
           (case guarded env ''GetJobByID'' 0 (GetJobByID (Some jid) d) of
              Inl e \<Rightarrow> if e = ErrNoRows then ErrResponse 404 ''job not found'' else ErrResponse 500 ErrInternal
            | Inr job \<Rightarrow>
                if Some (Job_RepoID job) \<noteq> Some rid then ErrResponse 404 ''job not found'' else OkResponse job)))"

record jobs_page =
  Page_Data :: "Job list"
  Page_NextCursor :: "string option"

definition ListJobs ::
  "ext \<Rightarrow> env \<Rightarrow> (timestamp \<Rightarrow> string) \<Rightarrow> (string \<Rightarrow> timestamp option) \<Rightarrow> pg_uuid \<Rightarrow> string \<Rightarrow> string \<Rightarrow> string \<Rightarrow> db
    \<Rightarrow> jobs_page reply" where
  "ListJobs x env fmt parse org repoID lim cursor d =
     (case x_uuid_scan x repoID of
        None \<Rightarrow> ErrResponse 400 ''invalid repo id''
      | Some rid \<Rightarrow>
        if VerifyRepoOwnership env (Some rid) org d \<noteq> None then ErrResponse 404 ''repo not found''
        else (case ParseCursor parse env cursor of
           Inl err \<Rightarrow> ErrResponse 400 err
         | Inr before \<Rightarrow>
             if e_fault env ''ListJobsByRepo'' 0 then ErrResponse 500 ErrInternal
             else let jobs = ListJobsByRepo (Some rid) before (ParseLimit lim) d in
               WriteJSON 200 \<lparr>Page_Data = jobs,
                 Page_NextCursor = (if int (length jobs) = ParseLimit lim
                   then Some (fmt (Job_CreatedAt (last jobs))) else None)\<rparr>))"

section \<open>Repositories\<close>

definition ListRepos :: "env \<Rightarrow> pg_uuid \<Rightarrow> pg_uuid \<Rightarrow> string \<Rightarrow> string \<Rightarrow> db \<Rightarrow> Repository list reply" where
  "ListRepos env usr org lim cursor d =
     (if org \<noteq> None
      then (if e_fault env ''ListReposByOrg'' 0 then ErrResponse 500 ErrInternal
            else OkResponse (ListReposByOrg org cursor (ParseLimit lim) d))
      else (if e_fault env ''ListReposByUser'' 0 then ErrResponse 500 ErrInternal
            else OkResponse (ListReposByUser usr cursor (ParseLimit lim) d)))"

definition GetRepo :: "ext \<Rightarrow> env \<Rightarrow> pg_uuid \<Rightarrow> string \<Rightarrow> db \<Rightarrow> Repository reply" where
  "GetRepo x env org repoID d =
     (case x_uuid_scan x repoID of
        None \<Rightarrow> ErrResponse 400 ''invalid repo id''
      | Some rid \<Rightarrow>
        (case guarded env ''GetRepoByID'' 0 (GetRepoByID (Some rid) d) of
           Inl e \<Rightarrow> if e = ErrNoRows then ErrResponse 404 ''repo not found'' else ErrResponse 500 ErrInternal
         | Inr repo \<Rightarrow> if Repo_OrgID repo \<noteq> org then ErrResponse 404 ''repo not found'' else OkResponse repo))"

section \<open>Snapshots\<close>

definition GetSnapshot :: "ext \<Rightarrow> env \<Rightarrow> pg_uuid \<Rightarrow> string \<Rightarrow> db \<Rightarrow> Snapshot reply" where
  "GetSnapshot x env org snapshotID d =
     (case x_uuid_scan x snapshotID of
        None \<Rightarrow> ErrResponse 400 ''invalid snapshot id''
      | Some sid \<Rightarrow>
        (case guarded env ''GetSnapshotByID'' 0 (GetSnapshotByID (Some sid) d) of
           Inl e \<Rightarrow> if e = ErrNoRows then ErrResponse 404 ''snapshot not found'' else ErrResponse 500 ErrInternal
         | Inr snap \<Rightarrow>
           (case guarded env ''GetRepoByID'' 0 (GetRepoByID (Some (Snap_RepoID snap)) d) of
              Inl _ \<Rightarrow> ErrResponse 404 ''snapshot not found''
            | Inr repo \<Rightarrow>
                if Repo_OrgID repo \<noteq> org then ErrResponse 404 ''snapshot not found'' else OkResponse snap)))"

definition ListSnapshots :: "ext \<Rightarrow> env \<Rightarrow> pg_uuid \<Rightarrow> string \<Rightarrow> string \<Rightarrow> db \<Rightarrow> Snapshot list reply" where
  "ListSnapshots x env org repoID branch d =
     (case x_uuid_scan x repoID of
        None \<Rightarrow> ErrResponse 400 ''invalid repo id''
      | Some rid \<Rightarrow>
        if VerifyRepoOwnership env (Some rid) org d \<noteq> None then ErrResponse 404 ''repo not found''
        else (case parseBranch branch of
           Inl err \<Rightarrow> ErrResponse 400 err
         | Inr b \<Rightarrow>
             if e_fault env ''GetSnapshotsByBranch'' 0 then ErrResponse 500 ErrInternal
             else OkResponse (GetSnapshotsByBranch (Some rid) b d)))"

definition api_GetLatestSnapshot :: "ext \<Rightarrow> env \<Rightarrow> pg_uuid \<Rightarrow> string \<Rightarrow> string \<Rightarrow> db \<Rightarrow> Snapshot reply" where
  "api_GetLatestSnapshot x env org repoID branch d =
     (case x_uuid_scan x repoID of
        None \<Rightarrow> ErrResponse 400 ''invalid repo id''
      | Some rid \<Rightarrow>
        if VerifyRepoOwnership env (Some rid) org d \<noteq> None then ErrResponse 404 ''repo not found''
        else (case parseBranch branch of
           Inl err \<Rightarrow> ErrResponse 400 err
         | Inr b \<Rightarrow>
           (case guarded env ''GetLatestSnapshot'' 0 (GetLatestSnapshot (Some rid) b d) of
              Inl e \<Rightarrow> if e = ErrNoRows then ErrResponse 404 ''snapshot not found'' else ErrResponse 500 ErrInternal
            | Inr snap \<Rightarrow> OkResponse snap)))"


section \<open>Paging\<close>

text \<open>A client that follows the cursors until there is none; the fuel bounds the number of pages.\<close>

fun follow_pages ::
  "ext \<Rightarrow> env \<Rightarrow> (timestamp \<Rightarrow> string) \<Rightarrow> (string \<Rightarrow> timestamp option) \<Rightarrow> pg_uuid \<Rightarrow> string \<Rightarrow> string \<Rightarrow> db
    \<Rightarrow> nat \<Rightarrow> string \<Rightarrow> Job list option" where
  "follow_pages x env fmt parse org repoID lim d 0 cursor = None"
| "follow_pages x env fmt parse org repoID lim d (Suc n) cursor =
     (case ListJobs x env fmt parse org repoID lim cursor d of
        WriteJSON _ page \<Rightarrow>
          (case Page_NextCursor page of
             None \<Rightarrow> Some (Page_Data page)
           | Some c \<Rightarrow> map_option ((@) (Page_Data page))
               (follow_pages x env fmt parse org repoID lim d n c))
      | _ \<Rightarrow> None)"

lemma filter_order_desc: "filter P (order_desc k rs) = order_desc k (filter P rs)"
  by (simp add: order_desc_def filter_sort rev_filter [symmetric])

lemma order_desc_strict:
  assumes "distinct (map k rs)"
  shows "sorted_wrt (\<lambda>a b. k b < k a) (order_desc k rs)"
proof -
  have "distinct (map k (order_desc k rs))"
    using assms by (simp add: order_desc_def distinct_map)
  then have "sorted_wrt (<) (rev (map k (order_desc k rs)))"
    using order_desc_sorted [of k rs] by (simp add: strict_sorted_iff)
  then show ?thesis by (simp add: sorted_wrt_rev sorted_wrt_map)
qed

lemma strict_desc_drop:
  assumes "sorted_wrt (\<lambda>a b. k b < (k a :: 'b::linorder)) xs" and "0 < n" and "n \<le> length xs"
  shows "filter (\<lambda>j. k j < k (last (take n xs))) xs = drop n xs"
  using assms
proof (induction xs arbitrary: n)
  case (Cons x xs)
  then obtain m where n: "n = Suc m" by (cases n) auto
  show ?case
  proof (cases "m = 0")
    case True
    then show ?thesis using Cons.prems n by (auto simp: filter_id_conv)
  next
    case False
    then have ne: "take m xs \<noteq> []" using Cons.prems n by auto
    then have "last (take m xs) \<in> set xs" by (metis last_in_set in_set_takeD)
    then have "\<not> k x < k (last (take m xs))" using Cons.prems by auto
    then show ?thesis using Cons ne False n by simp
  qed
qed simp

definition repo_jobs :: "uuid \<Rightarrow> db \<Rightarrow> Job list" where
  "repo_jobs rid d = order_desc Job_CreatedAt (filter (\<lambda>j. Job_RepoID j = rid) (jobs d))"

lemma ListJobsByRepo_repo_jobs:
  "ListJobsByRepo (Some rid) before lim d = take (nat lim) (filter (\<lambda>j. Job_CreatedAt j < before) (repo_jobs rid d))"
  by (simp add: ListJobsByRepo_def repo_jobs_def filter_order_desc conj_commute)

lemma follow_pages_from:
  assumes "x_uuid_scan x repoID = Some rid" and "VerifyRepoOwnership env (Some rid) org d = None"
    and "\<not> e_fault env ''ListJobsByRepo'' 0" and "\<And>t. fmt t \<noteq> '''' \<and> parse (fmt t) = Some t"
    and "distinct (map Job_CreatedAt (repo_jobs rid d))"
    and "ParseCursor parse env cursor = Inr before"
    and "length (filter (\<lambda>j. Job_CreatedAt j < before) (repo_jobs rid d)) < fuel"
  shows "follow_pages x env fmt parse org repoID lim d fuel cursor
    = Some (filter (\<lambda>j. Job_CreatedAt j < before) (repo_jobs rid d))"
  using assms(6,7)
proof (induction fuel arbitrary: cursor before)
  case (Suc fuel)
  let ?S = "filter (\<lambda>j. Job_CreatedAt j < before) (repo_jobs rid d)"
  let ?n = "nat (ParseLimit lim)"
  have page: "ListJobs x env fmt parse org repoID lim cursor d = WriteJSON 200 \<lparr>Page_Data = take ?n ?S,
      Page_NextCursor = (if int (length (take ?n ?S)) = ParseLimit lim
        then Some (fmt (Job_CreatedAt (last (take ?n ?S)))) else None)\<rparr>"
    using assms(1-3) Suc.prems(1) by (simp add: ListJobs_def ListJobsByRepo_repo_jobs Let_def)
  have n: "0 < ?n" "int ?n = ParseLimit lim" using ParseLimit_range [of lim] by auto
  show ?case
  proof (cases "?n \<le> length ?S")
    case False
    then have "int (length ?S) \<noteq> ParseLimit lim" using n by linarith
    then show ?thesis using False by (simp add: page)
  next
    case True
    let ?t = "Job_CreatedAt (last (take ?n ?S))"
    have ne: "take ?n ?S \<noteq> []" using True n by auto
    have last_in: "last (take ?n ?S) \<in> set ?S" by (metis ne last_in_set in_set_takeD)
    have "sorted_wrt (\<lambda>a b. Job_CreatedAt b < Job_CreatedAt a) (repo_jobs rid d)"
      unfolding repo_jobs_def using assms(5)
      by (intro order_desc_strict) (simp add: repo_jobs_def order_desc_def distinct_map)
    then have "filter (\<lambda>j. Job_CreatedAt j < ?t) ?S = drop ?n ?S"
      using True n by (intro strict_desc_drop sorted_wrt_filter)
    moreover have "filter (\<lambda>j. Job_CreatedAt j < ?t) ?S = filter (\<lambda>j. Job_CreatedAt j < ?t) (repo_jobs rid d)"
      using last_in by (auto intro: filter_cong)
    ultimately have rest: "filter (\<lambda>j. Job_CreatedAt j < ?t) (repo_jobs rid d) = drop ?n ?S" by simp
    have "follow_pages x env fmt parse org repoID lim d fuel (fmt ?t) = Some (drop ?n ?S)"
      unfolding rest [symmetric]
    proof (rule Suc.IH)
      show "ParseCursor parse env (fmt ?t) = Inr ?t" using assms(4) by (simp add: ParseCursor_def)
      show "length (filter (\<lambda>j. Job_CreatedAt j < ?t) (repo_jobs rid d)) < fuel"
        unfolding rest using Suc.prems(2) n True by simp
    qed
    then show ?thesis using n True by (simp add: page)
  qed
qed simp


section \<open>Properties\<close>


definition sample_jobs_db :: db where
  "sample_jobs_db = sample_db\<lparr>jobs := [sample_job JobStatusFailed,
     (sample_job JobStatusQueued)\<lparr>Job_ID := 2, Job_CreatedAt := 3\<rparr>]\<rparr>"

definition sample_fmt :: "timestamp \<Rightarrow> string" where
  "sample_fmt t = (if 0 \<le> t then CHR ''p'' else CHR ''m'') # replicate (nat \<bar>t\<bar>) CHR ''x''"

definition sample_parse :: "string \<Rightarrow> timestamp option" where
  "sample_parse s = (case s of [] \<Rightarrow> None | c # r \<Rightarrow> Some (if c = CHR ''p'' then int (length r) else - int (length r)))"


text \<open>The repositories a scope may read.\<close>

definition in_scope :: "pg_uuid \<Rightarrow> uuid \<Rightarrow> db \<Rightarrow> bool" where
  "in_scope org rid d \<longleftrightarrow> (\<exists>r \<in> set (repositories d). Repo_ID r = rid \<and> Repo_OrgID r = org)"

lemma VerifyRepoOwnership_None: "VerifyRepoOwnership env (Some rid) org d = None \<Longrightarrow> in_scope org rid d"
  by (auto simp: VerifyRepoOwnership_def in_scope_def dest: repo_table.get_Inr
      split: sum.splits if_splits)

text \<open>
  C32. The reading endpoints are confined to the organization of the request: whatever job,
  repository or snapshot they answer with belongs to a repository of that organization.
\<close>

theorem reads_stay_in_org:
  "(GetRepo x env org i d = WriteJSON 200 r \<longrightarrow> in_scope org (Repo_ID r) d)
   \<and> (GetJob x env org i k d = WriteJSON 200 j \<longrightarrow> in_scope org (Job_RepoID j) d)
   \<and> (ListJobs x env fmt parse org i lim c d = WriteJSON 200 p \<longrightarrow> (\<forall>j \<in> set (Page_Data p). in_scope org (Job_RepoID j) d))
   \<and> (GetSnapshot x env org i d = WriteJSON 200 s \<longrightarrow> in_scope org (Snap_RepoID s) d)
   \<and> (ListSnapshots x env org i b d = WriteJSON 200 ss \<longrightarrow> (\<forall>s \<in> set ss. in_scope org (Snap_RepoID s) d))
   \<and> (api_GetLatestSnapshot x env org i b d = WriteJSON 200 s \<longrightarrow> in_scope org (Snap_RepoID s) d)
   \<and> (org \<noteq> None \<longrightarrow> ListRepos env usr org lim c d = WriteJSON 200 rs \<longrightarrow> (\<forall>r \<in> set rs. in_scope org (Repo_ID r) d))"
proof (intro conjI impI ballI)
  show "in_scope org (Repo_ID r) d" if "GetRepo x env org i d = WriteJSON 200 r"
    using that by (auto simp: GetRepo_def OkResponse_def in_scope_def dest: repo_table.get_Inr
        split: option.splits sum.splits if_splits)
  show "in_scope org (Job_RepoID j) d" if "GetJob x env org i k d = WriteJSON 200 j"
    using that by (auto simp: GetJob_def OkResponse_def dest: VerifyRepoOwnership_None
        split: option.splits sum.splits if_splits)
  show "in_scope org (Job_RepoID j) d"
    if page: "ListJobs x env fmt parse org i lim c d = WriteJSON 200 p" and j: "j \<in> set (Page_Data p)" for j
  proof -
    obtain rid before where "VerifyRepoOwnership env (Some rid) org d = None"
      and "Page_Data p = ListJobsByRepo (Some rid) before (ParseLimit lim) d"
      using page by (auto simp: ListJobs_def Let_def split: option.splits sum.splits if_splits)
    then show ?thesis using j VerifyRepoOwnership_None
      by (auto simp: ListJobsByRepo_def dest!: in_set_takeD)
  qed
  show "in_scope org (Snap_RepoID s) d" if "GetSnapshot x env org i d = WriteJSON 200 s"
    using that by (auto simp: GetSnapshot_def OkResponse_def in_scope_def dest!: repo_table.get_Inr
        split: option.splits sum.splits if_splits)
  show "in_scope org (Snap_RepoID s) d"
    if "ListSnapshots x env org i b d = WriteJSON 200 ss" and "s \<in> set ss" for s
    using that by (auto simp: ListSnapshots_def GetSnapshotsByBranch_def OkResponse_def
        dest: VerifyRepoOwnership_None split: option.splits sum.splits if_splits)
  show "in_scope org (Snap_RepoID s) d" if "api_GetLatestSnapshot x env org i b d = WriteJSON 200 s"
    using that by (auto simp: api_GetLatestSnapshot_def OkResponse_def
        dest!: GetLatestSnapshot_Inr(2) dest: VerifyRepoOwnership_None split: option.splits sum.splits if_splits)
  show "in_scope org (Repo_ID r) d"
    if "org \<noteq> None" and "ListRepos env usr org lim c d = WriteJSON 200 rs" and "r \<in> set rs" for r
    using that by (auto simp: ListRepos_def ListReposByOrg_def OkResponse_def in_scope_def sql_eq_def
        dest!: in_set_takeD split: if_splits)
qed


theorem reads_stay_in_org_witness:
  "GetRepo (sample_ext []) (sample_env 0) (Some 5) ''uuuuuuu'' sample_db = WriteJSON 200 sample_repo
   \<and> in_scope (Some 5) 7 sample_db"
proof -
  have "GetRepo (sample_ext []) (sample_env 0) (Some 5) ''uuuuuuu'' sample_db = WriteJSON 200 sample_repo"
    by (simp add: GetRepo_def GetRepoByID_def query_one_def OkResponse_def sample_defs)
  moreover from this have "in_scope (Some 5) (Repo_ID sample_repo) sample_db"
    using reads_stay_in_org [of "sample_ext []" "sample_env 0" "Some 5" "''uuuuuuu''" sample_db sample_repo] by blast
  ultimately show ?thesis by (simp add: sample_repo_def)
qed

text \<open>
  A request in a personal workspace reads the repositories of every user: a repository owned by
  a user has no organization, the request has none either, and nothing compares the users.
\<close>

theorem personal_scope_reads_any_user:
  assumes "x_uuid_scan x i = Some k" and "GetRepoByID (Some k) d = Inr r" and "Repo_OrgID r = None"
    and "\<not> e_fault env ''GetRepoByID'' 0"
  shows "GetRepo x env None i d = WriteJSON 200 r \<and> VerifyRepoOwnership env (Some k) None d = None"
  using assms by (simp add: GetRepo_def VerifyRepoOwnership_def OkResponse_def)

theorem personal_scope_reads_any_user_witness:
  "GetRepo (sample_ext []) (sample_env 0) None ''uuuuuuu''
     (empty_db\<lparr>repositories := [sample_repo\<lparr>Repo_OrgID := None, Repo_UserID := Some 2\<rparr>]\<rparr>)
   = WriteJSON 200 (sample_repo\<lparr>Repo_OrgID := None, Repo_UserID := Some 2\<rparr>)"
  using personal_scope_reads_any_user [of "sample_ext []" "''uuuuuuu''" 7
      "empty_db\<lparr>repositories := [sample_repo\<lparr>Repo_OrgID := None, Repo_UserID := Some 2\<rparr>]\<rparr>"
      "sample_repo\<lparr>Repo_OrgID := None, Repo_UserID := Some 2\<rparr>" "sample_env 0"]
  by (simp add: sample_repo_def sample_env_def GetRepoByID_def query_one_def)

end
