(* ===== verification/ContextTokens.thy ===== *)
theory ContextTokens
  imports ApiRead Worker
begin

text \<open>
  The management of context tokens and their allow lists (\<open>api/internal/handler/contexttokens\<close>).
\<close>

section \<open>Context tokens\<close>

definition generateToken :: "rand \<Rightarrow> string option" where
  "generateToken rand = map_option (\<lambda>b. ''zf_ctx_'' @ Base64URLEncode b) (rand 24)"

record createTokenResponse =
  CT_ID :: string
  CT_RawToken :: string
  CT_Label :: string
  CT_Visibility :: ContextVisibility
  CT_CreatedAt :: timestamp
  CT_ExpiresAt :: "timestamp option"

record createTokenRequest =
  TR_Label :: string
  TR_ExpiresAt :: "string option"
  TR_Visibility :: string
  TR_AllowedUsers :: "string list"

definition decode_createTokenRequest :: "json \<Rightarrow> createTokenRequest option" where
  "decode_createTokenRequest j =
     (case j of
        JNull \<Rightarrow> Some \<lparr>TR_Label = '''', TR_ExpiresAt = None, TR_Visibility = '''', TR_AllowedUsers = []\<rparr>
      | JObj ms \<Rightarrow>
          (case (str_field ''label'' '''' ms, opt_str_field ''expires_at'' None ms,
                 str_field ''visibility'' '''' ms, strs_field ''allowed_users'' [] ms) of
             (Some l, Some e, Some v, Some us) \<Rightarrow>
               Some \<lparr>TR_Label = l, TR_ExpiresAt = e, TR_Visibility = v, TR_AllowedUsers = us\<rparr>
           | _ \<Rightarrow> None)
      | _ \<Rightarrow> None)"

definition createTokenRequest_fields :: "createTokenRequest \<Rightarrow> vfield list" where
  "createTokenRequest_fields r = [(''Visibility'', [VOmitEmpty, VOneof [''public'', ''private'', ''protected'']],
     VStr (TR_Visibility r))]"

definition ctxtokens_List :: "ext \<Rightarrow> env \<Rightarrow> pg_uuid \<Rightarrow> string \<Rightarrow> db \<Rightarrow> ListContextTokensByRepoRow list reply" where
  "ctxtokens_List x env org repoID d =
     (case x_uuid_scan x repoID of
        None \<Rightarrow> ErrResponse 400 ErrBadUUID
      | Some rid \<Rightarrow>
          if VerifyRepoOwnership env (Some rid) org d \<noteq> None then ErrResponse 404 ''repository not found''
          else if e_fault env ''ListContextTokensByRepo'' 0 then ErrResponse 500 ErrInternal
          else OkResponse (ListContextTokensByRepo (Some rid) d))"

text \<open>
  The loop over the users of an allow list: an identifier that does not parse is skipped, and so is
  one whose insertion fails. The counter names the occurrence of the call.
\<close>

fun allow_users :: "ext \<Rightarrow> env \<Rightarrow> nat \<Rightarrow> pg_uuid \<Rightarrow> string list \<Rightarrow> db \<Rightarrow> db" where
  "allow_users x env n tok [] d = d"
| "allow_users x env n tok (uid # uids) d =
     allow_users x env (Suc n) tok uids
       (case x_uuid_scan x uid of
          None \<Rightarrow> d
        | Some u \<Rightarrow> (case guarded env ''InsertContextTokenAllowedUser'' n
              (InsertContextTokenAllowedUser env (Suc n) tok (Some u) d) of Inl _ \<Rightarrow> d | Inr d1 \<Rightarrow> d1))"

text \<open>
  The conversion \<open>store.ContextVisibility(s)\<close> keeps any text; the column's enumeration type refuses
  a text that is not one of its values, and the insertion fails.
\<close>

definition insert_token ::
  "env \<Rightarrow> pg_uuid \<Rightarrow> pg_uuid \<Rightarrow> string \<Rightarrow> pg_text \<Rightarrow> pg_time \<Rightarrow> string \<Rightarrow> db \<Rightarrow> dberr + (ContextToken \<times> db)" where
  "insert_token env repo org h label expires vis d =
     (case visibility_of vis of
        None \<Rightarrow> Inl CheckViolation
      | Some v \<Rightarrow> InsertContextToken env 0 repo None org None h label expires v d)"

definition ctxtokens_Create ::
  "ext \<Rightarrow> env \<Rightarrow> rand \<Rightarrow> (string \<Rightarrow> timestamp option) \<Rightarrow> pg_uuid \<Rightarrow> string \<Rightarrow> string \<Rightarrow> db
    \<Rightarrow> createTokenResponse reply \<times> db" where
  "ctxtokens_Create x env rand parse org repoID body d =
     (case x_uuid_scan x repoID of
        None \<Rightarrow> (ErrResponse 400 ErrBadUUID, d)
      | Some rid \<Rightarrow>
        if VerifyRepoOwnership env (Some rid) org d \<noteq> None then (ErrResponse 404 ''repository not found'', d)
        else (case Option.bind (x_json x body) decode_createTokenRequest of
           None \<Rightarrow> (ErrResponse 400 ErrInvalidBody, d)
         | Some req \<Rightarrow>
           (case validate_struct x (createTokenRequest_fields req) of
              Some err \<Rightarrow> (ErrResponse 400 err, d)
            | None \<Rightarrow>
              let visibility = (if TR_Visibility req \<noteq> '''' then TR_Visibility req else ''public'') in
              (case generateToken rand of
                 None \<Rightarrow> (ErrResponse 500 ErrInternal, d)
               | Some raw \<Rightarrow>
                 (case (case TR_ExpiresAt req of None \<Rightarrow> Some None
                          | Some s \<Rightarrow> map_option Some (parse s)) of
                    None \<Rightarrow> (ErrResponse 400 ''expires_at must be a valid RFC3339 timestamp'', d)
                  | Some expires \<Rightarrow>
                    (case guarded env ''InsertContextToken'' 0
                       (insert_token env (Some rid) org (SHA256Hash x raw)
                         (if TR_Label req \<noteq> '''' then Some (TR_Label req) else None) expires visibility d) of
                       Inl _ \<Rightarrow> (ErrResponse 500 ErrInternal, d)
                     | Inr (tok, d1) \<Rightarrow>
                         (WriteJSON 201 \<lparr>CT_ID = x_uuid_string x (Tok_ID tok), CT_RawToken = raw,
                            CT_Label = (case Tok_Label tok of None \<Rightarrow> '''' | Some l \<Rightarrow> l),
                            CT_Visibility = Tok_Visibility tok, CT_CreatedAt = Tok_CreatedAt tok,
                            CT_ExpiresAt = Tok_ExpiresAt tok\<rparr>,
                          if visibility = ''protected'' \<and> TR_AllowedUsers req \<noteq> []
                          then allow_users x env 0 (Some (Tok_ID tok)) (TR_AllowedUsers req) d1
                          else d1)))))))"

definition decode_userIDs :: "json \<Rightarrow> string list option" where
  "decode_userIDs j =
     (case j of JNull \<Rightarrow> Some [] | JObj ms \<Rightarrow> strs_field ''user_ids'' [] ms | _ \<Rightarrow> None)"

definition UpdateAllowedUsers :: "ext \<Rightarrow> env \<Rightarrow> pg_uuid \<Rightarrow> string \<Rightarrow> string \<Rightarrow> db \<Rightarrow> unit reply \<times> db" where
  "UpdateAllowedUsers x env org tokenID body d =
     (case x_uuid_scan x tokenID of
        None \<Rightarrow> (ErrResponse 400 ErrBadUUID, d)
      | Some t \<Rightarrow>
        (case Option.bind (x_json x body) decode_userIDs of
           None \<Rightarrow> (ErrResponse 400 ErrInvalidBody, d)
         | Some uids \<Rightarrow>
           (case validate_struct x [(''UserIDs'', [VRequired, VMin 1], VStrs uids)] of
              Some err \<Rightarrow> (ErrResponse 400 err, d)
            | None \<Rightarrow>
                if e_fault env ''ReplaceContextTokenAllowedUsers'' 0 then (ErrResponse 500 ErrInternal, d)
                else (WriteHeader 204,
                  allow_users x env 0 (Some t) uids (ReplaceContextTokenAllowedUsers (Some t) d)))))"

definition ListAllowedUsers :: "ext \<Rightarrow> env \<Rightarrow> string \<Rightarrow> db \<Rightarrow> ListContextTokenAllowedUsersRow list reply" where
  "ListAllowedUsers x env tokenID d =
     (case x_uuid_scan x tokenID of
        None \<Rightarrow> ErrResponse 400 ErrBadUUID
      | Some t \<Rightarrow>
          if e_fault env ''ListContextTokenAllowedUsers'' 0 then ErrResponse 500 ErrInternal
          else OkResponse (ListContextTokenAllowedUsers (Some t) d))"

definition ctxtokens_Delete :: "ext \<Rightarrow> env \<Rightarrow> pg_uuid \<Rightarrow> string \<Rightarrow> db \<Rightarrow> unit reply \<times> db" where
  "ctxtokens_Delete x env org tokenID d =
     (case x_uuid_scan x tokenID of
        None \<Rightarrow> (ErrResponse 400 ErrBadUUID, d)
      | Some t \<Rightarrow>
          if e_fault env ''DeleteContextTokenForOrg'' 0 then (ErrResponse 500 ErrInternal, d)
          else (WriteHeader 204, DeleteContextTokenForOrg (Some t) org d))"

end
