(* ===== verification/ContextUrl.thy ===== *)
theory ContextUrl
  imports ContextTokens "HOL-Library.Sublist"
begin

text \<open>
  The public context endpoint (\<open>api/internal/handler/contexturl\<close>), the assembly of the document it
  serves (\<open>api/internal/service/assembly\<close>) and the cache of assembled documents
  (\<open>api/internal/cache/contextcache\<close>). Fetching a Git blob and verifying a JWT are parameters. Work
  the handler leaves to a goroutine is returned as a list of background actions.
\<close>

section \<open>Assembly\<close>

record FileEntry =
  FEn_Path :: string
  FEn_Language :: string
  FEn_Lines :: int
  FEn_SHA :: string

definition zero_entry :: FileEntry where
  "zero_entry = \<lparr>FEn_Path = '''', FEn_Language = '''', FEn_Lines = 0, FEn_SHA = ''''\<rparr>"

definition decode_FileEntry :: "FileEntry \<Rightarrow> json \<Rightarrow> FileEntry option" where
  "decode_FileEntry e j =
     (case j of
        JNull \<Rightarrow> Some e
      | JObj ms \<Rightarrow>
          (case (str_field ''path'' (FEn_Path e) ms, str_field ''language'' (FEn_Language e) ms,
                 int_field ''lines'' (FEn_Lines e) ms, str_field ''sha'' (FEn_SHA e) ms) of
             (Some p, Some l, Some n, Some s) \<Rightarrow>
               Some \<lparr>FEn_Path = p, FEn_Language = l, FEn_Lines = n, FEn_SHA = s\<rparr>
           | _ \<Rightarrow> None)
      | _ \<Rightarrow> None)"

text \<open>The elements of an array are decoded over the elements the slice already has.\<close>

fun decode_entries :: "FileEntry list \<Rightarrow> json list \<Rightarrow> FileEntry list option" where
  "decode_entries old [] = Some []"
| "decode_entries old (j # js) =
     (case decode_FileEntry (case old of [] \<Rightarrow> zero_entry | e # _ \<Rightarrow> e) j of
        None \<Rightarrow> None
      | Some e \<Rightarrow> map_option ((#) e) (decode_entries (drop 1 old) js))"

fun entries_field :: "string \<Rightarrow> FileEntry list \<Rightarrow> (string \<times> json) list \<Rightarrow> FileEntry list option" where
  "entries_field name v [] = Some v"
| "entries_field name v ((k, j) # ms) =
     (if field_match name k
      then (case j of
          JArr js \<Rightarrow> (case decode_entries v js of None \<Rightarrow> None | Some es \<Rightarrow> entries_field name es ms)
        | JNull \<Rightarrow> entries_field name [] ms
        | _ \<Rightarrow> None)
      else entries_field name v ms)"

definition decode_meta :: "json \<Rightarrow> FileEntry list option" where
  "decode_meta j = (case j of JNull \<Rightarrow> Some [] | JObj ms \<Rightarrow> entries_field ''file_tree'' [] ms | _ \<Rightarrow> None)"

text \<open>The texts of the two format strings; the dash of the title is the UTF-8 encoding of U+2014.\<close>

definition doc_title :: "string \<Rightarrow> string \<Rightarrow> string" where
  "doc_title repoFullName commitSha =
     ''# Codebase Snapshot '' @ [CHR 0xE2, CHR 0x80, CHR 0x94] @ '' '' @ repoFullName @ '' @ ''
       @ (if length commitSha > 8 then take 8 commitSha else commitSha) @ [CHR 0x0A, CHR 0x0A]"

definition doc_file :: "FileEntry \<Rightarrow> string \<Rightarrow> string" where
  "doc_file f content =
     ''## '' @ FEn_Path f @ [CHR 0x0A, CHR 0x0A] @ replicate 3 (CHR 0x60)
       @ (if FEn_Language f = '''' then ''text'' else FEn_Language f) @ [CHR 0x0A] @ content
       @ [CHR 0x0A] @ replicate 3 (CHR 0x60) @ [CHR 0x0A, CHR 0x0A]"

text \<open>
  The loop of \<open>Assemble\<close>. The writer is given by which of its writes fail; the result is the text
  written and whether there was no error.
\<close>

fun assemble_files ::
  "(string \<Rightarrow> string option) \<Rightarrow> (nat \<Rightarrow> bool) \<Rightarrow> nat \<Rightarrow> FileEntry list \<Rightarrow> string \<times> bool" where
  "assemble_files fetch fails n [] = ('''', True)"
| "assemble_files fetch fails n (f # fs) =
     (case fetch (FEn_SHA f) of
        None \<Rightarrow> ('''', False)
      | Some content \<Rightarrow>
          if fails n then ('''', False)
          else (let (rest, ok) = assemble_files fetch fails (Suc n) fs in (doc_file f content @ rest, ok)))"

definition Assemble ::
  "string \<Rightarrow> string \<Rightarrow> FileEntry list \<Rightarrow> (string \<Rightarrow> string option) \<Rightarrow> (nat \<Rightarrow> bool) \<Rightarrow> string \<times> bool" where
  "Assemble repoFullName commitSha files fetch fails =
     (if fails 0 then ('''', False)
      else let (rest, ok) = assemble_files fetch fails 1 files
           in (doc_title repoFullName commitSha @ rest, ok))"

section \<open>Cache\<close>

type_synonym cache = "string \<Rightarrow> (string \<times> timestamp) option" \<comment> \<open>value and expiry\<close>

abbreviation cache_ttl :: timestamp where "cache_ttl \<equiv> 10 * usec_per_min"

definition cache_Key :: "string \<Rightarrow> string \<Rightarrow> string" where
  "cache_Key repoID commitSha = ''ctx:'' @ repoID @ '':'' @ commitSha"

definition cache_Get :: "env \<Rightarrow> string \<Rightarrow> cache \<Rightarrow> string option" where
  "cache_Get env key c =
     (if e_fault env ''redis.Get'' 0 then None
      else case c key of None \<Rightarrow> None | Some (v, expiry) \<Rightarrow> if e_now env < expiry then Some v else None)"

definition cache_Set :: "env \<Rightarrow> string \<Rightarrow> string \<Rightarrow> cache \<Rightarrow> cache" where
  "cache_Set env key v c =
     (if e_fault env ''redis.Set'' 0 then c else c(key \<mapsto> (v, e_now env + cache_ttl)))"

section \<open>Access\<close>

datatype access = Allowed | AuthRequired | AccessForbidden

definition extractClaims :: "(string \<Rightarrow> Claims option) \<Rightarrow> string \<Rightarrow> Claims option" where
  "extractClaims verify authorization =
     (case cut_prefix authorization ''Bearer '' of
        None \<Rightarrow> None
      | Some raw \<Rightarrow> if raw = '''' then None else verify raw)"

definition SubjectUUID :: "ext \<Rightarrow> Claims \<Rightarrow> uuid option" where
  "SubjectUUID x c = x_uuid_scan x (Cl_Subject c)"

definition checkVisibility ::
  "ext \<Rightarrow> env \<Rightarrow> (string \<Rightarrow> Claims option) \<Rightarrow> string \<Rightarrow> ContextToken \<Rightarrow> db \<Rightarrow> access" where
  "checkVisibility x env verify authorization tok d =
     (if Tok_Visibility tok = ContextVisibilityPublic then Allowed
      else case extractClaims verify authorization of
        None \<Rightarrow> AuthRequired
      | Some claims \<Rightarrow>
        (case SubjectUUID x claims of
           None \<Rightarrow> AccessForbidden
         | Some userID \<Rightarrow>
           (case Tok_Visibility tok of
              ContextVisibilityPrivate \<Rightarrow>
                if Tok_UserID tok = Some userID then Allowed
                else if Tok_OrgID tok \<noteq> None \<and>
                  \<not> isl (guarded env ''GetMembership'' 0 (GetMembership (Some userID) (Tok_OrgID tok) d))
                then Allowed else AccessForbidden
            | ContextVisibilityProtected \<Rightarrow>
                if e_fault env ''IsUserAllowedForToken'' 0
                  \<or> \<not> IsUserAllowedForToken (Some (Tok_ID tok)) (Some userID) d
                then AccessForbidden else Allowed
            | ContextVisibilityPublic \<Rightarrow> AccessForbidden)))"

definition expired :: "env \<Rightarrow> ContextToken \<Rightarrow> bool" where
  "expired env tok \<longleftrightarrow> (case Tok_ExpiresAt tok of None \<Rightarrow> False | Some e \<Rightarrow> e < e_now env)"

section \<open>Endpoints\<close>

datatype head_reply = HeadStatus nat | HeadOk string string \<comment> \<open>snapshot identifier, commit\<close>

definition Head ::
  "ext \<Rightarrow> env \<Rightarrow> (string \<Rightarrow> Claims option) \<Rightarrow> string \<Rightarrow> string \<Rightarrow> db \<Rightarrow> head_reply" where
  "Head x env verify raw authorization d =
     (case guarded env ''GetContextTokenByHash'' 0 (GetContextTokenByHash (SHA256Hash x raw) d) of
        Inl _ \<Rightarrow> HeadStatus 404
      | Inr tok \<Rightarrow>
          if expired env tok then HeadStatus 410
          else (case checkVisibility x env verify authorization tok d of
             AuthRequired \<Rightarrow> HeadStatus 401
           | AccessForbidden \<Rightarrow> HeadStatus 403
           | Allowed \<Rightarrow>
             (case Tok_TargetSnapshotID tok of
                None \<Rightarrow> HeadStatus 404
              | Some sid \<Rightarrow>
                (case guarded env ''GetSnapshotByID'' 0 (GetSnapshotByID (Some sid) d) of
                   Inl _ \<Rightarrow> HeadStatus 404
                 | Inr snap \<Rightarrow> HeadOk (x_uuid_string x sid) (Snap_CommitSha snap)))))"

datatype background = TouchToken uuid | CacheDocument string string

text \<open>The answer of \<open>Get\<close>: an error, or a document (cut short when the assembly fails half way).\<close>

datatype get_reply = GetError nat string | Document string

text \<open>\<open>h.github.GetBlob\<close>, for an installation and a repository name.\<close>

type_synonym blobs = "int \<Rightarrow> string \<Rightarrow> string \<Rightarrow> string option"

definition token_snapshot :: "env \<Rightarrow> ContextToken \<Rightarrow> db \<Rightarrow> (nat \<times> string) + Snapshot" where
  "token_snapshot env tok d =
     (case Tok_TargetSnapshotID tok of
        Some sid \<Rightarrow>
          (case guarded env ''GetSnapshotByID'' 0 (GetSnapshotByID (Some sid) d) of
             Inl _ \<Rightarrow> Inl (404, ''no snapshot available for this token'') | Inr s \<Rightarrow> Inr s)
      | None \<Rightarrow>
          (case guarded env ''GetRepoByID'' 0 (GetRepoByID (Some (Tok_RepoID tok)) d) of
             Inl _ \<Rightarrow> Inl (500, ErrInternal)
           | Inr repo \<Rightarrow>
             (case guarded env ''GetLatestSnapshot'' 0
                (GetLatestSnapshot (Some (Tok_RepoID tok)) (Repo_DefaultBranch repo) d) of
                Inl _ \<Rightarrow> Inl (404, ''no snapshot available for this token'') | Inr s \<Rightarrow> Inr s)))"

abbreviation errSnapshotOutdated :: string where
  "errSnapshotOutdated \<equiv> ''snapshot outdated: re-run zigzag --upload to generate a v2 snapshot''"

definition serve_snapshot ::
  "ext \<Rightarrow> env \<Rightarrow> blobs \<Rightarrow> ContextToken \<Rightarrow> Snapshot \<Rightarrow> db \<Rightarrow> gcs \<Rightarrow> cache \<Rightarrow> get_reply \<times> background list" where
  "serve_snapshot x env blobs tok snap d g c =
     (let key = cache_Key (x_uuid_string x (Tok_RepoID tok)) (Snap_CommitSha snap) in
      case cache_Get env key c of
        Some cached \<Rightarrow> (Document cached, [])
      | None \<Rightarrow>
        (case Download env (Snap_GcsPath snap) g of
           Inl _ \<Rightarrow> (GetError 500 ErrInternal, [])
         | Inr metaBytes \<Rightarrow>
           (case Option.bind (x_unmarshal x metaBytes) decode_meta of
              None \<Rightarrow> (GetError 500 ErrInternal, [])
            | Some files \<Rightarrow>
              (case guarded env ''GetRepoByID'' 1 (GetRepoByID (Some (Tok_RepoID tok)) d) of
                 Inl _ \<Rightarrow> (GetError 500 ErrInternal, [])
               | Inr repo \<Rightarrow>
                   let (text, ok) = Assemble (Repo_FullName repo) (Snap_CommitSha snap) files
                         (blobs (Repo_InstallationID repo) (Repo_FullName repo)) (e_fault env ''Write'')
                   in (Document text, if ok then [CacheDocument key text] else [])))))"

definition Get_context ::
  "ext \<Rightarrow> env \<Rightarrow> (string \<Rightarrow> Claims option) \<Rightarrow> blobs \<Rightarrow> string \<Rightarrow> string \<Rightarrow> db \<Rightarrow> gcs \<Rightarrow> cache
    \<Rightarrow> get_reply \<times> background list" where
  "Get_context x env verify blobs raw authorization d g c =
     (case guarded env ''GetContextTokenByHash'' 0 (GetContextTokenByHash (SHA256Hash x raw) d) of
        Inl _ \<Rightarrow> (GetError 404 ''context token not found'', [])
      | Inr tok \<Rightarrow>
          if expired env tok then (GetError 410 ''context token has expired'', [])
          else (case checkVisibility x env verify authorization tok d of
             AuthRequired \<Rightarrow> (GetError 401 ''authentication required for this context token'', [])
           | AccessForbidden \<Rightarrow> (GetError 403 ''you do not have access to this context token'', [])
           | Allowed \<Rightarrow>
             (case token_snapshot env tok d of
                Inl (code, err) \<Rightarrow> (GetError code err, [TouchToken (Tok_ID tok)])
              | Inr snap \<Rightarrow>
                  if Snap_SnapshotVersion snap < 2
                  then (GetError 422 errSnapshotOutdated, [TouchToken (Tok_ID tok)])
                  else let (r, bg) = serve_snapshot x env blobs tok snap d g c
                       in (r, TouchToken (Tok_ID tok) # bg))))"

text \<open>A background action at the time it runs.\<close>

fun run_background :: "env \<Rightarrow> background \<Rightarrow> db \<times> cache \<Rightarrow> db \<times> cache" where
  "run_background env (TouchToken i) (d, c) =
     (if e_fault env ''UpdateContextTokenLastUsed'' 0 then (d, c)
      else (UpdateContextTokenLastUsed env (Some i) d, c))"
| "run_background env (CacheDocument k v) (d, c) = (d, cache_Set env k v c)"


section \<open>Properties\<close>

subsection \<open>The document\<close>

text \<open>The document as a whole, from the contents of the blobs.\<close>

definition full_document :: "string \<Rightarrow> string \<Rightarrow> FileEntry list \<Rightarrow> (string \<Rightarrow> string option) \<Rightarrow> string" where
  "full_document name sha files fetch =
     doc_title name sha @ concat (map (\<lambda>f. doc_file f (the (fetch (FEn_SHA f)))) files)"

lemma assemble_files_ok:
  "snd (assemble_files fetch fails n files) \<longleftrightarrow>
     (\<forall>f \<in> set files. fetch (FEn_SHA f) \<noteq> None) \<and> (\<forall>i < length files. \<not> fails (n + i))"
proof (induction files arbitrary: n)
  case (Cons f fs)
  have "(\<forall>i < length (f # fs). \<not> fails (n + i)) \<longleftrightarrow> \<not> fails n \<and> (\<forall>i < length fs. \<not> fails (Suc n + i))"
    by (auto simp: less_Suc_eq_0_disj)
  then show ?case using Cons.IH [of "Suc n"] by (auto split: option.splits prod.splits)
qed simp

lemma assemble_files_text:
  "prefix (fst (assemble_files fetch fails n files)) (concat (map (\<lambda>f. doc_file f (the (fetch (FEn_SHA f)))) files))
   \<and> (snd (assemble_files fetch fails n files) \<longrightarrow>
        fst (assemble_files fetch fails n files) = concat (map (\<lambda>f. doc_file f (the (fetch (FEn_SHA f)))) files))"
proof (induction files arbitrary: n)
  case (Cons f fs)
  show ?case using Cons.IH [of "Suc n"] by (auto split: option.splits prod.splits)
qed simp

lemma Assemble_full:
  assumes "\<forall>f \<in> set files. fetch (FEn_SHA f) \<noteq> None" and "\<And>i. \<not> fails i"
  shows "Assemble name sha files fetch fails = (full_document name sha files fetch, True)"
  using assms assemble_files_ok [of fetch fails 1 files] assemble_files_text [of fetch fails 1 files]
  by (auto simp: Assemble_def full_document_def split: prod.splits)

text \<open>
  C27. The streamed assembly is the document written at once: it succeeds exactly when every blob can
  be fetched and no write fails, the text written is then the whole document, and what a failed
  assembly leaves behind is a beginning of it.
\<close>

theorem Assemble_is_document:
  "snd (Assemble name sha files fetch fails) =
     ((\<forall>f \<in> set files. fetch (FEn_SHA f) \<noteq> None) \<and> (\<forall>i \<le> length files. \<not> fails i))
   \<and> prefix (fst (Assemble name sha files fetch fails)) (full_document name sha files fetch)
   \<and> (snd (Assemble name sha files fetch fails) \<longrightarrow>
        fst (Assemble name sha files fetch fails) = full_document name sha files fetch)"
proof -
  have "(\<forall>i \<le> length files. \<not> fails i) \<longleftrightarrow> \<not> fails 0 \<and> (\<forall>i < length files. \<not> fails (1 + i))"
    by (metis Suc_le_eq le_Suc_eq not0_implies_Suc plus_1_eq_Suc zero_le Suc_leI le_0_eq)
  then show ?thesis
    using assemble_files_ok [of fetch fails 1 files] assemble_files_text [of fetch fails 1 files]
    by (auto simp: Assemble_def full_document_def split: prod.splits)
qed

theorem Assemble_is_document_witness:
  "Assemble ''a/b'' ''0123456789'' [zero_entry\<lparr>FEn_Path := ''m.go'', FEn_SHA := ''s''\<rparr>] (\<lambda>s. Some s) (\<lambda>_. False)
   = (full_document ''a/b'' ''0123456789'' [zero_entry\<lparr>FEn_Path := ''m.go'', FEn_SHA := ''s''\<rparr>] (\<lambda>s. Some s), True)"
  using Assemble_is_document [of "''a/b''" "''0123456789''" "[zero_entry\<lparr>FEn_Path := ''m.go'', FEn_SHA := ''s''\<rparr>]"
      "\<lambda>s. Some s" "\<lambda>_. False"] by (simp add: prod_eq_iff)

subsection \<open>Access\<close>

lemma membership_found:
  assumes "\<not> isl (guarded env c n (GetMembership (Some u) org d))"
  shows "\<exists>m \<in> set (memberships d). Mem_UserID m = u \<and> org = Some (Mem_OrgID m)"
proof -
  obtain m where "GetMembership (Some u) org d = Inr m"
    using assms by (cases "guarded env c n (GetMembership (Some u) org d)") auto
  then show ?thesis
    unfolding GetMembership_def by (auto simp: mem_hit_def sql_eq_Some_iff dest!: query_one_Inr)
qed

lemma checkVisibility_Allowed:
  assumes "checkVisibility x env verify a tok d = Allowed"
  shows "Tok_Visibility tok = ContextVisibilityPublic
    \<or> (\<exists>claims u. extractClaims verify a = Some claims \<and> SubjectUUID x claims = Some u
        \<and> (Tok_Visibility tok = ContextVisibilityPrivate
             \<and> (Tok_UserID tok = Some u \<or> (\<exists>m \<in> set (memberships d). Mem_UserID m = u \<and> Tok_OrgID tok = Some (Mem_OrgID m)))
           \<or> Tok_Visibility tok = ContextVisibilityProtected
             \<and> (\<exists>a \<in> set (allowed_users d). Allow_TokenID a = Tok_ID tok \<and> Allow_UserID a = u)))"
proof (cases "Tok_Visibility tok")
  case ContextVisibilityPrivate
  then show ?thesis using assms
    by (auto simp: checkVisibility_def dest: membership_found split: option.splits if_splits)
next
  case ContextVisibilityProtected
  then show ?thesis using assms
    by (auto simp: checkVisibility_def IsUserAllowedForToken_def allow_hit_def sql_eq_Some_iff
        split: option.splits if_splits)
qed simp

text \<open>
  C28. A document is served only for a context token that exists and has not expired, and only to
  whom its visibility admits: anyone for a public token, the owner or a member of the owning
  organization for a private one, a user of its allow list for a protected one. The caller is known
  by a bearer token the verifier accepts.
\<close>

theorem context_access:
  assumes "Get_context x env verify blobs raw a d g c = (Document t, bg)"
  shows "\<exists>tok \<in> set (context_tokens d). Tok_TokenHash tok = SHA256Hash x raw
    \<and> (\<forall>e. Tok_ExpiresAt tok = Some e \<longrightarrow> e_now env \<le> e)
    \<and> (Tok_Visibility tok = ContextVisibilityPublic
      \<or> (\<exists>claims u. extractClaims verify a = Some claims \<and> SubjectUUID x claims = Some u
        \<and> (Tok_Visibility tok = ContextVisibilityPrivate
             \<and> (Tok_UserID tok = Some u \<or> (\<exists>m \<in> set (memberships d). Mem_UserID m = u \<and> Tok_OrgID tok = Some (Mem_OrgID m)))
           \<or> Tok_Visibility tok = ContextVisibilityProtected
             \<and> (\<exists>a \<in> set (allowed_users d). Allow_TokenID a = Tok_ID tok \<and> Allow_UserID a = u))))"
proof -
  obtain tok where tok: "GetContextTokenByHash (SHA256Hash x raw) d = Inr tok" "\<not> expired env tok"
      "checkVisibility x env verify a tok d = Allowed"
    using assms by (auto simp: Get_context_def split: sum.splits if_splits access.splits)
  have "tok \<in> set (context_tokens d)" "Tok_TokenHash tok = SHA256Hash x raw"
    using tok(1) by (auto simp: GetContextTokenByHash_def dest: query_one_Inr)
  moreover have "\<forall>e. Tok_ExpiresAt tok = Some e \<longrightarrow> e_now env \<le> e" using tok(2) by (auto simp: expired_def)
  ultimately show ?thesis using checkVisibility_Allowed [OF tok(3)] by blast
qed


definition sample_token :: ContextToken where
  "sample_token = \<lparr>Tok_ID = 4, Tok_RepoID = 7, Tok_OrgID = Some 5, Tok_TargetSnapshotID = None,
     Tok_TokenHash = hex_encode ''t'', Tok_Label = None, Tok_LastUsedAt = None, Tok_ExpiresAt = None,
     Tok_CreatedAt = 0, Tok_UserID = None, Tok_Visibility = ContextVisibilityPublic\<rparr>"

definition sample_v2 :: Snapshot where
  "sample_v2 = \<lparr>Snap_ID = 8, Snap_RepoID = 7, Snap_JobID = None, Snap_Branch = ''main'', Snap_CommitSha = ''c1'',
     Snap_GcsPath = ''p'', Snap_SnapshotVersion = 2, Snap_ZigzagVersion = ''1'', Snap_SizeBytes = 2,
     Snap_CreatedAt = 0, Snap_Metadata = None\<rparr>"

definition sample_ctx_db :: db where
  "sample_ctx_db = sample_db\<lparr>context_tokens := [sample_token], snapshots := [sample_v2]\<rparr>"

lemma sample_ctx_get:
  "Get_context (sample_ext []) (sample_env 0) verify blobs ''t'' '''' sample_ctx_db g
     (Map.empty(''ctx:uuuuuuu:c1'' \<mapsto> (''doc'', 1))) = (Document ''doc'', [TouchToken 4])"
proof -
  have "replicate (unat (7 :: uuid)) CHR ''u'' = ''uuuuuuu''" by code_simp
  then show ?thesis
    by (simp add: Get_context_def GetContextTokenByHash_def query_one_def sample_ctx_db_def sample_token_def
        sample_v2_def SHA256Hash_def expired_def checkVisibility_def token_snapshot_def GetRepoByID_def
        GetLatestSnapshot_def order_desc_def serve_snapshot_def cache_Key_def cache_Get_def Let_def sample_defs)
qed

theorem context_access_witness:
  "\<exists>tok \<in> set (context_tokens sample_ctx_db). Tok_TokenHash tok = SHA256Hash (sample_ext []) ''t''"
  using context_access [OF sample_ctx_get [of "\<lambda>_. None" "\<lambda>_ _ _. None" Map.empty]] by blast

subsection \<open>The life of a token\<close>

lemma ctxtokens_Create_201:
  assumes "ctxtokens_Create x env rand parse org repoID body d = (WriteJSON 201 r, d')"
  obtains rid h label e vis tok d1 where "x_uuid_scan x repoID = Some rid" "in_scope org rid d"
    "h = SHA256Hash x (CT_RawToken r)"
    "InsertContextToken env 0 (Some rid) None org None h label e vis d = Inr (tok, d1)"
    "CT_ID r = x_uuid_string x (Tok_ID tok)" "CT_Visibility r = vis" "CT_ExpiresAt r = e"
    "context_tokens d' = context_tokens d1" "repositories d' = repositories d1" "snapshots d' = snapshots d1"
    "memberships d' = memberships d1"
proof -
  have allow: "context_tokens (allow_users x env n t us s) = context_tokens s
      \<and> repositories (allow_users x env n t us s) = repositories s
      \<and> snapshots (allow_users x env n t us s) = snapshots s
      \<and> memberships (allow_users x env n t us s) = memberships s" for n t us s
    by (induction us arbitrary: n s)
      (auto simp: InsertContextTokenAllowedUser_def guarded_def split: option.splits sum.splits if_splits)
  show ?thesis
    using assms VerifyRepoOwnership_None allow
    by (auto simp: ctxtokens_Create_def insert_token_def Let_def guarded_def generateToken_def
        InsertContextToken_Inr(4,6,7) intro!: that
        split: option.splits sum.splits if_splits)
qed


lemma context_token_deleted:
  assumes "InsertContextToken env n repo usr (Some g) tgt h label e vis d = Inr (tok, d1)"
    and "context_tokens d' = context_tokens d1"
  shows "GetContextTokenByHash h (DeleteContextTokenForOrg (Some (Tok_ID tok)) (Some g) d') = Inl ErrNoRows"
proof -
  have "\<forall>t \<in> set (context_tokens d). Tok_TokenHash t \<noteq> h"
    using assms(1) by (auto simp: InsertContextToken_def split: option.splits if_splits)
  then show ?thesis
    using InsertContextToken_Inr [OF assms(1)] assms(2)
    by (auto simp: GetContextTokenByHash_def query_one_NoRows_iff DeleteContextTokenForOrg_def drop_tokens_def
        set_delete_where)
qed

text \<open>
  A public context token serves the newest snapshot of the repository's default branch from its
  creation on, until the organization deletes it; then it is not found. The HEAD request that should
  validate a token answers 404 for it all the same, because creation never sets a target snapshot.
\<close>

theorem context_token_lifecycle:
  assumes "ctxtokens_Create x env rand parse org repoID body d = (WriteJSON 201 r, d')"
    and "CT_Visibility r = ContextVisibilityPublic" and "\<And>e. CT_ExpiresAt r = Some e \<Longrightarrow> e_now envA \<le> e"
    and "\<And>call n. \<not> e_fault envA call n" and "x_uuid_scan x (CT_ID r) = Some (e_uuid env 0)"
    and "x_uuid_scan x repoID = Some k" and "GetRepoByID (Some k) d' = Inr repo"
    and "GetLatestSnapshot (Some k) (Repo_DefaultBranch repo) d' = Inr s" and "2 \<le> Snap_SnapshotVersion s"
  shows "(\<exists>tok. Tok_RepoID tok = k \<and> fst (Get_context x envA verify blobs (CT_RawToken r) a d' g c)
        = fst (serve_snapshot x envA blobs tok s d' g c))
    \<and> Get_context x envA verify blobs (CT_RawToken r) a (snd (ctxtokens_Delete x envA org (CT_ID r) d')) g c
        = (GetError 404 ''context token not found'', [])
    \<and> Head x envA verify (CT_RawToken r) a d' = HeadStatus 404"
proof -
  let ?h = "SHA256Hash x (CT_RawToken r)"
  obtain label e tok d1 where
      ins: "InsertContextToken env 0 (Some k) None org None ?h label e (CT_Visibility r) d = Inr (tok, d1)"
      and e: "CT_ExpiresAt r = e" and d': "context_tokens d' = context_tokens d1"
    using ctxtokens_Create_201 [OF assms(1)] assms(6) by (metis option.inject)
  note tok = InsertContextToken_Inr [OF ins]
  obtain o' where org: "org = Some o'"
    using ins by (auto simp: InsertContextToken_def one_owner_def split: if_splits)
  have get: "GetContextTokenByHash ?h d' = Inr tok" using tok(11) d' by (simp add: GetContextTokenByHash_def)
  have ok: "\<not> expired envA tok" "checkVisibility x envA verify a tok d' = Allowed"
    using assms(2,3) tok(6,7) e by (auto simp: expired_def checkVisibility_def split: option.splits)
  have "token_snapshot envA tok d' = Inr s"
    using assms(4,7,8) tok(1,5) by (simp add: token_snapshot_def)
  then have "fst (Get_context x envA verify blobs (CT_RawToken r) a d' g c) = fst (serve_snapshot x envA blobs tok s d' g c)"
    using get ok assms(4,9) by (simp add: Get_context_def split: prod.splits)
  moreover have "Head x envA verify (CT_RawToken r) a d' = HeadStatus 404"
    using get ok assms(4) tok(5) by (simp add: Head_def)
  moreover have "snd (ctxtokens_Delete x envA org (CT_ID r) d') = DeleteContextTokenForOrg (Some (Tok_ID tok)) (Some o') d'"
    using assms(4,5) tok(8) org by (simp add: ctxtokens_Delete_def)
  moreover have "GetContextTokenByHash ?h (DeleteContextTokenForOrg (Some (Tok_ID tok)) (Some o') d') = Inl ErrNoRows"
    using context_token_deleted ins d' unfolding org by blast
  moreover have "Tok_RepoID tok = k" using tok(1) by simp
  ultimately show ?thesis using assms(4) by (auto simp: Get_context_def)
qed

definition sample_token_db :: db where
  "sample_token_db = sample_db\<lparr>organizations := [\<lparr>Org_ID = 5, Org_Slug = ''acme'', Org_Name = ''Acme'',
     Org_CreatedAt = 0, Org_AuthOrgID = ''a''\<rparr>], snapshots := [sample_v2]\<rparr>"

theorem context_token_lifecycle_witness:
  "\<exists>r d'. ctxtokens_Create (sample_ext [JNull]) (sample_env 0) sample_rand sample_parse (Some 5) ''uuuuuuu''
       ''null'' sample_token_db = (WriteJSON 201 r, d')
     \<and> Head (sample_ext [JNull]) (sample_env 0) (\<lambda>_. None) (CT_RawToken r) '''' d' = HeadStatus 404"
proof -
  let ?x = "sample_ext [JNull]" and ?e = "sample_env 0"
  let ?c = "ctxtokens_Create ?x ?e sample_rand sample_parse (Some 5) ''uuuuuuu'' ''null'' sample_token_db"
  have dec: "decode_createTokenRequest JNull
      = Some \<lparr>TR_Label = '''', TR_ExpiresAt = None, TR_Visibility = '''', TR_AllowedUsers = []\<rparr>"
    "validate_struct ?x (createTokenRequest_fields
       \<lparr>TR_Label = '''', TR_ExpiresAt = None, TR_Visibility = '''', TR_AllowedUsers = []\<rparr>) = None"
    "visibility_of ''public'' = Some ContextVisibilityPublic"
    by code_simp+
  then have "\<exists>r. fst ?c = WriteJSON 201 r \<and> CT_Visibility r = ContextVisibilityPublic \<and> CT_ExpiresAt r = None
      \<and> CT_ID r = ''u''" and d': "repositories (snd ?c) = [sample_repo]" "snapshots (snd ?c) = [sample_v2]"
    by (simp_all add: ctxtokens_Create_def VerifyRepoOwnership_def GetRepoByID_def query_one_def insert_token_def
        generateToken_def sample_rand_def InsertContextToken_def one_owner_def owner_exists_def Let_def
        sample_token_db_def sample_defs)
  then obtain r where c: "?c = (WriteJSON 201 r, snd ?c)"
    and r: "CT_Visibility r = ContextVisibilityPublic" "CT_ExpiresAt r = None" "CT_ID r = ''u''"
    by (metis prod.collapse)
  have "GetRepoByID (Some 7) (snd ?c) = Inr sample_repo"
    "GetLatestSnapshot (Some 7) (Repo_DefaultBranch sample_repo) (snd ?c) = Inr sample_v2"
    by (simp_all add: GetRepoByID_def GetLatestSnapshot_def order_desc_def query_one_def d' sample_repo_def sample_v2_def)
  from context_token_lifecycle [OF c r(1) _ _ _ _ this, where envA = ?e and verify = "\<lambda>_. None" and a = "''''"]
  have "Head ?x ?e (\<lambda>_. None) (CT_RawToken r) '''' (snd ?c) = HeadStatus 404"
    using r by (simp add: sample_env_def sample_v2_def)
  with c show ?thesis by blast
qed

text \<open>
  What the cache gives back is what was assembled: once the document of a finished assembly has
  been stored, every request for the same repository and commit within the ten minutes is answered
  with that document, whatever GitHub or the bucket would say by then.
\<close>

lemma cached_document_stable:
  assumes "serve_snapshot x env blobs tok snap d g c = (Document t, [CacheDocument k t])"
    and "\<not> e_fault envA ''redis.Set'' 0" and "\<not> e_fault envB ''redis.Get'' 0" and "e_now envB < e_now envA + cache_ttl"
    and "Tok_RepoID tok' = Tok_RepoID tok" and "Snap_CommitSha snap' = Snap_CommitSha snap"
  shows "serve_snapshot x envB blobs' tok' snap' d' g' (snd (run_background envA (CacheDocument k t) (d, c)))
    = (Document t, [])"
proof -
  have "k = cache_Key (x_uuid_string x (Tok_RepoID tok)) (Snap_CommitSha snap)"
    using assms(1) by (auto simp: serve_snapshot_def Let_def split: option.splits sum.splits prod.splits if_splits)
  then show ?thesis using assms(2-6) by (simp add: serve_snapshot_def cache_Get_def cache_Set_def Let_def)
qed

end
