(* ===== verification/UploadSnapshot.thy ===== *)
theory UploadSnapshot
  imports ContextUrl
begin

text \<open>
  Snapshot uploads by the CLI (\<open>api/internal/handler/upload\<close>) behind the CLI key middleware, and the
  route that mounts them (\<open>api/internal/routes/upload.go\<close>). What encoding/json makes of a value
  that was decoded into an \<open>any\<close> is the parameter \<open>reencode\<close>.
\<close>

section \<open>Requests\<close>

record snapshotMetadata =
  SM_SnapshotVersion :: int
  SM_ZigzagVersion :: string
  SM_CommitSha :: string
  SM_Branch :: string
  SM_Summary :: json
  SM_FileTree :: "FileEntry list"

definition zero_metadata :: snapshotMetadata where
  "zero_metadata = \<lparr>SM_SnapshotVersion = 0, SM_ZigzagVersion = '''', SM_CommitSha = '''', SM_Branch = '''',
     SM_Summary = JNull, SM_FileTree = []\<rparr>"

record uploadRequest =
  UR_OrgSlug :: string
  UR_RepoFullName :: string
  UR_CommitSha :: string
  UR_Branch :: string
  UR_MetadataSnapshot :: snapshotMetadata

fun any_field :: "string \<Rightarrow> json \<Rightarrow> (string \<times> json) list \<Rightarrow> json" where
  "any_field name v [] = v"
| "any_field name v ((k, j) # ms) = any_field name (if field_match name k then j else v) ms"

definition decode_snapshotMetadata :: "snapshotMetadata \<Rightarrow> json \<Rightarrow> snapshotMetadata option" where
  "decode_snapshotMetadata m j =
     (case j of
        JNull \<Rightarrow> Some m
      | JObj ms \<Rightarrow>
          (case (int_field ''snapshot_version'' (SM_SnapshotVersion m) ms,
                 str_field ''zigzag_version'' (SM_ZigzagVersion m) ms,
                 str_field ''commit_sha'' (SM_CommitSha m) ms, str_field ''branch'' (SM_Branch m) ms,
                 entries_field ''file_tree'' (SM_FileTree m) ms) of
             (Some v, Some z, Some c, Some b, Some fs) \<Rightarrow>
               Some \<lparr>SM_SnapshotVersion = v, SM_ZigzagVersion = z, SM_CommitSha = c, SM_Branch = b,
                 SM_Summary = any_field ''summary'' (SM_Summary m) ms, SM_FileTree = fs\<rparr>
           | _ \<Rightarrow> None)
      | _ \<Rightarrow> None)"

fun metadata_field ::
  "string \<Rightarrow> snapshotMetadata \<Rightarrow> (string \<times> json) list \<Rightarrow> snapshotMetadata option" where
  "metadata_field name m [] = Some m"
| "metadata_field name m ((k, j) # ms) =
     (if field_match name k
      then (case decode_snapshotMetadata m j of None \<Rightarrow> None | Some m' \<Rightarrow> metadata_field name m' ms)
      else metadata_field name m ms)"

definition decode_uploadRequest :: "json \<Rightarrow> uploadRequest option" where
  "decode_uploadRequest j =
     (case j of
        JNull \<Rightarrow> Some \<lparr>UR_OrgSlug = '''', UR_RepoFullName = '''', UR_CommitSha = '''', UR_Branch = '''',
                     UR_MetadataSnapshot = zero_metadata\<rparr>
      | JObj ms \<Rightarrow>
          (case (str_field ''org_slug'' '''' ms, str_field ''repo_full_name'' '''' ms,
                 str_field ''commit_sha'' '''' ms, str_field ''branch'' '''' ms,
                 metadata_field ''metadata_snapshot'' zero_metadata ms) of
             (Some o', Some r, Some c, Some b, Some m) \<Rightarrow>
               Some \<lparr>UR_OrgSlug = o', UR_RepoFullName = r, UR_CommitSha = c, UR_Branch = b,
                 UR_MetadataSnapshot = m\<rparr>
           | _ \<Rightarrow> None)
      | _ \<Rightarrow> None)"

definition uploadRequest_fields :: "uploadRequest \<Rightarrow> vfield list" where
  "uploadRequest_fields r =
     (let m = UR_MetadataSnapshot r in
      [(''OrgSlug'', [VRequired], VStr (UR_OrgSlug r)),
       (''RepoFullName'', [VRequired], VStr (UR_RepoFullName r)),
       (''CommitSha'', [VRequired, VMin 7, VMax 40], VStr (UR_CommitSha r)),
       (''Branch'', [VRequired], VStr (UR_Branch r)),
       (''SnapshotVersion'', [VRequired, VGte 2], VInt (SM_SnapshotVersion m)),
       (''ZigzagVersion'', [VRequired], VStr (SM_ZigzagVersion m)),
       (''CommitSha'', [VRequired], VStr (SM_CommitSha m)),
       (''Branch'', [VRequired], VStr (SM_Branch m)),
       (''FileTree'', [VRequired, VMin 1, VMax 10000], VStrs (map FEn_Path (SM_FileTree m)))]
      @ concat (map (\<lambda>f. [(''Path'', [VRequired], VStr (FEn_Path f)), (''SHA'', [VRequired], VStr (FEn_SHA f))])
          (SM_FileTree m)))"

text \<open>\<open>json.Marshal\<close> of the metadata: the fields in the order of the struct.\<close>

definition entry_json :: "FileEntry \<Rightarrow> json" where
  "entry_json f = JObj [(''path'', JStr (FEn_Path f)), (''language'', JStr (FEn_Language f)),
     (''lines'', JNum (FEn_Lines f)), (''sha'', JStr (FEn_SHA f))]"

definition metadata_json :: "(json \<Rightarrow> json) \<Rightarrow> snapshotMetadata \<Rightarrow> json" where
  "metadata_json reencode m = JObj
     [(''snapshot_version'', JNum (SM_SnapshotVersion m)), (''zigzag_version'', JStr (SM_ZigzagVersion m)),
      (''commit_sha'', JStr (SM_CommitSha m)), (''branch'', JStr (SM_Branch m)),
      (''summary'', reencode (SM_Summary m)), (''file_tree'', JArr (map entry_json (SM_FileTree m)))]"

section \<open>The endpoint\<close>

record uploadResponse =
  UpR_SnapshotID :: string
  UpR_CreatedAt :: timestamp

text \<open>The text of encoding/json's own error is not modelled.\<close>

abbreviation errDecode :: string where "errDecode \<equiv> ''decode error''"

definition Upload_snapshot ::
  "ext \<Rightarrow> env \<Rightarrow> (json \<Rightarrow> json) \<Rightarrow> pg_uuid \<Rightarrow> string \<Rightarrow> db \<times> gcs \<Rightarrow> uploadResponse reply \<times> (db \<times> gcs)" where
  "Upload_snapshot x env reencode keyOrgID body st =
     (let (d, g) = st in
      case Option.bind (x_json x body) decode_uploadRequest of
        None \<Rightarrow> (ErrResponse 400 errDecode, st)
      | Some req \<Rightarrow>
        (case validate_struct x (uploadRequest_fields req) of
           Some err \<Rightarrow> (ErrResponse 400 err, st)
         | None \<Rightarrow>
           if SM_SnapshotVersion (UR_MetadataSnapshot req) \<noteq> 2
           then (ErrResponse 400 ''metadata_snapshot.snapshot_version must be 2'', st)
           else (case guarded env ''GetOrganizationBySlug'' 0 (GetOrganizationBySlug (UR_OrgSlug req) d) of
              Inl _ \<Rightarrow> (ErrResponse 404 ''organization not found'', st)
            | Inr org \<Rightarrow>
              if keyOrgID \<noteq> None \<and> keyOrgID \<noteq> Some (Org_ID org)
              then (ErrResponse 403 ''CLI key is not authorized for this organization'', st)
              else (case guarded env ''GetRepoByFullNameAndOrg'' 0
                     (GetRepoByFullNameAndOrg (UR_RepoFullName req) (Some (Org_ID org)) d) of
                 Inl _ \<Rightarrow> (ErrResponse 404
                   ''repository not connected; install the Zagforge GitHub App first'', st)
               | Inr repo \<Rightarrow>
                 let metaJSON = x_marshal x (metadata_json reencode (UR_MetadataSnapshot req));
                     gcsPath = SnapshotPath (x_uuid_string x (Org_ID org)) (x_uuid_string x (Repo_ID repo))
                       (UR_CommitSha req) in
                 (case Upload env gcsPath metaJSON g of
                    (False, g1) \<Rightarrow> (ErrResponse 500 ErrInternal, (d, g1))
                  | (True, g1) \<Rightarrow>
                    (case guarded env ''InsertCLISnapshot'' 0
                       (InsertCLISnapshot env 0 (Some (Repo_ID repo)) (UR_Branch req) (UR_CommitSha req) gcsPath 2
                         (SM_ZigzagVersion (UR_MetadataSnapshot req)) (int (length metaJSON)) (Some metaJSON) d) of
                       Inl _ \<Rightarrow> (ErrResponse 500 ErrInternal, (d, g1))
                     | Inr (snap, d1) \<Rightarrow>
                         (WriteJSON 201 \<lparr>UpR_SnapshotID = x_uuid_string x (Snap_ID snap),
                            UpR_CreatedAt = Snap_CreatedAt snap\<rparr>, (d1, g1))))))))"

text \<open>
  The route: body limit, content type, CLI key, rate limit, handler. A body over the limit is cut off,
  and the decoder fails on the part it can read unless a whole value ends before the cut.
\<close>

definition limited_body :: "nat \<Rightarrow> string \<Rightarrow> string" where
  "limited_body maxBytes body = (if maxBytes < length body then take maxBytes body else body)"

definition route_upload ::
  "ext \<Rightarrow> env \<Rightarrow> (json \<Rightarrow> json) \<Rightarrow> string \<Rightarrow> bool \<Rightarrow> string \<Rightarrow> string \<Rightarrow> string \<Rightarrow> (db \<times> gcs) \<times> redis_zsets
    \<Rightarrow> uploadResponse reply \<times> (db \<times> gcs) \<times> redis_zsets" where
  "route_upload x env reencode globalKey is_json authorization key body =
     RequireJSON ''POST'' is_json
       (\<lambda>st. clitoken_Auth x env globalKey authorization
          (\<lambda>org. limit_requests env \<lparr>RL_MaxRequests = 60, RL_Window = usec_per_min\<rparr> key
             (Upload_snapshot x env reencode org (limited_body (10 * 1024 * 1024) body)))
          (fst (fst st)) st)"


section \<open>Round trip of the metadata\<close>

lemma entry_names:
  "field_match ''path'' ''path''" "\<not> field_match ''path'' ''language''" "\<not> field_match ''path'' ''lines''"
  "\<not> field_match ''path'' ''sha''" "\<not> field_match ''language'' ''path''" "field_match ''language'' ''language''"
  "\<not> field_match ''language'' ''lines''" "\<not> field_match ''language'' ''sha''" "\<not> field_match ''lines'' ''path''"
  "\<not> field_match ''lines'' ''language''" "field_match ''lines'' ''lines''" "\<not> field_match ''lines'' ''sha''"
  "\<not> field_match ''sha'' ''path''" "\<not> field_match ''sha'' ''language''" "\<not> field_match ''sha'' ''lines''"
  "field_match ''sha'' ''sha''" "field_match ''file_tree'' ''file_tree''"
  "\<not> field_match ''file_tree'' ''snapshot_version''" "\<not> field_match ''file_tree'' ''zigzag_version''"
  "\<not> field_match ''file_tree'' ''commit_sha''" "\<not> field_match ''file_tree'' ''branch''"
  "\<not> field_match ''file_tree'' ''summary''"
  by code_simp+

lemma decode_entry_json: "int64_range (FEn_Lines f) \<Longrightarrow> decode_FileEntry e (entry_json f) = Some f"
  by (simp add: decode_FileEntry_def entry_json_def entry_names)

lemma decode_entries_json:
  "\<forall>f \<in> set fs. int64_range (FEn_Lines f) \<Longrightarrow> decode_entries old (map entry_json fs) = Some fs"
  by (induction fs arbitrary: old) (simp_all add: decode_entry_json)

lemma decode_meta_json:
  "\<forall>f \<in> set (SM_FileTree m). int64_range (FEn_Lines f) \<Longrightarrow> decode_meta (metadata_json re m) = Some (SM_FileTree m)"
  by (simp add: decode_meta_def metadata_json_def entry_names decode_entries_json)

lemma int_field_range: "int_field name v ms = Some n \<Longrightarrow> int64_range v \<Longrightarrow> int64_range n"
  by (induction name v ms rule: int_field.induct) (auto split: if_splits json.splits)

lemma decode_FileEntry_range:
  "decode_FileEntry e j = Some f \<Longrightarrow> int64_range (FEn_Lines e) \<Longrightarrow> int64_range (FEn_Lines f)"
  by (auto simp: decode_FileEntry_def dest: int_field_range split: json.splits option.splits)

lemma decode_entries_range:
  assumes "decode_entries old js = Some fs" and "\<forall>f \<in> set old. int64_range (FEn_Lines f)"
  shows "\<forall>f \<in> set fs. int64_range (FEn_Lines f)"
  using assms
proof (induction js arbitrary: old fs)
  case (Cons j js)
  have "\<forall>f \<in> set (drop 1 old). int64_range (FEn_Lines f)" using Cons.prems(2) by (meson in_set_dropD)
  moreover have "int64_range (FEn_Lines zero_entry)" by (simp add: zero_entry_def int64_range_def)
  ultimately show ?case using Cons decode_FileEntry_range
    by (fastforce split: option.splits list.splits)
qed simp

lemma entries_field_range:
  "entries_field name v ms = Some fs \<Longrightarrow> \<forall>f \<in> set v. int64_range (FEn_Lines f)
    \<Longrightarrow> \<forall>f \<in> set fs. int64_range (FEn_Lines f)"
proof (induction name v ms rule: entries_field.induct)
  case (2 name v k j ms)
  then show ?case using decode_entries_range by (fastforce split: if_splits json.splits option.splits)
qed simp

lemma decode_snapshotMetadata_range:
  "decode_snapshotMetadata m j = Some m' \<Longrightarrow> \<forall>f \<in> set (SM_FileTree m). int64_range (FEn_Lines f)
    \<Longrightarrow> \<forall>f \<in> set (SM_FileTree m'). int64_range (FEn_Lines f)"
  using entries_field_range by (fastforce simp: decode_snapshotMetadata_def split: json.splits option.splits)

lemma metadata_field_range:
  "metadata_field name m ms = Some m' \<Longrightarrow> \<forall>f \<in> set (SM_FileTree m). int64_range (FEn_Lines f)
    \<Longrightarrow> \<forall>f \<in> set (SM_FileTree m'). int64_range (FEn_Lines f)"
  using decode_snapshotMetadata_range
  by (induction name m ms rule: metadata_field.induct) (fastforce split: if_splits option.splits)+

lemma decode_uploadRequest_range:
  "decode_uploadRequest j = Some req \<Longrightarrow> \<forall>f \<in> set (SM_FileTree (UR_MetadataSnapshot req)). int64_range (FEn_Lines f)"
  using metadata_field_range
  by (fastforce simp: decode_uploadRequest_def zero_metadata_def split: json.splits option.splits)


section \<open>What an upload does\<close>

lemma Upload_snapshot_cases:
  assumes "Upload_snapshot x env re ko body (d, g) = (r, d', g')"
  obtains (refused) "d' = d" "g' = g" "\<And>v. r \<noteq> WriteJSON 201 v"
    | (stored) req org repo meta path where
        "Option.bind (x_json x body) decode_uploadRequest = Some req"
        "GetOrganizationBySlug (UR_OrgSlug req) d = Inr org" "ko = None \<or> ko = Some (Org_ID org)"
        "GetRepoByFullNameAndOrg (UR_RepoFullName req) (Some (Org_ID org)) d = Inr repo"
        "meta = x_marshal x (metadata_json re (UR_MetadataSnapshot req))"
        "path = SnapshotPath (x_uuid_string x (Org_ID org)) (x_uuid_string x (Repo_ID repo)) (UR_CommitSha req)"
        "g' = g(path \<mapsto> meta)"
        "d' = d \<and> (\<forall>v. r \<noteq> WriteJSON 201 v)
          \<or> (\<exists>snap. InsertCLISnapshot env 0 (Some (Repo_ID repo)) (UR_Branch req) (UR_CommitSha req) path 2
                (SM_ZigzagVersion (UR_MetadataSnapshot req)) (int (length meta)) (Some meta) d = Inr (snap, d')
              \<and> r = WriteJSON 201 \<lparr>UpR_SnapshotID = x_uuid_string x (Snap_ID snap), UpR_CreatedAt = Snap_CreatedAt snap\<rparr>)"
proof (cases "\<exists>req org repo. Option.bind (x_json x body) decode_uploadRequest = Some req
    \<and> validate_struct x (uploadRequest_fields req) = None \<and> SM_SnapshotVersion (UR_MetadataSnapshot req) = 2
    \<and> guarded env ''GetOrganizationBySlug'' 0 (GetOrganizationBySlug (UR_OrgSlug req) d) = Inr org
    \<and> (ko = None \<or> ko = Some (Org_ID org))
    \<and> guarded env ''GetRepoByFullNameAndOrg'' 0
        (GetRepoByFullNameAndOrg (UR_RepoFullName req) (Some (Org_ID org)) d) = Inr repo")
  case False
  then have "d' = d \<and> g' = g \<and> (\<forall>v. r \<noteq> WriteJSON 201 v)"
    using assms unfolding Upload_snapshot_def Let_def
    by (auto simp: Let_def simp del: guarded_Inr_iff split: option.splits sum.splits if_splits)
  then show ?thesis by (intro refused) auto
next
  case True
  then obtain req org repo where req: "Option.bind (x_json x body) decode_uploadRequest = Some req"
      "validate_struct x (uploadRequest_fields req) = None" "SM_SnapshotVersion (UR_MetadataSnapshot req) = 2"
      "guarded env ''GetOrganizationBySlug'' 0 (GetOrganizationBySlug (UR_OrgSlug req) d) = Inr org"
      "ko = None \<or> ko = Some (Org_ID org)"
      "guarded env ''GetRepoByFullNameAndOrg'' 0
        (GetRepoByFullNameAndOrg (UR_RepoFullName req) (Some (Org_ID org)) d) = Inr repo" by blast
  let ?meta = "x_marshal x (metadata_json re (UR_MetadataSnapshot req))"
  let ?path = "SnapshotPath (x_uuid_string x (Org_ID org)) (x_uuid_string x (Repo_ID repo)) (UR_CommitSha req)"
  have up: "Upload env ?path ?meta g = (False, g) \<or> Upload env ?path ?meta g = (True, g(?path \<mapsto> ?meta))"
    by (simp add: Upload_def)
  have "(case Upload env ?path ?meta g of
          (False, g1) \<Rightarrow> (ErrResponse 500 ErrInternal, (d, g1))
        | (True, g1) \<Rightarrow>
            (case guarded env ''InsertCLISnapshot'' 0
               (InsertCLISnapshot env 0 (Some (Repo_ID repo)) (UR_Branch req) (UR_CommitSha req) ?path 2
                 (SM_ZigzagVersion (UR_MetadataSnapshot req)) (int (length ?meta)) (Some ?meta) d) of
               Inl _ \<Rightarrow> (ErrResponse 500 ErrInternal, (d, g1))
             | Inr (snap, d1) \<Rightarrow>
                 (WriteJSON 201 \<lparr>UpR_SnapshotID = x_uuid_string x (Snap_ID snap),
                    UpR_CreatedAt = Snap_CreatedAt snap\<rparr>, (d1, g1)))) = (r, d', g')"
    using assms req by (auto simp: Upload_snapshot_def Let_def simp del: guarded_Inr_iff)
  then have "d' = d \<and> g' = g \<and> (\<forall>v. r \<noteq> WriteJSON 201 v)
    \<or> g' = g(?path \<mapsto> ?meta) \<and> (d' = d \<and> (\<forall>v. r \<noteq> WriteJSON 201 v)
       \<or> (\<exists>snap. InsertCLISnapshot env 0 (Some (Repo_ID repo)) (UR_Branch req) (UR_CommitSha req) ?path 2
            (SM_ZigzagVersion (UR_MetadataSnapshot req)) (int (length ?meta)) (Some ?meta) d = Inr (snap, d')
          \<and> r = WriteJSON 201 \<lparr>UpR_SnapshotID = x_uuid_string x (Snap_ID snap), UpR_CreatedAt = Snap_CreatedAt snap\<rparr>))"
    using up by (auto simp: guarded_def split: sum.splits if_splits)
  then show ?thesis using req refused stored by (auto simp: guarded_def split: if_splits)
qed


lemma InsertCLISnapshot_Inr:
  assumes "InsertCLISnapshot env n (Some rid) branch sha path ver zz bytes meta d = Inr (s, d')"
  shows "d' = d\<lparr>snapshots := snapshots d'\<rparr>" "s \<in> set (snapshots d')" "snap_key s = (rid, branch, sha)"
    "Snap_GcsPath s = path" "Snap_SnapshotVersion s = ver"
    "\<And>t. t \<in> set (snapshots d') \<Longrightarrow> t \<notin> set (snapshots d) \<Longrightarrow> Snap_RepoID t = rid"
proof -
  let ?upd = "\<lambda>x. x\<lparr>Snap_GcsPath := path, Snap_SnapshotVersion := ver, Snap_ZigzagVersion := zz,
    Snap_SizeBytes := bytes, Snap_Metadata := meta\<rparr>"
  let ?P = "\<lambda>x. snap_key x = (rid, branch, sha)"
  consider (old) s0 where "s0 \<in> set (snapshots d)" "?P s0" "s = ?upd s0"
        "d' = d\<lparr>snapshots := update_where ?P ?upd (snapshots d)\<rparr>"
    | (fresh) "d' = d\<lparr>snapshots := snapshots d @ [s]\<rparr>" "?P s" "Snap_GcsPath s = path" "Snap_SnapshotVersion s = ver"
    using assms by (auto simp: InsertCLISnapshot_def Let_def snap_key_def find_Some_iff in_set_conv_nth
        split: option.splits if_splits)
  note cases = this
  show "d' = d\<lparr>snapshots := snapshots d'\<rparr>" by (rule cases) auto
  show "s \<in> set (snapshots d')" by (rule cases) (auto simp: set_update_where)
  show "snap_key s = (rid, branch, sha)" by (rule cases) (auto simp: snap_key_def)
  show "Snap_GcsPath s = path" by (rule cases) auto
  show "Snap_SnapshotVersion s = ver" by (rule cases) auto
  show "Snap_RepoID t = rid" if "t \<in> set (snapshots d')" "t \<notin> set (snapshots d)" for t
    by (rule cases) (use that in \<open>auto simp: set_update_where snap_key_def\<close>)
qed

lemma GetRepoByFullNameAndOrg_Inr:
  "GetRepoByFullNameAndOrg name (Some o') d = Inr r \<Longrightarrow> r \<in> set (repositories d) \<and> Repo_OrgID r = Some o'"
  by (auto simp: GetRepoByFullNameAndOrg_def sql_eq_Some_iff dest!: query_one_Inr)

section \<open>Properties\<close>

text \<open>
  C29. An upload with the key of an organization stays inside it: every snapshot row it adds or
  changes belongs to a repository of that organization, and every object it writes lies under the
  path of that organization and one of its repositories. Nothing else of the database changes.
\<close>

theorem upload_confined:
  assumes "Upload_snapshot x env re (Some org) body (d, g) = (r, d', g')"
  shows "(\<forall>s \<in> set (snapshots d') - set (snapshots d). in_scope (Some org) (Snap_RepoID s) d)
    \<and> (\<forall>p. g' p \<noteq> g p \<longrightarrow> (\<exists>rid sha. p = SnapshotPath (x_uuid_string x org) (x_uuid_string x rid) sha
          \<and> in_scope (Some org) rid d))
    \<and> d' = d\<lparr>snapshots := snapshots d'\<rparr>"
  using assms
proof (cases rule: Upload_snapshot_cases)
  case (stored req o' repo meta path)
  have repo: "in_scope (Some org) (Repo_ID repo) d" "Org_ID o' = org"
    using GetRepoByFullNameAndOrg_Inr stored(3,4) by (auto simp: in_scope_def)
  have "\<exists>rid sha. p = SnapshotPath (x_uuid_string x org) (x_uuid_string x rid) sha \<and> in_scope (Some org) rid d"
    if "g' p \<noteq> g p" for p
    using that repo stored(6,7) by (auto split: if_splits)
  moreover have "(\<forall>s \<in> set (snapshots d') - set (snapshots d). in_scope (Some org) (Snap_RepoID s) d)
      \<and> d' = d\<lparr>snapshots := snapshots d'\<rparr>"
    using stored(8) repo(1) InsertCLISnapshot_Inr(1,6) by auto
  ultimately show ?thesis by blast
qed simp

text \<open>
  C30. What the CLI uploads is what the context endpoint serves: after a successful upload the
  repository has a snapshot of the branch and commit named, and assembling it with the stored object
  gives the document of exactly the uploaded file tree, when the blobs can be fetched. The metadata
  read back from its JSON text is the value it was written from.
\<close>

theorem upload_then_served:
  assumes "Upload_snapshot x env re ko body (d, g) = (WriteJSON 201 r, d', g')"
    and "Option.bind (x_json x body) decode_uploadRequest = Some req"
    and "x_unmarshal x (x_marshal x (metadata_json re (UR_MetadataSnapshot req))) = Some (metadata_json re (UR_MetadataSnapshot req))"
    and "GetOrganizationBySlug (UR_OrgSlug req) d = Inr org"
    and "GetRepoByFullNameAndOrg (UR_RepoFullName req) (Some (Org_ID org)) d = Inr repo"
    and "distinct (map Repo_ID (repositories d))" and "Tok_RepoID tok = Repo_ID repo"
    and "\<And>call n. \<not> e_fault envA call n"
    and "\<forall>f \<in> set (SM_FileTree (UR_MetadataSnapshot req)). blobs (Repo_InstallationID repo) (Repo_FullName repo) (FEn_SHA f) \<noteq> None"
  shows "\<exists>snap \<in> set (snapshots d'). snap_key snap = (Repo_ID repo, UR_Branch req, UR_CommitSha req)
    \<and> fst (serve_snapshot x envA blobs tok snap d' g' Map.empty)
        = Document (full_document (Repo_FullName repo) (UR_CommitSha req) (SM_FileTree (UR_MetadataSnapshot req))
            (blobs (Repo_InstallationID repo) (Repo_FullName repo)))"
  using assms(1)
proof (cases rule: Upload_snapshot_cases)
  case (stored req' org' repo' meta path)
  have eq: "req' = req" "org' = org" "repo' = repo" using stored(1,2,4) assms(2,4,5) by auto
  obtain snap where ins: "InsertCLISnapshot env 0 (Some (Repo_ID repo)) (UR_Branch req) (UR_CommitSha req) path 2
        (SM_ZigzagVersion (UR_MetadataSnapshot req)) (int (length meta)) (Some meta) d = Inr (snap, d')"
    using stored(8) eq by auto
  note snap = InsertCLISnapshot_Inr [OF ins]
  have "decode_meta (metadata_json re (UR_MetadataSnapshot req)) = Some (SM_FileTree (UR_MetadataSnapshot req))"
    using assms(2) decode_uploadRequest_range by (intro decode_meta_json) (auto simp: bind_eq_Some_conv)
  then have meta: "Option.bind (x_unmarshal x meta) decode_meta = Some (SM_FileTree (UR_MetadataSnapshot req))"
    using stored(5) eq assms(3) by simp
  have "repo \<in> set (repositories d')"
    using GetRepoByFullNameAndOrg_Inr [OF assms(5)] by (subst snap(1)) simp
  moreover have "distinct (map Repo_ID (repositories d'))" using assms(6) by (subst snap(1)) simp
  ultimately have "GetRepoByID (Some (Tok_RepoID tok)) d' = Inr repo"
    using repo_table.get_unique assms(7) by metis
  moreover have "Download envA (Snap_GcsPath snap) g' = Inr meta"
    using assms(8) stored(7) snap(4) by (simp add: Download_def)
  ultimately have "fst (serve_snapshot x envA blobs tok snap d' g' Map.empty)
      = Document (full_document (Repo_FullName repo) (UR_CommitSha req) (SM_FileTree (UR_MetadataSnapshot req))
          (blobs (Repo_InstallationID repo) (Repo_FullName repo)))"
    using assms(8,9) meta snap(3) by (simp add: serve_snapshot_def cache_Get_def Assemble_full snap_key_def Let_def)
  then show ?thesis using snap(2,3) by blast
next
  case refused
  then show ?thesis by blast
qed

text \<open>
  A personal CLI key is as powerful as the global one: the middleware hands on no organization
  for either, so that the check of the upload against the key's organization does not apply and any
  user's key uploads to any organization.
\<close>

theorem personal_key_is_global:
  assumes "GetCLIAPIKeyByHash (SHA256Hash x (CLIKeyPrefix @ t)) d = Inr key" and "CliKey_OrgID key = None"
    and "\<not> e_fault env ''GetCLIAPIKeyByHash'' 0" and "gk \<noteq> ''''" and "\<not> has_prefix gk CLIKeyPrefix"
  shows "clitoken_Auth x env gk (''Bearer '' @ CLIKeyPrefix @ t) hdl d st = clitoken_Auth x env gk (''Bearer '' @ gk) hdl d st"
proof -
  have "clitoken_Auth x env gk (''Bearer '' @ gk) hdl d st = hdl None st"
    unfolding clitoken_Auth_def cut_prefix_append using assms(4,5) by simp
  then show ?thesis unfolding clitoken_Auth_key using assms(1-3) by simp
qed


definition sample_upload :: uploadRequest where
  "sample_upload = \<lparr>UR_OrgSlug = ''acme'', UR_RepoFullName = ''acme/app'', UR_CommitSha = ''0123456'', UR_Branch = ''main'',
     UR_MetadataSnapshot = \<lparr>SM_SnapshotVersion = 2, SM_ZigzagVersion = ''1'', SM_CommitSha = ''0123456'',
       SM_Branch = ''main'', SM_Summary = JNull, SM_FileTree = [zero_entry\<lparr>FEn_Path := ''a'', FEn_SHA := ''s''\<rparr>]\<rparr>\<rparr>"

definition sample_upload_json :: json where
  "sample_upload_json = JObj [(''org_slug'', JStr ''acme''), (''repo_full_name'', JStr ''acme/app''),
     (''commit_sha'', JStr ''0123456''), (''branch'', JStr ''main''),
     (''metadata_snapshot'', metadata_json id (UR_MetadataSnapshot sample_upload))]"

definition sample_upload_ext :: ext where
  "sample_upload_ext = sample_ext [sample_upload_json, metadata_json id (UR_MetadataSnapshot sample_upload)]"

definition sample_upload_body :: string where
  "sample_upload_body = json_text sample_upload_json"

lemma sample_upload_decoded:
  "Option.bind (x_json sample_upload_ext sample_upload_body) decode_uploadRequest = Some sample_upload"
  "validate_struct sample_upload_ext (uploadRequest_fields sample_upload) = None"
  "x_unmarshal sample_upload_ext (x_marshal sample_upload_ext (metadata_json id (UR_MetadataSnapshot sample_upload)))
    = Some (metadata_json id (UR_MetadataSnapshot sample_upload))"
  by code_simp+

lemma sample_upload_fields:
  "UR_OrgSlug sample_upload = ''acme''" "UR_RepoFullName sample_upload = ''acme/app''"
  "SM_SnapshotVersion (UR_MetadataSnapshot sample_upload) = 2"
  "SM_FileTree (UR_MetadataSnapshot sample_upload) = [zero_entry\<lparr>FEn_Path := ''a'', FEn_SHA := ''s''\<rparr>]"
  by (simp_all add: sample_upload_def)

definition sample_upload_org :: Organization where
  "sample_upload_org = \<lparr>Org_ID = 5, Org_Slug = ''acme'', Org_Name = ''Acme'', Org_CreatedAt = 0, Org_AuthOrgID = ''a''\<rparr>"

lemma sample_upload_lookups:
  "GetOrganizationBySlug ''acme'' (sample_token_db\<lparr>snapshots := []\<rparr>) = Inr sample_upload_org"
  "GetRepoByFullNameAndOrg ''acme/app'' (Some 5) (sample_token_db\<lparr>snapshots := []\<rparr>) = Inr sample_repo"
  "repositories (sample_token_db\<lparr>snapshots := []\<rparr>) = [sample_repo]" "Org_ID sample_upload_org = 5"
  by (simp_all add: GetOrganizationBySlug_def GetRepoByFullNameAndOrg_def query_one_def sample_token_db_def
      sample_upload_org_def sample_defs)

lemma sample_upload_result:
  "\<exists>r d' g'. Upload_snapshot sample_upload_ext (sample_env 0) id (Some 5) sample_upload_body
     (sample_token_db\<lparr>snapshots := []\<rparr>, Map.empty) = (WriteJSON 201 r, d', g')"
proof -
  have "\<not> e_fault (sample_env 0) c n" for c n by (simp add: sample_env_def)
  moreover have "sample_repo \<in> set (repositories (sample_token_db\<lparr>snapshots := []\<rparr>))"
    unfolding sample_upload_lookups by simp
  ultimately show ?thesis using sample_upload_lookups(4)
    unfolding Upload_snapshot_def Let_def prod.case sample_upload_decoded option.case sample_upload_fields
    by (auto simp: sample_upload_lookups Upload_def InsertCLISnapshot_def Let_def)
qed

theorem upload_confined_witness:
  "\<exists>r d' g'. Upload_snapshot sample_upload_ext (sample_env 0) id (Some 5) sample_upload_body
     (sample_token_db\<lparr>snapshots := []\<rparr>, Map.empty) = (WriteJSON 201 r, d', g')
   \<and> d' = sample_token_db\<lparr>snapshots := snapshots d'\<rparr>"
proof -
  obtain r d' g' where "Upload_snapshot sample_upload_ext (sample_env 0) id (Some 5) sample_upload_body
     (sample_token_db\<lparr>snapshots := []\<rparr>, Map.empty) = (WriteJSON 201 r, d', g')"
    using sample_upload_result by blast
  with upload_confined [OF this] show ?thesis by fastforce
qed

theorem upload_then_served_witness:
  "\<exists>r d' g'. \<exists>snap \<in> set (snapshots d'). Upload_snapshot sample_upload_ext (sample_env 0) id (Some 5) sample_upload_body
     (sample_token_db\<lparr>snapshots := []\<rparr>, Map.empty) = (WriteJSON 201 r, d', g')
   \<and> fst (serve_snapshot sample_upload_ext (sample_env 0) (\<lambda>_ _ s. Some s) sample_token snap d' g' Map.empty)
       = Document (full_document ''acme/app'' ''0123456'' [zero_entry\<lparr>FEn_Path := ''a'', FEn_SHA := ''s''\<rparr>] (\<lambda>s. Some s))"
proof -
  obtain r d' g' where up: "Upload_snapshot sample_upload_ext (sample_env 0) id (Some 5) sample_upload_body
     (sample_token_db\<lparr>snapshots := []\<rparr>, Map.empty) = (WriteJSON 201 r, d', g')"
    using sample_upload_result by blast
  have "Repo_FullName sample_repo = ''acme/app''" "UR_CommitSha sample_upload = ''0123456''"
    "Tok_RepoID sample_token = Repo_ID sample_repo" "\<And>c n. \<not> e_fault (sample_env 0) c n"
    by (simp_all add: sample_repo_def sample_upload_def sample_token_def sample_env_def)
  with upload_then_served [OF up sample_upload_decoded(1,3), of sample_upload_org sample_repo sample_token "sample_env 0"
      "\<lambda>_ _ s. Some s"]
  show ?thesis using up sample_upload_lookups unfolding sample_upload_fields by force
qed

definition sample_personal_key :: CliApiKey where
  "sample_personal_key = \<lparr>CliKey_ID = 1, CliKey_UserID = Some 2, CliKey_OrgID = None,
     CliKey_KeyHash = SHA256Hash (sample_ext []) (CLIKeyPrefix @ ''k''), CliKey_KeyHint = '''', CliKey_Label = '''',
     CliKey_CreatedAt = 0\<rparr>"

theorem personal_key_is_global_witness:
  "clitoken_Auth (sample_ext []) (sample_env 0) ''g'' (''Bearer '' @ CLIKeyPrefix @ ''k'') (\<lambda>org st. (WriteJSON 200 org, st))
     (empty_db\<lparr>cli_api_keys := [sample_personal_key]\<rparr>) ()
   = clitoken_Auth (sample_ext []) (sample_env 0) ''g'' (''Bearer '' @ ''g'') (\<lambda>org st. (WriteJSON 200 org, st))
     (empty_db\<lparr>cli_api_keys := [sample_personal_key]\<rparr>) ()"
  by (rule personal_key_is_global [where key = sample_personal_key])
    (simp_all add: GetCLIAPIKeyByHash_def query_one_def sample_env_def has_prefix_def sample_personal_key_def)

end
