(* ===== verification/AuthModels.thy ===== *)
theory AuthModels
  imports Prelude
begin

text \<open>
  The rows of the database of the auth service (\<open>auth/internal/store/models.go\<close>) and the database,
  one list of rows per table. The names of rows that also exist in the API database carry the prefix
  \<open>Auth\<close>; the columns are those of \<open>auth/internal/db/migrations/000001_auth_initial.up.sql\<close>, where a
  column that may be NULL is an \<open>option\<close>. An address of type INET is its text.
\<close>

type_synonym inet = string

record AuthUser =
  AU_ID :: uuid
  AU_Email :: string
  AU_EmailVerified :: bool
  AU_FirstName :: pg_text
  AU_LastName :: pg_text
  AU_Nickname :: pg_text
  AU_Bio :: pg_text
  AU_Country :: pg_text
  AU_Age :: "int option"
  AU_Timezone :: string
  AU_Language :: string
  AU_AvatarUrl :: pg_text
  AU_PhoneCipher :: "string option"
  AU_SocialLinks :: string
  AU_ProfileVisibility :: string
  AU_OnboardingStep :: string
  AU_IsPlatformAdmin :: bool
  AU_CreatedAt :: timestamp
  AU_UpdatedAt :: timestamp

record OauthIdentity =
  Ident_ID :: uuid
  Ident_UserID :: uuid
  Ident_Provider :: string
  Ident_ProviderID :: string
  Ident_Email :: pg_text
  Ident_DisplayName :: pg_text
  Ident_AvatarUrl :: pg_text
  Ident_AccessToken :: "string option"
  Ident_RefreshToken :: "string option"
  Ident_TokenExpiresAt :: pg_time
  Ident_CreatedAt :: timestamp
  Ident_UpdatedAt :: timestamp

record OauthState =
  State_ID :: uuid
  State_State :: string
  State_Provider :: string
  State_RedirectUri :: string
  State_ExpiresAt :: timestamp
  State_CreatedAt :: timestamp

record AuthSession =
  ASess_ID :: uuid
  ASess_UserID :: uuid
  ASess_IpAddress :: "inet option"
  ASess_UserAgent :: pg_text
  ASess_DeviceName :: pg_text
  ASess_DeviceFingerprint :: pg_text
  ASess_Country :: pg_text
  ASess_LastActiveAt :: timestamp
  ASess_ExpiresAt :: timestamp
  ASess_RevokedAt :: pg_time
  ASess_CreatedAt :: timestamp

record RefreshToken =
  RT_ID :: uuid
  RT_UserID :: uuid
  RT_SessionID :: uuid
  RT_TokenHash :: string
  RT_ExpiresAt :: timestamp
  RT_RevokedAt :: pg_time
  RT_CreatedAt :: timestamp

record FailedLoginAttempt =
  Fail_ID :: uuid
  Fail_Identifier :: string
  Fail_IpAddress :: inet
  Fail_UserAgent :: pg_text
  Fail_CreatedAt :: timestamp

record MfaSetting =
  Mfa_ID :: uuid
  Mfa_UserID :: uuid
  Mfa_TotpSecret :: "string option"
  Mfa_TotpEnabled :: bool
  Mfa_TotpVerifiedAt :: pg_time
  Mfa_CreatedAt :: timestamp
  Mfa_UpdatedAt :: timestamp

record MfaBackupCode =
  Code_ID :: uuid
  Code_UserID :: uuid
  Code_CodeHash :: string
  Code_UsedAt :: pg_time
  Code_CreatedAt :: timestamp

record AuthOrganization =
  AOrg_ID :: uuid
  AOrg_Slug :: string
  AOrg_Name :: string
  AOrg_LogoUrl :: pg_text
  AOrg_Plan :: string
  AOrg_BillingEmail :: pg_text
  AOrg_MaxMembers :: int
  AOrg_CreatedAt :: timestamp
  AOrg_UpdatedAt :: timestamp

record OrgMembership =
  OM_ID :: uuid
  OM_OrgID :: uuid
  OM_UserID :: uuid
  OM_Role :: string
  OM_CreatedAt :: timestamp
  OM_UpdatedAt :: timestamp

record Team =
  Team_ID :: uuid
  Team_OrgID :: uuid
  Team_Slug :: string
  Team_Name :: string
  Team_Description :: pg_text
  Team_CreatedAt :: timestamp
  Team_UpdatedAt :: timestamp

record TeamMembership =
  TM_ID :: uuid
  TM_TeamID :: uuid
  TM_UserID :: uuid
  TM_Role :: string
  TM_CreatedAt :: timestamp

record Invite =
  Inv_ID :: uuid
  Inv_OrgID :: uuid
  Inv_TeamID :: pg_uuid
  Inv_InvitedBy :: uuid
  Inv_Email :: string
  Inv_Role :: string
  Inv_TokenHash :: string
  Inv_Status :: string
  Inv_ExpiresAt :: timestamp
  Inv_AcceptedAt :: pg_time
  Inv_CreatedAt :: timestamp

record AuthAuditLog =
  Log_ID :: uuid
  Log_OrgID :: pg_uuid
  Log_ActorID :: pg_uuid
  Log_Action :: string
  Log_TargetType :: pg_text
  Log_TargetID :: pg_uuid
  Log_IpAddress :: "inet option"
  Log_UserAgent :: pg_text
  Log_Metadata :: string
  Log_CreatedAt :: timestamp

record WebhookSubscription =
  Sub_ID :: uuid
  Sub_OrgID :: uuid
  Sub_Url :: string
  Sub_Secret :: string
  Sub_Events :: "string list"
  Sub_Active :: bool
  Sub_CreatedAt :: timestamp
  Sub_UpdatedAt :: timestamp

record WebhookDelivery =
  Dlv_ID :: uuid
  Dlv_SubscriptionID :: uuid
  Dlv_Event :: string
  Dlv_Payload :: string
  Dlv_ResponseStatus :: "int option"
  Dlv_ResponseBody :: pg_text
  Dlv_DeliveredAt :: pg_time
  Dlv_Attempts :: int
  Dlv_NextRetryAt :: pg_time
  Dlv_CreatedAt :: timestamp

record adb =
  a_users :: "AuthUser list"
  a_identities :: "OauthIdentity list"
  a_states :: "OauthState list"
  a_sessions :: "AuthSession list"
  a_refresh_tokens :: "RefreshToken list"
  a_failed_logins :: "FailedLoginAttempt list"
  a_mfa_settings :: "MfaSetting list"
  a_backup_codes :: "MfaBackupCode list"
  a_organizations :: "AuthOrganization list"
  a_org_memberships :: "OrgMembership list"
  a_teams :: "Team list"
  a_team_memberships :: "TeamMembership list"
  a_invites :: "Invite list"
  a_audit_logs :: "AuthAuditLog list"
  a_webhooks :: "WebhookSubscription list"
  a_deliveries :: "WebhookDelivery list"

definition empty_adb :: adb where
  "empty_adb = \<lparr>a_users = [], a_identities = [], a_states = [], a_sessions = [], a_refresh_tokens = [],
     a_failed_logins = [], a_mfa_settings = [], a_backup_codes = [], a_organizations = [],
     a_org_memberships = [], a_teams = [], a_team_memberships = [], a_invites = [], a_audit_logs = [],
     a_webhooks = [], a_deliveries = []\<rparr>"

end
