(* ===== verification/AuthStore.thy ===== *)
theory AuthStore
  imports AuthModels "HOL-Library.Char_ord" "HOL-Library.List_Lexorder"
begin

text \<open>
  The queries of the auth service on accounts: users, OAuth identities and states, sessions, refresh
  tokens, second factors, failed logins and the audit log (\<open>auth/internal/store/*.sql.go\<close>), with the
  constraints, triggers and deletion rules of the migration. A statement that writes several rows
  draws its identifiers from the position it is given onwards; texts are ordered by their bytes.
\<close>

section \<open>Users\<close>

abbreviation user_exists :: "uuid \<Rightarrow> adb \<Rightarrow> bool" where
  "user_exists u d \<equiv> u \<in> AU_ID ` set (a_users d)"

definition CreateUser ::
  "env \<Rightarrow> nat \<Rightarrow> string \<Rightarrow> bool \<Rightarrow> pg_text \<Rightarrow> pg_text \<Rightarrow> pg_text \<Rightarrow> adb \<Rightarrow> dberr + (AuthUser \<times> adb)" where
  "CreateUser env n email verified fname lname avatar d =
     (if user_exists (e_uuid env n) d \<or> email \<in> AU_Email ` set (a_users d) then Inl UniqueViolation
      else let u = \<lparr>AU_ID = e_uuid env n, AU_Email = email, AU_EmailVerified = verified,
             AU_FirstName = fname, AU_LastName = lname, AU_Nickname = None, AU_Bio = None,
             AU_Country = None, AU_Age = None, AU_Timezone = ''UTC'', AU_Language = ''en'',
             AU_AvatarUrl = avatar, AU_PhoneCipher = None, AU_SocialLinks = ''{}'',
             AU_ProfileVisibility = ''team_only'', AU_OnboardingStep = ''profile'',
             AU_IsPlatformAdmin = False, AU_CreatedAt = e_now env, AU_UpdatedAt = e_now env\<rparr>
           in Inr (u, d\<lparr>a_users := a_users d @ [u]\<rparr>))"

definition auth_GetUserByID :: "pg_uuid \<Rightarrow> adb \<Rightarrow> dberr + AuthUser" where
  "auth_GetUserByID i d = query_one (\<lambda>u. sql_eq (Some (AU_ID u)) i) (a_users d)"

definition auth_GetUserByEmail :: "string \<Rightarrow> adb \<Rightarrow> dberr + AuthUser" where
  "auth_GetUserByEmail e d = query_one (\<lambda>u. AU_Email u = e) (a_users d)"

text \<open>An update of one user's row, with the trigger that sets \<open>updated_at\<close>.\<close>

definition set_user :: "env \<Rightarrow> pg_uuid \<Rightarrow> (AuthUser \<Rightarrow> AuthUser) \<Rightarrow> adb \<Rightarrow> adb" where
  "set_user env i f d = d\<lparr>a_users :=
     update_where (\<lambda>u. sql_eq (Some (AU_ID u)) i) (\<lambda>u. (f u)\<lparr>AU_UpdatedAt := e_now env\<rparr>) (a_users d)\<rparr>"

record UpdateUserProfileParams =
  UUP_FirstName :: pg_text
  UUP_LastName :: pg_text
  UUP_Nickname :: pg_text
  UUP_Bio :: pg_text
  UUP_Country :: pg_text
  UUP_Age :: "int option"
  UUP_Timezone :: string
  UUP_Language :: string
  UUP_SocialLinks :: string
  UUP_ProfileVisibility :: string

definition valid_visibility :: "string \<Rightarrow> bool" where
  "valid_visibility v \<longleftrightarrow> v \<in> {''public'', ''private'', ''team_only''}"

definition UpdateUserProfile ::
  "env \<Rightarrow> pg_uuid \<Rightarrow> UpdateUserProfileParams \<Rightarrow> adb \<Rightarrow> dberr + (AuthUser \<times> adb)" where
  "UpdateUserProfile env i p d =
     (case auth_GetUserByID i d of
        Inl e \<Rightarrow> Inl e
      | Inr _ \<Rightarrow>
          if \<not> valid_visibility (UUP_ProfileVisibility p) then Inl CheckViolation
          else let d1 = set_user env i (\<lambda>u. u\<lparr>AU_FirstName := UUP_FirstName p,
                 AU_LastName := UUP_LastName p, AU_Nickname := UUP_Nickname p, AU_Bio := UUP_Bio p,
                 AU_Country := UUP_Country p, AU_Age := UUP_Age p, AU_Timezone := UUP_Timezone p,
                 AU_Language := UUP_Language p, AU_SocialLinks := UUP_SocialLinks p,
                 AU_ProfileVisibility := UUP_ProfileVisibility p\<rparr>) d
               in (case auth_GetUserByID i d1 of Inl e \<Rightarrow> Inl e | Inr u \<Rightarrow> Inr (u, d1)))"

definition UpdateUserAvatar :: "env \<Rightarrow> pg_uuid \<Rightarrow> pg_text \<Rightarrow> adb \<Rightarrow> adb" where
  "UpdateUserAvatar env i a d = set_user env i (\<lambda>u. u\<lparr>AU_AvatarUrl := a\<rparr>) d"

definition valid_step :: "string \<Rightarrow> bool" where
  "valid_step s \<longleftrightarrow> s \<in> {''profile'', ''connect_oauth'', ''join_team'', ''completed''}"

definition UpdateUserOnboardingStep :: "env \<Rightarrow> pg_uuid \<Rightarrow> string \<Rightarrow> adb \<Rightarrow> dberr + adb" where
  "UpdateUserOnboardingStep env i s d =
     (if (\<exists>u \<in> set (a_users d). sql_eq (Some (AU_ID u)) i) \<and> \<not> valid_step s then Inl CheckViolation
      else Inr (set_user env i (\<lambda>u. u\<lparr>AU_OnboardingStep := s\<rparr>) d))"

definition UpdateUserPhone :: "env \<Rightarrow> pg_uuid \<Rightarrow> string option \<Rightarrow> adb \<Rightarrow> adb" where
  "UpdateUserPhone env i c d = set_user env i (\<lambda>u. u\<lparr>AU_PhoneCipher := c\<rparr>) d"

definition UpdateUserPlatformAdmin :: "env \<Rightarrow> pg_uuid \<Rightarrow> bool \<Rightarrow> adb \<Rightarrow> adb" where
  "UpdateUserPlatformAdmin env i b d = set_user env i (\<lambda>u. u\<lparr>AU_IsPlatformAdmin := b\<rparr>) d"

text \<open>A negative LIMIT or OFFSET is an error of the statement, filed under the violations.\<close>

definition page_of :: "int \<Rightarrow> int \<Rightarrow> 'r list \<Rightarrow> dberr + 'r list" where
  "page_of lim off rs = (if lim < 0 \<or> off < 0 then Inl CheckViolation
     else Inr (take (nat lim) (drop (nat off) rs)))"

definition ListUsers :: "int \<Rightarrow> int \<Rightarrow> adb \<Rightarrow> dberr + AuthUser list" where
  "ListUsers lim off d = page_of lim off (order_desc AU_CreatedAt (a_users d))"

definition CountUsers :: "adb \<Rightarrow> int" where
  "CountUsers d = int (length (a_users d))"

text \<open>
  Deleting a user cascades to what belongs to the account; it fails while an invitation names the
  user as its author, and the audit log forgets the actor.
\<close>

definition auth_DeleteUser :: "pg_uuid \<Rightarrow> adb \<Rightarrow> dberr + adb" where
  "auth_DeleteUser i d =
     (case find (\<lambda>u. sql_eq (Some (AU_ID u)) i) (a_users d) of
        None \<Rightarrow> Inr d
      | Some usr \<Rightarrow>
          let u = AU_ID usr in
          if \<exists>v \<in> set (a_invites d). Inv_InvitedBy v = u then Inl ForeignKeyViolation
          else Inr (d\<lparr>a_users := delete_where (\<lambda>x. AU_ID x = u) (a_users d),
            a_identities := delete_where (\<lambda>x. Ident_UserID x = u) (a_identities d),
            a_sessions := delete_where (\<lambda>x. ASess_UserID x = u) (a_sessions d),
            a_refresh_tokens := delete_where (\<lambda>x. RT_UserID x = u
              \<or> RT_SessionID x \<in> ASess_ID ` {s \<in> set (a_sessions d). ASess_UserID s = u}) (a_refresh_tokens d),
            a_mfa_settings := delete_where (\<lambda>x. Mfa_UserID x = u) (a_mfa_settings d),
            a_backup_codes := delete_where (\<lambda>x. Code_UserID x = u) (a_backup_codes d),
            a_org_memberships := delete_where (\<lambda>x. OM_UserID x = u) (a_org_memberships d),
            a_team_memberships := delete_where (\<lambda>x. TM_UserID x = u) (a_team_memberships d),
            a_audit_logs := update_where (\<lambda>x. Log_ActorID x = Some u) (\<lambda>x. x\<lparr>Log_ActorID := None\<rparr>)
              (a_audit_logs d)\<rparr>))"

section \<open>OAuth identities and states\<close>

definition CreateOAuthIdentity ::
  "env \<Rightarrow> nat \<Rightarrow> uuid \<Rightarrow> string \<Rightarrow> string \<Rightarrow> pg_text \<Rightarrow> pg_text \<Rightarrow> pg_text \<Rightarrow> adb
    \<Rightarrow> dberr + (OauthIdentity \<times> adb)" where
  "CreateOAuthIdentity env n usr provider pid email name avatar d =
     (if provider \<notin> {''github'', ''google''} then Inl CheckViolation
      else if \<exists>r \<in> set (a_identities d). Ident_ID r = e_uuid env n
          \<or> Ident_Provider r = provider \<and> Ident_ProviderID r = pid then Inl UniqueViolation
      else if \<not> user_exists usr d then Inl ForeignKeyViolation
      else let r = \<lparr>Ident_ID = e_uuid env n, Ident_UserID = usr, Ident_Provider = provider,
             Ident_ProviderID = pid, Ident_Email = email, Ident_DisplayName = name,
             Ident_AvatarUrl = avatar, Ident_AccessToken = None, Ident_RefreshToken = None,
             Ident_TokenExpiresAt = None, Ident_CreatedAt = e_now env, Ident_UpdatedAt = e_now env\<rparr>
           in Inr (r, d\<lparr>a_identities := a_identities d @ [r]\<rparr>))"

definition GetOAuthIdentity :: "string \<Rightarrow> string \<Rightarrow> adb \<Rightarrow> dberr + OauthIdentity" where
  "GetOAuthIdentity provider pid d =
     query_one (\<lambda>r. Ident_Provider r = provider \<and> Ident_ProviderID r = pid) (a_identities d)"

definition ListOAuthIdentitiesByUser :: "pg_uuid \<Rightarrow> adb \<Rightarrow> OauthIdentity list" where
  "ListOAuthIdentitiesByUser usr d =
     sort_key Ident_Provider (filter (\<lambda>r. sql_eq (Some (Ident_UserID r)) usr) (a_identities d))"

definition UpdateOAuthTokens ::
  "env \<Rightarrow> string \<Rightarrow> string \<Rightarrow> string option \<Rightarrow> string option \<Rightarrow> pg_time \<Rightarrow> adb \<Rightarrow> adb" where
  "UpdateOAuthTokens env provider pid access refresh expires d = d\<lparr>a_identities :=
     update_where (\<lambda>r. Ident_Provider r = provider \<and> Ident_ProviderID r = pid)
       (\<lambda>r. r\<lparr>Ident_AccessToken := access, Ident_RefreshToken := refresh,
              Ident_TokenExpiresAt := expires, Ident_UpdatedAt := e_now env\<rparr>) (a_identities d)\<rparr>"

definition DeleteOAuthIdentity :: "pg_uuid \<Rightarrow> string \<Rightarrow> adb \<Rightarrow> adb" where
  "DeleteOAuthIdentity usr provider d = d\<lparr>a_identities := delete_where
     (\<lambda>r. sql_eq (Some (Ident_UserID r)) usr \<and> Ident_Provider r = provider) (a_identities d)\<rparr>"

definition CountOAuthIdentitiesByUser :: "pg_uuid \<Rightarrow> adb \<Rightarrow> int" where
  "CountOAuthIdentitiesByUser usr d =
     int (length (filter (\<lambda>r. sql_eq (Some (Ident_UserID r)) usr) (a_identities d)))"

definition CreateOAuthState ::
  "env \<Rightarrow> nat \<Rightarrow> string \<Rightarrow> string \<Rightarrow> string \<Rightarrow> timestamp \<Rightarrow> adb \<Rightarrow> dberr + adb" where
  "CreateOAuthState env n state provider uri expires d =
     (if \<exists>s \<in> set (a_states d). State_ID s = e_uuid env n \<or> State_State s = state then Inl UniqueViolation
      else Inr (d\<lparr>a_states := a_states d @ [\<lparr>State_ID = e_uuid env n, State_State = state,
        State_Provider = provider, State_RedirectUri = uri, State_ExpiresAt = expires,
        State_CreatedAt = e_now env\<rparr>]\<rparr>))"

definition GetAndDeleteOAuthState :: "env \<Rightarrow> string \<Rightarrow> adb \<Rightarrow> dberr + (OauthState \<times> adb)" where
  "GetAndDeleteOAuthState env state d =
     (let hit = (\<lambda>s. State_State s = state \<and> e_now env < State_ExpiresAt s)
      in case query_one hit (a_states d) of
        Inl e \<Rightarrow> Inl e
      | Inr s \<Rightarrow> Inr (s, d\<lparr>a_states := delete_where hit (a_states d)\<rparr>))"

definition DeleteExpiredOAuthStates :: "env \<Rightarrow> adb \<Rightarrow> adb" where
  "DeleteExpiredOAuthStates env d =
     d\<lparr>a_states := delete_where (\<lambda>s. State_ExpiresAt s < e_now env) (a_states d)\<rparr>"

section \<open>Sessions and refresh tokens\<close>

definition CreateSession ::
  "env \<Rightarrow> nat \<Rightarrow> uuid \<Rightarrow> inet option \<Rightarrow> pg_text \<Rightarrow> pg_text \<Rightarrow> pg_text \<Rightarrow> pg_text \<Rightarrow> timestamp \<Rightarrow> adb
    \<Rightarrow> dberr + (AuthSession \<times> adb)" where
  "CreateSession env n usr ip ua device fingerprint country expires d =
     (if e_uuid env n \<in> ASess_ID ` set (a_sessions d) then Inl UniqueViolation
      else if \<not> user_exists usr d then Inl ForeignKeyViolation
      else let s = \<lparr>ASess_ID = e_uuid env n, ASess_UserID = usr, ASess_IpAddress = ip,
             ASess_UserAgent = ua, ASess_DeviceName = device, ASess_DeviceFingerprint = fingerprint,
             ASess_Country = country, ASess_LastActiveAt = e_now env, ASess_ExpiresAt = expires,
             ASess_RevokedAt = None, ASess_CreatedAt = e_now env\<rparr>
           in Inr (s, d\<lparr>a_sessions := a_sessions d @ [s]\<rparr>))"

definition GetSessionByID :: "pg_uuid \<Rightarrow> adb \<Rightarrow> dberr + AuthSession" where
  "GetSessionByID i d = query_one (\<lambda>s. sql_eq (Some (ASess_ID s)) i) (a_sessions d)"

definition ListActiveSessions :: "env \<Rightarrow> pg_uuid \<Rightarrow> adb \<Rightarrow> AuthSession list" where
  "ListActiveSessions env usr d = order_desc ASess_LastActiveAt (filter (\<lambda>s.
     sql_eq (Some (ASess_UserID s)) usr \<and> ASess_RevokedAt s = None \<and> e_now env < ASess_ExpiresAt s)
     (a_sessions d))"

definition UpdateSessionLastActive :: "env \<Rightarrow> pg_uuid \<Rightarrow> adb \<Rightarrow> adb" where
  "UpdateSessionLastActive env i d = d\<lparr>a_sessions := update_where (\<lambda>s. sql_eq (Some (ASess_ID s)) i)
     (\<lambda>s. s\<lparr>ASess_LastActiveAt := e_now env\<rparr>) (a_sessions d)\<rparr>"

definition auth_RevokeSession :: "env \<Rightarrow> pg_uuid \<Rightarrow> adb \<Rightarrow> adb" where
  "auth_RevokeSession env i d = d\<lparr>a_sessions := update_where (\<lambda>s. sql_eq (Some (ASess_ID s)) i)
     (\<lambda>s. s\<lparr>ASess_RevokedAt := Some (e_now env)\<rparr>) (a_sessions d)\<rparr>"

definition RevokeAllUserSessions :: "env \<Rightarrow> pg_uuid \<Rightarrow> adb \<Rightarrow> adb" where
  "RevokeAllUserSessions env usr d = d\<lparr>a_sessions :=
     update_where (\<lambda>s. sql_eq (Some (ASess_UserID s)) usr \<and> ASess_RevokedAt s = None)
       (\<lambda>s. s\<lparr>ASess_RevokedAt := Some (e_now env)\<rparr>) (a_sessions d)\<rparr>"

abbreviation usec_per_day :: int where "usec_per_day \<equiv> 86400000000"

definition DeleteExpiredSessions :: "env \<Rightarrow> adb \<Rightarrow> adb" where
  "DeleteExpiredSessions env d =
     (let old = (\<lambda>s. ASess_ExpiresAt s < e_now env - 7 * usec_per_day) in
      d\<lparr>a_sessions := delete_where old (a_sessions d),
        a_refresh_tokens := delete_where (\<lambda>t. RT_SessionID t \<in> ASess_ID ` {s \<in> set (a_sessions d). old s})
          (a_refresh_tokens d)\<rparr>)"

definition CreateRefreshToken ::
  "env \<Rightarrow> nat \<Rightarrow> uuid \<Rightarrow> uuid \<Rightarrow> string \<Rightarrow> timestamp \<Rightarrow> adb \<Rightarrow> dberr + (RefreshToken \<times> adb)" where
  "CreateRefreshToken env n usr sess hash expires d =
     (if \<exists>t \<in> set (a_refresh_tokens d). RT_ID t = e_uuid env n \<or> RT_TokenHash t = hash then Inl UniqueViolation
      else if \<not> user_exists usr d \<or> sess \<notin> ASess_ID ` set (a_sessions d) then Inl ForeignKeyViolation
      else let t = \<lparr>RT_ID = e_uuid env n, RT_UserID = usr, RT_SessionID = sess, RT_TokenHash = hash,
             RT_ExpiresAt = expires, RT_RevokedAt = None, RT_CreatedAt = e_now env\<rparr>
           in Inr (t, d\<lparr>a_refresh_tokens := a_refresh_tokens d @ [t]\<rparr>))"

definition GetRefreshTokenByHash :: "string \<Rightarrow> adb \<Rightarrow> dberr + RefreshToken" where
  "GetRefreshTokenByHash h d = query_one (\<lambda>t. RT_TokenHash t = h) (a_refresh_tokens d)"

text \<open>The three revocations of refresh tokens differ in the rows they hit.\<close>

definition revoke_tokens :: "env \<Rightarrow> (RefreshToken \<Rightarrow> bool) \<Rightarrow> adb \<Rightarrow> adb" where
  "revoke_tokens env hit d = d\<lparr>a_refresh_tokens :=
     update_where hit (\<lambda>t. t\<lparr>RT_RevokedAt := Some (e_now env)\<rparr>) (a_refresh_tokens d)\<rparr>"

definition RevokeRefreshToken :: "env \<Rightarrow> pg_uuid \<Rightarrow> adb \<Rightarrow> adb" where
  "RevokeRefreshToken env i d = revoke_tokens env (\<lambda>t. sql_eq (Some (RT_ID t)) i) d"

definition RevokeRefreshTokensBySession :: "env \<Rightarrow> pg_uuid \<Rightarrow> adb \<Rightarrow> adb" where
  "RevokeRefreshTokensBySession env i d =
     revoke_tokens env (\<lambda>t. sql_eq (Some (RT_SessionID t)) i \<and> RT_RevokedAt t = None) d"

definition RevokeAllUserRefreshTokens :: "env \<Rightarrow> pg_uuid \<Rightarrow> adb \<Rightarrow> adb" where
  "RevokeAllUserRefreshTokens env i d =
     revoke_tokens env (\<lambda>t. sql_eq (Some (RT_UserID t)) i \<and> RT_RevokedAt t = None) d"

definition DeleteExpiredRefreshTokens :: "env \<Rightarrow> adb \<Rightarrow> adb" where
  "DeleteExpiredRefreshTokens env d = d\<lparr>a_refresh_tokens :=
     delete_where (\<lambda>t. RT_ExpiresAt t < e_now env - 7 * usec_per_day) (a_refresh_tokens d)\<rparr>"

section \<open>Second factors\<close>

definition UpsertMFASettings ::
  "env \<Rightarrow> nat \<Rightarrow> uuid \<Rightarrow> string option \<Rightarrow> bool \<Rightarrow> adb \<Rightarrow> dberr + (MfaSetting \<times> adb)" where
  "UpsertMFASettings env n usr secret enabled d =
     (case find (\<lambda>m. Mfa_UserID m = usr) (a_mfa_settings d) of
        Some m \<Rightarrow>
          let upd = (\<lambda>m. m\<lparr>Mfa_TotpSecret := secret, Mfa_TotpEnabled := enabled, Mfa_UpdatedAt := e_now env\<rparr>)
          in Inr (upd m, d\<lparr>a_mfa_settings := update_where (\<lambda>m. Mfa_UserID m = usr) upd (a_mfa_settings d)\<rparr>)
      | None \<Rightarrow>
          if e_uuid env n \<in> Mfa_ID ` set (a_mfa_settings d) then Inl UniqueViolation
          else if \<not> user_exists usr d then Inl ForeignKeyViolation
          else let m = \<lparr>Mfa_ID = e_uuid env n, Mfa_UserID = usr, Mfa_TotpSecret = secret,
                 Mfa_TotpEnabled = enabled, Mfa_TotpVerifiedAt = None, Mfa_CreatedAt = e_now env,
                 Mfa_UpdatedAt = e_now env\<rparr>
               in Inr (m, d\<lparr>a_mfa_settings := a_mfa_settings d @ [m]\<rparr>))"

definition GetMFASettings :: "pg_uuid \<Rightarrow> adb \<Rightarrow> dberr + MfaSetting" where
  "GetMFASettings usr d = query_one (\<lambda>m. sql_eq (Some (Mfa_UserID m)) usr) (a_mfa_settings d)"

definition EnableTOTP :: "env \<Rightarrow> pg_uuid \<Rightarrow> adb \<Rightarrow> adb" where
  "EnableTOTP env usr d = d\<lparr>a_mfa_settings := update_where (\<lambda>m. sql_eq (Some (Mfa_UserID m)) usr)
     (\<lambda>m. m\<lparr>Mfa_TotpEnabled := True, Mfa_TotpVerifiedAt := Some (e_now env), Mfa_UpdatedAt := e_now env\<rparr>)
     (a_mfa_settings d)\<rparr>"

definition DisableTOTP :: "env \<Rightarrow> pg_uuid \<Rightarrow> adb \<Rightarrow> adb" where
  "DisableTOTP env usr d = d\<lparr>a_mfa_settings := update_where (\<lambda>m. sql_eq (Some (Mfa_UserID m)) usr)
     (\<lambda>m. m\<lparr>Mfa_TotpEnabled := False, Mfa_TotpSecret := None, Mfa_TotpVerifiedAt := None,
            Mfa_UpdatedAt := e_now env\<rparr>) (a_mfa_settings d)\<rparr>"

text \<open>\<open>COPY\<close> inserts all rows or none.\<close>

fun copy_codes :: "env \<Rightarrow> nat \<Rightarrow> (uuid \<times> string) list \<Rightarrow> MfaBackupCode list" where
  "copy_codes env n [] = []"
| "copy_codes env n ((usr, hash) # ps) = \<lparr>Code_ID = e_uuid env n, Code_UserID = usr, Code_CodeHash = hash,
     Code_UsedAt = None, Code_CreatedAt = e_now env\<rparr> # copy_codes env (Suc n) ps"

definition CreateBackupCodes :: "env \<Rightarrow> nat \<Rightarrow> (uuid \<times> string) list \<Rightarrow> adb \<Rightarrow> dberr + (int \<times> adb)" where
  "CreateBackupCodes env n ps d =
     (let rs = copy_codes env n ps in
      if \<not> distinct (map Code_ID (a_backup_codes d @ rs)) then Inl UniqueViolation
      else if \<exists>p \<in> set ps. \<not> user_exists (fst p) d then Inl ForeignKeyViolation
      else Inr (int (length ps), d\<lparr>a_backup_codes := a_backup_codes d @ rs\<rparr>))"

definition ListUnusedBackupCodes :: "pg_uuid \<Rightarrow> adb \<Rightarrow> MfaBackupCode list" where
  "ListUnusedBackupCodes usr d =
     filter (\<lambda>c. sql_eq (Some (Code_UserID c)) usr \<and> Code_UsedAt c = None) (a_backup_codes d)"

definition MarkBackupCodeUsed :: "env \<Rightarrow> pg_uuid \<Rightarrow> adb \<Rightarrow> adb" where
  "MarkBackupCodeUsed env i d = d\<lparr>a_backup_codes := update_where (\<lambda>c. sql_eq (Some (Code_ID c)) i)
     (\<lambda>c. c\<lparr>Code_UsedAt := Some (e_now env)\<rparr>) (a_backup_codes d)\<rparr>"

definition DeleteBackupCodes :: "pg_uuid \<Rightarrow> adb \<Rightarrow> adb" where
  "DeleteBackupCodes usr d = d\<lparr>a_backup_codes :=
     delete_where (\<lambda>c. sql_eq (Some (Code_UserID c)) usr) (a_backup_codes d)\<rparr>"

section \<open>Failed logins\<close>

text \<open>An address that is not valid is sent as NULL, which the column does not take.\<close>

definition RecordFailedLogin ::
  "env \<Rightarrow> nat \<Rightarrow> string \<Rightarrow> inet option \<Rightarrow> pg_text \<Rightarrow> adb \<Rightarrow> dberr + adb" where
  "RecordFailedLogin env n ident ip ua d =
     (case ip of
        None \<Rightarrow> Inl NotNullViolation
      | Some a \<Rightarrow>
          if e_uuid env n \<in> Fail_ID ` set (a_failed_logins d) then Inl UniqueViolation
          else Inr (d\<lparr>a_failed_logins := a_failed_logins d @ [\<lparr>Fail_ID = e_uuid env n,
            Fail_Identifier = ident, Fail_IpAddress = a, Fail_UserAgent = ua,
            Fail_CreatedAt = e_now env\<rparr>]\<rparr>))"

definition recent_failure :: "env \<Rightarrow> FailedLoginAttempt \<Rightarrow> bool" where
  "recent_failure env f \<longleftrightarrow> e_now env - 15 * usec_per_min < Fail_CreatedAt f"

definition CountRecentFailedLogins :: "env \<Rightarrow> string \<Rightarrow> adb \<Rightarrow> int" where
  "CountRecentFailedLogins env ident d =
     int (length (filter (\<lambda>f. Fail_Identifier f = ident \<and> recent_failure env f) (a_failed_logins d)))"

definition CountRecentFailedLoginsByIP :: "env \<Rightarrow> inet option \<Rightarrow> adb \<Rightarrow> int" where
  "CountRecentFailedLoginsByIP env ip d = int (length
     (filter (\<lambda>f. sql_eq (Some (Fail_IpAddress f)) ip \<and> recent_failure env f) (a_failed_logins d)))"

definition DeleteOldFailedLogins :: "env \<Rightarrow> adb \<Rightarrow> adb" where
  "DeleteOldFailedLogins env d = d\<lparr>a_failed_logins :=
     delete_where (\<lambda>f. Fail_CreatedAt f < e_now env - usec_per_day) (a_failed_logins d)\<rparr>"

section \<open>Audit log\<close>

definition CreateAuditLog ::
  "env \<Rightarrow> nat \<Rightarrow> pg_uuid \<Rightarrow> pg_uuid \<Rightarrow> string \<Rightarrow> pg_text \<Rightarrow> pg_uuid \<Rightarrow> inet option \<Rightarrow> pg_text \<Rightarrow> string
    \<Rightarrow> adb \<Rightarrow> dberr + adb" where
  "CreateAuditLog env n org actor action ttype tgt ip ua meta d =
     (if e_uuid env n \<in> Log_ID ` set (a_audit_logs d) then Inl UniqueViolation
      else if (\<exists>g. org = Some g \<and> g \<notin> AOrg_ID ` set (a_organizations d))
          \<or> (\<exists>u. actor = Some u \<and> \<not> user_exists u d) then Inl ForeignKeyViolation
      else Inr (d\<lparr>a_audit_logs := a_audit_logs d @ [\<lparr>Log_ID = e_uuid env n, Log_OrgID = org,
        Log_ActorID = actor, Log_Action = action, Log_TargetType = ttype, Log_TargetID = tgt,
        Log_IpAddress = ip, Log_UserAgent = ua, Log_Metadata = meta, Log_CreatedAt = e_now env\<rparr>]\<rparr>))"

definition logs_page :: "(AuthAuditLog \<Rightarrow> bool) \<Rightarrow> int \<Rightarrow> adb \<Rightarrow> AuthAuditLog list" where
  "logs_page P lim d = take (nat lim) (order_desc Log_CreatedAt (filter P (a_audit_logs d)))"

definition ListAuditLogs :: "pg_uuid \<Rightarrow> timestamp \<Rightarrow> int \<Rightarrow> adb \<Rightarrow> AuthAuditLog list" where
  "ListAuditLogs org before lim d =
     logs_page (\<lambda>l. sql_eq (Log_OrgID l) org \<and> Log_CreatedAt l < before) lim d"

definition ListAuditLogsByAction :: "pg_uuid \<Rightarrow> string \<Rightarrow> timestamp \<Rightarrow> int \<Rightarrow> adb \<Rightarrow> AuthAuditLog list" where
  "ListAuditLogsByAction org action before lim d =
     logs_page (\<lambda>l. sql_eq (Log_OrgID l) org \<and> Log_Action l = action \<and> Log_CreatedAt l < before) lim d"

definition ListAuditLogsByDateRange ::
  "pg_uuid \<Rightarrow> timestamp \<Rightarrow> timestamp \<Rightarrow> int \<Rightarrow> adb \<Rightarrow> AuthAuditLog list" where
  "ListAuditLogsByDateRange org from_t to_t lim d =
     logs_page (\<lambda>l. sql_eq (Log_OrgID l) org \<and> from_t \<le> Log_CreatedAt l \<and> Log_CreatedAt l \<le> to_t) lim d"

text \<open>Counting by day: \<open>date_trunc\<close> in a database whose time zone is UTC, latest day first.\<close>

definition day_of :: "timestamp \<Rightarrow> int" where
  "day_of t = t div usec_per_day"

definition count_by_day :: "timestamp list \<Rightarrow> (int \<times> int) list" where
  "count_by_day ts = map (\<lambda>day. (day, int (length (filter (\<lambda>t. day_of t = day) ts))))
     (order_desc id (remdups (map day_of ts)))"

definition CountLoginsByDay :: "pg_uuid \<Rightarrow> timestamp \<Rightarrow> timestamp \<Rightarrow> adb \<Rightarrow> (int \<times> int) list" where
  "CountLoginsByDay org from_t to_t d = count_by_day (map Log_CreatedAt (filter (\<lambda>l.
     sql_eq (Log_OrgID l) org \<and> Log_Action l = ''user.login'' \<and> from_t \<le> Log_CreatedAt l
     \<and> Log_CreatedAt l \<le> to_t) (a_audit_logs d)))"

definition CountFailedLoginsByDay :: "timestamp \<Rightarrow> timestamp \<Rightarrow> adb \<Rightarrow> (int \<times> int) list" where
  "CountFailedLoginsByDay from_t to_t d = count_by_day (map Fail_CreatedAt (filter (\<lambda>f.
     from_t \<le> Fail_CreatedAt f \<and> Fail_CreatedAt f \<le> to_t) (a_failed_logins d)))"

section \<open>Lookups as interfaces\<close>

interpretation auth_user_by_id: keyed_table AU_ID a_users auth_GetUserByID
  by unfold_locales (simp add: auth_GetUserByID_def)

interpretation session_by_id: keyed_table ASess_ID a_sessions GetSessionByID
  by unfold_locales (simp add: GetSessionByID_def)

interpretation mfa_by_user: keyed_table Mfa_UserID a_mfa_settings GetMFASettings
  by unfold_locales (simp add: GetMFASettings_def)

end
