(* ===== verification/AuthStoreOrgs.thy ===== *)
theory AuthStoreOrgs
  imports AuthStore
begin

text \<open>
  The queries of the auth service on organizations, teams, invitations and webhooks
  (\<open>auth/internal/store/{organizations,teams,invites,webhooks}.sql.go\<close>), with the constraints and
  deletion rules of the migration.
\<close>

section \<open>Organizations\<close>

abbreviation org_exists :: "uuid \<Rightarrow> adb \<Rightarrow> bool" where
  "org_exists g d \<equiv> g \<in> AOrg_ID ` set (a_organizations d)"

definition CreateOrganization :: "env \<Rightarrow> nat \<Rightarrow> string \<Rightarrow> string \<Rightarrow> adb \<Rightarrow> dberr + (AuthOrganization \<times> adb)" where
  "CreateOrganization env n slug name d =
     (if org_exists (e_uuid env n) d \<or> slug \<in> AOrg_Slug ` set (a_organizations d) then Inl UniqueViolation
      else let g = \<lparr>AOrg_ID = e_uuid env n, AOrg_Slug = slug, AOrg_Name = name, AOrg_LogoUrl = None,
             AOrg_Plan = ''free'', AOrg_BillingEmail = None, AOrg_MaxMembers = 5,
             AOrg_CreatedAt = e_now env, AOrg_UpdatedAt = e_now env\<rparr>
           in Inr (g, d\<lparr>a_organizations := a_organizations d @ [g]\<rparr>))"

definition auth_GetOrganizationByID :: "pg_uuid \<Rightarrow> adb \<Rightarrow> dberr + AuthOrganization" where
  "auth_GetOrganizationByID i d = query_one (\<lambda>g. sql_eq (Some (AOrg_ID g)) i) (a_organizations d)"

definition auth_GetOrganizationBySlug :: "string \<Rightarrow> adb \<Rightarrow> dberr + AuthOrganization" where
  "auth_GetOrganizationBySlug s d = query_one (\<lambda>g. AOrg_Slug g = s) (a_organizations d)"

text \<open>An update of one organization that returns the row, with the \<open>updated_at\<close> trigger.\<close>

definition set_org ::
  "env \<Rightarrow> pg_uuid \<Rightarrow> (AuthOrganization \<Rightarrow> AuthOrganization) \<Rightarrow> adb \<Rightarrow> dberr + (AuthOrganization \<times> adb)" where
  "set_org env i f d =
     (let upd = (\<lambda>g. (f g)\<lparr>AOrg_UpdatedAt := e_now env\<rparr>) in
      case auth_GetOrganizationByID i d of
        Inl e \<Rightarrow> Inl e
      | Inr g \<Rightarrow> Inr (upd g, d\<lparr>a_organizations :=
          update_where (\<lambda>g. sql_eq (Some (AOrg_ID g)) i) upd (a_organizations d)\<rparr>))"

definition auth_UpdateOrganization ::
  "env \<Rightarrow> pg_uuid \<Rightarrow> string \<Rightarrow> pg_text \<Rightarrow> pg_text \<Rightarrow> adb \<Rightarrow> dberr + (AuthOrganization \<times> adb)" where
  "auth_UpdateOrganization env i name logo billing d =
     set_org env i (\<lambda>g. g\<lparr>AOrg_Name := name, AOrg_LogoUrl := logo, AOrg_BillingEmail := billing\<rparr>) d"

definition valid_plan :: "string \<Rightarrow> bool" where
  "valid_plan p \<longleftrightarrow> p \<in> {''free'', ''pro'', ''enterprise''}"

definition UpdateOrganizationPlan ::
  "env \<Rightarrow> pg_uuid \<Rightarrow> string \<Rightarrow> int \<Rightarrow> adb \<Rightarrow> dberr + (AuthOrganization \<times> adb)" where
  "UpdateOrganizationPlan env i plan maxm d =
     (case set_org env i (\<lambda>g. g\<lparr>AOrg_Plan := plan, AOrg_MaxMembers := maxm\<rparr>) d of
        Inl e \<Rightarrow> Inl e
      | Inr r \<Rightarrow> if valid_plan plan then Inr r else Inl CheckViolation)"

definition teams_of_org :: "uuid \<Rightarrow> adb \<Rightarrow> uuid set" where
  "teams_of_org g d = Team_ID ` {t \<in> set (a_teams d). Team_OrgID t = g}"

definition auth_DeleteOrganization :: "pg_uuid \<Rightarrow> adb \<Rightarrow> adb" where
  "auth_DeleteOrganization i d =
     (case find (\<lambda>g. sql_eq (Some (AOrg_ID g)) i) (a_organizations d) of
        None \<Rightarrow> d
      | Some org \<Rightarrow>
          let g = AOrg_ID org in
          d\<lparr>a_organizations := delete_where (\<lambda>x. AOrg_ID x = g) (a_organizations d),
            a_org_memberships := delete_where (\<lambda>x. OM_OrgID x = g) (a_org_memberships d),
            a_teams := delete_where (\<lambda>x. Team_OrgID x = g) (a_teams d),
            a_team_memberships := delete_where (\<lambda>x. TM_TeamID x \<in> teams_of_org g d) (a_team_memberships d),
            a_invites := delete_where (\<lambda>x. Inv_OrgID x = g) (a_invites d),
            a_webhooks := delete_where (\<lambda>x. Sub_OrgID x = g) (a_webhooks d),
            a_deliveries := delete_where (\<lambda>x. Dlv_SubscriptionID x
              \<in> Sub_ID ` {s \<in> set (a_webhooks d). Sub_OrgID s = g}) (a_deliveries d),
            a_audit_logs := update_where (\<lambda>x. Log_OrgID x = Some g) (\<lambda>x. x\<lparr>Log_OrgID := None\<rparr>)
              (a_audit_logs d)\<rparr>)"

definition ListUserOrganizations :: "pg_uuid \<Rightarrow> adb \<Rightarrow> AuthOrganization list" where
  "ListUserOrganizations usr d = sort_key AOrg_Name (concat (map (\<lambda>g.
     map (\<lambda>_. g) (filter (\<lambda>m. OM_OrgID m = AOrg_ID g \<and> sql_eq (Some (OM_UserID m)) usr)
       (a_org_memberships d))) (a_organizations d)))"

definition ListOrganizations :: "int \<Rightarrow> int \<Rightarrow> adb \<Rightarrow> dberr + AuthOrganization list" where
  "ListOrganizations lim off d = page_of lim off (order_desc AOrg_CreatedAt (a_organizations d))"

definition CountOrganizations :: "adb \<Rightarrow> int" where
  "CountOrganizations d = int (length (a_organizations d))"

section \<open>Organization members\<close>

definition valid_org_role :: "string \<Rightarrow> bool" where
  "valid_org_role r \<longleftrightarrow> r \<in> {''owner'', ''admin'', ''member''}"

definition is_membership :: "pg_uuid \<Rightarrow> pg_uuid \<Rightarrow> OrgMembership \<Rightarrow> bool" where
  "is_membership org usr m \<longleftrightarrow> sql_eq (Some (OM_OrgID m)) org \<and> sql_eq (Some (OM_UserID m)) usr"

definition CreateOrgMembership ::
  "env \<Rightarrow> nat \<Rightarrow> uuid \<Rightarrow> uuid \<Rightarrow> string \<Rightarrow> adb \<Rightarrow> dberr + (OrgMembership \<times> adb)" where
  "CreateOrgMembership env n org usr role d =
     (if \<not> valid_org_role role then Inl CheckViolation
      else if \<exists>m \<in> set (a_org_memberships d). OM_ID m = e_uuid env n
          \<or> OM_OrgID m = org \<and> OM_UserID m = usr then Inl UniqueViolation
      else if \<not> org_exists org d \<or> \<not> user_exists usr d then Inl ForeignKeyViolation
      else let m = \<lparr>OM_ID = e_uuid env n, OM_OrgID = org, OM_UserID = usr, OM_Role = role,
             OM_CreatedAt = e_now env, OM_UpdatedAt = e_now env\<rparr>
           in Inr (m, d\<lparr>a_org_memberships := a_org_memberships d @ [m]\<rparr>))"

definition GetOrgMembership :: "pg_uuid \<Rightarrow> pg_uuid \<Rightarrow> adb \<Rightarrow> dberr + OrgMembership" where
  "GetOrgMembership org usr d = query_one (is_membership org usr) (a_org_memberships d)"

record ListOrgMembersRow =
  OMR_ID :: uuid
  OMR_OrgID :: uuid
  OMR_UserID :: uuid
  OMR_Role :: string
  OMR_CreatedAt :: timestamp
  OMR_UpdatedAt :: timestamp
  OMR_Email :: string
  OMR_FirstName :: pg_text
  OMR_LastName :: pg_text
  OMR_AvatarUrl :: pg_text

definition org_member_row :: "OrgMembership \<Rightarrow> AuthUser \<Rightarrow> ListOrgMembersRow" where
  "org_member_row m u = \<lparr>OMR_ID = OM_ID m, OMR_OrgID = OM_OrgID m, OMR_UserID = OM_UserID m,
     OMR_Role = OM_Role m, OMR_CreatedAt = OM_CreatedAt m, OMR_UpdatedAt = OM_UpdatedAt m,
     OMR_Email = AU_Email u, OMR_FirstName = AU_FirstName u, OMR_LastName = AU_LastName u,
     OMR_AvatarUrl = AU_AvatarUrl u\<rparr>"

definition ListOrgMembers :: "pg_uuid \<Rightarrow> adb \<Rightarrow> ListOrgMembersRow list" where
  "ListOrgMembers org d = sort_key OMR_Role (sort_key OMR_Email (concat (map (\<lambda>m.
     map (org_member_row m) (filter (\<lambda>u. AU_ID u = OM_UserID m) (a_users d)))
     (filter (\<lambda>m. sql_eq (Some (OM_OrgID m)) org) (a_org_memberships d)))))"

definition UpdateOrgMemberRole :: "env \<Rightarrow> pg_uuid \<Rightarrow> pg_uuid \<Rightarrow> string \<Rightarrow> adb \<Rightarrow> dberr + adb" where
  "UpdateOrgMemberRole env org usr role d =
     (if (\<exists>m \<in> set (a_org_memberships d). is_membership org usr m) \<and> \<not> valid_org_role role
      then Inl CheckViolation
      else Inr (d\<lparr>a_org_memberships := update_where (is_membership org usr)
        (\<lambda>m. m\<lparr>OM_Role := role, OM_UpdatedAt := e_now env\<rparr>) (a_org_memberships d)\<rparr>))"

definition DeleteOrgMembership :: "pg_uuid \<Rightarrow> pg_uuid \<Rightarrow> adb \<Rightarrow> adb" where
  "DeleteOrgMembership org usr d = d\<lparr>a_org_memberships :=
     delete_where (is_membership org usr) (a_org_memberships d)\<rparr>"

definition CountOrgMembers :: "pg_uuid \<Rightarrow> adb \<Rightarrow> int" where
  "CountOrgMembers org d =
     int (length (filter (\<lambda>m. sql_eq (Some (OM_OrgID m)) org) (a_org_memberships d)))"

section \<open>Teams\<close>

definition CreateTeam ::
  "env \<Rightarrow> nat \<Rightarrow> uuid \<Rightarrow> string \<Rightarrow> string \<Rightarrow> pg_text \<Rightarrow> adb \<Rightarrow> dberr + (Team \<times> adb)" where
  "CreateTeam env n org slug name descr d =
     (if \<exists>t \<in> set (a_teams d). Team_ID t = e_uuid env n \<or> Team_OrgID t = org \<and> Team_Slug t = slug
      then Inl UniqueViolation
      else if \<not> org_exists org d then Inl ForeignKeyViolation
      else let t = \<lparr>Team_ID = e_uuid env n, Team_OrgID = org, Team_Slug = slug, Team_Name = name,
             Team_Description = descr, Team_CreatedAt = e_now env, Team_UpdatedAt = e_now env\<rparr>
           in Inr (t, d\<lparr>a_teams := a_teams d @ [t]\<rparr>))"

definition GetTeamByID :: "pg_uuid \<Rightarrow> adb \<Rightarrow> dberr + Team" where
  "GetTeamByID i d = query_one (\<lambda>t. sql_eq (Some (Team_ID t)) i) (a_teams d)"

definition ListTeamsByOrg :: "pg_uuid \<Rightarrow> adb \<Rightarrow> Team list" where
  "ListTeamsByOrg org d = sort_key Team_Name (filter (\<lambda>t. sql_eq (Some (Team_OrgID t)) org) (a_teams d))"

definition UpdateTeam ::
  "env \<Rightarrow> pg_uuid \<Rightarrow> string \<Rightarrow> string \<Rightarrow> pg_text \<Rightarrow> adb \<Rightarrow> dberr + (Team \<times> adb)" where
  "UpdateTeam env i name slug descr d =
     (case GetTeamByID i d of
        Inl e \<Rightarrow> Inl e
      | Inr t \<Rightarrow>
          if \<exists>y \<in> set (a_teams d). Team_ID y \<noteq> Team_ID t \<and> Team_OrgID y = Team_OrgID t \<and> Team_Slug y = slug
          then Inl UniqueViolation
          else let upd = (\<lambda>t. t\<lparr>Team_Name := name, Team_Slug := slug, Team_Description := descr,
                 Team_UpdatedAt := e_now env\<rparr>)
               in Inr (upd t, d\<lparr>a_teams := update_where (\<lambda>t. sql_eq (Some (Team_ID t)) i) upd (a_teams d)\<rparr>))"

text \<open>Deleting a team removes its members and takes it out of the invitations to it.\<close>

definition DeleteTeam :: "pg_uuid \<Rightarrow> adb \<Rightarrow> adb" where
  "DeleteTeam i d = d\<lparr>a_teams := delete_where (\<lambda>t. sql_eq (Some (Team_ID t)) i) (a_teams d),
     a_team_memberships := delete_where (\<lambda>m. sql_eq (Some (TM_TeamID m)) i) (a_team_memberships d),
     a_invites := update_where (\<lambda>v. sql_eq (Inv_TeamID v) i) (\<lambda>v. v\<lparr>Inv_TeamID := None\<rparr>) (a_invites d)\<rparr>"

definition valid_team_role :: "string \<Rightarrow> bool" where
  "valid_team_role r \<longleftrightarrow> r \<in> {''lead'', ''member''}"

definition is_team_membership :: "pg_uuid \<Rightarrow> pg_uuid \<Rightarrow> TeamMembership \<Rightarrow> bool" where
  "is_team_membership team usr m \<longleftrightarrow> sql_eq (Some (TM_TeamID m)) team \<and> sql_eq (Some (TM_UserID m)) usr"

definition CreateTeamMembership ::
  "env \<Rightarrow> nat \<Rightarrow> uuid \<Rightarrow> uuid \<Rightarrow> string \<Rightarrow> adb \<Rightarrow> dberr + (TeamMembership \<times> adb)" where
  "CreateTeamMembership env n team usr role d =
     (if \<not> valid_team_role role then Inl CheckViolation
      else if \<exists>m \<in> set (a_team_memberships d). TM_ID m = e_uuid env n
          \<or> TM_TeamID m = team \<and> TM_UserID m = usr then Inl UniqueViolation
      else if team \<notin> Team_ID ` set (a_teams d) \<or> \<not> user_exists usr d then Inl ForeignKeyViolation
      else let m = \<lparr>TM_ID = e_uuid env n, TM_TeamID = team, TM_UserID = usr, TM_Role = role,
             TM_CreatedAt = e_now env\<rparr>
           in Inr (m, d\<lparr>a_team_memberships := a_team_memberships d @ [m]\<rparr>))"

definition GetTeamMembership :: "pg_uuid \<Rightarrow> pg_uuid \<Rightarrow> adb \<Rightarrow> dberr + TeamMembership" where
  "GetTeamMembership team usr d = query_one (is_team_membership team usr) (a_team_memberships d)"

record ListTeamMembersRow =
  TMR_ID :: uuid
  TMR_TeamID :: uuid
  TMR_UserID :: uuid
  TMR_Role :: string
  TMR_CreatedAt :: timestamp
  TMR_Email :: string
  TMR_FirstName :: pg_text
  TMR_LastName :: pg_text
  TMR_AvatarUrl :: pg_text

definition team_member_row :: "TeamMembership \<Rightarrow> AuthUser \<Rightarrow> ListTeamMembersRow" where
  "team_member_row m u = \<lparr>TMR_ID = TM_ID m, TMR_TeamID = TM_TeamID m, TMR_UserID = TM_UserID m,
     TMR_Role = TM_Role m, TMR_CreatedAt = TM_CreatedAt m, TMR_Email = AU_Email u,
     TMR_FirstName = AU_FirstName u, TMR_LastName = AU_LastName u, TMR_AvatarUrl = AU_AvatarUrl u\<rparr>"

definition ListTeamMembers :: "pg_uuid \<Rightarrow> adb \<Rightarrow> ListTeamMembersRow list" where
  "ListTeamMembers team d = sort_key TMR_Role (sort_key TMR_Email (concat (map (\<lambda>m.
     map (team_member_row m) (filter (\<lambda>u. AU_ID u = TM_UserID m) (a_users d)))
     (filter (\<lambda>m. sql_eq (Some (TM_TeamID m)) team) (a_team_memberships d)))))"

definition UpdateTeamMemberRole :: "pg_uuid \<Rightarrow> pg_uuid \<Rightarrow> string \<Rightarrow> adb \<Rightarrow> dberr + adb" where
  "UpdateTeamMemberRole team usr role d =
     (if (\<exists>m \<in> set (a_team_memberships d). is_team_membership team usr m) \<and> \<not> valid_team_role role
      then Inl CheckViolation
      else Inr (d\<lparr>a_team_memberships := update_where (is_team_membership team usr)
        (\<lambda>m. m\<lparr>TM_Role := role\<rparr>) (a_team_memberships d)\<rparr>))"

definition DeleteTeamMembership :: "pg_uuid \<Rightarrow> pg_uuid \<Rightarrow> adb \<Rightarrow> adb" where
  "DeleteTeamMembership team usr d = d\<lparr>a_team_memberships :=
     delete_where (is_team_membership team usr) (a_team_memberships d)\<rparr>"

definition CountTeamMembers :: "pg_uuid \<Rightarrow> adb \<Rightarrow> int" where
  "CountTeamMembers team d =
     int (length (filter (\<lambda>m. sql_eq (Some (TM_TeamID m)) team) (a_team_memberships d)))"

definition ListUserTeams :: "pg_uuid \<Rightarrow> pg_uuid \<Rightarrow> adb \<Rightarrow> Team list" where
  "ListUserTeams usr org d = sort_key Team_Name (concat (map (\<lambda>t.
     map (\<lambda>_. t) (filter (\<lambda>m. TM_TeamID m = Team_ID t \<and> sql_eq (Some (TM_UserID m)) usr)
       (a_team_memberships d))) (filter (\<lambda>t. sql_eq (Some (Team_OrgID t)) org) (a_teams d))))"

section \<open>Invitations\<close>

definition CreateInvite ::
  "env \<Rightarrow> nat \<Rightarrow> uuid \<Rightarrow> pg_uuid \<Rightarrow> uuid \<Rightarrow> string \<Rightarrow> string \<Rightarrow> string \<Rightarrow> timestamp \<Rightarrow> adb
    \<Rightarrow> dberr + (Invite \<times> adb)" where
  "CreateInvite env n org team inviter email role hash expires d =
     (if role \<notin> {''admin'', ''member''} then Inl CheckViolation
      else if \<exists>v \<in> set (a_invites d). Inv_ID v = e_uuid env n \<or> Inv_TokenHash v = hash then Inl UniqueViolation
      else if \<not> org_exists org d \<or> \<not> user_exists inviter d
          \<or> (\<exists>t. team = Some t \<and> t \<notin> Team_ID ` set (a_teams d)) then Inl ForeignKeyViolation
      else let v = \<lparr>Inv_ID = e_uuid env n, Inv_OrgID = org, Inv_TeamID = team, Inv_InvitedBy = inviter,
             Inv_Email = email, Inv_Role = role, Inv_TokenHash = hash, Inv_Status = ''pending'',
             Inv_ExpiresAt = expires, Inv_AcceptedAt = None, Inv_CreatedAt = e_now env\<rparr>
           in Inr (v, d\<lparr>a_invites := a_invites d @ [v]\<rparr>))"

definition GetInviteByID :: "pg_uuid \<Rightarrow> adb \<Rightarrow> dberr + Invite" where
  "GetInviteByID i d = query_one (\<lambda>v. sql_eq (Some (Inv_ID v)) i) (a_invites d)"

definition pending :: "env \<Rightarrow> Invite \<Rightarrow> bool" where
  "pending env v \<longleftrightarrow> Inv_Status v = ''pending'' \<and> e_now env < Inv_ExpiresAt v"

definition GetInviteByTokenHash :: "env \<Rightarrow> string \<Rightarrow> adb \<Rightarrow> dberr + Invite" where
  "GetInviteByTokenHash env h d = query_one (\<lambda>v. Inv_TokenHash v = h \<and> pending env v) (a_invites d)"

definition ListOrgInvites :: "pg_uuid \<Rightarrow> adb \<Rightarrow> Invite list" where
  "ListOrgInvites org d =
     order_desc Inv_CreatedAt (filter (\<lambda>v. sql_eq (Some (Inv_OrgID v)) org) (a_invites d))"

definition AcceptInvite :: "env \<Rightarrow> pg_uuid \<Rightarrow> adb \<Rightarrow> dberr + (Invite \<times> adb)" where
  "AcceptInvite env i d =
     (let hit = (\<lambda>v. sql_eq (Some (Inv_ID v)) i \<and> pending env v);
          upd = (\<lambda>v. v\<lparr>Inv_Status := ''accepted'', Inv_AcceptedAt := Some (e_now env)\<rparr>)
      in case query_one hit (a_invites d) of
        Inl e \<Rightarrow> Inl e
      | Inr v \<Rightarrow> Inr (upd v, d\<lparr>a_invites := update_where hit upd (a_invites d)\<rparr>))"

definition RevokeInvite :: "pg_uuid \<Rightarrow> pg_uuid \<Rightarrow> adb \<Rightarrow> adb" where
  "RevokeInvite i org d = d\<lparr>a_invites := update_where (\<lambda>v. sql_eq (Some (Inv_ID v)) i
     \<and> sql_eq (Some (Inv_OrgID v)) org \<and> Inv_Status v = ''pending'')
     (\<lambda>v. v\<lparr>Inv_Status := ''revoked''\<rparr>) (a_invites d)\<rparr>"

definition DeleteExpiredInvites :: "env \<Rightarrow> adb \<Rightarrow> adb" where
  "DeleteExpiredInvites env d = d\<lparr>a_invites := update_where
     (\<lambda>v. Inv_Status v = ''pending'' \<and> Inv_ExpiresAt v < e_now env)
     (\<lambda>v. v\<lparr>Inv_Status := ''expired''\<rparr>) (a_invites d)\<rparr>"

section \<open>Webhooks\<close>

definition CreateWebhookSubscription ::
  "env \<Rightarrow> nat \<Rightarrow> uuid \<Rightarrow> string \<Rightarrow> string \<Rightarrow> string list \<Rightarrow> adb \<Rightarrow> dberr + (WebhookSubscription \<times> adb)" where
  "CreateWebhookSubscription env n org url secret events d =
     (if e_uuid env n \<in> Sub_ID ` set (a_webhooks d) then Inl UniqueViolation
      else if \<not> org_exists org d then Inl ForeignKeyViolation
      else let s = \<lparr>Sub_ID = e_uuid env n, Sub_OrgID = org, Sub_Url = url, Sub_Secret = secret,
             Sub_Events = events, Sub_Active = True, Sub_CreatedAt = e_now env, Sub_UpdatedAt = e_now env\<rparr>
           in Inr (s, d\<lparr>a_webhooks := a_webhooks d @ [s]\<rparr>))"

definition GetWebhookSubscription :: "pg_uuid \<Rightarrow> adb \<Rightarrow> dberr + WebhookSubscription" where
  "GetWebhookSubscription i d = query_one (\<lambda>s. sql_eq (Some (Sub_ID s)) i) (a_webhooks d)"

definition ListWebhookSubscriptions :: "pg_uuid \<Rightarrow> adb \<Rightarrow> WebhookSubscription list" where
  "ListWebhookSubscriptions org d =
     order_desc Sub_CreatedAt (filter (\<lambda>s. sql_eq (Some (Sub_OrgID s)) org) (a_webhooks d))"

definition UpdateWebhookSubscription ::
  "env \<Rightarrow> pg_uuid \<Rightarrow> string \<Rightarrow> string list \<Rightarrow> bool \<Rightarrow> adb \<Rightarrow> dberr + (WebhookSubscription \<times> adb)" where
  "UpdateWebhookSubscription env i url events active d =
     (let upd = (\<lambda>s. s\<lparr>Sub_Url := url, Sub_Events := events, Sub_Active := active, Sub_UpdatedAt := e_now env\<rparr>)
      in case GetWebhookSubscription i d of
        Inl e \<Rightarrow> Inl e
      | Inr s \<Rightarrow> Inr (upd s, d\<lparr>a_webhooks := update_where (\<lambda>s. sql_eq (Some (Sub_ID s)) i) upd (a_webhooks d)\<rparr>))"

definition DeleteWebhookSubscription :: "pg_uuid \<Rightarrow> adb \<Rightarrow> adb" where
  "DeleteWebhookSubscription i d =
     d\<lparr>a_webhooks := delete_where (\<lambda>s. sql_eq (Some (Sub_ID s)) i) (a_webhooks d),
       a_deliveries := delete_where (\<lambda>v. sql_eq (Some (Dlv_SubscriptionID v)) i) (a_deliveries d)\<rparr>"

definition ListActiveWebhooksByEvent :: "pg_uuid \<Rightarrow> string \<Rightarrow> adb \<Rightarrow> WebhookSubscription list" where
  "ListActiveWebhooksByEvent org event d = filter (\<lambda>s. sql_eq (Some (Sub_OrgID s)) org \<and> Sub_Active s
     \<and> event \<in> set (Sub_Events s)) (a_webhooks d)"

definition CreateWebhookDelivery ::
  "env \<Rightarrow> nat \<Rightarrow> uuid \<Rightarrow> string \<Rightarrow> string \<Rightarrow> int \<Rightarrow> pg_time \<Rightarrow> adb \<Rightarrow> dberr + (WebhookDelivery \<times> adb)" where
  "CreateWebhookDelivery env n sub event payload attempts retry d =
     (if e_uuid env n \<in> Dlv_ID ` set (a_deliveries d) then Inl UniqueViolation
      else if sub \<notin> Sub_ID ` set (a_webhooks d) then Inl ForeignKeyViolation
      else let v = \<lparr>Dlv_ID = e_uuid env n, Dlv_SubscriptionID = sub, Dlv_Event = event,
             Dlv_Payload = payload, Dlv_ResponseStatus = None, Dlv_ResponseBody = None,
             Dlv_DeliveredAt = None, Dlv_Attempts = attempts, Dlv_NextRetryAt = retry,
             Dlv_CreatedAt = e_now env\<rparr>
           in Inr (v, d\<lparr>a_deliveries := a_deliveries d @ [v]\<rparr>))"

definition ListWebhookDeliveries :: "pg_uuid \<Rightarrow> int \<Rightarrow> adb \<Rightarrow> WebhookDelivery list" where
  "ListWebhookDeliveries sub lim d = take (nat lim) (order_desc Dlv_CreatedAt
     (filter (\<lambda>v. sql_eq (Some (Dlv_SubscriptionID v)) sub) (a_deliveries d)))"

definition UpdateWebhookDeliveryResult ::
  "pg_uuid \<Rightarrow> int option \<Rightarrow> pg_text \<Rightarrow> pg_time \<Rightarrow> int \<Rightarrow> pg_time \<Rightarrow> adb \<Rightarrow> adb" where
  "UpdateWebhookDeliveryResult i status body delivered attempts retry d = d\<lparr>a_deliveries :=
     update_where (\<lambda>v. sql_eq (Some (Dlv_ID v)) i) (\<lambda>v. v\<lparr>Dlv_ResponseStatus := status,
       Dlv_ResponseBody := body, Dlv_DeliveredAt := delivered, Dlv_Attempts := attempts,
       Dlv_NextRetryAt := retry\<rparr>) (a_deliveries d)\<rparr>"

definition ListPendingDeliveries :: "env \<Rightarrow> int \<Rightarrow> adb \<Rightarrow> WebhookDelivery list" where
  "ListPendingDeliveries env lim d = take (nat lim) (sort_key Dlv_CreatedAt (filter (\<lambda>v.
     Dlv_DeliveredAt v = None \<and> (case Dlv_NextRetryAt v of None \<Rightarrow> True | Some t \<Rightarrow> t \<le> e_now env))
     (a_deliveries d)))"

section \<open>Lookups as interfaces\<close>

interpretation auth_org_by_id: keyed_table AOrg_ID a_organizations auth_GetOrganizationByID
  by unfold_locales (simp add: auth_GetOrganizationByID_def)

interpretation team_by_id: keyed_table Team_ID a_teams GetTeamByID
  by unfold_locales (simp add: GetTeamByID_def)

interpretation invite_by_id: keyed_table Inv_ID a_invites GetInviteByID
  by unfold_locales (simp add: GetInviteByID_def)

interpretation webhook_by_id: keyed_table Sub_ID a_webhooks GetWebhookSubscription
  by unfold_locales (simp add: GetWebhookSubscription_def)

end
