(* ===== verification/AuthCore.thy ===== *)
theory AuthCore
  imports AuthStoreOrgs Secrets Samples
begin

text \<open>
  What the handlers of the auth service share: the request data they read, the token service
  (\<open>auth/internal/service/token\<close>), the token middleware (\<open>auth/internal/middleware/auth\<close>), sessions and
  devices (\<open>service/session\<close>), the audit service (\<open>service/audit\<close>), the brute-force check
  (\<open>service/security\<close>) and the helpers of \<open>handler/helpers.go\<close>.

  Outside the repository are golang-jwt (signing claims, and parsing a token under a key, an issuer
  and a clock), \<open>netip.ParseAddr\<close>, bcrypt and the TOTP library: they are the fields of \<open>aext\<close>.
\<close>

section \<open>Parameters and requests\<close>

record jwt_claims =
  J_Issuer :: string
  J_Subject :: string
  J_Audience :: "string list"
  J_IssuedAt :: pg_time
  J_ExpiresAt :: pg_time
  J_ID :: string
  J_Email :: string
  J_Name :: string
  J_OrgID :: string
  J_OrgSlug :: string
  J_OrgRole :: string
  J_Teams :: "string list"
  J_MFA :: bool

text \<open>
  A token is signed with a private key and parsed with a public key, for an issuer, at a time. The
  TOTP library generates a secret and its provisioning URI for an account and checks a code against
  a secret at a time; bcrypt hashes with a salt of its own, here the number of the draw.
\<close>

record aext =
  a_ext :: ext
  a_sign :: "string \<Rightarrow> jwt_claims \<Rightarrow> string option"
  a_parse :: "string \<Rightarrow> string \<Rightarrow> timestamp \<Rightarrow> string \<Rightarrow> jwt_claims option"
  a_addr :: "string \<Rightarrow> inet option"
  a_bcrypt :: "nat \<Rightarrow> string \<Rightarrow> string option"
  a_bcrypt_ok :: "string \<Rightarrow> string \<Rightarrow> bool"
  a_totp_key :: "string \<Rightarrow> (string \<times> string) option"
  a_totp_ok :: "timestamp \<Rightarrow> string \<Rightarrow> string \<Rightarrow> bool"

text \<open>
  Documented behaviour of signing and parsing, for given claims: the token parses under the matching
  public key to these claims as long as the issuer is the one asked for and the token has not
  expired.
\<close>

definition jwt_reads :: "aext \<Rightarrow> string \<Rightarrow> string \<Rightarrow> jwt_claims \<Rightarrow> bool" where
  "jwt_reads x priv pub c \<longleftrightarrow> (\<forall>t issuer now. a_sign x priv c = Some t \<longrightarrow>
     issuer = J_Issuer c \<longrightarrow> (\<forall>e. J_ExpiresAt c = Some e \<longrightarrow> now < e) \<longrightarrow> a_parse x pub issuer now t = Some c)"

record areq =
  R_XForwardedFor :: string
  R_RemoteAddr :: string
  R_UserAgent :: string
  R_TLS :: bool
  R_XForwardedProto :: string
  R_XOrgSlug :: string

record Cookie =
  Ck_Name :: string
  Ck_Value :: string
  Ck_Path :: string
  Ck_Secure :: bool
  Ck_MaxAge :: int

section \<open>Client addresses and devices\<close>

definition last_index :: "char \<Rightarrow> string \<Rightarrow> nat option" where
  "last_index c s = (if c \<in> set s then Some (length s - Suc (length (takeWhile ((\<noteq>) c) (rev s)))) else None)"

definition index_of :: "char \<Rightarrow> string \<Rightarrow> nat option" where
  "index_of c s = (if c \<in> set s then Some (length (takeWhile ((\<noteq>) c) s)) else None)"

text \<open>\<open>net.SplitHostPort\<close>: the host, and \<open>None\<close> for its errors.\<close>

definition SplitHostPort :: "string \<Rightarrow> string option" where
  "SplitHostPort hp =
     (case last_index CHR '':'' hp of
        None \<Rightarrow> None
      | Some i \<Rightarrow>
          if hd hp = CHR ''[''
          then (case index_of CHR '']'' hp of
              None \<Rightarrow> None
            | Some close \<Rightarrow>
                if Suc close = i \<and> CHR ''['' \<notin> set (drop 1 hp) \<and> CHR '']'' \<notin> set (drop (Suc close) hp)
                then Some (take (close - 1) (drop 1 hp)) else None)
          else if CHR '':'' \<in> set (take i hp) \<or> CHR ''['' \<in> set hp \<or> CHR '']'' \<in> set hp then None
          else Some (take i hp))"

definition extractIP :: "areq \<Rightarrow> string" where
  "extractIP r =
     (if R_XForwardedFor r \<noteq> '''' then TrimSpace (takeWhile ((\<noteq>) CHR '','') (R_XForwardedFor r))
      else case SplitHostPort (R_RemoteAddr r) of None \<Rightarrow> R_RemoteAddr r | Some ip \<Rightarrow> ip)"

text \<open>
  \<open>strings.ToLower\<close> as far as an ASCII substring of the result can tell: ASCII capitals, and the two
  other characters whose lower case is ASCII (capital I with dot above, the Kelvin sign).
\<close>

fun to_lower :: "string \<Rightarrow> string" where
  "to_lower [] = []"
| "to_lower (c # cs) =
     (if has_prefix (c # cs) [CHR 0xC4, CHR 0xB0] then CHR ''i'' # to_lower (drop 1 cs)
      else if has_prefix (c # cs) [CHR 0xE2, CHR 0x84, CHR 0xAA] then CHR ''k'' # to_lower (drop 2 cs)
      else lower c # to_lower cs)"

fun contains :: "string \<Rightarrow> string \<Rightarrow> bool" where
  "contains [] sub = (sub = [])"
| "contains (c # cs) sub = (has_prefix (c # cs) sub \<or> contains cs sub)"

datatype Device = DeviceIPhone | DeviceIPad | DeviceAndroid | DeviceMac | DeviceWindows | DeviceLinux | DeviceUnknown

fun device_string :: "Device \<Rightarrow> string" where
  "device_string DeviceIPhone = ''iPhone''"
| "device_string DeviceIPad = ''iPad''"
| "device_string DeviceAndroid = ''Android''"
| "device_string DeviceMac = ''Mac''"
| "device_string DeviceWindows = ''Windows''"
| "device_string DeviceLinux = ''Linux''"
| "device_string DeviceUnknown = ''Unknown''"

definition deviceRules :: "(string \<times> Device) list" where
  "deviceRules = [(''iphone'', DeviceIPhone), (''ipad'', DeviceIPad), (''android'', DeviceAndroid),
     (''macintosh'', DeviceMac), (''windows'', DeviceWindows), (''linux'', DeviceLinux)]"

definition Parse_device :: "string \<Rightarrow> Device" where
  "Parse_device ua = (case find (\<lambda>rule. contains (to_lower ua) (fst rule)) deviceRules of
     None \<Rightarrow> DeviceUnknown | Some rule \<Rightarrow> snd rule)"

section \<open>Sessions and the audit service\<close>

definition text_opt :: "string \<Rightarrow> pg_text" where
  "text_opt s = (if s = '''' then None else Some s)"

definition session_Create ::
  "aext \<Rightarrow> env \<Rightarrow> nat \<Rightarrow> timestamp \<Rightarrow> uuid \<Rightarrow> areq \<Rightarrow> string \<Rightarrow> adb \<Rightarrow> dberr + (AuthSession \<times> adb)" where
  "session_Create x env n maxAge usr req fingerprint d =
     (let ipStr = extractIP req;
          ip = (if ipStr = '''' then None else a_addr x ipStr);
          device = Parse_device (R_UserAgent req)
      in guarded env ''CreateSession'' 0 (CreateSession env n usr ip (text_opt (R_UserAgent req))
           (if device = DeviceUnknown then None else Some (device_string device))
           (text_opt fingerprint) None (e_now env + maxAge) d))"

text \<open>The audit service ignores what becomes of its insert; \<open>k\<close> numbers the entries of one request.\<close>

definition audit_Log ::
  "aext \<Rightarrow> env \<Rightarrow> nat \<Rightarrow> nat \<Rightarrow> pg_uuid \<Rightarrow> pg_uuid \<Rightarrow> string \<Rightarrow> string \<Rightarrow> pg_uuid \<Rightarrow> areq option \<Rightarrow> string option
    \<Rightarrow> adb \<Rightarrow> adb" where
  "audit_Log x env n k org actor action ttype tgt req meta d =
     (case guarded env ''CreateAuditLog'' k (CreateAuditLog env n org actor action (text_opt ttype) tgt
        (case req of None \<Rightarrow> None | Some r \<Rightarrow> a_addr x (extractIP r))
        (case req of None \<Rightarrow> None | Some r \<Rightarrow> text_opt (R_UserAgent r))
        (case meta of None \<Rightarrow> ''{}'' | Some m \<Rightarrow> m) d) of
        Inl _ \<Rightarrow> d
      | Inr d1 \<Rightarrow> d1)"

section \<open>Brute-force detection\<close>

abbreviation maxFailedAttempts :: int where "maxFailedAttempts \<equiv> 10"

definition IsBlocked :: "aext \<Rightarrow> env \<Rightarrow> string \<Rightarrow> areq \<Rightarrow> adb \<Rightarrow> dberr + bool" where
  "IsBlocked x env ident req d =
     (if e_fault env ''CountRecentFailedLogins'' 0 then Inl ConnError
      else if CountRecentFailedLogins env ident d \<ge> maxFailedAttempts then Inr True
      else if e_fault env ''CountRecentFailedLoginsByIP'' 0 then Inl ConnError
      else Inr (CountRecentFailedLoginsByIP env (a_addr x (extractIP req)) d \<ge> maxFailedAttempts * 3))"

definition RecordFailure :: "aext \<Rightarrow> env \<Rightarrow> string \<Rightarrow> areq \<Rightarrow> adb \<Rightarrow> dberr + adb" where
  "RecordFailure x env ident req d = guarded env ''RecordFailedLogin'' 0
     (RecordFailedLogin env 0 ident (a_addr x (extractIP req)) (Some (R_UserAgent req)) d)"

section \<open>Token service\<close>

record token_Service =
  T_privateKey :: string
  T_publicKey :: string
  T_issuer :: string
  T_accessTTL :: timestamp
  T_refreshTTL :: timestamp

text \<open>
  \<open>token.New\<close>: decoding base64 and reading a PEM block as a key, which may be an Ed25519 key or not,
  are parameters; the second component of an error says which of the two keys it is about.
\<close>

datatype key_error = DecodeKey | ParseKey | NotEd25519

definition New_token_service ::
  "(string \<Rightarrow> string option) \<Rightarrow> (string \<Rightarrow> (bool \<times> string) option) \<Rightarrow> (string \<Rightarrow> (bool \<times> string) option)
    \<Rightarrow> string \<Rightarrow> string \<Rightarrow> string \<Rightarrow> timestamp \<Rightarrow> timestamp \<Rightarrow> (key_error \<times> bool) + token_Service" where
  "New_token_service b64 privPEM pubPEM privKey pubKey issuer accessTTL refreshTTL =
     (case b64 privKey of
        None \<Rightarrow> Inl (DecodeKey, True)
      | Some p \<Rightarrow> (case privPEM p of
          None \<Rightarrow> Inl (ParseKey, True)
        | Some (edPriv, priv) \<Rightarrow> (case b64 pubKey of
            None \<Rightarrow> Inl (DecodeKey, False)
          | Some q \<Rightarrow> (case pubPEM q of
              None \<Rightarrow> Inl (ParseKey, False)
            | Some (edPub, pub) \<Rightarrow>
                if \<not> edPriv then Inl (NotEd25519, True)
                else if \<not> edPub then Inl (NotEd25519, False)
                else Inr \<lparr>T_privateKey = priv, T_publicKey = pub, T_issuer = issuer,
                  T_accessTTL = accessTTL, T_refreshTTL = refreshTTL\<rparr>))))"

text \<open>\<open>jwt.NewNumericDate\<close> cuts a time to whole seconds.\<close>

definition NewNumericDate :: "timestamp \<Rightarrow> timestamp" where
  "NewNumericDate t = t - t mod usec_per_sec"

record AccessTokenParams =
  ATP_UserID :: string
  ATP_Email :: string
  ATP_Name :: string
  ATP_OrgID :: string
  ATP_OrgSlug :: string
  ATP_OrgRole :: string
  ATP_Teams :: "string list"
  ATP_MFA :: bool

definition access_claims :: "token_Service \<Rightarrow> env \<Rightarrow> string \<Rightarrow> AccessTokenParams \<Rightarrow> jwt_claims" where
  "access_claims s env jti p =
     \<lparr>J_Issuer = T_issuer s, J_Subject = ATP_UserID p, J_Audience = [],
      J_IssuedAt = Some (NewNumericDate (e_now env)),
      J_ExpiresAt = Some (NewNumericDate (e_now env + T_accessTTL s)), J_ID = jti,
      J_Email = ATP_Email p, J_Name = ATP_Name p, J_OrgID = ATP_OrgID p, J_OrgSlug = ATP_OrgSlug p,
      J_OrgRole = ATP_OrgRole p, J_Teams = ATP_Teams p, J_MFA = ATP_MFA p\<rparr>"

text \<open>The identifier of a token is a fresh UUID, the \<open>n\<close>-th of the request.\<close>

definition IssueAccessToken :: "aext \<Rightarrow> token_Service \<Rightarrow> env \<Rightarrow> nat \<Rightarrow> AccessTokenParams \<Rightarrow> string option" where
  "IssueAccessToken x s env n p =
     a_sign x (T_privateKey s) (access_claims s env (x_uuid_string (a_ext x) (e_uuid env n)) p)"

abbreviation AudienceMFAChallenge :: string where "AudienceMFAChallenge \<equiv> ''mfa_challenge''"
abbreviation mfaChallengeTTL :: timestamp where "mfaChallengeTTL \<equiv> 5 * usec_per_min"

text \<open>The challenge token carries the registered claims only; the others read as zero values.\<close>

definition mfa_claims :: "token_Service \<Rightarrow> env \<Rightarrow> string \<Rightarrow> string \<Rightarrow> jwt_claims" where
  "mfa_claims s env jti userID =
     \<lparr>J_Issuer = T_issuer s, J_Subject = userID, J_Audience = [AudienceMFAChallenge],
      J_IssuedAt = Some (NewNumericDate (e_now env)),
      J_ExpiresAt = Some (NewNumericDate (e_now env + mfaChallengeTTL)), J_ID = jti,
      J_Email = '''', J_Name = '''', J_OrgID = '''', J_OrgSlug = '''', J_OrgRole = '''', J_Teams = [],
      J_MFA = False\<rparr>"

definition IssueMFAChallengeToken :: "aext \<Rightarrow> token_Service \<Rightarrow> env \<Rightarrow> nat \<Rightarrow> string \<Rightarrow> string option" where
  "IssueMFAChallengeToken x s env n userID =
     a_sign x (T_privateKey s) (mfa_claims s env (x_uuid_string (a_ext x) (e_uuid env n)) userID)"

definition ValidateMFAChallengeToken :: "aext \<Rightarrow> token_Service \<Rightarrow> env \<Rightarrow> string \<Rightarrow> string option" where
  "ValidateMFAChallengeToken x s env tok =
     (case a_parse x (T_publicKey s) (T_issuer s) (e_now env) tok of
        None \<Rightarrow> None
      | Some c \<Rightarrow> if AudienceMFAChallenge \<in> set (J_Audience c) then Some (J_Subject c) else None)"

definition HashToken :: "aext \<Rightarrow> string \<Rightarrow> string" where
  "HashToken x tok = hex_encode (x_sha256 (a_ext x) tok)"

text \<open>\<open>GenerateRefreshToken\<close>: the raw token and its hash.\<close>

definition GenerateRefreshToken :: "aext \<Rightarrow> rand \<Rightarrow> (string \<times> string) option" where
  "GenerateRefreshToken x rand =
     (case rand 32 of
        None \<Rightarrow> None
      | Some b \<Rightarrow> Some (Base64URLEncode b, HashToken x (Base64URLEncode b)))"

section \<open>Token middleware and helpers\<close>

definition auth_extractToken :: "string \<Rightarrow> string option \<Rightarrow> string" where
  "auth_extractToken authorization cookie =
     (case cut_prefix authorization ''Bearer '' of
        Some token \<Rightarrow> token
      | None \<Rightarrow> (case cookie of Some v \<Rightarrow> if v \<noteq> '''' then v else '''' | None \<Rightarrow> ''''))"

definition auth_Auth ::
  "aext \<Rightarrow> env \<Rightarrow> string \<Rightarrow> string \<Rightarrow> string \<Rightarrow> string option \<Rightarrow> (jwt_claims \<Rightarrow> 's \<Rightarrow> 'a reply \<times> 's) \<Rightarrow> 's
    \<Rightarrow> 'a reply \<times> 's" where
  "auth_Auth x env pubKey issuer authorization cookie hdl st =
     (let tokenStr = auth_extractToken authorization cookie in
      if tokenStr = '''' then (ErrResponse 401 ''missing authorization token'', st)
      else case a_parse x pubKey issuer (e_now env) tokenStr of
        None \<Rightarrow> (ErrResponse 401 ''invalid or expired token'', st)
      | Some claims \<Rightarrow> hdl claims st)"

text \<open>
  The claims are \<open>None\<close> when the request did not pass the middleware. The texts of the errors of
  pgtype's UUID reader and of \<open>encoding/json\<close> are not modelled; constants stand for them.
\<close>

abbreviation ErrClaimsNotFound :: string where "ErrClaimsNotFound \<equiv> ''auth claims not found in context''"
abbreviation ErrScanUUID :: string where "ErrScanUUID \<equiv> ''cannot parse UUID''"
abbreviation ErrDecode :: string where "ErrDecode \<equiv> ''invalid JSON''"

definition auth_UserIDFromContext :: "aext \<Rightarrow> jwt_claims option \<Rightarrow> string + uuid" where
  "auth_UserIDFromContext x claims =
     (case claims of
        None \<Rightarrow> Inl ErrClaimsNotFound
      | Some c \<Rightarrow> (case x_uuid_scan (a_ext x) (J_Subject c) of None \<Rightarrow> Inl ErrScanUUID | Some u \<Rightarrow> Inr u))"

section \<open>Struct validation (\<open>auth/internal/validate/validate.go\<close>)\<close>

definition auth_fieldError :: "FieldError \<Rightarrow> string" where
  "auth_fieldError fe =
     (let field = FE_Field fe; param = FE_Param fe; tag = FE_Tag fe in
      if tag = ''required'' then field @ '' is required''
      else if tag = ''uuid'' then field @ '' must be a valid UUID''
      else if tag = ''oneof'' then field @ '' must be one of: '' @ param
      else if tag = ''max'' then field @ '' must be at most '' @ param @ '' characters''
      else if tag = ''min'' then field @ '' must be at least '' @ param @ '' characters''
      else field @ '' failed on '' @ tag @ '' validation'')"

definition auth_formatErrors :: "FieldError list \<Rightarrow> string" where
  "auth_formatErrors ve = join ''; '' (map auth_fieldError ve)"

definition auth_validate :: "aext \<Rightarrow> vfield list \<Rightarrow> string option" where
  "auth_validate x fs = (case x_validate (a_ext x) fs of [] \<Rightarrow> None | ve \<Rightarrow> Some (auth_formatErrors ve))"

lemma auth_validate_rule:
  assumes "validator_sound (a_ext x)" and "auth_validate x fs = None" and "(f, rs, v) \<in> set fs"
    and "r \<in> set rs" and "VOmitEmpty \<notin> set rs"
  shows "rule_holds fs v r"
proof -
  have "validate_struct (a_ext x) fs = None"
    using assms(2) by (auto simp: auth_validate_def validate_struct_def split: list.splits)
  then show ?thesis using validate_struct_rule assms(1,3-5) by blast
qed

section \<open>Role checks\<close>

abbreviation OrgAdminOrAbove :: "string list" where "OrgAdminOrAbove \<equiv> [''owner'', ''admin'']"

text \<open>\<open>RequireOrgAdminOrOwner\<close>: whether the check passes; \<open>k\<close> numbers the query in its request.\<close>

definition RequireOrgAdminOrOwner :: "env \<Rightarrow> nat \<Rightarrow> pg_uuid \<Rightarrow> pg_uuid \<Rightarrow> adb \<Rightarrow> bool" where
  "RequireOrgAdminOrOwner env k org usr d =
     (case guarded env ''GetOrgMembership'' k (GetOrgMembership org usr d) of
        Inl _ \<Rightarrow> False
      | Inr m \<Rightarrow> OM_Role m \<in> set OrgAdminOrAbove)"

section \<open>A concrete instance\<close>

text \<open>
  On this instance a token is the subject with a letter for its kind, and parsing knows the claims of
  a given list; a code is right when it is \<open>123456\<close>.
\<close>

definition sample_token_text :: "jwt_claims \<Rightarrow> string" where
  "sample_token_text c = J_Subject c @ (if J_Audience c = [] then ''.a'' else ''.m'')"

definition sample_aext :: "json list \<Rightarrow> jwt_claims list \<Rightarrow> aext" where
  "sample_aext js cs =
     \<lparr>a_ext = sample_ext js,
      a_sign = (\<lambda>priv c. Some (sample_token_text c)),
      a_parse = (\<lambda>pub iss now t. find (\<lambda>c. sample_token_text c = t \<and> J_Issuer c = iss
        \<and> (case J_ExpiresAt c of None \<Rightarrow> True | Some e \<Rightarrow> now < e)) cs),
      a_addr = Some,
      a_bcrypt = (\<lambda>i p. Some (CHR ''h'' # p)),
      a_bcrypt_ok = (\<lambda>h p. h = CHR ''h'' # p),
      a_totp_key = (\<lambda>e. Some (''secret'', ''uri'')),
      a_totp_ok = (\<lambda>now code secret. code = ''123456'')\<rparr>"

lemma sample_aext_simps [simp]:
  "a_ext (sample_aext js cs) = sample_ext js"
  "a_sign (sample_aext js cs) priv c = Some (sample_token_text c)"
  "a_parse (sample_aext js cs) pub iss now t = find (\<lambda>c. sample_token_text c = t \<and> J_Issuer c = iss
        \<and> (case J_ExpiresAt c of None \<Rightarrow> True | Some e \<Rightarrow> now < e)) cs"
  "a_addr (sample_aext js cs) s = Some s"
  "a_bcrypt (sample_aext js cs) i p = Some (CHR ''h'' # p)"
  "a_bcrypt_ok (sample_aext js cs) h p = (h = CHR ''h'' # p)"
  "a_totp_key (sample_aext js cs) e = Some (''secret'', ''uri'')"
  "a_totp_ok (sample_aext js cs) now code secret = (code = ''123456'')"
  by (simp_all add: sample_aext_def)

definition sample_svc :: token_Service where
  "sample_svc = \<lparr>T_privateKey = ''sk'', T_publicKey = ''pk'', T_issuer = ''zag'',
     T_accessTTL = 15 * usec_per_min, T_refreshTTL = 7 * usec_per_day\<rparr>"

definition sample_req :: areq where
  "sample_req = \<lparr>R_XForwardedFor = '''', R_RemoteAddr = '''', R_UserAgent = '''', R_TLS = False,
     R_XForwardedProto = '''', R_XOrgSlug = ''''\<rparr>"

definition sample_user :: AuthUser where
  "sample_user = \<lparr>AU_ID = 11, AU_Email = ''ann@acme'', AU_EmailVerified = True, AU_FirstName = None,
     AU_LastName = None, AU_Nickname = None, AU_Bio = None, AU_Country = None, AU_Age = None,
     AU_Timezone = ''UTC'', AU_Language = ''en'', AU_AvatarUrl = None, AU_PhoneCipher = None,
     AU_SocialLinks = ''{}'', AU_ProfileVisibility = ''team_only'', AU_OnboardingStep = ''profile'',
     AU_IsPlatformAdmin = False, AU_CreatedAt = 0, AU_UpdatedAt = 0\<rparr>"

definition sample_session :: AuthSession where
  "sample_session = \<lparr>ASess_ID = 12, ASess_UserID = 11, ASess_IpAddress = None, ASess_UserAgent = None,
     ASess_DeviceName = None, ASess_DeviceFingerprint = None, ASess_Country = None,
     ASess_LastActiveAt = 0, ASess_ExpiresAt = usec_per_day, ASess_RevokedAt = None, ASess_CreatedAt = 0\<rparr>"

text \<open>The refresh token \<open>tok\<close> of the user, as its hash.\<close>

definition sample_rt :: RefreshToken where
  "sample_rt = \<lparr>RT_ID = 13, RT_UserID = 11, RT_SessionID = 12, RT_TokenHash = hex_encode ''kot'',
     RT_ExpiresAt = usec_per_day, RT_RevokedAt = None, RT_CreatedAt = 0\<rparr>"

definition sample_adb :: adb where
  "sample_adb = empty_adb\<lparr>a_users := [sample_user], a_sessions := [sample_session],
     a_refresh_tokens := [sample_rt]\<rparr>"

definition sample_bytes :: rand where
  "sample_bytes n = Some (replicate n CHR ''r'')"

lemmas sample_auth_defs = sample_svc_def sample_req_def sample_user_def sample_session_def sample_rt_def
  sample_adb_def empty_adb_def sample_env_def

lemma sample_env_simps:
  "e_now (sample_env t) = t" "e_uuid (sample_env t) n = of_nat (n + 1)" "\<not> e_fault (sample_env t) c k"
  by (simp_all add: sample_env_def)

lemma sample_auth_simps:
  "a_users sample_adb = [sample_user]" "a_sessions sample_adb = [sample_session]"
  "a_refresh_tokens sample_adb = [sample_rt]" "a_mfa_settings sample_adb = []" "a_backup_codes sample_adb = []"
  "a_audit_logs sample_adb = []" "AU_ID sample_user = 11" "AU_FirstName sample_user = None" "AU_LastName sample_user = None"
  "ASess_ID sample_session = 12" "ASess_UserID sample_session = 11" "ASess_RevokedAt sample_session = None"
  "ASess_ExpiresAt sample_session = usec_per_day"
  "RT_ID sample_rt = 13" "RT_UserID sample_rt = 11" "RT_SessionID sample_rt = 12" "RT_RevokedAt sample_rt = None"
  "RT_ExpiresAt sample_rt = usec_per_day" "RT_TokenHash sample_rt = hex_encode ''kot''"
  "T_issuer sample_svc = ''zag''" "T_refreshTTL sample_svc = 7 * usec_per_day" "R_XOrgSlug sample_req = ''''"
  by (simp_all add: sample_auth_defs)

end
