(* ===== verification/AuthSessions.thy ===== *)
theory AuthSessions
  imports AuthCore
begin

text \<open>
  The session endpoints of the auth service (\<open>auth/internal/handler/session\<close>): exchanging a refresh
  token, logging out, listing and revoking sessions. A handler returns its reply with the cookies it
  sets and the new database.

  \<open>Refresh\<close> reads the token and its session and only then revokes the token; the two parts are
  definitions of their own, so that two requests can be interleaved between them.
\<close>

section \<open>Helpers\<close>

type_synonym 'a creply = "'a reply \<times> Cookie list"

record tokenResponse =
  TR_AccessToken :: string
  TR_ExpiresIn :: int

definition isSecure :: "areq \<Rightarrow> bool" where
  "isSecure r \<longleftrightarrow> R_TLS r \<or> R_XForwardedProto r = ''https''"

definition setRefreshCookie :: "areq \<Rightarrow> string \<Rightarrow> timestamp \<Rightarrow> Cookie" where
  "setRefreshCookie r v ttl = \<lparr>Ck_Name = ''refresh_token'', Ck_Value = v, Ck_Path = ''/'',
     Ck_Secure = isSecure r, Ck_MaxAge = ttl div usec_per_sec\<rparr>"

definition setAccessCookie :: "areq \<Rightarrow> string \<Rightarrow> timestamp \<Rightarrow> Cookie" where
  "setAccessCookie r v ttl = \<lparr>Ck_Name = ''access_token'', Ck_Value = v, Ck_Path = ''/'',
     Ck_Secure = isSecure r, Ck_MaxAge = ttl div usec_per_sec\<rparr>"

definition clearRefreshCookie :: Cookie where
  "clearRefreshCookie = \<lparr>Ck_Name = ''refresh_token'', Ck_Value = '''', Ck_Path = ''/'', Ck_Secure = True,
     Ck_MaxAge = -1\<rparr>"

definition clearAccessCookie :: Cookie where
  "clearAccessCookie = \<lparr>Ck_Name = ''access_token'', Ck_Value = '''', Ck_Path = ''/'', Ck_Secure = True,
     Ck_MaxAge = -1\<rparr>"

definition decode_refreshRequest :: "json \<Rightarrow> string option" where
  "decode_refreshRequest j = (case j of JNull \<Rightarrow> Some '''' | JObj ms \<Rightarrow> str_field ''refresh_token'' '''' ms
     | _ \<Rightarrow> None)"

definition extractRefreshToken :: "aext \<Rightarrow> string option \<Rightarrow> string \<Rightarrow> string" where
  "extractRefreshToken x cookie body =
     (case cookie of
        Some v \<Rightarrow> if v \<noteq> '''' then v
                  else (case Option.bind (x_json (a_ext x) body) decode_refreshRequest of None \<Rightarrow> '''' | Some t \<Rightarrow> t)
      | None \<Rightarrow> (case Option.bind (x_json (a_ext x) body) decode_refreshRequest of None \<Rightarrow> '''' | Some t \<Rightarrow> t))"

text \<open>\<open>resolveOrgClaim\<close>: the organization of the \<open>X-Org-Slug\<close> header, when the user is a member.\<close>

definition resolveOrgClaim :: "aext \<Rightarrow> env \<Rightarrow> areq \<Rightarrow> pg_uuid \<Rightarrow> adb \<Rightarrow> string \<times> string \<times> string" where
  "resolveOrgClaim x env req usr d =
     (if R_XOrgSlug req = '''' then ('''', '''', '''')
      else case guarded env ''GetOrganizationBySlug'' 0 (auth_GetOrganizationBySlug (R_XOrgSlug req) d) of
        Inl _ \<Rightarrow> ('''', '''', '''')
      | Inr org \<Rightarrow>
        (case guarded env ''GetOrgMembership'' 0 (GetOrgMembership (Some (AOrg_ID org)) usr d) of
           Inl _ \<Rightarrow> ('''', '''', '''')
         | Inr m \<Rightarrow> (x_uuid_string (a_ext x) (AOrg_ID org), AOrg_Slug org, OM_Role m)))"

definition buildFullName :: "AuthUser \<Rightarrow> string" where
  "buildFullName user = TrimSpace
     ((case AU_FirstName user of None \<Rightarrow> '''' | Some s \<Rightarrow> s)
      @ (case AU_LastName user of None \<Rightarrow> '''' | Some s \<Rightarrow> '' '' @ s))"

section \<open>Refresh\<close>

definition Refresh_check ::
  "aext \<Rightarrow> env \<Rightarrow> string option \<Rightarrow> string \<Rightarrow> adb \<Rightarrow> tokenResponse reply + RefreshToken" where
  "Refresh_check x env cookie body d =
     (let rawToken = extractRefreshToken x cookie body in
      if rawToken = '''' then Inl (ErrResponse 400 ''missing refresh token'')
      else case auth_validate x [(''RefreshToken'', [VRequired], VStr rawToken)] of
        Some err \<Rightarrow> Inl (ErrResponse 400 err)
      | None \<Rightarrow>
        (case guarded env ''GetRefreshTokenByHash'' 0 (GetRefreshTokenByHash (HashToken x rawToken) d) of
           Inl e \<Rightarrow> Inl (if e = ErrNoRows then ErrResponse 401 ''invalid refresh token''
                        else ErrResponse 500 ErrInternal)
         | Inr rt \<Rightarrow>
             if RT_RevokedAt rt \<noteq> None \<or> RT_ExpiresAt rt < e_now env
             then Inl (ErrResponse 401 ''refresh token expired or revoked'')
             else (case guarded env ''GetSessionByID'' 0 (GetSessionByID (Some (RT_SessionID rt)) d) of
                Inl _ \<Rightarrow> Inl (ErrResponse 401 ''session expired or revoked'')
              | Inr sess \<Rightarrow>
                  if ASess_RevokedAt sess \<noteq> None \<or> ASess_ExpiresAt sess < e_now env
                  then Inl (ErrResponse 401 ''session expired or revoked'')
                  else Inr rt)))"

text \<open>A statement whose error is ignored.\<close>

definition try_exec :: "env \<Rightarrow> string \<Rightarrow> nat \<Rightarrow> ('d \<Rightarrow> 'd) \<Rightarrow> 'd \<Rightarrow> 'd" where
  "try_exec env call k f d = (if e_fault env call k then d else f d)"

definition Refresh_rotate ::
  "aext \<Rightarrow> env \<Rightarrow> token_Service \<Rightarrow> rand \<Rightarrow> areq \<Rightarrow> RefreshToken \<Rightarrow> adb \<Rightarrow> tokenResponse creply \<times> adb" where
  "Refresh_rotate x env svc rand req rt d =
     (let d1 = try_exec env ''RevokeRefreshToken'' 0 (RevokeRefreshToken env (Some (RT_ID rt))) d in
      case GenerateRefreshToken x rand of
        None \<Rightarrow> ((ErrResponse 500 ErrInternal, []), d1)
      | Some (raw, hash) \<Rightarrow>
        (case guarded env ''CreateRefreshToken'' 0 (CreateRefreshToken env 0 (RT_UserID rt) (RT_SessionID rt)
           hash (e_now env + T_refreshTTL svc) d1) of
           Inl _ \<Rightarrow> ((ErrResponse 500 ErrInternal, []), d1)
         | Inr (_, d2) \<Rightarrow>
           let d3 = try_exec env ''UpdateSessionLastActive'' 0
                      (UpdateSessionLastActive env (Some (RT_SessionID rt))) d2 in
           (case guarded env ''GetUserByID'' 0 (auth_GetUserByID (Some (RT_UserID rt)) d3) of
              Inl _ \<Rightarrow> ((ErrResponse 500 ErrInternal, []), d3)
            | Inr user \<Rightarrow>
              let (orgID, orgSlug, orgRole) = resolveOrgClaim x env req (Some (AU_ID user)) d3;
                  mfaEnabled = (case guarded env ''GetMFASettings'' 0 (GetMFASettings (Some (AU_ID user)) d3) of
                    Inl _ \<Rightarrow> False | Inr m \<Rightarrow> Mfa_TotpEnabled m)
              in (case IssueAccessToken x svc env 1
                   \<lparr>ATP_UserID = x_uuid_string (a_ext x) (AU_ID user), ATP_Email = AU_Email user,
                    ATP_Name = buildFullName user, ATP_OrgID = orgID, ATP_OrgSlug = orgSlug,
                    ATP_OrgRole = orgRole, ATP_Teams = [], ATP_MFA = mfaEnabled\<rparr> of
                   None \<Rightarrow> ((ErrResponse 500 ErrInternal, []), d3)
                 | Some jwt \<Rightarrow>
                     ((OkResponse \<lparr>TR_AccessToken = jwt, TR_ExpiresIn = T_accessTTL svc div usec_per_sec\<rparr>,
                       [setRefreshCookie req raw (T_refreshTTL svc), setAccessCookie req jwt (T_accessTTL svc)]),
                      d3)))))"

definition Refresh ::
  "aext \<Rightarrow> env \<Rightarrow> token_Service \<Rightarrow> rand \<Rightarrow> areq \<Rightarrow> string option \<Rightarrow> string \<Rightarrow> adb \<Rightarrow> tokenResponse creply \<times> adb"
  where
  "Refresh x env svc rand req cookie body d =
     (case Refresh_check x env cookie body d of
        Inl r \<Rightarrow> ((r, []), d)
      | Inr rt \<Rightarrow> Refresh_rotate x env svc rand req rt d)"

section \<open>Logging out and the session list\<close>

definition Logout :: "aext \<Rightarrow> env \<Rightarrow> string option \<Rightarrow> adb \<Rightarrow> string creply \<times> adb" where
  "Logout x env cookie d =
     (let d1 = (case cookie of
                  None \<Rightarrow> d
                | Some v \<Rightarrow>
                  (case guarded env ''GetRefreshTokenByHash'' 0 (GetRefreshTokenByHash (HashToken x v) d) of
                     Inl _ \<Rightarrow> d
                   | Inr rt \<Rightarrow> try_exec env ''RevokeSession'' 0 (auth_RevokeSession env (Some (RT_SessionID rt)))
                       (try_exec env ''RevokeRefreshToken'' 0 (RevokeRefreshToken env (Some (RT_ID rt))) d)))
      in ((WriteJSON 200 ''logged_out'', [clearRefreshCookie, clearAccessCookie]), d1))"

definition LogoutAll :: "aext \<Rightarrow> env \<Rightarrow> jwt_claims option \<Rightarrow> areq \<Rightarrow> adb \<Rightarrow> string creply \<times> adb" where
  "LogoutAll x env claims req d =
     (case claims of
        None \<Rightarrow> ((ErrResponse 401 ErrClaimsNotFound, []), d)
      | Some c \<Rightarrow>
        (case x_uuid_scan (a_ext x) (J_Subject c) of
           None \<Rightarrow> ((ErrResponse 400 ''invalid user id'', []), d)
         | Some usr \<Rightarrow>
           let d1 = try_exec env ''RevokeAllUserSessions'' 0 (RevokeAllUserSessions env (Some usr)) d;
               d2 = try_exec env ''RevokeAllUserRefreshTokens'' 0 (RevokeAllUserRefreshTokens env (Some usr)) d1
           in ((WriteJSON 200 ''all_sessions_revoked'', [clearRefreshCookie, clearAccessCookie]),
               audit_Log x env 0 0 None (Some usr) ''user.logout_all'' '''' None (Some req) None d2)))"

record sessionResponse =
  SR_ID :: string
  SR_IPAddress :: string
  SR_DeviceName :: string
  SR_Country :: string
  SR_LastActive :: string
  SR_CreatedAt :: string

text \<open>Printing a time in the layout of RFC 3339 is the parameter \<open>fmt\<close>.\<close>

definition session_item :: "aext \<Rightarrow> (timestamp \<Rightarrow> string) \<Rightarrow> AuthSession \<Rightarrow> sessionResponse" where
  "session_item x fmt s = \<lparr>SR_ID = x_uuid_string (a_ext x) (ASess_ID s),
     SR_IPAddress = (case ASess_IpAddress s of None \<Rightarrow> '''' | Some a \<Rightarrow> a),
     SR_DeviceName = (case ASess_DeviceName s of None \<Rightarrow> '''' | Some a \<Rightarrow> a),
     SR_Country = (case ASess_Country s of None \<Rightarrow> '''' | Some a \<Rightarrow> a),
     SR_LastActive = fmt (ASess_LastActiveAt s), SR_CreatedAt = fmt (ASess_CreatedAt s)\<rparr>"

definition auth_ListSessions ::
  "aext \<Rightarrow> env \<Rightarrow> (timestamp \<Rightarrow> string) \<Rightarrow> jwt_claims option \<Rightarrow> adb \<Rightarrow> sessionResponse list reply" where
  "auth_ListSessions x env fmt claims d =
     (case claims of
        None \<Rightarrow> ErrResponse 401 ErrClaimsNotFound
      | Some c \<Rightarrow>
        (case x_uuid_scan (a_ext x) (J_Subject c) of
           None \<Rightarrow> ErrResponse 400 ''invalid user id''
         | Some usr \<Rightarrow>
             if e_fault env ''ListActiveSessions'' 0 then ErrResponse 500 ErrInternal
             else OkResponse (map (session_item x fmt) (ListActiveSessions env (Some usr) d))))"

definition RevokeSession_handler ::
  "aext \<Rightarrow> env \<Rightarrow> jwt_claims option \<Rightarrow> string \<Rightarrow> adb \<Rightarrow> string reply \<times> adb" where
  "RevokeSession_handler x env claims sessionID d =
     (case claims of
        None \<Rightarrow> (ErrResponse 401 ErrClaimsNotFound, d)
      | Some c \<Rightarrow>
        (case x_uuid_scan (a_ext x) sessionID of
           None \<Rightarrow> (ErrResponse 400 ''invalid session id'', d)
         | Some i \<Rightarrow>
           (case guarded env ''GetSessionByID'' 0 (GetSessionByID (Some i) d) of
              Inl _ \<Rightarrow> (ErrResponse 404 ''session not found'', d)
            | Inr sess \<Rightarrow>
                if Some (ASess_UserID sess) \<noteq> x_uuid_scan (a_ext x) (J_Subject c)
                then (ErrResponse 403 ErrForbidden, d)
                else (WriteJSON 200 ''revoked'',
                  try_exec env ''RevokeRefreshTokensBySession'' 0 (RevokeRefreshTokensBySession env (Some i))
                    (try_exec env ''RevokeSession'' 0 (auth_RevokeSession env (Some i)) d)))))"

end
