(* ===== verification/AuthMfa.thy ===== *)
theory AuthMfa
  imports AuthSessions
begin

text \<open>
  The second factor of the auth service (\<open>auth/internal/handler/mfa\<close>, \<open>service/mfa\<close>): setting up,
  verifying and disabling a TOTP secret, backup codes, and the two ways to answer the challenge that
  stands between the first factor and the tokens.
\<close>

section \<open>Codes\<close>

definition formatCode :: "string \<Rightarrow> string" where
  "formatCode s = (if length s \<noteq> 8 then s else take 4 s @ ''-'' @ drop 4 s)"

abbreviation backupCodeCount :: nat where "backupCodeCount \<equiv> 10"
abbreviation backupCodeBytes :: nat where "backupCodeBytes \<equiv> 4"

text \<open>
  \<open>GenerateBackupCodes\<close>: plain codes with their hashes. The \<open>i\<close>-th code takes the \<open>i\<close>-th read of the
  random source and the \<open>i\<close>-th bcrypt hash; a failure of either is the error.
\<close>

fun backup_codes_from :: "aext \<Rightarrow> (nat \<Rightarrow> rand) \<Rightarrow> nat \<Rightarrow> nat \<Rightarrow> (string \<times> string) list option" where
  "backup_codes_from x rnd i 0 = Some []"
| "backup_codes_from x rnd i (Suc n) =
     (case rnd i backupCodeBytes of
        None \<Rightarrow> None
      | Some b \<Rightarrow>
        let plain = formatCode (hex_encode b) in
        (case a_bcrypt x i plain of
           None \<Rightarrow> None
         | Some hash \<Rightarrow> map_option ((#) (plain, hash)) (backup_codes_from x rnd (Suc i) n)))"

definition GenerateBackupCodes :: "aext \<Rightarrow> (nat \<Rightarrow> rand) \<Rightarrow> (string \<times> string) list option" where
  "GenerateBackupCodes x rnd = backup_codes_from x rnd 0 backupCodeCount"

definition VerifyBackupCode :: "aext \<Rightarrow> string \<Rightarrow> string \<Rightarrow> bool" where
  "VerifyBackupCode x plain hash = a_bcrypt_ok x hash plain"

definition generateAndStoreBackupCodes ::
  "aext \<Rightarrow> env \<Rightarrow> nat \<Rightarrow> (nat \<Rightarrow> rand) \<Rightarrow> uuid \<Rightarrow> adb \<Rightarrow> string list option \<times> adb" where
  "generateAndStoreBackupCodes x env n rnd usr d =
     (let d1 = try_exec env ''DeleteBackupCodes'' 0 (DeleteBackupCodes (Some usr)) d in
      case GenerateBackupCodes x rnd of
        None \<Rightarrow> (None, d1)
      | Some codes \<Rightarrow>
        (case guarded env ''CreateBackupCodes'' 0
                (CreateBackupCodes env n (map (\<lambda>c. (usr, snd c)) codes) d1) of
           Inl _ \<Rightarrow> (None, d1)
         | Inr (_, d2) \<Rightarrow> (Some (map fst codes), d2)))"

section \<open>Managing the second factor\<close>

record setupResponse =
  Set_Secret :: string
  Set_URI :: string

definition Setup :: "aext \<Rightarrow> env \<Rightarrow> aead \<Rightarrow> rand \<Rightarrow> jwt_claims option \<Rightarrow> adb \<Rightarrow> setupResponse reply \<times> adb" where
  "Setup x env enc rand claims d =
     (case auth_UserIDFromContext x claims of
        Inl err \<Rightarrow> (ErrResponse 401 err, d)
      | Inr usr \<Rightarrow>
          (if (case guarded env ''GetMFASettings'' 0 (GetMFASettings (Some usr) d) of
                 Inl _ \<Rightarrow> False | Inr m \<Rightarrow> Mfa_TotpEnabled m)
           then (ErrResponse 409 ''MFA is already enabled'', d)
           else case a_totp_key x (case claims of None \<Rightarrow> '''' | Some c \<Rightarrow> J_Email c) of
             None \<Rightarrow> (ErrResponse 500 ErrInternal, d)
           | Some (secret, uri) \<Rightarrow>
             (case Encrypt enc rand secret of
                None \<Rightarrow> (ErrResponse 500 ErrInternal, d)
              | Some cipher \<Rightarrow>
                (case guarded env ''UpsertMFASettings'' 0 (UpsertMFASettings env 0 usr (Some cipher) False d) of
                   Inl _ \<Rightarrow> (ErrResponse 500 ErrInternal, d)
                 | Inr (_, d1) \<Rightarrow> (OkResponse \<lparr>Set_Secret = secret, Set_URI = uri\<rparr>, d1)))))"

definition decode_code :: "json \<Rightarrow> string option" where
  "decode_code j = (case j of JNull \<Rightarrow> Some '''' | JObj ms \<Rightarrow> str_field ''code'' '''' ms | _ \<Rightarrow> None)"

text \<open>A NULL secret decrypts like an empty one.\<close>

definition decrypt_secret :: "aead \<Rightarrow> MfaSetting \<Rightarrow> string option" where
  "decrypt_secret enc m = Decrypt enc (case Mfa_TotpSecret m of None \<Rightarrow> '''' | Some c \<Rightarrow> c)"

definition Verify ::
  "aext \<Rightarrow> env \<Rightarrow> aead \<Rightarrow> (nat \<Rightarrow> rand) \<Rightarrow> areq \<Rightarrow> jwt_claims option \<Rightarrow> string \<Rightarrow> adb \<Rightarrow> string list reply \<times> adb"
  where
  "Verify x env enc rnd req claims body d =
     (case auth_UserIDFromContext x claims of
        Inl err \<Rightarrow> (ErrResponse 401 err, d)
      | Inr usr \<Rightarrow>
        (case Option.bind (x_json (a_ext x) body) decode_code of
           None \<Rightarrow> (ErrResponse 400 ErrDecode, d)
         | Some code \<Rightarrow>
           (case auth_validate x [(''Code'', [VRequired, VLen 6], VStr code)] of
              Some err \<Rightarrow> (ErrResponse 400 err, d)
            | None \<Rightarrow>
              (case guarded env ''GetMFASettings'' 0 (GetMFASettings (Some usr) d) of
                 Inl e \<Rightarrow> (if e = ErrNoRows then ErrResponse 400 ''MFA not set up, call setup first''
                           else ErrResponse 500 ErrInternal, d)
               | Inr m \<Rightarrow>
                   if Mfa_TotpEnabled m then (ErrResponse 409 ''MFA is already enabled'', d)
                   else (case decrypt_secret enc m of
                      None \<Rightarrow> (ErrResponse 500 ErrInternal, d)
                    | Some secret \<Rightarrow>
                        if \<not> a_totp_ok x (e_now env) code secret then (ErrResponse 401 ''invalid TOTP code'', d)
                        else if e_fault env ''EnableTOTP'' 0 then (ErrResponse 500 ErrInternal, d)
                        else (case generateAndStoreBackupCodes x env 1 rnd usr (EnableTOTP env (Some usr) d) of
                           (None, d1) \<Rightarrow> (ErrResponse 500 ErrInternal, d1)
                         | (Some codes, d1) \<Rightarrow> (OkResponse codes,
                             audit_Log x env 0 0 None (Some usr) ''mfa.enabled'' '''' None (Some req) None d1)))))))"

definition Disable :: "aext \<Rightarrow> env \<Rightarrow> areq \<Rightarrow> jwt_claims option \<Rightarrow> adb \<Rightarrow> string reply \<times> adb" where
  "Disable x env req claims d =
     (case auth_UserIDFromContext x claims of
        Inl err \<Rightarrow> (ErrResponse 401 err, d)
      | Inr usr \<Rightarrow>
        (case guarded env ''GetMFASettings'' 0 (GetMFASettings (Some usr) d) of
           Inl _ \<Rightarrow> (ErrResponse 400 ''MFA is not enabled'', d)
         | Inr m \<Rightarrow>
             if \<not> Mfa_TotpEnabled m then (ErrResponse 400 ''MFA is not enabled'', d)
             else if e_fault env ''DisableTOTP'' 0 then (ErrResponse 500 ErrInternal, d)
             else (WriteJSON 200 ''disabled'',
               audit_Log x env 0 0 None (Some usr) ''mfa.disabled'' '''' None (Some req) None
                 (try_exec env ''DeleteBackupCodes'' 0 (DeleteBackupCodes (Some usr)) (DisableTOTP env (Some usr) d)))))"

definition RegenerateBackupCodes ::
  "aext \<Rightarrow> env \<Rightarrow> (nat \<Rightarrow> rand) \<Rightarrow> jwt_claims option \<Rightarrow> adb \<Rightarrow> string list reply \<times> adb" where
  "RegenerateBackupCodes x env rnd claims d =
     (case auth_UserIDFromContext x claims of
        Inl err \<Rightarrow> (ErrResponse 401 err, d)
      | Inr usr \<Rightarrow>
        (case guarded env ''GetMFASettings'' 0 (GetMFASettings (Some usr) d) of
           Inl _ \<Rightarrow> (ErrResponse 400 ''MFA is not enabled'', d)
         | Inr m \<Rightarrow>
             if \<not> Mfa_TotpEnabled m then (ErrResponse 400 ''MFA is not enabled'', d)
             else (case generateAndStoreBackupCodes x env 0 rnd usr d of
                (None, d1) \<Rightarrow> (ErrResponse 500 ErrInternal, d1)
              | (Some codes, d1) \<Rightarrow> (OkResponse codes, d1))))"

section \<open>Answering the challenge\<close>

definition issueTokens ::
  "aext \<Rightarrow> env \<Rightarrow> token_Service \<Rightarrow> timestamp \<Rightarrow> rand \<Rightarrow> areq \<Rightarrow> uuid \<Rightarrow> adb
    \<Rightarrow> (tokenResponse \<times> Cookie) option \<times> adb" where
  "issueTokens x env svc maxAge rand req usr d =
     (case guarded env ''GetUserByID'' 0 (auth_GetUserByID (Some usr) d) of
        Inl _ \<Rightarrow> (None, d)
      | Inr user \<Rightarrow>
        (case session_Create x env 0 maxAge usr req '''' d of
           Inl _ \<Rightarrow> (None, d)
         | Inr (sess, d1) \<Rightarrow>
           (case GenerateRefreshToken x rand of
              None \<Rightarrow> (None, d1)
            | Some (raw, hash) \<Rightarrow>
              (case guarded env ''CreateRefreshToken'' 0 (CreateRefreshToken env 1 usr (ASess_ID sess) hash
                 (e_now env + T_refreshTTL svc) d1) of
                 Inl _ \<Rightarrow> (None, d1)
               | Inr (_, d2) \<Rightarrow>
                 (case IssueAccessToken x svc env 2
                   \<lparr>ATP_UserID = x_uuid_string (a_ext x) usr, ATP_Email = AU_Email user,
                    ATP_Name = buildFullName user, ATP_OrgID = '''', ATP_OrgSlug = '''', ATP_OrgRole = '''',
                    ATP_Teams = [], ATP_MFA = True\<rparr> of
                    None \<Rightarrow> (None, d2)
                  | Some jwt \<Rightarrow>
                      (Some (\<lparr>TR_AccessToken = jwt, TR_ExpiresIn = 900\<rparr>,
                        \<lparr>Ck_Name = ''refresh_token'', Ck_Value = raw, Ck_Path = ''/auth'',
                         Ck_Secure = isSecure req, Ck_MaxAge = T_refreshTTL svc div usec_per_sec\<rparr>), d2))))))"

record challengeRequest =
  CH_MFAToken :: string
  CH_Code :: string

definition decode_challengeRequest :: "json \<Rightarrow> challengeRequest option" where
  "decode_challengeRequest j =
     (case j of
        JNull \<Rightarrow> Some \<lparr>CH_MFAToken = '''', CH_Code = ''''\<rparr>
      | JObj ms \<Rightarrow> (case (str_field ''mfa_token'' '''' ms, str_field ''code'' '''' ms) of
          (Some t, Some c) \<Rightarrow> Some \<lparr>CH_MFAToken = t, CH_Code = c\<rparr> | _ \<Rightarrow> None)
      | _ \<Rightarrow> None)"

text \<open>Reading and checking the request and the challenge token is the same for both answers.\<close>

definition challenge_user ::
  "aext \<Rightarrow> env \<Rightarrow> token_Service \<Rightarrow> vrule list \<Rightarrow> string \<Rightarrow> tokenResponse reply + (uuid \<times> string)" where
  "challenge_user x env svc codeRules body =
     (case Option.bind (x_json (a_ext x) body) decode_challengeRequest of
        None \<Rightarrow> Inl (ErrResponse 400 ErrDecode)
      | Some r \<Rightarrow>
        (case auth_validate x [(''MFAToken'', [VRequired], VStr (CH_MFAToken r)),
                (''Code'', codeRules, VStr (CH_Code r))] of
           Some err \<Rightarrow> Inl (ErrResponse 400 err)
         | None \<Rightarrow>
           (case ValidateMFAChallengeToken x svc env (CH_MFAToken r) of
              None \<Rightarrow> Inl (ErrResponse 401 ''invalid or expired MFA challenge token'')
            | Some userID \<Rightarrow>
              (case x_uuid_scan (a_ext x) userID of
                 None \<Rightarrow> Inl (ErrResponse 400 ''invalid or expired MFA challenge token'')
               | Some usr \<Rightarrow> Inr (usr, CH_Code r)))))"

definition finish_challenge ::
  "aext \<Rightarrow> env \<Rightarrow> token_Service \<Rightarrow> timestamp \<Rightarrow> rand \<Rightarrow> areq \<Rightarrow> uuid \<Rightarrow> string \<Rightarrow> adb \<Rightarrow> tokenResponse creply \<times> adb"
  where
  "finish_challenge x env svc maxAge rand req usr meta d =
     (case issueTokens x env svc maxAge rand req usr d of
        (None, d1) \<Rightarrow> ((ErrResponse 500 ErrInternal, []), d1)
      | (Some (resp, ck), d1) \<Rightarrow> ((OkResponse resp, [ck]),
          audit_Log x env 3 0 None (Some usr) ''user.login'' '''' None (Some req) (Some meta) d1))"

definition Challenge ::
  "aext \<Rightarrow> env \<Rightarrow> token_Service \<Rightarrow> aead \<Rightarrow> timestamp \<Rightarrow> rand \<Rightarrow> areq \<Rightarrow> string \<Rightarrow> adb
    \<Rightarrow> tokenResponse creply \<times> adb" where
  "Challenge x env svc enc maxAge rand req body d =
     (case challenge_user x env svc [VRequired, VLen 6] body of
        Inl r \<Rightarrow> ((r, []), d)
      | Inr (usr, code) \<Rightarrow>
        (case guarded env ''GetMFASettings'' 0 (GetMFASettings (Some usr) d) of
           Inl e \<Rightarrow> ((if e = ErrNoRows then ErrResponse 400 ''MFA is not enabled''
                      else ErrResponse 500 ErrInternal, []), d)
         | Inr m \<Rightarrow>
             if \<not> Mfa_TotpEnabled m then ((ErrResponse 400 ''MFA is not enabled'', []), d)
             else (case decrypt_secret enc m of
                None \<Rightarrow> ((ErrResponse 500 ErrInternal, []), d)
              | Some secret \<Rightarrow>
                  if \<not> a_totp_ok x (e_now env) code secret then ((ErrResponse 401 ''invalid TOTP code'', []), d)
                  else finish_challenge x env svc maxAge rand req usr ''{\"mfa\":\"totp\"}'' d)))"

definition BackupCodeVerify ::
  "aext \<Rightarrow> env \<Rightarrow> token_Service \<Rightarrow> timestamp \<Rightarrow> rand \<Rightarrow> areq \<Rightarrow> string \<Rightarrow> adb \<Rightarrow> tokenResponse creply \<times> adb"
  where
  "BackupCodeVerify x env svc maxAge rand req body d =
     (case challenge_user x env svc [VRequired] body of
        Inl r \<Rightarrow> ((r, []), d)
      | Inr (usr, code) \<Rightarrow>
          if e_fault env ''ListUnusedBackupCodes'' 0 then ((ErrResponse 500 ErrInternal, []), d)
          else (case find (\<lambda>c. VerifyBackupCode x code (Code_CodeHash c)) (ListUnusedBackupCodes (Some usr) d) of
             None \<Rightarrow> ((ErrResponse 401 ''invalid backup code'', []), d)
           | Some c \<Rightarrow> finish_challenge x env svc maxAge rand req usr ''{\"mfa\":\"backup_code\"}''
               (try_exec env ''MarkBackupCodeUsed'' 0 (MarkBackupCodeUsed env (Some (Code_ID c))) d)))"

end
