(* ===== verification/AuthOauth.thy ===== *)
theory AuthOauth
  imports AuthMfa
begin

text \<open>
  Signing in through GitHub or Google (\<open>auth/internal/handler/oauth\<close>, \<open>service/oauth\<close>). The code
  exchange and the authorization URL of \<open>golang.org/x/oauth2\<close> are parameters, and so is an HTTP GET
  with a bearer token: the status and the body of the response, or nothing when the request fails.
\<close>

section \<open>Providers\<close>

record UserInfo =
  UI_ProviderID :: string
  UI_Email :: string
  UI_DisplayName :: string
  UI_AvatarURL :: string

record Provider =
  AuthURL :: "string \<Rightarrow> string"
  Exchange :: "string \<Rightarrow> (string \<times> string \<times> UserInfo) option"

type_synonym http_get = "string \<Rightarrow> string \<Rightarrow> (nat \<times> string) option"

definition apiGet :: "ext \<Rightarrow> http_get \<Rightarrow> (json \<Rightarrow> 'a option) \<Rightarrow> string \<Rightarrow> string \<Rightarrow> 'a option" where
  "apiGet x get decode token url =
     (case get token url of
        None \<Rightarrow> None
      | Some (status, body) \<Rightarrow> if status \<noteq> 200 then None else Option.bind (x_json x body) decode)"

subsection \<open>GitHub\<close>

record userResponse =
  GU_ID :: int
  GU_Login :: string
  GU_Name :: string
  GU_Email :: string
  GU_AvatarURL :: string

definition decode_userResponse :: "json \<Rightarrow> userResponse option" where
  "decode_userResponse j =
     (case j of
        JNull \<Rightarrow> Some \<lparr>GU_ID = 0, GU_Login = '''', GU_Name = '''', GU_Email = '''', GU_AvatarURL = ''''\<rparr>
      | JObj ms \<Rightarrow> (case (int_field ''id'' 0 ms, str_field ''login'' '''' ms, str_field ''name'' '''' ms,
            str_field ''email'' '''' ms, str_field ''avatar_url'' '''' ms) of
          (Some i, Some l, Some n, Some e, Some a) \<Rightarrow>
            Some \<lparr>GU_ID = i, GU_Login = l, GU_Name = n, GU_Email = e, GU_AvatarURL = a\<rparr>
        | _ \<Rightarrow> None)
      | _ \<Rightarrow> None)"

record emailResponse =
  GE_Email :: string
  GE_Primary :: bool
  GE_Verified :: bool

definition decode_emailResponse :: "json \<Rightarrow> emailResponse option" where
  "decode_emailResponse j =
     (case j of
        JNull \<Rightarrow> Some \<lparr>GE_Email = '''', GE_Primary = False, GE_Verified = False\<rparr>
      | JObj ms \<Rightarrow> (case (str_field ''email'' '''' ms, bool_field ''primary'' False ms,
            bool_field ''verified'' False ms) of
          (Some e, Some p, Some v) \<Rightarrow> Some \<lparr>GE_Email = e, GE_Primary = p, GE_Verified = v\<rparr> | _ \<Rightarrow> None)
      | _ \<Rightarrow> None)"

definition decode_emails :: "json \<Rightarrow> emailResponse list option" where
  "decode_emails j =
     (case j of
        JNull \<Rightarrow> Some []
      | JArr js \<Rightarrow> those (map decode_emailResponse js)
      | _ \<Rightarrow> None)"

abbreviation userEndpoint :: string where "userEndpoint \<equiv> ''https://api.github.com/user''"
abbreviation emailEndpoint :: string where "emailEndpoint \<equiv> ''https://api.github.com/user/emails''"

text \<open>\<open>fetchPrimaryEmail\<close>; its caller takes the empty text when it fails.\<close>

definition fetchPrimaryEmail :: "ext \<Rightarrow> http_get \<Rightarrow> string \<Rightarrow> string" where
  "fetchPrimaryEmail x get token =
     (case apiGet x get decode_emails token emailEndpoint of
        None \<Rightarrow> ''''
      | Some es \<Rightarrow> (case find (\<lambda>e. GE_Primary e \<and> GE_Verified e) es of None \<Rightarrow> '''' | Some e \<Rightarrow> GE_Email e))"

definition github_fetchUser :: "ext \<Rightarrow> http_get \<Rightarrow> string \<Rightarrow> UserInfo option" where
  "github_fetchUser x get token =
     map_option (\<lambda>u. \<lparr>UI_ProviderID = int_text (GU_ID u),
         UI_Email = (if GU_Email u = '''' then fetchPrimaryEmail x get token else GU_Email u),
         UI_DisplayName = (if GU_Name u = '''' then GU_Login u else GU_Name u),
         UI_AvatarURL = GU_AvatarURL u\<rparr>)
       (apiGet x get decode_userResponse token userEndpoint)"

text \<open>The token exchange is a parameter: the access and the refresh token.\<close>

definition github_Exchange ::
  "ext \<Rightarrow> (string \<Rightarrow> (string \<times> string) option) \<Rightarrow> http_get \<Rightarrow> string \<Rightarrow> (string \<times> string \<times> UserInfo) option" where
  "github_Exchange x exch get code =
     (case exch code of
        None \<Rightarrow> None
      | Some (access, _) \<Rightarrow> map_option (\<lambda>u. (access, '''', u)) (github_fetchUser x get access))"

subsection \<open>Google\<close>

record userInfoResponse =
  GI_Sub :: string
  GI_Email :: string
  GI_EmailVerified :: bool
  GI_Name :: string
  GI_Picture :: string

definition decode_userInfoResponse :: "json \<Rightarrow> userInfoResponse option" where
  "decode_userInfoResponse j =
     (case j of
        JNull \<Rightarrow> Some \<lparr>GI_Sub = '''', GI_Email = '''', GI_EmailVerified = False, GI_Name = '''', GI_Picture = ''''\<rparr>
      | JObj ms \<Rightarrow> (case (str_field ''sub'' '''' ms, str_field ''email'' '''' ms,
            bool_field ''email_verified'' False ms, str_field ''name'' '''' ms, str_field ''picture'' '''' ms) of
          (Some s, Some e, Some v, Some n, Some p) \<Rightarrow>
            Some \<lparr>GI_Sub = s, GI_Email = e, GI_EmailVerified = v, GI_Name = n, GI_Picture = p\<rparr>
        | _ \<Rightarrow> None)
      | _ \<Rightarrow> None)"

abbreviation userInfoEndpoint :: string where
  "userInfoEndpoint \<equiv> ''https://www.googleapis.com/oauth2/v3/userinfo''"

definition google_fetchUser :: "ext \<Rightarrow> http_get \<Rightarrow> string \<Rightarrow> UserInfo option" where
  "google_fetchUser x get token =
     map_option (\<lambda>i. \<lparr>UI_ProviderID = GI_Sub i, UI_Email = GI_Email i, UI_DisplayName = GI_Name i,
         UI_AvatarURL = GI_Picture i\<rparr>)
       (apiGet x get decode_userInfoResponse token userInfoEndpoint)"

definition google_Exchange ::
  "ext \<Rightarrow> (string \<Rightarrow> (string \<times> string) option) \<Rightarrow> http_get \<Rightarrow> string \<Rightarrow> (string \<times> string \<times> UserInfo) option" where
  "google_Exchange x exch get code =
     (case exch code of
        None \<Rightarrow> None
      | Some (access, refresh) \<Rightarrow> map_option (\<lambda>u. (access, refresh, u)) (google_fetchUser x get access))"

section \<open>Start\<close>

datatype oauth_reply = Failed nat string | Redirect string "Cookie list"

definition generateState :: "rand \<Rightarrow> string option" where
  "generateState rand = map_option hex_encode (rand 32)"

definition Start_oauth ::
  "env \<Rightarrow> (string \<Rightarrow> Provider option) \<Rightarrow> string \<Rightarrow> rand \<Rightarrow> string \<Rightarrow> string \<Rightarrow> adb \<Rightarrow> oauth_reply \<times> adb" where
  "Start_oauth env providers frontendURL rand provider redirect_uri d =
     (case providers provider of
        None \<Rightarrow> (Failed 400 ''unsupported provider'', d)
      | Some p \<Rightarrow>
        let redirectURI = (if redirect_uri = '''' then frontendURL else redirect_uri) in
        (case generateState rand of
           None \<Rightarrow> (Failed 500 ErrInternal, d)
         | Some state \<Rightarrow>
           (case guarded env ''CreateOAuthState'' 0
              (CreateOAuthState env 0 state provider redirectURI (e_now env + 10 * usec_per_min) d) of
              Inl _ \<Rightarrow> (Failed 500 ErrInternal, d)
            | Inr d1 \<Rightarrow> (Redirect (AuthURL p state) [], d1))))"

section \<open>Callback\<close>

text \<open>\<open>resolveUser\<close>: the user behind an identity; \<open>None\<close> stands for its errors.\<close>

definition resolveUser :: "env \<Rightarrow> string \<Rightarrow> UserInfo \<Rightarrow> adb \<Rightarrow> AuthUser option \<times> adb" where
  "resolveUser env provider info d =
     (case guarded env ''GetOAuthIdentity'' 0 (GetOAuthIdentity provider (UI_ProviderID info) d) of
        Inr identity \<Rightarrow>
          (case guarded env ''GetUserByID'' 0 (auth_GetUserByID (Some (Ident_UserID identity)) d) of
             Inl _ \<Rightarrow> (None, d) | Inr user \<Rightarrow> (Some user, d))
      | Inl e \<Rightarrow>
          if e \<noteq> ErrNoRows then (None, d)
          else case (if UI_Email info = '''' then Inl ErrNoRows
                     else guarded env ''GetUserByEmail'' 0 (auth_GetUserByEmail (UI_Email info) d)) of
            Inr user \<Rightarrow>
              (case guarded env ''CreateOAuthIdentity'' 0 (CreateOAuthIdentity env 0 (AU_ID user) provider
                 (UI_ProviderID info) (Some (UI_Email info)) (Some (UI_DisplayName info))
                 (Some (UI_AvatarURL info)) d) of
                 Inl _ \<Rightarrow> (None, d) | Inr (_, d1) \<Rightarrow> (Some user, d1))
          | Inl e2 \<Rightarrow>
              if e2 \<noteq> ErrNoRows then (None, d)
              else let nameParts = split2 CHR '' '' (UI_DisplayName info);
                       firstName = nameParts ! 0;
                       lastName = (if length nameParts > 1 then nameParts ! 1 else '''')
                   in (case guarded env ''CreateUser'' 0 (CreateUser env 0 (UI_Email info) (UI_Email info \<noteq> '''')
                        (text_opt firstName) (text_opt lastName) (text_opt (UI_AvatarURL info)) d) of
                        Inl _ \<Rightarrow> (None, d)
                      | Inr (user, d1) \<Rightarrow>
                        (case guarded env ''CreateOAuthIdentity'' 1 (CreateOAuthIdentity env 1 (AU_ID user) provider
                           (UI_ProviderID info) (text_opt (UI_Email info)) (text_opt (UI_DisplayName info))
                           (text_opt (UI_AvatarURL info)) d1) of
                           Inl _ \<Rightarrow> (None, d1) | Inr (_, d2) \<Rightarrow> (Some user, d2))))"

text \<open>\<open>storeOAuthTokens\<close>: its errors are only logged. The two encryptions draw their own nonces.\<close>

definition storeOAuthTokens ::
  "env \<Rightarrow> aead \<Rightarrow> (nat \<Rightarrow> rand) \<Rightarrow> string \<Rightarrow> UserInfo \<Rightarrow> string \<Rightarrow> string \<Rightarrow> adb \<Rightarrow> adb" where
  "storeOAuthTokens env enc rnd provider info access refresh d =
     (let encAccess = (if access = '''' then Some None else map_option Some (Encrypt enc (rnd 0) access));
          encRefresh = (if refresh = '''' then Some None else map_option Some (Encrypt enc (rnd 1) refresh))
      in case (encAccess, encRefresh) of
        (Some a, Some r) \<Rightarrow> try_exec env ''UpdateOAuthTokens'' 0
            (UpdateOAuthTokens env provider (UI_ProviderID info) a r None) d
      | _ \<Rightarrow> d)"

definition issueTokensAndRedirect ::
  "aext \<Rightarrow> env \<Rightarrow> token_Service \<Rightarrow> timestamp \<Rightarrow> rand \<Rightarrow> areq \<Rightarrow> AuthUser \<Rightarrow> string \<Rightarrow> adb
    \<Rightarrow> oauth_reply option \<times> adb" where
  "issueTokensAndRedirect x env svc maxAge rand req user redirectURI d =
     (case session_Create x env 2 maxAge (AU_ID user) req '''' d of
        Inl _ \<Rightarrow> (None, d)
      | Inr (sess, d1) \<Rightarrow>
        (case GenerateRefreshToken x rand of
           None \<Rightarrow> (None, d1)
         | Some (raw, hash) \<Rightarrow>
           (case guarded env ''CreateRefreshToken'' 0 (CreateRefreshToken env 3 (AU_ID user) (ASess_ID sess)
              hash (e_now env + T_refreshTTL svc) d1) of
              Inl _ \<Rightarrow> (None, d1)
            | Inr (_, d2) \<Rightarrow>
              (case IssueAccessToken x svc env 4
                \<lparr>ATP_UserID = x_uuid_string (a_ext x) (AU_ID user), ATP_Email = AU_Email user,
                 ATP_Name = buildFullName user, ATP_OrgID = '''', ATP_OrgSlug = '''', ATP_OrgRole = '''',
                 ATP_Teams = [], ATP_MFA = False\<rparr> of
                 None \<Rightarrow> (None, d2)
               | Some jwt \<Rightarrow> (Some (Redirect redirectURI [setRefreshCookie req raw (T_refreshTTL svc),
                   setAccessCookie req jwt (T_accessTTL svc)]), d2)))))"

definition mfa_redirect :: "string \<Rightarrow> string \<Rightarrow> string" where
  "mfa_redirect uri tok = uri @ ''?mfa_required=true&mfa_token='' @ tok"

definition Callback_oauth ::
  "aext \<Rightarrow> env \<Rightarrow> (string \<Rightarrow> Provider option) \<Rightarrow> token_Service \<Rightarrow> aead \<Rightarrow> timestamp \<Rightarrow> (nat \<Rightarrow> rand) \<Rightarrow> areq
    \<Rightarrow> string \<Rightarrow> string \<Rightarrow> string \<Rightarrow> adb \<Rightarrow> oauth_reply \<times> adb" where
  "Callback_oauth x env providers svc enc maxAge rnd req provider code state d =
     (case providers provider of
        None \<Rightarrow> (Failed 400 ''unsupported provider'', d)
      | Some p \<Rightarrow>
        if code = '''' \<or> state = '''' then (Failed 400 ''missing code or state'', d)
        else case guarded env ''GetAndDeleteOAuthState'' 0 (GetAndDeleteOAuthState env state d) of
          Inl _ \<Rightarrow> (Failed 400 ''invalid or expired state'', d)
        | Inr (st, d1) \<Rightarrow>
          if State_Provider st \<noteq> provider then (Failed 400 ''state provider mismatch'', d1)
          else case Exchange p code of
            None \<Rightarrow> (Failed 502 ''oauth exchange failed'', d1)
          | Some (access, refresh, info) \<Rightarrow>
            (case resolveUser env provider info d1 of
               (None, d2) \<Rightarrow> (Failed 500 ErrInternal, d2)
             | (Some user, d2) \<Rightarrow>
               let d3 = storeOAuthTokens env enc rnd provider info access refresh d2 in
               if (case guarded env ''GetMFASettings'' 0 (GetMFASettings (Some (AU_ID user)) d3) of
                     Inl _ \<Rightarrow> False | Inr m \<Rightarrow> Mfa_TotpEnabled m)
               then (case IssueMFAChallengeToken x svc env 2 (x_uuid_string (a_ext x) (AU_ID user)) of
                   None \<Rightarrow> (Failed 500 ErrInternal, d3)
                 | Some tok \<Rightarrow> (Redirect (mfa_redirect (State_RedirectUri st) tok) [], d3))
               else (case issueTokensAndRedirect x env svc maxAge (rnd 2) req user (State_RedirectUri st) d3 of
                   (None, d4) \<Rightarrow> (Failed 500 ErrInternal, d4)
                 | (Some r, d4) \<Rightarrow> (r, audit_Log x env 5 0 None (Some (AU_ID user)) ''user.login'' '''' None (Some req)
                     (Some (''{\"provider\":\"'' @ provider @ ''\"}'')) d4))))"

section \<open>Key set\<close>

record JWKSKey =
  JK_KeyType :: string
  JK_Curve :: string
  JK_Use :: string
  JK_KeyID :: string
  JK_PublicKey :: string

definition JWKS :: "token_Service \<Rightarrow> string \<Rightarrow> JWKSKey list reply" where
  "JWKS svc kid = WriteJSON 200 [\<lparr>JK_KeyType = ''OKP'', JK_Curve = ''Ed25519'', JK_Use = ''sig'',
     JK_KeyID = kid, JK_PublicKey = Base64URLEncode (T_publicKey svc)\<rparr>]"

end
