(* ===== verification/AuthSystem.thy ===== *)
theory AuthSystem
  imports AuthOauth
begin

text \<open>
  The auth service as a system: its requests as steps on the database, the well-formedness of the
  session tables, what a revocation guarantees in every continuation, and the abstract view of the
  refresh tokens that the session endpoints implement.
\<close>

section \<open>Well-formed session tables\<close>

definition wf_auth :: "adb \<Rightarrow> bool" where
  "wf_auth d \<longleftrightarrow> distinct (map RT_TokenHash (a_refresh_tokens d)) \<and> distinct (map RT_ID (a_refresh_tokens d))
     \<and> distinct (map ASess_ID (a_sessions d))
     \<and> (\<forall>t \<in> set (a_refresh_tokens d).
          (RT_SessionID t, RT_UserID t) \<in> (\<lambda>s. (ASess_ID s, ASess_UserID s)) ` set (a_sessions d))"

text \<open>A refresh token that has been revoked, itself or with its session.\<close>

definition dead :: "string \<Rightarrow> adb \<Rightarrow> bool" where
  "dead h d \<longleftrightarrow> (\<exists>t \<in> set (a_refresh_tokens d). RT_TokenHash t = h \<and> (RT_RevokedAt t \<noteq> None
     \<or> (\<exists>s \<in> set (a_sessions d). ASess_ID s = RT_SessionID t \<and> ASess_RevokedAt s \<noteq> None)))"

text \<open>What every request keeps: well-formedness, and that a dead token is dead.\<close>

definition keeps :: "adb \<Rightarrow> adb \<Rightarrow> bool" where
  "keeps d d' \<longleftrightarrow> (wf_auth d \<longrightarrow> wf_auth d' \<and> (\<forall>h. dead h d \<longrightarrow> dead h d'))"

lemma keeps_refl [simp, intro]: "keeps d d"
  by (simp add: keeps_def)

lemma keeps_trans [trans]: "keeps d e \<Longrightarrow> keeps e f \<Longrightarrow> keeps d f"
  by (auto simp: keeps_def)

lemma keeps_same:
  "a_refresh_tokens d' = a_refresh_tokens d \<Longrightarrow> a_sessions d' = a_sessions d \<Longrightarrow> keeps d d'"
  by (simp add: keeps_def wf_auth_def dead_def)

lemma keeps_revoke_tokens: "keeps d (revoke_tokens env hit d)"
proof -
  let ?f = "\<lambda>t. t\<lparr>RT_RevokedAt := Some (e_now env)\<rparr>"
  have "wf_auth (revoke_tokens env hit d)" if "wf_auth d"
    using that by (auto simp: wf_auth_def revoke_tokens_def map_update_where set_update_where)
  moreover have "dead h (revoke_tokens env hit d)" if "dead h d" for h
  proof -
    from that obtain t where t: "t \<in> set (a_refresh_tokens d)" "RT_TokenHash t = h"
        "RT_RevokedAt t \<noteq> None \<or> (\<exists>s \<in> set (a_sessions d). ASess_ID s = RT_SessionID t \<and> ASess_RevokedAt s \<noteq> None)"
      unfolding dead_def by blast
    let ?t = "if hit t then ?f t else t"
    have "?t \<in> set (a_refresh_tokens (revoke_tokens env hit d))"
      using t(1) by (auto simp: revoke_tokens_def set_update_where)
    moreover have "RT_TokenHash ?t = h" "RT_SessionID ?t = RT_SessionID t"
      "RT_RevokedAt t \<noteq> None \<Longrightarrow> RT_RevokedAt ?t \<noteq> None" using t(2) by auto
    moreover have "a_sessions (revoke_tokens env hit d) = a_sessions d" by (simp add: revoke_tokens_def)
    ultimately show ?thesis unfolding dead_def using t(3) by metis
  qed
  ultimately show ?thesis by (simp add: keeps_def)
qed

lemma keeps_update_sessions:
  assumes upd: "a_sessions d' = update_where hit f (a_sessions d)" "a_refresh_tokens d' = a_refresh_tokens d"
    and "\<And>s. ASess_ID (f s) = ASess_ID s" "\<And>s. ASess_UserID (f s) = ASess_UserID s"
    and "\<And>s. ASess_RevokedAt s \<noteq> None \<Longrightarrow> ASess_RevokedAt (f s) \<noteq> None"
  shows "keeps d d'"
proof -
  have "wf_auth d'" if "wf_auth d"
    using that assms(3,4) image_update_where [of hit "\<lambda>s. (ASess_ID s, ASess_UserID s)" f "a_sessions d"]
    by (simp add: wf_auth_def upd map_update_where)
  moreover have "dead h d'" if "dead h d" for h
  proof -
    have "\<exists>s' \<in> set (a_sessions d'). ASess_ID s' = ASess_ID s \<and> ASess_RevokedAt s' \<noteq> None"
      if "s \<in> set (a_sessions d)" "ASess_RevokedAt s \<noteq> None" for s
      using that assms(3,5) by (intro bexI [of _ "if hit s then f s else s"]) (auto simp: upd set_update_where)
    then show ?thesis using \<open>dead h d\<close> unfolding dead_def upd(2) by metis
  qed
  ultimately show ?thesis by (simp add: keeps_def)
qed

lemma keeps_CreateSession:
  assumes "CreateSession env n usr ip ua dev fp c ex d = Inr (s, d')"
  shows "keeps d d'"
  using assms by (auto simp: CreateSession_def Let_def keeps_def wf_auth_def dead_def split: if_splits)

lemma keeps_CreateRefreshToken:
  assumes "CreateRefreshToken env n usr sess h ex d = Inr (t, d')"
    and "(sess, usr) \<in> (\<lambda>s. (ASess_ID s, ASess_UserID s)) ` set (a_sessions d)"
  shows "keeps d d'"
  using assms by (auto simp: CreateRefreshToken_def Let_def keeps_def wf_auth_def dead_def split: if_splits) blast

lemma keeps_try_exec: "keeps d (f d) \<Longrightarrow> keeps d (try_exec env c k f d)"
  by (simp add: try_exec_def)

lemma keeps_revocations [intro]:
  "keeps d (RevokeRefreshToken env i d)" "keeps d (RevokeRefreshTokensBySession env i d)"
  "keeps d (RevokeAllUserRefreshTokens env i d)"
  by (simp_all add: RevokeRefreshToken_def RevokeRefreshTokensBySession_def RevokeAllUserRefreshTokens_def
      keeps_revoke_tokens)

lemma keeps_session_updates [intro]:
  "keeps d (auth_RevokeSession env i d)" "keeps d (RevokeAllUserSessions env i d)"
  "keeps d (UpdateSessionLastActive env i d)"
proof -
  note revoke = keeps_update_sessions [where f = "ASess_RevokedAt_update (\<lambda>_. Some (e_now env))"]
  note touch = keeps_update_sessions [where f = "ASess_LastActiveAt_update (\<lambda>_. e_now env)"]
  show "keeps d (auth_RevokeSession env i d)" by (rule revoke) (simp_all add: auth_RevokeSession_def)
  show "keeps d (RevokeAllUserSessions env i d)" by (rule revoke) (simp_all add: RevokeAllUserSessions_def)
  show "keeps d (UpdateSessionLastActive env i d)" by (rule touch) (simp_all add: UpdateSessionLastActive_def)
qed

section \<open>Requests as steps\<close>

text \<open>What the other queries leave alone.\<close>

lemma audit_Log_frame [frame_simps]:
  "a_refresh_tokens (audit_Log x env n k org actor act ty tgt req meta d) = a_refresh_tokens d"
  "a_sessions (audit_Log x env n k org actor act ty tgt req meta d) = a_sessions d"
  "a_users (audit_Log x env n k org actor act ty tgt req meta d) = a_users d"
  "a_mfa_settings (audit_Log x env n k org actor act ty tgt req meta d) = a_mfa_settings d"
  "a_backup_codes (audit_Log x env n k org actor act ty tgt req meta d) = a_backup_codes d"
  by (auto simp: audit_Log_def CreateAuditLog_def split: sum.splits if_splits)

lemma keeps_audit: "keeps d d' \<Longrightarrow> keeps d (audit_Log x env n k org actor act ty tgt req meta d')"
  by (erule keeps_trans, rule keeps_same) (simp_all add: frame_simps)

lemma Refresh_check_Inr:
  assumes "Refresh_check x env cookie body d = Inr rt"
  shows "GetRefreshTokenByHash (HashToken x (extractRefreshToken x cookie body)) d = Inr rt"
    and "rt \<in> set (a_refresh_tokens d)" and "RT_RevokedAt rt = None" and "\<not> RT_ExpiresAt rt < e_now env"
    and "\<exists>s. GetSessionByID (Some (RT_SessionID rt)) d = Inr s \<and> ASess_RevokedAt s = None
          \<and> \<not> ASess_ExpiresAt s < e_now env"
proof -
  show get: "GetRefreshTokenByHash (HashToken x (extractRefreshToken x cookie body)) d = Inr rt"
    and "RT_RevokedAt rt = None" and "\<not> RT_ExpiresAt rt < e_now env"
    and "\<exists>s. GetSessionByID (Some (RT_SessionID rt)) d = Inr s \<and> ASess_RevokedAt s = None
          \<and> \<not> ASess_ExpiresAt s < e_now env"
    using assms by (auto simp: Refresh_check_def Let_def split: if_splits option.splits sum.splits)
  show "rt \<in> set (a_refresh_tokens d)"
    using get unfolding GetRefreshTokenByHash_def by (blast dest: query_one_Inr)
qed

lemma keeps_Refresh_rotate:
  assumes "(RT_SessionID rt, RT_UserID rt) \<in> (\<lambda>s. (ASess_ID s, ASess_UserID s)) ` set (a_sessions d)"
  shows "keeps d (snd (Refresh_rotate x env svc rand req rt d))"
    and "keeps (try_exec env ''RevokeRefreshToken'' 0 (RevokeRefreshToken env (Some (RT_ID rt))) d)
           (snd (Refresh_rotate x env svc rand req rt d))"
proof -
  let ?d1 = "try_exec env ''RevokeRefreshToken'' 0 (RevokeRefreshToken env (Some (RT_ID rt))) d"
  let ?upd = "try_exec env ''UpdateSessionLastActive'' 0 (UpdateSessionLastActive env (Some (RT_SessionID rt)))"
  have d1: "keeps d ?d1" by (rule keeps_try_exec) blast
  have "a_sessions ?d1 = a_sessions d" by (simp add: try_exec_def RevokeRefreshToken_def revoke_tokens_def)
  then have d2: "keeps ?d1 d2"
    if "CreateRefreshToken env 0 (RT_UserID rt) (RT_SessionID rt) h e ?d1 = Inr (t, d2)" for h e t d2
    using keeps_CreateRefreshToken [OF that] assms by simp
  have d3: "keeps ?d1 (?upd d2)"
    if "CreateRefreshToken env 0 (RT_UserID rt) (RT_SessionID rt) h e ?d1 = Inr (t, d2)" for h e t d2
    by (rule keeps_trans [OF d2 [OF that] keeps_try_exec]) blast
  show rest: "keeps ?d1 (snd (Refresh_rotate x env svc rand req rt d))"
    unfolding Refresh_rotate_def Let_def
    by (auto simp: d3 split: option.splits sum.splits prod.splits)
  show "keeps d (snd (Refresh_rotate x env svc rand req rt d))" by (rule keeps_trans [OF d1 rest])
qed

lemma session_Create_Inr:
  assumes "session_Create x env n maxAge usr req fp d = Inr (s, d')"
  shows "keeps d d'" and "(ASess_ID s, usr) \<in> (\<lambda>s. (ASess_ID s, ASess_UserID s)) ` set (a_sessions d')"
    and "a_refresh_tokens d' = a_refresh_tokens d"
proof -
  obtain ip ua dev f c e where new: "CreateSession env n usr ip ua dev f c e d = Inr (s, d')"
    using assms by (auto simp: session_Create_def Let_def)
  then show "keeps d d'" by (rule keeps_CreateSession)
  show "(ASess_ID s, usr) \<in> (\<lambda>s. (ASess_ID s, ASess_UserID s)) ` set (a_sessions d')"
    and "a_refresh_tokens d' = a_refresh_tokens d"
    using new by (auto simp: CreateSession_def Let_def split: if_splits)
qed

text \<open>Both logins create a session and a token for it, the way the two facts below say.\<close>

lemma keeps_new_token:
  assumes "session_Create x env n maxAge usr req fp d = Inr (s, d1)"
    and "CreateRefreshToken env k usr (ASess_ID s) h e d1 = Inr (t, d2)"
  shows "keeps d d2"
  using session_Create_Inr [OF assms(1)] keeps_CreateRefreshToken [OF assms(2)] keeps_trans by blast

lemma keeps_issueTokens: "keeps d (snd (issueTokens x env svc maxAge rand req usr d))"
  unfolding issueTokens_def
  by (auto simp: split_beta split: sum.splits option.splits intro: session_Create_Inr(1) keeps_new_token)

lemma keeps_issueTokensAndRedirect:
  "keeps d (snd (issueTokensAndRedirect x env svc maxAge rand req user uri d))"
  unfolding issueTokensAndRedirect_def
  by (auto simp: split_beta split: sum.splits option.splits intro: session_Create_Inr(1) keeps_new_token)

lemma second_factor_frame [frame_simps]:
  "a_refresh_tokens (EnableTOTP env u d) = a_refresh_tokens d" "a_sessions (EnableTOTP env u d) = a_sessions d"
  "a_refresh_tokens (DisableTOTP env u d) = a_refresh_tokens d" "a_sessions (DisableTOTP env u d) = a_sessions d"
  "a_refresh_tokens (DeleteBackupCodes u d) = a_refresh_tokens d" "a_sessions (DeleteBackupCodes u d) = a_sessions d"
  "a_refresh_tokens (MarkBackupCodeUsed env u d) = a_refresh_tokens d"
  "a_sessions (MarkBackupCodeUsed env u d) = a_sessions d"
  by (simp_all add: EnableTOTP_def DisableTOTP_def DeleteBackupCodes_def MarkBackupCodeUsed_def)

lemma second_factor_insert_frame:
  "UpsertMFASettings env n usr s b d = Inr (m, d') \<Longrightarrow>
     a_refresh_tokens d' = a_refresh_tokens d \<and> a_sessions d' = a_sessions d"
  "CreateBackupCodes env n ps d = Inr (k, d') \<Longrightarrow>
     a_refresh_tokens d' = a_refresh_tokens d \<and> a_sessions d' = a_sessions d"
  by (auto simp: UpsertMFASettings_def CreateBackupCodes_def Let_def split: option.splits if_splits)

lemma keeps_generateAndStoreBackupCodes:
  "keeps d (snd (generateAndStoreBackupCodes x env n rnd usr d))"
  unfolding generateAndStoreBackupCodes_def Let_def
  by (rule keeps_same; auto simp: try_exec_def frame_simps dest: second_factor_insert_frame
      split: option.splits sum.splits prod.splits)

lemma keeps_mfa_handlers:
  "keeps d (snd (Setup x env enc rand claims d))"
  "keeps d (snd (Disable x env req claims d))"
  "keeps d (snd (RegenerateBackupCodes x env rnd claims d))"
  "keeps d (snd (Verify x env enc rnd req claims body d))"
proof -
  note gen = keeps_generateAndStoreBackupCodes
  show "keeps d (snd (Setup x env enc rand claims d))"
    unfolding Setup_def
    by (rule keeps_same; auto dest: second_factor_insert_frame split: option.splits sum.splits prod.splits if_splits)
  show "keeps d (snd (Disable x env req claims d))"
    unfolding Disable_def
    by (rule keeps_same; auto simp: try_exec_def frame_simps split: sum.splits)
  show "keeps d (snd (RegenerateBackupCodes x env rnd claims d))"
    using gen [of d x env 0 rnd] unfolding RegenerateBackupCodes_def
    by (auto split: sum.splits option.splits prod.splits) (metis snd_conv)+
  have enable: "keeps d (snd (generateAndStoreBackupCodes x env n rnd usr (EnableTOTP env (Some usr) d)))" for usr n
    by (rule keeps_trans [OF keeps_same gen]) (simp_all add: frame_simps)
  then have enable': "keeps d d1" if "generateAndStoreBackupCodes x env n rnd usr (EnableTOTP env (Some usr) d) = (r, d1)"
    for usr r d1 n using that by (metis snd_conv)
  show "keeps d (snd (Verify x env enc rnd req claims body d))"
    unfolding Verify_def
    by (auto intro: keeps_audit enable' split: sum.splits option.splits prod.splits)
qed

lemma keeps_finish_challenge: "keeps d (snd (finish_challenge x env svc maxAge rand req usr meta d))"
  using keeps_issueTokens [of d x env svc maxAge rand req usr]
  by (auto simp: finish_challenge_def intro: keeps_audit split: prod.splits option.splits)

lemma keeps_logins:
  "keeps d (snd (Challenge x env svc enc maxAge rand req body d))"
  "keeps d (snd (BackupCodeVerify x env svc maxAge rand req body d))"
proof -
  show "keeps d (snd (Challenge x env svc enc maxAge rand req body d))"
    unfolding Challenge_def
    by (auto simp: keeps_finish_challenge split: sum.splits option.splits)
  have "keeps d (try_exec env c k (MarkBackupCodeUsed env i) d)" for c k i
    by (rule keeps_same) (simp_all add: try_exec_def frame_simps)
  then show "keeps d (snd (BackupCodeVerify x env svc maxAge rand req body d))"
    unfolding BackupCodeVerify_def
    by (auto intro: keeps_trans [OF _ keeps_finish_challenge] split: sum.splits option.splits)
qed

lemma sign_in_frame:
  "CreateUser env n e v f l a d = Inr (u, d') \<Longrightarrow>
     a_refresh_tokens d' = a_refresh_tokens d \<and> a_sessions d' = a_sessions d"
  "CreateOAuthIdentity env n usr p pid em nm av d = Inr (r, d') \<Longrightarrow>
     a_refresh_tokens d' = a_refresh_tokens d \<and> a_sessions d' = a_sessions d"
  "CreateOAuthState env n s p uri ex d = Inr d' \<Longrightarrow>
     a_refresh_tokens d' = a_refresh_tokens d \<and> a_sessions d' = a_sessions d"
  "GetAndDeleteOAuthState env s d = Inr (st, d') \<Longrightarrow>
     a_refresh_tokens d' = a_refresh_tokens d \<and> a_sessions d' = a_sessions d"
  by (auto simp: CreateUser_def CreateOAuthIdentity_def CreateOAuthState_def GetAndDeleteOAuthState_def Let_def
      split: if_splits sum.splits)

lemma resolveUser_frame:
  assumes "resolveUser env p info d = (r, d')"
  shows "a_refresh_tokens d' = a_refresh_tokens d \<and> a_sessions d' = a_sessions d"
  using assms unfolding resolveUser_def Let_def
  by (auto dest!: sign_in_frame split: sum.splits if_splits prod.splits)

lemma storeOAuthTokens_frame [frame_simps]:
  "a_refresh_tokens (storeOAuthTokens env enc rnd p info a r d) = a_refresh_tokens d"
  "a_sessions (storeOAuthTokens env enc rnd p info a r d) = a_sessions d"
  by (auto simp: storeOAuthTokens_def try_exec_def UpdateOAuthTokens_def Let_def split: option.splits)

lemma keeps_sign_in:
  assumes "GetAndDeleteOAuthState env s d = Inr (st, d1)" and "resolveUser env p info d1 = (r, d2)"
  shows "keeps d (storeOAuthTokens env enc rnd p info a t d2)"
  by (rule keeps_same) (use sign_in_frame(4) [OF assms(1)] resolveUser_frame [OF assms(2)] in \<open>simp_all add: frame_simps\<close>)

lemma keeps_oauth:
  "keeps d (snd (Start_oauth env providers url rand p uri d))"
  "keeps d (snd (Callback_oauth x env providers svc enc maxAge rnd req p code state d))"
proof -
  show "keeps d (snd (Start_oauth env providers url rand p uri d))"
    unfolding Start_oauth_def Let_def
    by (rule keeps_same; auto dest: sign_in_frame split: option.splits sum.splits)
  have state: "keeps d d1" if "GetAndDeleteOAuthState env state d = Inr (st, d1)" for st d1
    by (rule keeps_same) (use sign_in_frame(4) [OF that] in simp_all)
  have user: "keeps d d2" if "GetAndDeleteOAuthState env state d = Inr (st, d1)" "resolveUser env p info d1 = (r, d2)"
    for st d1 info r d2
    by (rule keeps_same) (use sign_in_frame(4) [OF that(1)] resolveUser_frame [OF that(2)] in simp_all)
  have issued: "keeps d d4"
    if "GetAndDeleteOAuthState env state d = Inr (st, d1)" "resolveUser env p info d1 = (r, d2)"
      "issueTokensAndRedirect x env svc maxAge rand req usr uri (storeOAuthTokens env enc rnd p info a t d2) = (w, d4)"
    for st d1 info r d2 rand usr uri a t w d4
    using keeps_trans [OF keeps_sign_in [OF that(1,2)] keeps_issueTokensAndRedirect] that(3) by (metis snd_conv)
  show "keeps d (snd (Callback_oauth x env providers svc enc maxAge rnd req p code state d))"
    unfolding Callback_oauth_def Let_def
    by (auto intro: state user issued keeps_sign_in keeps_audit split: option.splits sum.splits prod.splits if_splits)
qed

lemma keeps_session_handlers:
  "keeps d (snd (Logout x env cookie d))" "keeps d (snd (LogoutAll x env claims req d))"
  "keeps d (snd (RevokeSession_handler x env claims i d))"
proof -
  have two: "keeps d (try_exec env c k g (try_exec env c' k' f d))" if "\<And>d. keeps d (f d)" "\<And>d. keeps d (g d)"
    for c k c' k' f g using keeps_trans [OF keeps_try_exec keeps_try_exec] that by blast
  show "keeps d (snd (Logout x env cookie d))"
    unfolding Logout_def Let_def by (auto intro!: two split: option.splits sum.splits)
  show "keeps d (snd (LogoutAll x env claims req d))"
    unfolding LogoutAll_def Let_def by (auto intro!: two keeps_audit split: option.splits)
  show "keeps d (snd (RevokeSession_handler x env claims i d))"
    unfolding RevokeSession_handler_def by (auto intro!: two split: option.splits sum.splits)
qed

text \<open>
  A request of the auth service, with any parameters. The rotation of a refresh token is a step of
  its own: the row \<open>rt\<close> was read earlier, and other requests may have come between.
\<close>

inductive auth_step :: "adb \<Rightarrow> adb \<Rightarrow> bool" where
  rotate: "(RT_SessionID rt, RT_UserID rt) \<in> (\<lambda>s. (ASess_ID s, ASess_UserID s)) ` set (a_sessions d)
     \<Longrightarrow> auth_step d (snd (Refresh_rotate x env svc rand req rt d))"
| logout: "auth_step d (snd (Logout x env cookie d))"
| logout_all: "auth_step d (snd (LogoutAll x env claims req d))"
| revoke: "auth_step d (snd (RevokeSession_handler x env claims i d))"
| mfa_setup: "auth_step d (snd (Setup x env enc rand claims d))"
| verify: "auth_step d (snd (Verify x env enc rnd req claims body d))"
| disable: "auth_step d (snd (Disable x env req claims d))"
| regenerate: "auth_step d (snd (RegenerateBackupCodes x env rnd claims d))"
| challenge: "auth_step d (snd (Challenge x env svc enc maxAge rand req body d))"
| backup: "auth_step d (snd (BackupCodeVerify x env svc maxAge rand req body d))"
| start: "auth_step d (snd (Start_oauth env providers url rand p uri d))"
| callback: "auth_step d (snd (Callback_oauth x env providers svc enc maxAge rnd req p code state d))"

lemma auth_step_keeps: "auth_step d d' \<Longrightarrow> keeps d d'"
  by (induction rule: auth_step.induct)
     (simp_all add: keeps_Refresh_rotate(1) keeps_session_handlers keeps_mfa_handlers keeps_logins keeps_oauth)

interpretation auth_runs: invariant_system auth_step wf_auth
  by unfold_locales (use auth_step_keeps keeps_def in blast)

lemma dead_stays_dead:
  assumes "auth_step\<^sup>*\<^sup>* d d'" and "wf_auth d" and "dead h d"
  shows "wf_auth d' \<and> dead h d'"
  using auth_runs.run_inv [OF assms(1,2)] auth_runs.run_stable [where P = "dead h", OF assms]
    auth_step_keeps unfolding keeps_def by metis

text \<open>A refresh passes its check only with a live token.\<close>

lemma dead_refused:
  assumes "wf_auth d" and "dead (HashToken x (extractRefreshToken x cookie body)) d"
  shows "\<exists>r. Refresh_check x env cookie body d = Inl r"
proof (cases "Refresh_check x env cookie body d")
  case (Inr rt)
  let ?h = "HashToken x (extractRefreshToken x cookie body)"
  note rt = Refresh_check_Inr [OF Inr]
  obtain t where t: "t \<in> set (a_refresh_tokens d)" "RT_TokenHash t = ?h"
      "RT_RevokedAt t \<noteq> None \<or> (\<exists>s \<in> set (a_sessions d). ASess_ID s = RT_SessionID t \<and> ASess_RevokedAt s \<noteq> None)"
    using assms(2) unfolding dead_def by blast
  have "RT_TokenHash rt = ?h" using rt(1) unfolding GetRefreshTokenByHash_def by (blast dest: query_one_Inr)
  then have "t = rt" using t(1,2) rt(2) assms(1) distinct_key_eq unfolding wf_auth_def by metis
  then obtain s where s: "s \<in> set (a_sessions d)" "ASess_ID s = RT_SessionID rt" "ASess_RevokedAt s \<noteq> None"
    using t(3) rt(3) by auto
  have "GetSessionByID (Some (ASess_ID s)) d = Inr s"
    by (rule session_by_id.get_unique) (use assms(1) s(1) wf_auth_def in auto)
  then show ?thesis using rt(5) s(2,3) by auto
qed simp

section \<open>The refresh tokens in force\<close>

text \<open>
  The abstract state behind the session endpoints: which hashes stand for a refresh token that can be
  exchanged now, and for which user and session.
\<close>

definition live :: "timestamp \<Rightarrow> adb \<Rightarrow> string \<Rightarrow> (uuid \<times> uuid) option" where
  "live now d h =
     (case GetRefreshTokenByHash h d of
        Inl _ \<Rightarrow> None
      | Inr t \<Rightarrow>
          if RT_RevokedAt t \<noteq> None \<or> RT_ExpiresAt t < now then None
          else (case GetSessionByID (Some (RT_SessionID t)) d of
             Inl _ \<Rightarrow> None
           | Inr s \<Rightarrow> if ASess_RevokedAt s \<noteq> None \<or> ASess_ExpiresAt s < now then None
                      else Some (RT_UserID t, RT_SessionID t)))"

text \<open>The operations of the abstract state.\<close>

definition abs_rotate :: "string \<Rightarrow> string \<Rightarrow> (string \<Rightarrow> 'v option) \<Rightarrow> string \<Rightarrow> 'v option" where
  "abs_rotate old new T = (case T old of None \<Rightarrow> T | Some v \<Rightarrow> T(old := None, new \<mapsto> v))"

definition abs_drop :: "('v \<Rightarrow> bool) \<Rightarrow> ('k \<Rightarrow> 'v option) \<Rightarrow> 'k \<Rightarrow> 'v option" where
  "abs_drop P T k = (case T k of None \<Rightarrow> None | Some v \<Rightarrow> if P v then None else Some v)"

definition live_tokens :: "timestamp \<Rightarrow> adb \<Rightarrow> (string \<times> uuid \<times> uuid) set" where
  "live_tokens now d = (\<lambda>t. (RT_TokenHash t, RT_UserID t, RT_SessionID t)) `
     {t \<in> set (a_refresh_tokens d). RT_RevokedAt t = None \<and> \<not> RT_ExpiresAt t < now}"

definition live_sessions :: "timestamp \<Rightarrow> adb \<Rightarrow> (uuid \<times> uuid) set" where
  "live_sessions now d = (\<lambda>s. (ASess_ID s, ASess_UserID s)) `
     {s \<in> set (a_sessions d). ASess_RevokedAt s = None \<and> \<not> ASess_ExpiresAt s < now}"

lemma live_iff:
  assumes "wf_auth d"
  shows "live now d h = Some (u, i) \<longleftrightarrow> (h, u, i) \<in> live_tokens now d \<and> (i, u) \<in> live_sessions now d"
proof
  assume "live now d h = Some (u, i)"
  then obtain t s where t: "GetRefreshTokenByHash h d = Inr t" "RT_RevokedAt t = None" "\<not> RT_ExpiresAt t < now"
      "RT_UserID t = u" "RT_SessionID t = i"
    and s: "GetSessionByID (Some i) d = Inr s" "ASess_RevokedAt s = None" "\<not> ASess_ExpiresAt s < now"
    by (auto simp: live_def split: sum.splits if_splits)
  have ht: "t \<in> set (a_refresh_tokens d)" "RT_TokenHash t = h"
    using t(1) by (auto simp: GetRefreshTokenByHash_def dest: query_one_Inr)
  have hs: "s \<in> set (a_sessions d)" "ASess_ID s = i" using session_by_id.get_Inr [OF s(1)] by auto
  obtain s' where "s' \<in> set (a_sessions d)" "ASess_ID s' = i" "ASess_UserID s' = u"
    using assms ht(1) t(4,5) unfolding wf_auth_def by auto
  then have "ASess_UserID s = u" using assms hs distinct_key_eq unfolding wf_auth_def by metis
  then have "(i, u) \<in> live_sessions now d"
    unfolding live_sessions_def using hs s(2,3) by (intro image_eqI [of _ _ s]) auto
  moreover have "(h, u, i) \<in> live_tokens now d"
    unfolding live_tokens_def using ht t by (intro image_eqI [of _ _ t]) auto
  ultimately show "(h, u, i) \<in> live_tokens now d \<and> (i, u) \<in> live_sessions now d" by blast
next
  assume "(h, u, i) \<in> live_tokens now d \<and> (i, u) \<in> live_sessions now d"
  then obtain t s where t: "t \<in> set (a_refresh_tokens d)" "RT_TokenHash t = h" "RT_RevokedAt t = None"
      "\<not> RT_ExpiresAt t < now" "RT_UserID t = u" "RT_SessionID t = i"
    and s: "s \<in> set (a_sessions d)" "ASess_ID s = i" "ASess_RevokedAt s = None" "\<not> ASess_ExpiresAt s < now"
    by (auto simp: live_tokens_def live_sessions_def)
  have "GetRefreshTokenByHash h d = Inr t" unfolding GetRefreshTokenByHash_def
    by (rule query_one_unique) (use assms t distinct_key_eq wf_auth_def in metis)+
  moreover have "GetSessionByID (Some (ASess_ID s)) d = Inr s"
    by (rule session_by_id.get_unique) (use assms s(1) wf_auth_def in auto)
  ultimately show "live now d h = Some (u, i)" using t s by (simp add: live_def)
qed

lemma live_eqI:
  assumes "\<And>h u i. live now d h = Some (u, i) \<longleftrightarrow> T h = Some (u, i)"
  shows "live now d = T"
proof (rule ext)
  fix h
  show "live now d h = T h" using assms [of h] by (cases "live now d h"; cases "T h") auto
qed

lemma live_dropI:
  assumes "wf_auth d" "wf_auth d'"
    and "\<And>h u i. (h, u, i) \<in> live_tokens now d' \<and> (i, u) \<in> live_sessions now d'
        \<longleftrightarrow> (h, u, i) \<in> live_tokens now d \<and> (i, u) \<in> live_sessions now d \<and> \<not> P (u, i)"
  shows "live now d' = abs_drop P (live now d)"
proof (rule live_eqI)
  fix h u i
  show "live now d' h = Some (u, i) \<longleftrightarrow> abs_drop P (live now d) h = Some (u, i)"
  proof -
    have "abs_drop P (live now d) h = Some (u, i) \<longleftrightarrow> live now d h = Some (u, i) \<and> \<not> P (u, i)"
      by (auto simp: abs_drop_def split: option.splits if_splits)
    then show ?thesis using live_iff [OF assms(1)] live_iff [OF assms(2)] assms(3) by simp
  qed
qed

lemma live_revoke_tokens:
  "live_tokens now (revoke_tokens env hit d) = (\<lambda>t. (RT_TokenHash t, RT_UserID t, RT_SessionID t)) `
     {t \<in> set (a_refresh_tokens d). \<not> hit t \<and> RT_RevokedAt t = None \<and> \<not> RT_ExpiresAt t < now}"
  "live_sessions now (revoke_tokens env hit d) = live_sessions now d"
  by (auto simp: live_tokens_def live_sessions_def revoke_tokens_def set_update_where)

lemma live_revoke_sessions:
  assumes "a_sessions d' = update_where hit (ASess_RevokedAt_update (\<lambda>_. Some t)) (a_sessions d)"
  shows "live_sessions now d' = (\<lambda>s. (ASess_ID s, ASess_UserID s)) `
     {s \<in> set (a_sessions d). \<not> hit s \<and> ASess_RevokedAt s = None \<and> \<not> ASess_ExpiresAt s < now}"
  unfolding live_sessions_def assms by (auto simp: set_update_where)

lemma live_cong:
  "a_refresh_tokens d' = a_refresh_tokens d \<Longrightarrow> live_tokens now d' = live_tokens now d"
  "a_sessions d' = a_sessions d \<Longrightarrow> live_sessions now d' = live_sessions now d"
  by (auto simp: live_tokens_def live_sessions_def)

lemma live_same_tables:
  assumes "a_refresh_tokens d' = a_refresh_tokens d" "a_sessions d' = a_sessions d"
  shows "live now d' = live now d"
proof -
  have same: "GetRefreshTokenByHash h d' = GetRefreshTokenByHash h d" "GetSessionByID i d' = GetSessionByID i d" for h i
    by (simp_all add: GetRefreshTokenByHash_def GetSessionByID_def assms)
  show ?thesis by (rule ext) (unfold live_def same, rule refl)
qed

subsection \<open>The endpoints implement the abstract operations\<close>

lemma LogoutAll_refines:
  assumes "wf_auth d" and "\<And>c k. \<not> e_fault env c k" and "x_uuid_scan (a_ext x) (J_Subject c) = Some usr"
  shows "live now (snd (LogoutAll x env (Some c) req d)) = abs_drop (\<lambda>v. fst v = usr) (live now d)"
proof -
  let ?d1 = "RevokeAllUserSessions env (Some usr) d"
  let ?d2 = "RevokeAllUserRefreshTokens env (Some usr) ?d1"
  have "keeps d ?d2" by (rule keeps_trans [OF keeps_session_updates(2) keeps_revocations(3)])
  then have wf: "wf_auth ?d2" using assms(1) by (simp add: keeps_def)
  have ses: "live_sessions now ?d1 = (\<lambda>s. (ASess_ID s, ASess_UserID s)) `
     {s \<in> set (a_sessions d). ASess_UserID s \<noteq> usr \<and> ASess_RevokedAt s = None \<and> \<not> ASess_ExpiresAt s < now}"
    using live_revoke_sessions [where d' = ?d1 and d = d and t = "e_now env" and now = now
        and hit = "\<lambda>s. sql_eq (Some (ASess_UserID s)) (Some usr) \<and> ASess_RevokedAt s = None"]
    by (auto simp: RevokeAllUserSessions_def)
  have "(h, u, i) \<in> live_tokens now ?d2 \<and> (i, u) \<in> live_sessions now ?d2
      \<longleftrightarrow> (h, u, i) \<in> live_tokens now d \<and> (i, u) \<in> live_sessions now d \<and> \<not> u = usr" for h u i
    unfolding RevokeAllUserRefreshTokens_def live_revoke_tokens ses
    by (auto simp: live_tokens_def live_sessions_def RevokeAllUserSessions_def)
  then have "live now ?d2 = abs_drop (\<lambda>v. fst v = usr) (live now d)"
    by (intro live_dropI assms(1) wf) simp
  moreover have "live now (snd (LogoutAll x env (Some c) req d)) = live now ?d2"
    by (rule live_same_tables) (simp_all add: LogoutAll_def assms(2,3) Let_def try_exec_def frame_simps)
  ultimately show ?thesis by simp
qed

lemma session_end_refines:
  assumes "wf_auth d" and "wf_auth d'"
    and "a_sessions d' = update_where (\<lambda>s. sql_eq (Some (ASess_ID s)) (Some i)) (ASess_RevokedAt_update (\<lambda>_. Some t)) (a_sessions d)"
    and "a_refresh_tokens d' = update_where hit (RT_RevokedAt_update (\<lambda>_. Some t)) (a_refresh_tokens d)"
    and "\<And>r. hit r \<Longrightarrow> r \<in> set (a_refresh_tokens d) \<Longrightarrow> RT_SessionID r = i"
  shows "live now d' = abs_drop (\<lambda>v. snd v = i) (live now d)"
proof (rule live_dropI [OF assms(1,2)])
  have ses: "live_sessions now d' = (\<lambda>s. (ASess_ID s, ASess_UserID s)) `
     {s \<in> set (a_sessions d). ASess_ID s \<noteq> i \<and> ASess_RevokedAt s = None \<and> \<not> ASess_ExpiresAt s < now}"
    using live_revoke_sessions [OF assms(3), of now] by auto
  have tok: "live_tokens now d' = (\<lambda>t. (RT_TokenHash t, RT_UserID t, RT_SessionID t)) `
     {t \<in> set (a_refresh_tokens d). \<not> hit t \<and> RT_RevokedAt t = None \<and> \<not> RT_ExpiresAt t < now}"
    unfolding live_tokens_def assms(4) by (auto simp: set_update_where)
  fix h u k
  show "(h, u, k) \<in> live_tokens now d' \<and> (k, u) \<in> live_sessions now d'
      \<longleftrightarrow> (h, u, k) \<in> live_tokens now d \<and> (k, u) \<in> live_sessions now d \<and> \<not> snd (u, k) = i"
    using assms(5) by (simp only: ses tok) (auto simp: live_tokens_def live_sessions_def)
qed

lemma RevokeSession_refines:
  assumes "wf_auth d" and "\<And>c k. \<not> e_fault env c k"
    and "RevokeSession_handler x env claims sid d = (WriteJSON 200 r, d')" and "x_uuid_scan (a_ext x) sid = Some i"
  shows "live now d' = abs_drop (\<lambda>v. snd v = i) (live now d)"
proof -
  have d': "d' = RevokeRefreshTokensBySession env (Some i) (auth_RevokeSession env (Some i) d)"
    using assms(2-4) by (auto simp: RevokeSession_handler_def try_exec_def split: option.splits sum.splits if_splits)
  have "keeps d d'" unfolding d' by (rule keeps_trans [OF keeps_session_updates(1) keeps_revocations(2)])
  then have "wf_auth d'" using assms(1) by (simp add: keeps_def)
  then show ?thesis
    by (intro session_end_refines [OF assms(1), where t = "e_now env" and hit = "\<lambda>t. RT_SessionID t = i \<and> RT_RevokedAt t = None"])
       (auto simp: d' RevokeRefreshTokensBySession_def auth_RevokeSession_def revoke_tokens_def)
qed

lemma Logout_refines:
  assumes "wf_auth d" and "\<And>c k. \<not> e_fault env c k"
    and "GetRefreshTokenByHash (HashToken x raw) d = Inr rt"
  shows "live now (snd (Logout x env (Some raw) d)) = abs_drop (\<lambda>v. snd v = RT_SessionID rt) (live now d)"
proof -
  let ?d' = "auth_RevokeSession env (Some (RT_SessionID rt)) (RevokeRefreshToken env (Some (RT_ID rt)) d)"
  have rt: "rt \<in> set (a_refresh_tokens d)"
    using assms(3) unfolding GetRefreshTokenByHash_def by (blast dest: query_one_Inr)
  have same: "r = rt" if "RT_ID r = RT_ID rt" "r \<in> set (a_refresh_tokens d)" for r
    using that rt assms(1) distinct_key_eq unfolding wf_auth_def by metis
  have "keeps d ?d'" by (rule keeps_trans [OF keeps_revocations(1) keeps_session_updates(1)])
  then have wf: "wf_auth ?d'" using assms(1) by (simp add: keeps_def)
  have "live now ?d' = abs_drop (\<lambda>v. snd v = RT_SessionID rt) (live now d)"
    by (rule session_end_refines [OF assms(1) wf, where t = "e_now env" and hit = "\<lambda>t. RT_ID t = RT_ID rt"])
       (auto simp: auth_RevokeSession_def RevokeRefreshToken_def revoke_tokens_def dest: same)
  then show ?thesis using assms(2,3) by (simp add: Logout_def try_exec_def)
qed

lemma Refresh_200:
  assumes "Refresh x env svc rand req cookie body d = ((WriteJSON 200 r, cks), d')" and "\<And>c k. \<not> e_fault env c k"
  obtains rt raw t d2 where "Refresh_check x env cookie body d = Inr rt" and "Ck_Value (hd cks) = raw"
    and "CreateRefreshToken env 0 (RT_UserID rt) (RT_SessionID rt) (HashToken x raw) (e_now env + T_refreshTTL svc)
           (RevokeRefreshToken env (Some (RT_ID rt)) d) = Inr (t, d2)"
    and "d' = UpdateSessionLastActive env (Some (RT_SessionID rt)) d2"
proof -
  have "reply_status e \<noteq> 200" if "Refresh_check x env cookie body d = Inl e" for e
    using that by (auto simp: Refresh_check_def Let_def split: if_splits option.splits sum.splits)
  then obtain rt where rt: "Refresh_check x env cookie body d = Inr rt"
    using assms(1) by (cases "Refresh_check x env cookie body d") (auto simp: Refresh_def)
  then have "Refresh_rotate x env svc rand req rt d = ((WriteJSON 200 r, cks), d')"
    using assms(1) by (simp add: Refresh_def)
  then show ?thesis
    using that [OF rt] assms(2)
    by (auto simp: Refresh_rotate_def Let_def try_exec_def GenerateRefreshToken_def setRefreshCookie_def OkResponse_def
        split: option.splits sum.splits prod.splits)
qed

lemma live_sessions_touch: "live_sessions now (UpdateSessionLastActive env i d) = live_sessions now d"
proof -
  let ?k = "\<lambda>s. (ASess_ID s, ASess_UserID s, ASess_RevokedAt s, ASess_ExpiresAt s)"
  have "live_sessions now e = (\<lambda>(i, u, r, t). (i, u)) ` {(i, u, r, t) \<in> ?k ` set (a_sessions e). r = None \<and> \<not> t < now}"
    for e by (force simp: live_sessions_def)
  moreover have "?k ` set (a_sessions (UpdateSessionLastActive env i d)) = ?k ` set (a_sessions d)"
    unfolding UpdateSessionLastActive_def by (simp add: image_update_where)
  ultimately show ?thesis by simp
qed

lemma Refresh_refines:
  assumes "wf_auth d" and "\<And>c k. \<not> e_fault env c k" and "0 \<le> T_refreshTTL svc"
    and "Refresh x env svc rand req cookie body d = ((WriteJSON 200 r, cks), d')"
  shows "live (e_now env) d (HashToken x (extractRefreshToken x cookie body)) \<noteq> None
    \<and> live (e_now env) d' = abs_rotate (HashToken x (extractRefreshToken x cookie body))
          (HashToken x (Ck_Value (hd cks))) (live (e_now env) d)"
proof -
  let ?now = "e_now env" and ?h = "HashToken x (extractRefreshToken x cookie body)"
  let ?view = "\<lambda>t. (RT_TokenHash t, RT_UserID t, RT_SessionID t)"
  obtain rt raw t d2 where rt: "Refresh_check x env cookie body d = Inr rt" and raw: "Ck_Value (hd cks) = raw"
    and new: "CreateRefreshToken env 0 (RT_UserID rt) (RT_SessionID rt) (HashToken x raw) (?now + T_refreshTTL svc)
           (RevokeRefreshToken env (Some (RT_ID rt)) d) = Inr (t, d2)"
    and d': "d' = UpdateSessionLastActive env (Some (RT_SessionID rt)) d2"
    by (rule Refresh_200 [OF assms(4,2)]) blast
  let ?d1 = "RevokeRefreshToken env (Some (RT_ID rt)) d" and ?new = "HashToken x raw"
  let ?v = "(RT_UserID rt, RT_SessionID rt)"
  note chk = Refresh_check_Inr [OF rt]
  have hash: "RT_TokenHash rt = ?h" using chk(1) unfolding GetRefreshTokenByHash_def by (blast dest: query_one_Inr)
  have was: "live ?now d ?h = Some ?v" using chk(1,3-5) by (auto simp: live_def)
  have same: "y = rt" if "y \<in> set (a_refresh_tokens d)" "RT_ID y = RT_ID rt \<or> RT_TokenHash y = ?h" for y
    using that chk(2) hash assms(1) distinct_key_eq unfolding wf_auth_def by metis
  have d2: "a_refresh_tokens d2 = a_refresh_tokens ?d1 @ [t]" "a_sessions d2 = a_sessions d"
      "?view t = (?new, ?v)" "RT_RevokedAt t = None" "\<not> RT_ExpiresAt t < ?now"
    and fresh: "?new \<notin> RT_TokenHash ` set (a_refresh_tokens ?d1)"
    using new assms(3) by (auto simp: CreateRefreshToken_def RevokeRefreshToken_def revoke_tokens_def Let_def split: if_splits)
  have "RT_TokenHash ` set (a_refresh_tokens ?d1) = RT_TokenHash ` set (a_refresh_tokens d)"
    unfolding RevokeRefreshToken_def revoke_tokens_def by (simp add: image_update_where)
  then have fresh': "?new \<notin> RT_TokenHash ` set (a_refresh_tokens d)" and neq: "?new \<noteq> ?h"
    using fresh chk(2) hash by (metis, metis image_eqI)
  have tok: "live_tokens ?now d' = insert (?new, ?v) {(h, v) \<in> live_tokens ?now d. h \<noteq> ?h}"
  proof -
    have "live_tokens ?now d' = live_tokens ?now d2"
      by (rule live_cong) (simp add: d' UpdateSessionLastActive_def)
    also have "\<dots> = insert (?view t) (live_tokens ?now ?d1)"
      using d2(1,4,5) by (auto simp: live_tokens_def)
    also have "live_tokens ?now ?d1 = {(h, v) \<in> live_tokens ?now d. h \<noteq> ?h}"
    proof -
      have "RT_ID y = RT_ID rt \<longleftrightarrow> RT_TokenHash y = ?h" if "y \<in> set (a_refresh_tokens d)" for y
        using same that hash by blast
      then have "live_tokens ?now ?d1 = ?view ` {y \<in> set (a_refresh_tokens d).
          RT_TokenHash y \<noteq> ?h \<and> RT_RevokedAt y = None \<and> \<not> RT_ExpiresAt y < ?now}"
        unfolding RevokeRefreshToken_def live_revoke_tokens(1) by (intro image_cong Collect_cong) auto
      then show ?thesis by (auto simp: live_tokens_def)
    qed
    finally show ?thesis by (simp add: d2(3))
  qed
  have ses: "live_sessions ?now d' = live_sessions ?now d"
    unfolding d' live_sessions_touch by (rule live_cong(2) [OF d2(2)])
  have wf: "wf_auth d'"
  proof -
    have "(RT_SessionID rt, RT_UserID rt) \<in> (\<lambda>s. (ASess_ID s, ASess_UserID s)) ` set (a_sessions d)"
      using assms(1) chk(2) unfolding wf_auth_def by blast
    then have "keeps d (snd (Refresh_rotate x env svc rand req rt d))" by (rule keeps_Refresh_rotate(1))
    then show ?thesis using assms(1,4) rt by (simp add: Refresh_def keeps_def)
  qed
  have alive: "(RT_SessionID rt, RT_UserID rt) \<in> live_sessions ?now d" using was live_iff [OF assms(1)] by blast
  have "live ?now d' = (live ?now d)(?h := None, ?new \<mapsto> ?v)"
  proof (rule live_eqI)
    fix h u i
    have "live ?now d ?new = None"
      using fresh' live_iff [OF assms(1), of ?now ?new] by (cases "live ?now d ?new") (auto simp: live_tokens_def)
    then show "live ?now d' h = Some (u, i) \<longleftrightarrow> ((live ?now d)(?h := None, ?new \<mapsto> ?v)) h = Some (u, i)"
      using neq alive live_iff [OF assms(1), of ?now h u i] by (auto simp: live_iff [OF wf] tok ses)
  qed
  then show ?thesis using was raw by (simp add: abs_rotate_def)
qed

section \<open>Properties\<close>

lemma dead_refresh_fails:
  assumes "wf_auth d" and "dead (HashToken x (extractRefreshToken x cookie body)) d"
  shows "\<exists>r. Refresh x env svc rand req cookie body d = ((r, []), d) \<and> reply_status r \<noteq> 200"
proof -
  obtain r where r: "Refresh_check x env cookie body d = Inl r" using dead_refused [OF assms] by blast
  then have "reply_status r \<noteq> 200"
    by (auto simp: Refresh_check_def Let_def split: if_splits option.splits sum.splits)
  then show ?thesis using r by (simp add: Refresh_def)
qed




section \<open>Concrete runs\<close>

lemma sample_wf: "wf_auth sample_adb"
  by (simp add: wf_auth_def sample_auth_defs)

lemma sample_hash: "HashToken (sample_aext js cs) ''tok'' = hex_encode ''kot''"
  by (simp add: HashToken_def)

lemma sample_extract: "extractRefreshToken x (Some ''tok'') body = ''tok''"
  by (simp add: extractRefreshToken_def)

lemma sample_check:
  "Refresh_check (sample_aext [] []) (sample_env 0) (Some ''tok'') '''' sample_adb = Inr sample_rt"
proof -
  have "auth_validate (sample_aext [] []) [(''RefreshToken'', [VRequired], VStr ''tok'')] = None"
    by (simp add: auth_validate_def sample_validate_def)
  then show ?thesis
    by (simp add: Refresh_check_def sample_extract sample_hash GetRefreshTokenByHash_def GetSessionByID_def query_one_def
        sample_auth_simps sample_env_simps)
qed

lemma sample_refresh:
  obtains r cks d' where "Refresh (sample_aext [] []) (sample_env 0) sample_svc sample_bytes sample_req (Some ''tok'') ''''
    sample_adb = ((WriteJSON 200 r, cks), d')"
proof -
  have "HashToken (sample_aext [] []) (Base64URLEncode (replicate 32 CHR ''r'')) \<noteq> hex_encode ''kot''"
    unfolding HashToken_def by code_simp
  then have "\<exists>r cks d'. Refresh (sample_aext [] []) (sample_env 0) sample_svc sample_bytes sample_req (Some ''tok'') ''''
      sample_adb = ((WriteJSON 200 r, cks), d')"
    by (simp add: Refresh_def sample_check Refresh_rotate_def Let_def try_exec_def GenerateRefreshToken_def sample_bytes_def
        CreateRefreshToken_def RevokeRefreshToken_def revoke_tokens_def UpdateSessionLastActive_def
        update_where_def auth_GetUserByID_def query_one_def resolveOrgClaim_def IssueAccessToken_def
        OkResponse_def GetMFASettings_def sample_auth_simps sample_env_simps)
  then show ?thesis using that by blast
qed

definition sample_claims :: jwt_claims where
  "sample_claims = mfa_claims sample_svc (sample_env 0) '''' ''uuuuuuuuuuu''"

lemma sample_subject: "J_Subject sample_claims = ''uuuuuuuuuuu''"
  by (simp add: sample_claims_def mfa_claims_def)





text \<open>
  C17. The session tables stay well formed, whatever requests come in: token hashes, token identifiers
  and session identifiers are unique and every refresh token belongs to a session of its own user.
\<close>

theorem session_tables_well_formed:
  assumes "wf_auth d0" and "auth_step\<^sup>*\<^sup>* d0 d"
  shows "distinct (map RT_TokenHash (a_refresh_tokens d)) \<and> distinct (map RT_ID (a_refresh_tokens d)) \<and> distinct (map ASess_ID (a_sessions d))
    \<and> (\<forall>t \<in> set (a_refresh_tokens d). \<exists>s \<in> set (a_sessions d). ASess_ID s = RT_SessionID t \<and> ASess_UserID s = RT_UserID t)"
proof -
  have wf: "wf_auth d" by (rule auth_runs.run_inv [OF assms(2,1)])
  have "\<exists>s \<in> set (a_sessions d). ASess_ID s = RT_SessionID t \<and> ASess_UserID s = RT_UserID t" if "t \<in> set (a_refresh_tokens d)" for t
    using wf that unfolding wf_auth_def by fastforce
  then show ?thesis using wf unfolding wf_auth_def by blast
qed

theorem session_tables_well_formed_witness:
  "let d = snd (Refresh_rotate (sample_aext [] []) (sample_env 0) sample_svc sample_bytes sample_req sample_rt sample_adb) in
     distinct (map RT_TokenHash (a_refresh_tokens d))
     \<and> (\<forall>t \<in> set (a_refresh_tokens d). \<exists>s \<in> set (a_sessions d). ASess_ID s = RT_SessionID t \<and> ASess_UserID s = RT_UserID t)"
proof -
  have "sample_rt \<in> set (a_refresh_tokens sample_adb)" by (simp add: sample_auth_simps)
  then have "(RT_SessionID sample_rt, RT_UserID sample_rt) \<in> (\<lambda>s. (ASess_ID s, ASess_UserID s)) ` set (a_sessions sample_adb)"
    using sample_wf unfolding wf_auth_def by blast
  then have "auth_step\<^sup>*\<^sup>* sample_adb (snd (Refresh_rotate (sample_aext [] []) (sample_env 0) sample_svc sample_bytes sample_req sample_rt sample_adb))"
    by (intro r_into_rtranclp auth_step.rotate)
  from session_tables_well_formed [OF sample_wf this] show ?thesis unfolding Let_def by blast
qed

lemma empty_tables_well_formed: "wf_auth empty_adb"
  by (simp add: wf_auth_def empty_adb_def)

end
