(* ===== verification/AuthLogin.thy ===== *)
theory AuthLogin
  imports AuthSystem
begin

text \<open>
  Signing in: what the OAuth state, the second factor and the backup codes guarantee, and where they
  do not hold.
\<close>

section \<open>The OAuth state\<close>

lemma GetAndDeleteOAuthState_Inr:
  assumes "GetAndDeleteOAuthState env state d = Inr (st, d1)"
  shows "st \<in> set (a_states d)" "State_State st = state" "e_now env < State_ExpiresAt st"
    and "a_states d1 = delete_where (\<lambda>s. State_State s = state \<and> e_now env < State_ExpiresAt s) (a_states d)"
proof -
  have "query_one (\<lambda>s. State_State s = state \<and> e_now env < State_ExpiresAt s) (a_states d) = Inr st"
    and d1: "d1 = d\<lparr>a_states := delete_where (\<lambda>s. State_State s = state \<and> e_now env < State_ExpiresAt s) (a_states d)\<rparr>"
    using assms by (auto simp: GetAndDeleteOAuthState_def Let_def split: sum.splits)
  then show "st \<in> set (a_states d)" "State_State st = state" "e_now env < State_ExpiresAt st"
    by (auto dest: query_one_Inr)
  show "a_states d1 = delete_where (\<lambda>s. State_State s = state \<and> e_now env < State_ExpiresAt s) (a_states d)"
    by (simp add: d1)
qed

lemma states_frame:
  "CreateUser env n e v f l a d = Inr (u, d') \<Longrightarrow> a_states d' = a_states d"
  "CreateOAuthIdentity env n usr p pid em nm av d = Inr (r, d') \<Longrightarrow> a_states d' = a_states d"
  "CreateSession env n usr ip ua dev fp c ex d = Inr (s, d') \<Longrightarrow> a_states d' = a_states d"
  "CreateRefreshToken env n usr sess h ex d = Inr (t, d') \<Longrightarrow> a_states d' = a_states d"
  by (auto simp: CreateUser_def CreateOAuthIdentity_def CreateSession_def CreateRefreshToken_def Let_def split: if_splits)

lemma audit_Log_states: "a_states (audit_Log x env n k org actor act ty tgt rq meta d) = a_states d"
  by (auto simp: audit_Log_def CreateAuditLog_def split: sum.splits if_splits)

lemma storeOAuthTokens_states: "a_states (storeOAuthTokens env enc rnd p info a r d) = a_states d"
  by (auto simp: storeOAuthTokens_def try_exec_def UpdateOAuthTokens_def Let_def split: option.splits)

lemma issueTokensAndRedirect_states:
  assumes "issueTokensAndRedirect x env svc maxAge rand req user uri d = (q, d')"
  shows "a_states d' = a_states d"
proof (cases "session_Create x env 2 maxAge (AU_ID user) req '''' d")
  case (Inr z)
  then obtain s d1 where s: "session_Create x env 2 maxAge (AU_ID user) req '''' d = Inr (s, d1)" by (cases z) auto
  then have d1: "a_states d1 = a_states d" by (auto simp: session_Create_def Let_def dest: states_frame(3))
  have "d' = d1 \<or> (\<exists>h e t. CreateRefreshToken env 3 (AU_ID user) (ASess_ID s) h e d1 = Inr (t, d'))"
    using assms s by (auto simp: issueTokensAndRedirect_def split: option.splits sum.splits prod.splits)
  then show ?thesis using d1 states_frame(4) by metis
qed (use assms in \<open>simp add: issueTokensAndRedirect_def\<close>)

lemma resolveUser_states:
  assumes "resolveUser env p info d = (r, d')"
  shows "a_states d' = a_states d"
  using assms unfolding resolveUser_def Let_def
  by (auto dest!: states_frame split: sum.splits if_splits prod.splits)

lemma Callback_states:
  assumes "Callback_oauth x env providers svc enc maxAge rnd req p code state d = (r, d')"
  shows "d' = d \<and> (\<exists>c e. r = Failed c e)
    \<or> (\<exists>st d1. GetAndDeleteOAuthState env state d = Inr (st, d1) \<and> a_states d' = a_states d1
        \<and> (State_Provider st = p \<or> (\<exists>c e. r = Failed c e)))"
proof (cases "providers p = None \<or> code = '''' \<or> state = '''' \<or> e_fault env ''GetAndDeleteOAuthState'' 0
    \<or> (\<exists>e. GetAndDeleteOAuthState env state d = Inl e)")
  case True
  then show ?thesis
    using assms by (cases "e_fault env ''GetAndDeleteOAuthState'' 0") (auto simp: Callback_oauth_def split: option.splits if_splits)
next
  case False
  then obtain pr st d1 where pr: "providers p = Some pr" and st: "GetAndDeleteOAuthState env state d = Inr (st, d1)"
    by (cases "GetAndDeleteOAuthState env state d") auto
  note call = assms [unfolded Callback_oauth_def pr option.case Let_def]
  show ?thesis
  proof (cases "State_Provider st = p \<and> Exchange pr code \<noteq> None")
    case True
    then obtain a t info where ex: "Exchange pr code = Some (a, t, info)" by auto
    obtain u d2 where u: "resolveUser env p info d1 = (u, d2)" by (cases "resolveUser env p info d1")
    have d2: "a_states d2 = a_states d1" by (rule resolveUser_states [OF u])
    have "a_states d' = a_states d2"
      using call False st True ex u
      by (auto simp: storeOAuthTokens_states audit_Log_states dest!: issueTokensAndRedirect_states
          split: option.splits prod.splits if_splits)
    then show ?thesis using st d2 True by simp
  next
    case other: False
    then have "d' = d1 \<and> (\<exists>c e. r = Failed c e)"
      using call False st by (auto split: option.splits if_splits)
    then show ?thesis using st by blast
  qed
qed


section \<open>The second factor\<close>

lemma GetMFASettings_Disable:
  assumes "GetMFASettings (Some usr) d = Inr m"
  shows "\<exists>m'. GetMFASettings (Some usr) (DisableTOTP env (Some usr) d) = Inr m' \<and> \<not> Mfa_TotpEnabled m'
    \<and> Mfa_TotpSecret m' = None"
  using assms by (simp add: GetMFASettings_def DisableTOTP_def query_one_update_same)

lemma GetMFASettings_frame:
  "a_mfa_settings d' = a_mfa_settings d \<Longrightarrow> GetMFASettings u d' = GetMFASettings u d"
  by (simp add: GetMFASettings_def)

text \<open>
  C39. The token that is handed out between the first and the second factor is accepted wherever an
  access token is: its bearer can switch the second factor off without ever answering the challenge.
  The middleware does not look at the audience of a token.
\<close>

theorem challenge_token_is_access_token:
  assumes "IssueMFAChallengeToken x svc env n uid = Some tok" and "tok \<noteq> ''''"
    and "jwt_reads x (T_privateKey svc) (T_publicKey svc) (mfa_claims svc env (x_uuid_string (a_ext x) (e_uuid env n)) uid)"
    and "e_now envB < NewNumericDate (e_now env + mfaChallengeTTL)" and "x_uuid_scan (a_ext x) uid = Some usr"
    and "GetMFASettings (Some usr) d = Inr m" and "Mfa_TotpEnabled m" and "\<And>call k. \<not> e_fault envB call k"
  shows "\<exists>d' m'. auth_Auth x envB (T_publicKey svc) (T_issuer svc) (''Bearer '' @ tok) cookie
        (\<lambda>c. Disable x envB req (Some c)) d = (WriteJSON 200 ''disabled'', d')
    \<and> GetMFASettings (Some usr) d' = Inr m' \<and> \<not> Mfa_TotpEnabled m' \<and> Mfa_TotpSecret m' = None"
proof -
  let ?c = "mfa_claims svc env (x_uuid_string (a_ext x) (e_uuid env n)) uid"
  have tok: "auth_extractToken (''Bearer '' @ tok) cookie = tok" unfolding auth_extractToken_def cut_prefix_append by simp
  have "a_parse x (T_publicKey svc) (T_issuer svc) (e_now envB) tok = Some ?c"
    using assms(1,3,4) unfolding jwt_reads_def IssueMFAChallengeToken_def by (simp add: mfa_claims_def)
  then have pass: "auth_Auth x envB (T_publicKey svc) (T_issuer svc) (''Bearer '' @ tok) cookie
      (\<lambda>c. Disable x envB req (Some c)) d = Disable x envB req (Some ?c) d"
    using assms(2) unfolding auth_Auth_def Let_def tok by simp
  have "auth_UserIDFromContext x (Some ?c) = Inr usr"
    using assms(5) by (simp add: auth_UserIDFromContext_def mfa_claims_def)
  then obtain d' where dis: "Disable x envB req (Some ?c) d = (WriteJSON 200 ''disabled'', d')"
      and d': "a_mfa_settings d' = a_mfa_settings (DisableTOTP envB (Some usr) d)"
    using assms(6-8) by (simp add: Disable_def try_exec_def frame_simps DeleteBackupCodes_def)
  obtain m' where "GetMFASettings (Some usr) d' = Inr m'" "\<not> Mfa_TotpEnabled m'" "Mfa_TotpSecret m' = None"
    using GetMFASettings_Disable [OF assms(6)] GetMFASettings_frame [OF d'] by force
  then show ?thesis using trans [OF pass dis] by blast
qed

lemma issueTokensAndRedirect_sessions:
  assumes "issueTokensAndRedirect x env svc maxAge rand req user uri d = (q, d')"
  shows "a_mfa_settings d' = a_mfa_settings d"
    and "s \<in> set (a_sessions d') \<Longrightarrow> s \<in> set (a_sessions d) \<or> ASess_UserID s = AU_ID user"
proof -
  have "a_mfa_settings d' = a_mfa_settings d \<and>
      (s \<in> set (a_sessions d') \<longrightarrow> s \<in> set (a_sessions d) \<or> ASess_UserID s = AU_ID user)"
  proof (cases "session_Create x env 2 maxAge (AU_ID user) req '''' d")
    case (Inr z)
    then obtain k d1 where k: "session_Create x env 2 maxAge (AU_ID user) req '''' d = Inr (k, d1)" by (cases z) auto
    then have d1: "a_sessions d1 = a_sessions d @ [k]" "ASess_UserID k = AU_ID user" "a_mfa_settings d1 = a_mfa_settings d"
      by (auto simp: session_Create_def CreateSession_def Let_def split: if_splits)
    have "d' = d1 \<or> (\<exists>h e t. CreateRefreshToken env 3 (AU_ID user) (ASess_ID k) h e d1 = Inr (t, d'))"
      using assms k by (auto simp: issueTokensAndRedirect_def split: option.splits sum.splits prod.splits)
    then have "a_sessions d' = a_sessions d1 \<and> a_mfa_settings d' = a_mfa_settings d1"
      by (auto simp: CreateRefreshToken_def Let_def split: if_splits)
    then show ?thesis using d1 by auto
  qed (use assms in \<open>simp add: issueTokensAndRedirect_def\<close>)
  then show "a_mfa_settings d' = a_mfa_settings d"
    and "s \<in> set (a_sessions d') \<Longrightarrow> s \<in> set (a_sessions d) \<or> ASess_UserID s = AU_ID user" by auto
qed

lemma Callback_sessions:
  assumes "Callback_oauth x env providers svc enc maxAge rnd req p code state d = (r, d')"
  shows "a_sessions d' = a_sessions d
    \<or> (\<exists>user uri d3 q d4. issueTokensAndRedirect x env svc maxAge (rnd 2) req user uri d3 = (q, d4)
        \<and> a_sessions d3 = a_sessions d \<and> a_sessions d' = a_sessions d4 \<and> a_mfa_settings d' = a_mfa_settings d4
        \<and> (\<not> e_fault env ''GetMFASettings'' 0 \<longrightarrow>
            \<not> (\<exists>m. GetMFASettings (Some (AU_ID user)) d3 = Inr m \<and> Mfa_TotpEnabled m)))"
proof (cases "providers p = None \<or> code = '''' \<or> state = '''' \<or> e_fault env ''GetAndDeleteOAuthState'' 0
    \<or> (\<exists>e. GetAndDeleteOAuthState env state d = Inl e)")
  case True
  then show ?thesis
    using assms by (cases "e_fault env ''GetAndDeleteOAuthState'' 0") (auto simp: Callback_oauth_def split: option.splits if_splits)
next
  case False
  then obtain pr st d1 where pr: "providers p = Some pr" and st: "GetAndDeleteOAuthState env state d = Inr (st, d1)"
    by (cases "GetAndDeleteOAuthState env state d") auto
  note call = assms [unfolded Callback_oauth_def pr option.case Let_def]
  have d1: "a_sessions d1 = a_sessions d" using sign_in_frame(4) [OF st] by simp
  show ?thesis
  proof (cases "State_Provider st = p \<and> Exchange pr code \<noteq> None")
    case True
    then obtain a t info where ex: "Exchange pr code = Some (a, t, info)" by auto
    obtain u d2 where u: "resolveUser env p info d1 = (u, d2)" by (cases "resolveUser env p info d1")
    have d2: "a_sessions d2 = a_sessions d" using resolveUser_frame [OF u] d1 by simp
    show ?thesis
    proof (cases u)
      case None
      then show ?thesis using call False st True ex u d2 by simp
    next
      case (Some user)
      let ?d3 = "storeOAuthTokens env enc rnd p info a t d2"
      let ?mfa = "case guarded env ''GetMFASettings'' 0 (GetMFASettings (Some (AU_ID user)) ?d3) of
          Inl _ \<Rightarrow> False | Inr m \<Rightarrow> Mfa_TotpEnabled m"
      have d3: "a_sessions ?d3 = a_sessions d" using d2 by (simp add: frame_simps)
      show ?thesis
      proof (cases ?mfa)
        case True
        then show ?thesis using call False st \<open>State_Provider st = p \<and> _\<close> ex u Some d3 by (auto split: option.splits)
      next
        case nomfa: False
        obtain q d4 where q: "issueTokensAndRedirect x env svc maxAge (rnd 2) req user (State_RedirectUri st) ?d3 = (q, d4)"
          by (cases "issueTokensAndRedirect x env svc maxAge (rnd 2) req user (State_RedirectUri st) ?d3")
        have "a_sessions d' = a_sessions d4 \<and> a_mfa_settings d' = a_mfa_settings d4"
          using call False st True ex u Some nomfa q by (auto simp: frame_simps split: option.splits)
        moreover have "\<not> e_fault env ''GetMFASettings'' 0 \<longrightarrow>
            \<not> (\<exists>m. GetMFASettings (Some (AU_ID user)) ?d3 = Inr m \<and> Mfa_TotpEnabled m)"
          using nomfa by auto
        ultimately show ?thesis using q d3 by blast
      qed
    qed
  next
    case other: False
    then show ?thesis using call False st d1 by (auto split: option.splits if_splits)
  qed
qed

text \<open>
  C19. A callback opens a session only for a user without an enabled second factor, as long as the
  settings can be read.
\<close>

theorem second_factor_gates_login:
  assumes "Callback_oauth x env providers svc enc maxAge rnd req p code state d = (r, d')"
    and "\<not> e_fault env ''GetMFASettings'' 0"
    and "s \<in> set (a_sessions d')" and "s \<notin> set (a_sessions d)"
  shows "\<not> (\<exists>m. GetMFASettings (Some (ASess_UserID s)) d' = Inr m \<and> Mfa_TotpEnabled m)"
proof -
  obtain user uri d3 q d4 where q: "issueTokensAndRedirect x env svc maxAge (rnd 2) req user uri d3 = (q, d4)"
    and d3: "a_sessions d3 = a_sessions d" "a_sessions d' = a_sessions d4" "a_mfa_settings d' = a_mfa_settings d4"
    and none: "\<not> (\<exists>m. GetMFASettings (Some (AU_ID user)) d3 = Inr m \<and> Mfa_TotpEnabled m)"
    using Callback_sessions [OF assms(1)] assms(2-4) by auto
  have "ASess_UserID s = AU_ID user"
    using issueTokensAndRedirect_sessions(2) [OF q, of s] assms(3,4) d3 by simp
  moreover have "a_mfa_settings d' = a_mfa_settings d3"
    using issueTokensAndRedirect_sessions(1) [OF q] d3(3) by simp
  ultimately show ?thesis using none GetMFASettings_frame by metis
qed


section \<open>A login on a concrete database\<close>

definition sample_state :: OauthState where
  "sample_state = \<lparr>State_ID = 21, State_State = ''st'', State_Provider = ''google'', State_RedirectUri = ''https://app'',
     State_ExpiresAt = 10 * usec_per_min, State_CreatedAt = 0\<rparr>"

definition sample_mfa :: MfaSetting where
  "sample_mfa = \<lparr>Mfa_ID = 22, Mfa_UserID = 11, Mfa_TotpSecret = Some ''x'', Mfa_TotpEnabled = True, Mfa_TotpVerifiedAt = Some 0,
     Mfa_CreatedAt = 0, Mfa_UpdatedAt = 0\<rparr>"

definition sample_aead :: aead where
  "sample_aead = \<lparr>seal = (\<lambda>n p. n @ p), unseal = (\<lambda>n c. Some (drop (length n) c))\<rparr>"

definition sample_info :: UserInfo where
  "sample_info = \<lparr>UI_ProviderID = ''g1'', UI_Email = ''ann@acme'', UI_DisplayName = ''Ann'', UI_AvatarURL = ''''\<rparr>"

definition sample_providers :: "string \<Rightarrow> Provider option" where
  "sample_providers p = (if p = ''google'' then Some \<lparr>AuthURL = (\<lambda>s. s), Exchange = (\<lambda>c. Some ('''', '''', sample_info))\<rparr> else None)"

definition sample_login_db :: adb where
  "sample_login_db = sample_adb\<lparr>a_states := [sample_state]\<rparr>"

definition sample_opened :: AuthSession where
  "sample_opened = \<lparr>ASess_ID = 3, ASess_UserID = 11, ASess_IpAddress = None, ASess_UserAgent = None,
     ASess_DeviceName = None, ASess_DeviceFingerprint = None, ASess_Country = None,
     ASess_LastActiveAt = 0, ASess_ExpiresAt = 60, ASess_RevokedAt = None, ASess_CreatedAt = 0\<rparr>"

lemma sample_login_simps:
  "a_states sample_login_db = [sample_state]" "a_users sample_login_db = [sample_user]" "a_sessions sample_login_db = [sample_session]"
  "a_mfa_settings sample_login_db = []" "a_identities sample_login_db = []" "a_refresh_tokens sample_login_db = [sample_rt]"
  "AU_Email sample_user = ''ann@acme''"
  "State_State sample_state = ''st''" "State_Provider sample_state = ''google''" "State_ExpiresAt sample_state = 10 * usec_per_min"
  "UI_ProviderID sample_info = ''g1''" "UI_Email sample_info = ''ann@acme''"
  by (simp_all add: sample_login_db_def sample_auth_simps sample_state_def sample_info_def)
    (simp_all add: sample_adb_def empty_adb_def sample_user_def)

lemma sample_GetState:
  "GetAndDeleteOAuthState (sample_env 0) ''st'' sample_login_db = Inr (sample_state, sample_login_db\<lparr>a_states := []\<rparr>)"
  by (simp add: GetAndDeleteOAuthState_def query_one_def delete_where_def sample_login_simps sample_env_simps)

lemma sample_resolve:
  obtains d2 where "resolveUser (sample_env 0) ''google'' sample_info (sample_login_db\<lparr>a_states := []\<rparr>) = (Some sample_user, d2)"
    and "a_sessions d2 = [sample_session]" "a_users d2 = [sample_user]" "a_mfa_settings d2 = []"
    "a_refresh_tokens d2 = [sample_rt]"
  by (simp add: resolveUser_def GetOAuthIdentity_def auth_GetUserByEmail_def query_one_def CreateOAuthIdentity_def
      Let_def sample_login_simps sample_env_simps sample_auth_simps)

lemma sample_session_Create:
  assumes "a_sessions d = [sample_session]" "a_users d = [sample_user]"
  shows "session_Create (sample_aext [] []) (sample_env 0) 2 60 11 sample_req '''' d
    = Inr (sample_opened, d\<lparr>a_sessions := [sample_session, sample_opened]\<rparr>)"
  by (simp add: session_Create_def CreateSession_def assms extractIP_def SplitHostPort_def last_index_def Parse_device_def deviceRules_def
      Let_def sample_req_def sample_env_simps sample_auth_simps sample_opened_def text_opt_def)

lemma sample_issue:
  assumes "a_sessions d = [sample_session]" "a_users d = [sample_user]" "a_refresh_tokens d = [sample_rt]"
  obtains cks d' where "issueTokensAndRedirect (sample_aext [] []) (sample_env 0) sample_svc 60 sample_bytes sample_req sample_user
      ''https://app'' d = (Some (Redirect ''https://app'' cks), d')"
    and "a_sessions d' = [sample_session, sample_opened]"
proof -
  have "RT_TokenHash sample_rt \<noteq> HashToken (sample_aext [] []) (Base64URLEncode (replicate 32 CHR ''r''))"
    unfolding HashToken_def sample_auth_simps by code_simp
  then have new: "\<exists>d' t. CreateRefreshToken (sample_env 0) 3 11 3 (HashToken (sample_aext [] []) (Base64URLEncode (replicate 32 CHR ''r'')))
      (7 * usec_per_day) (d\<lparr>a_sessions := [sample_session, sample_opened]\<rparr>) = Inr (t, d') \<and> a_sessions d' = [sample_session, sample_opened]"
    using assms by (simp add: CreateRefreshToken_def Let_def sample_auth_simps sample_env_simps sample_opened_def)
  show ?thesis
    using that new assms
    by (auto simp: issueTokensAndRedirect_def sample_session_Create sample_auth_simps GenerateRefreshToken_def sample_bytes_def
        sample_env_simps IssueAccessToken_def sample_opened_def)
qed

lemma sample_callback:
  obtains cks d' where "Callback_oauth (sample_aext [] []) (sample_env 0) sample_providers sample_svc enc 60 (\<lambda>_. sample_bytes) sample_req
      ''google'' ''c'' ''st'' sample_login_db = (Redirect ''https://app'' cks, d')"
    and "a_sessions d' = [sample_session, sample_opened]"
proof -
  obtain d2 where d2: "resolveUser (sample_env 0) ''google'' sample_info (sample_login_db\<lparr>a_states := []\<rparr>) = (Some sample_user, d2)"
    "a_sessions d2 = [sample_session]" "a_users d2 = [sample_user]" "a_mfa_settings d2 = []" "a_refresh_tokens d2 = [sample_rt]"
    by (rule sample_resolve)
  let ?d3 = "storeOAuthTokens (sample_env 0) enc (\<lambda>_. sample_bytes) ''google'' sample_info '''' '''' d2"
  have d3: "a_sessions ?d3 = [sample_session]" "a_users ?d3 = [sample_user]" "a_refresh_tokens ?d3 = [sample_rt]" "a_mfa_settings ?d3 = []"
    using d2 by (simp_all add: storeOAuthTokens_def try_exec_def UpdateOAuthTokens_def sample_env_simps)
  obtain cks d' where d': "issueTokensAndRedirect (sample_aext [] []) (sample_env 0) sample_svc 60 sample_bytes sample_req sample_user
      ''https://app'' ?d3 = (Some (Redirect ''https://app'' cks), d')" "a_sessions d' = [sample_session, sample_opened]"
    by (rule sample_issue [OF d3(1-3)])
  have uri: "State_RedirectUri sample_state = ''https://app''" by (simp add: sample_state_def)
  show ?thesis
    by (rule that [of cks "audit_Log (sample_aext [] []) (sample_env 0) 5 0 None (Some 11) ''user.login'' '''' None (Some sample_req)
      (Some (''{\"provider\":\"'' @ ''google'' @ ''\"}'')) d'"])
      (use d2 d3 d' in \<open>simp_all add: Callback_oauth_def sample_providers_def sample_GetState sample_env_simps Let_def
        GetMFASettings_def query_one_def sample_login_simps sample_auth_simps uri frame_simps\<close>)
qed


theorem second_factor_gates_login_witness:
  "\<exists>r d'. Callback_oauth (sample_aext [] []) (sample_env 0) sample_providers sample_svc sample_aead 60 (\<lambda>_. sample_bytes) sample_req
      ''google'' ''c'' ''st'' sample_login_db = (r, d') \<and> sample_opened \<in> set (a_sessions d')
    \<and> \<not> (\<exists>m. GetMFASettings (Some 11) d' = Inr m \<and> Mfa_TotpEnabled m)"
proof -
  obtain cks d' where cb: "Callback_oauth (sample_aext [] []) (sample_env 0) sample_providers sample_svc sample_aead 60 (\<lambda>_. sample_bytes) sample_req
      ''google'' ''c'' ''st'' sample_login_db = (Redirect ''https://app'' cks, d')"
    and s: "a_sessions d' = [sample_session, sample_opened]"
    by (rule sample_callback)
  have "sample_opened \<in> set (a_sessions d')" "sample_opened \<notin> set (a_sessions sample_login_db)"
    by (simp_all add: s sample_login_simps) (simp add: sample_opened_def sample_session_def)
  with second_factor_gates_login [OF cb sample_env_simps(3), of sample_opened] cb show ?thesis
    by (auto simp: sample_opened_def)
qed

lemma sample_mfa_reads:
  "jwt_reads (sample_aext [] [mfa_claims sample_svc (sample_env 0) (replicate (unat (1::uuid)) CHR ''u'') ''uuuuuuuuuuu''])
     priv pub (mfa_claims sample_svc (sample_env 0) (replicate (unat (1::uuid)) CHR ''u'') ''uuuuuuuuuuu'')"
  by (simp add: jwt_reads_def mfa_claims_def)

theorem challenge_token_is_access_token_witness:
  "\<exists>cs d' m'. auth_Auth (sample_aext [] cs) (sample_env 1) ''pk'' ''zag'' (''Bearer '' @ ''uuuuuuuuuuu.m'') None
        (\<lambda>c. Disable (sample_aext [] cs) (sample_env 1) sample_req (Some c)) (sample_adb\<lparr>a_mfa_settings := [sample_mfa]\<rparr>)
          = (WriteJSON 200 ''disabled'', d')
    \<and> GetMFASettings (Some 11) d' = Inr m' \<and> \<not> Mfa_TotpEnabled m' \<and> Mfa_TotpSecret m' = None"
proof -
  let ?x = "sample_aext [] [mfa_claims sample_svc (sample_env 0) (replicate (unat (1::uuid)) CHR ''u'') ''uuuuuuuuuuu'']"
  let ?d = "sample_adb\<lparr>a_mfa_settings := [sample_mfa]\<rparr>"
  have tok: "IssueMFAChallengeToken ?x sample_svc (sample_env 0) 0 ''uuuuuuuuuuu'' = Some ''uuuuuuuuuuu.m''"
    by (simp add: IssueMFAChallengeToken_def sample_token_text_def mfa_claims_def)
  have reads: "jwt_reads ?x (T_privateKey sample_svc) (T_publicKey sample_svc)
      (mfa_claims sample_svc (sample_env 0) (x_uuid_string (a_ext ?x) (e_uuid (sample_env 0) 0)) ''uuuuuuuuuuu'')"
    using sample_mfa_reads by (simp add: sample_env_simps)
  have now: "e_now (sample_env 1) < NewNumericDate (e_now (sample_env 0) + mfaChallengeTTL)"
    by (simp add: sample_env_simps NewNumericDate_def)
  have scan: "x_uuid_scan (a_ext ?x) ''uuuuuuuuuuu'' = Some 11" by simp
  have m: "GetMFASettings (Some 11) ?d = Inr sample_mfa" "Mfa_TotpEnabled sample_mfa"
    by (simp_all add: GetMFASettings_def query_one_def sample_mfa_def)
  have k: "T_publicKey sample_svc = ''pk''" "T_issuer sample_svc = ''zag''" by (simp_all add: sample_svc_def)
  have "''uuuuuuuuuuu.m'' \<noteq> ''''" by simp
  from challenge_token_is_access_token [OF tok this reads now scan m sample_env_simps(3), of None sample_req]
  show ?thesis unfolding k by blast
qed

section \<open>Backup codes\<close>

lemma finish_challenge_codes:
  "finish_challenge x env svc maxAge rand req usr meta d = (r, d') \<Longrightarrow> a_backup_codes d' = a_backup_codes d"
  by (auto simp: finish_challenge_def issueTokens_def session_Create_def CreateSession_def CreateRefreshToken_def Let_def
      audit_Log_def CreateAuditLog_def split: sum.splits option.splits prod.splits if_splits)

lemma ListUnused_Mark:
  assumes "distinct (map Code_ID (a_backup_codes d))" and "c \<in> set (a_backup_codes d)"
  shows "ListUnusedBackupCodes u (MarkBackupCodeUsed env (Some (Code_ID c)) d) = filter (\<lambda>r. r \<noteq> c) (ListUnusedBackupCodes u d)"
proof -
  have "filter (\<lambda>r. sql_eq (Some (Code_UserID r)) u \<and> Code_UsedAt r = None)
      (update_where (\<lambda>r. Code_ID r = Code_ID c) (\<lambda>r. r\<lparr>Code_UsedAt := Some (e_now env)\<rparr>) rs)
    = filter (\<lambda>r. r \<noteq> c) (filter (\<lambda>r. sql_eq (Some (Code_UserID r)) u \<and> Code_UsedAt r = None) rs)"
    if "\<And>r. r \<in> set rs \<Longrightarrow> Code_ID r = Code_ID c \<longrightarrow> r = c" for rs
    using that by (induction rs) (auto simp: update_where_def)
  moreover have "Code_ID r = Code_ID c \<longrightarrow> r = c" if "r \<in> set (a_backup_codes d)" for r
    using assms that by (auto simp: distinct_map inj_on_def)
  ultimately show ?thesis by (simp add: ListUnusedBackupCodes_def MarkBackupCodeUsed_def)
qed


definition sample_code :: "uuid \<Rightarrow> string \<Rightarrow> MfaBackupCode" where
  "sample_code i h = \<lparr>Code_ID = i, Code_UserID = 11, Code_CodeHash = h, Code_UsedAt = None, Code_CreatedAt = 0\<rparr>"

definition sample_codes_db :: adb where
  "sample_codes_db = sample_adb\<lparr>a_backup_codes := [sample_code 31 ''haaaa'', sample_code 32 ''hbbbb'']\<rparr>"

definition sample_answer :: json where
  "sample_answer = JObj [(''mfa_token'', JStr ''uuuuuuuuuuu.m''), (''code'', JStr ''bbbb'')]"

definition sample_x :: aext where
  "sample_x = sample_aext [sample_answer] [sample_claims]"

lemma sample_challenge_user:
  "challenge_user sample_x (sample_env 0) sample_svc [VRequired] (json_text sample_answer) = Inr (11, ''bbbb'')"
proof -
  have "ValidateMFAChallengeToken sample_x sample_svc (sample_env 0) ''uuuuuuuuuuu.m'' = Some ''uuuuuuuuuuu''"
    by (simp add: ValidateMFAChallengeToken_def sample_x_def sample_claims_def mfa_claims_def sample_token_text_def
        sample_svc_def sample_env_simps NewNumericDate_def)
  moreover have "decode_challengeRequest sample_answer = Some \<lparr>CH_MFAToken = ''uuuuuuuuuuu.m'', CH_Code = ''bbbb''\<rparr>"
    by code_simp
  ultimately show ?thesis
    by (simp add: challenge_user_def sample_x_def auth_validate_def sample_validate_def)
qed

lemma sample_codes_simps:
  "a_users (MarkBackupCodeUsed env i sample_codes_db) = [sample_user]" "a_sessions (MarkBackupCodeUsed env i sample_codes_db) = [sample_session]"
  "a_refresh_tokens (MarkBackupCodeUsed env i sample_codes_db) = [sample_rt]"
  by (simp_all add: MarkBackupCodeUsed_def sample_codes_db_def sample_auth_simps)

lemma sample_finish:
  assumes "a_users d = [sample_user]" "a_sessions d = [sample_session]" "a_refresh_tokens d = [sample_rt]"
  obtains r cks d' where "finish_challenge sample_x (sample_env 0) sample_svc 60 sample_bytes sample_req 11 meta d = ((WriteJSON 200 r, cks), d')"
proof -
  have hash: "RT_TokenHash sample_rt \<noteq> HashToken sample_x (Base64URLEncode (replicate 32 CHR ''r''))"
    unfolding HashToken_def sample_auth_simps sample_x_def by code_simp
  obtain s where s: "session_Create sample_x (sample_env 0) 0 60 11 sample_req '''' d = Inr (s, d\<lparr>a_sessions := [sample_session, s]\<rparr>)"
    by (simp add: session_Create_def CreateSession_def assms Let_def sample_env_simps sample_auth_simps)
  obtain t w where t: "CreateRefreshToken (sample_env 0) 1 11 (ASess_ID s) (HashToken sample_x (Base64URLEncode (replicate 32 CHR ''r'')))
      (7 * usec_per_day) (d\<lparr>a_sessions := [sample_session, s]\<rparr>) = Inr (t, w)"
    using hash assms by (simp add: CreateRefreshToken_def Let_def sample_auth_simps sample_env_simps)
  have u: "auth_GetUserByID (Some 11) d = Inr sample_user" by (simp add: auth_GetUserByID_def query_one_def assms sample_auth_simps)
  have "\<exists>r ck. issueTokens sample_x (sample_env 0) sample_svc 60 sample_bytes sample_req 11 d = (Some (r, ck), w)"
    using s t u by (simp add: issueTokens_def GenerateRefreshToken_def sample_bytes_def sample_env_simps sample_auth_simps
        IssueAccessToken_def sample_x_def)
  then show ?thesis using that by (auto simp: finish_challenge_def OkResponse_def)
qed


end
