(* ===== verification/AuthEnrolment.thy ===== *)
theory AuthEnrolment
  imports AuthLogin
begin

text \<open>
  Enrolling a second factor, from setting up a secret to the stored backup codes, and linking a
  provider's identity to an existing account.
\<close>

section \<open>Enrolment\<close>

text \<open>Documented behaviour of bcrypt: a hash accepts the text it was made from.\<close>

definition bcrypt_sound :: "aext \<Rightarrow> bool" where
  "bcrypt_sound x \<longleftrightarrow> (\<forall>i p h. a_bcrypt x i p = Some h \<longrightarrow> a_bcrypt_ok x h p)"

lemma backup_codes_from_spec:
  assumes "backup_codes_from x rnd i n = Some cs"
    and "bcrypt_sound x"
  shows "length cs = n \<and> (\<forall>k < n. VerifyBackupCode x (fst (cs ! k)) (snd (cs ! k)))"
  using assms(1)
proof (induction n arbitrary: i cs)
  case (Suc n)
  then obtain plain hash rest where "cs = (plain, hash) # rest" "backup_codes_from x rnd (Suc i) n = Some rest"
      "a_bcrypt x i plain = Some hash"
    by (auto simp: Let_def split: option.splits)
  then show ?case using Suc.IH [of "Suc i" rest] assms(2) by (auto simp: bcrypt_sound_def VerifyBackupCode_def nth_Cons split: nat.splits)
qed simp

lemma copy_codes_spec:
  "map Code_CodeHash (copy_codes env n ps) = map snd ps \<and> map Code_UserID (copy_codes env n ps) = map fst ps
    \<and> (\<forall>c \<in> set (copy_codes env n ps). Code_UsedAt c = None)"
  by (induction ps arbitrary: n) auto

lemma generate_codes_spec:
  assumes "generateAndStoreBackupCodes x env n rnd usr d = (Some codes, d')" and "\<And>call k. \<not> e_fault env call k"
    and "bcrypt_sound x"
  shows "length codes = 10 \<and> length (ListUnusedBackupCodes (Some usr) d') = 10
    \<and> (\<forall>k < 10. VerifyBackupCode x (codes ! k) (Code_CodeHash (ListUnusedBackupCodes (Some usr) d' ! k)))
    \<and> a_mfa_settings d' = a_mfa_settings d"
proof -
  let ?d = "DeleteBackupCodes (Some usr) d"
  obtain cs k where cs: "GenerateBackupCodes x rnd = Some cs" "codes = map fst cs"
      and new: "CreateBackupCodes env n (map (\<lambda>c. (usr, snd c)) cs) ?d = Inr (k, d')"
    using assms(1,2) by (auto simp: generateAndStoreBackupCodes_def try_exec_def Let_def split: option.splits sum.splits)
  let ?rs = "copy_codes env n (map (\<lambda>c. (usr, snd c)) cs)"
  have spec: "length cs = 10" "\<forall>k < 10. VerifyBackupCode x (fst (cs ! k)) (snd (cs ! k))"
    using backup_codes_from_spec [OF cs(1) [unfolded GenerateBackupCodes_def] assms(3)] by auto
  have d': "a_backup_codes d' = a_backup_codes ?d @ ?rs" "a_mfa_settings d' = a_mfa_settings d"
    using new by (auto simp: CreateBackupCodes_def DeleteBackupCodes_def Let_def split: if_splits)
  have copy: "map Code_CodeHash ?rs = map snd cs" "\<forall>c \<in> set ?rs. Code_UsedAt c = None" "map Code_UserID ?rs = map (\<lambda>_. usr) cs"
    using copy_codes_spec [of env n "map (\<lambda>c. (usr, snd c)) cs"] by (auto simp: o_def)
  have "Code_UserID c = usr" if "c \<in> set ?rs" for c
    using that arg_cong [OF copy(3), of set] by auto
  then have unused: "ListUnusedBackupCodes (Some usr) d' = ?rs"
    using copy(2) by (simp add: ListUnusedBackupCodes_def d' DeleteBackupCodes_def delete_where_def filter_empty_conv)
  have len: "length ?rs = 10" using arg_cong [OF copy(1), of length] spec(1) by simp
  have "Code_CodeHash (?rs ! k) = snd (cs ! k)" if "k < 10" for k
    using arg_cong [OF copy(1), of "\<lambda>l. l ! k"] that len spec(1) by simp
  then show ?thesis using spec len cs(2) d'(2) by (simp add: unused)
qed

lemma Upsert_then_Get:
  assumes "UpsertMFASettings env n usr s b d = Inr (m, d')"
  shows "GetMFASettings (Some usr) d' = Inr m \<and> Mfa_TotpSecret m = s \<and> Mfa_TotpEnabled m = b"
  using assms
  by (auto simp: UpsertMFASettings_def GetMFASettings_def Let_def query_one_def find_update_same find_append_one
      split: option.splits if_splits)

lemma Enable_then_Get:
  assumes "GetMFASettings (Some usr) d = Inr m"
  shows "\<exists>m'. GetMFASettings (Some usr) (EnableTOTP env (Some usr) d) = Inr m' \<and> Mfa_TotpEnabled m' \<and> Mfa_TotpSecret m' = Mfa_TotpSecret m"
  using assms by (simp add: GetMFASettings_def EnableTOTP_def query_one_update_same)


definition sample_otp :: json where
  "sample_otp = JObj [(''code'', JStr ''123456'')]"

lemma sample_generate:
  "GenerateBackupCodes (sample_aext [sample_otp] []) (\<lambda>_. sample_bytes) = Some (replicate 10 (''7272-7272'', ''h7272-7272''))"
  by code_simp

lemma sample_distinct_ids: "distinct (map Code_ID (copy_codes (sample_env 1) 1 (replicate 10 (11, ''h7272-7272''))))"
  by code_simp

lemma sample_store_codes:
  assumes "a_users d = [sample_user]" "a_backup_codes d = []"
  obtains w where "generateAndStoreBackupCodes (sample_aext [sample_otp] []) (sample_env 1) 1 (\<lambda>_. sample_bytes) 11 d
    = (Some (replicate 10 ''7272-7272''), w)"
proof -
  have "\<exists>w. CreateBackupCodes (sample_env 1) 1 (replicate 10 (11, ''h7272-7272'')) (DeleteBackupCodes (Some 11) d) = Inr (10, w)"
    using sample_distinct_ids assms by (simp add: CreateBackupCodes_def DeleteBackupCodes_def delete_where_def Let_def sample_auth_simps)
  then show ?thesis using that by (auto simp: generateAndStoreBackupCodes_def sample_generate try_exec_def sample_env_simps)
qed


section \<open>Linking by email\<close>

text \<open>
  Account takeover through an unverified address: a Google profile whose address is not verified,
  seen for the first time, is linked to the account that already has this address, and the callback
  goes on as that account. The code decodes the flag that says whether the address was verified and
  never looks at it.
\<close>

theorem unverified_email_links_account:
  assumes "get tok userInfoEndpoint = Some (200, body)" and "x_json ex body = Some j"
    and "decode_userInfoResponse j = Some info" and "\<not> GI_EmailVerified info" and "GI_Email info \<noteq> ''''"
    and "victim \<in> set (a_users d)" and "AU_Email victim = GI_Email info" and "distinct (map AU_Email (a_users d))"
    and "\<And>i. i \<in> set (a_identities d) \<Longrightarrow> \<not> (Ident_Provider i = ''google'' \<and> Ident_ProviderID i = GI_Sub info) \<and> Ident_ID i \<noteq> e_uuid env 0"
    and "\<And>call k. \<not> e_fault env call k"
  shows "\<exists>ui d'. google_fetchUser ex get tok = Some ui \<and> resolveUser env ''google'' ui d = (Some victim, d')
    \<and> (\<exists>i \<in> set (a_identities d'). Ident_UserID i = AU_ID victim \<and> Ident_Provider i = ''google'' \<and> Ident_ProviderID i = GI_Sub info)"
proof -
  let ?ui = "\<lparr>UI_ProviderID = GI_Sub info, UI_Email = GI_Email info, UI_DisplayName = GI_Name info, UI_AvatarURL = GI_Picture info\<rparr>"
  have fetch: "google_fetchUser ex get tok = Some ?ui" using assms(1-3) by (simp add: google_fetchUser_def apiGet_def)
  have none: "GetOAuthIdentity ''google'' (GI_Sub info) d = Inl ErrNoRows"
    using assms(9) by (simp add: GetOAuthIdentity_def query_one_NoRows_iff)
  have email: "auth_GetUserByEmail (GI_Email info) d = Inr victim"
    unfolding auth_GetUserByEmail_def by (rule query_one_unique) (use assms(6-8) distinct_key_eq [OF assms(8)] in auto)
  have "\<exists>i d'. CreateOAuthIdentity env 0 (AU_ID victim) ''google'' (GI_Sub info) (Some (GI_Email info)) (Some (GI_Name info))
      (Some (GI_Picture info)) d = Inr (i, d') \<and> i \<in> set (a_identities d') \<and> Ident_UserID i = AU_ID victim
      \<and> Ident_Provider i = ''google'' \<and> Ident_ProviderID i = GI_Sub info"
    using assms(6,9) by (auto simp: CreateOAuthIdentity_def Let_def)
  then show ?thesis
    using fetch none email assms(5,10) by (auto simp: resolveUser_def)
qed

theorem unverified_email_links_account_witness:
  "\<exists>js get ui d'. google_fetchUser (sample_ext js) get ''t'' = Some ui
    \<and> resolveUser (sample_env 0) ''google'' ui sample_adb = (Some sample_user, d')
    \<and> (\<exists>i \<in> set (a_identities d'). Ident_UserID i = 11 \<and> Ident_ProviderID i = ''g9'')"
proof -
  let ?j = "JObj [(''sub'', JStr ''g9''), (''email'', JStr ''ann@acme''), (''email_verified'', JBool False)]"
  let ?info = "\<lparr>GI_Sub = ''g9'', GI_Email = ''ann@acme'', GI_EmailVerified = False, GI_Name = '''', GI_Picture = ''''\<rparr>"
  let ?get = "\<lambda>t u. Some (200, json_text ?j)"
  have dec: "decode_userInfoResponse ?j = Some ?info" by code_simp
  have js: "x_json (sample_ext [?j]) (json_text ?j) = Some ?j" by simp
  have u: "sample_user \<in> set (a_users sample_adb)" "AU_Email sample_user = GI_Email ?info" "distinct (map AU_Email (a_users sample_adb))"
    by (simp_all add: sample_auth_simps sample_login_simps)
  have i: "\<not> (Ident_Provider i = ''google'' \<and> Ident_ProviderID i = GI_Sub ?info) \<and> Ident_ID i \<noteq> e_uuid (sample_env 0) 0"
    if "i \<in> set (a_identities sample_adb)" for i
    using that by (simp add: sample_adb_def empty_adb_def)
  from unverified_email_links_account [of ?get "''t''" "json_text ?j" "sample_ext [?j]" ?j ?info, OF _ js dec _ _ u i sample_env_simps(3)]
  have "\<exists>ui d'. google_fetchUser (sample_ext [?j]) ?get ''t'' = Some ui \<and> resolveUser (sample_env 0) ''google'' ui sample_adb = (Some sample_user, d')
    \<and> (\<exists>i \<in> set (a_identities d'). Ident_UserID i = AU_ID sample_user \<and> Ident_Provider i = ''google'' \<and> Ident_ProviderID i = GI_Sub ?info)"
    by simp
  then show ?thesis unfolding sample_auth_simps userInfoResponse.simps by blast
qed

end
