(* ===== verification/AuthOrgs.thy ===== *)
theory AuthOrgs
  imports AuthSessions
begin

text \<open>
  The organization and invitation endpoints of the auth service (\<open>auth/internal/handler/org\<close>,
  \<open>handler/invite\<close>). A handler takes the claims of the token, the URL parameters and the body, and
  returns its reply with the new database. Printing a time in the layout of RFC 3339 is the parameter
  \<open>fmt\<close>.
\<close>

abbreviation ErrInvalidUserID :: string where "ErrInvalidUserID \<equiv> ''invalid user id''"
abbreviation ErrInvalidOrgID :: string where "ErrInvalidOrgID \<equiv> ''invalid org id''"

section \<open>What the handlers share\<close>

text \<open>\<open>ParseUUIDParam\<close> (\<open>handler/helpers.go\<close>).\<close>

definition ParseUUIDParam :: "aext \<Rightarrow> string \<Rightarrow> uuid option" where
  "ParseUUIDParam x s = x_uuid_scan (a_ext x) s"

text \<open>The checks that open a handler: the user of the claims and the organization of the URL.\<close>

definition actor_and_org :: "aext \<Rightarrow> jwt_claims option \<Rightarrow> string \<Rightarrow> 'a reply + uuid \<times> uuid" where
  "actor_and_org x claims orgID =
     (case auth_UserIDFromContext x claims of
        Inl _ \<Rightarrow> Inl (ErrResponse 401 ErrInvalidUserID)
      | Inr actor \<Rightarrow>
        (case ParseUUIDParam x orgID of
           None \<Rightarrow> Inl (ErrResponse 400 ErrInvalidOrgID)
         | Some org \<Rightarrow> Inr (actor, org)))"

text \<open>The same with \<open>RequireOrgAdminOrOwner\<close> behind it.\<close>

definition org_admin :: "aext \<Rightarrow> env \<Rightarrow> jwt_claims option \<Rightarrow> string \<Rightarrow> adb \<Rightarrow> 'a reply + uuid \<times> uuid" where
  "org_admin x env claims orgID d =
     (case actor_and_org x claims orgID of
        Inl r \<Rightarrow> Inl r
      | Inr (actor, org) \<Rightarrow>
          if RequireOrgAdminOrOwner env 0 (Some org) (Some actor) d then Inr (actor, org)
          else Inl (ErrResponse 403 ErrForbidden))"

text \<open>Decoding and validating a body.\<close>

definition read_body :: "aext \<Rightarrow> (json \<Rightarrow> 'b option) \<Rightarrow> ('b \<Rightarrow> vfield list) \<Rightarrow> string \<Rightarrow> 'a reply + 'b" where
  "read_body x decode rules body =
     (case Option.bind (x_json (a_ext x) body) decode of
        None \<Rightarrow> Inl (ErrResponse 400 ErrDecode)
      | Some b \<Rightarrow> (case auth_validate x (rules b) of Some err \<Rightarrow> Inl (ErrResponse 400 err) | None \<Rightarrow> Inr b))"

definition opt_text :: "pg_text \<Rightarrow> string" where
  "opt_text t = (case t of None \<Rightarrow> '''' | Some s \<Rightarrow> s)"

section \<open>Responses and requests\<close>

record auth_orgResponse =
  OrgR_ID :: string
  OrgR_Slug :: string
  OrgR_Name :: string
  OrgR_LogoURL :: string
  OrgR_Plan :: string
  OrgR_BillingEmail :: string
  OrgR_MaxMembers :: int
  OrgR_CreatedAt :: string

definition toOrgResponse :: "aext \<Rightarrow> (timestamp \<Rightarrow> string) \<Rightarrow> AuthOrganization \<Rightarrow> auth_orgResponse" where
  "toOrgResponse x fmt g = \<lparr>OrgR_ID = UUIDToString (a_ext x) (Some (AOrg_ID g)), OrgR_Slug = AOrg_Slug g,
     OrgR_Name = AOrg_Name g, OrgR_LogoURL = opt_text (AOrg_LogoUrl g), OrgR_Plan = AOrg_Plan g,
     OrgR_BillingEmail = opt_text (AOrg_BillingEmail g), OrgR_MaxMembers = AOrg_MaxMembers g,
     OrgR_CreatedAt = fmt (AOrg_CreatedAt g)\<rparr>"

record memberResponse =
  MemR_ID :: string
  MemR_UserID :: string
  MemR_Email :: string
  MemR_FirstName :: string
  MemR_LastName :: string
  MemR_AvatarURL :: string
  MemR_Role :: string
  MemR_JoinedAt :: string

definition toMemberResponse :: "aext \<Rightarrow> (timestamp \<Rightarrow> string) \<Rightarrow> ListOrgMembersRow \<Rightarrow> memberResponse" where
  "toMemberResponse x fmt m = \<lparr>MemR_ID = UUIDToString (a_ext x) (Some (OMR_ID m)),
     MemR_UserID = UUIDToString (a_ext x) (Some (OMR_UserID m)), MemR_Email = OMR_Email m,
     MemR_FirstName = opt_text (OMR_FirstName m), MemR_LastName = opt_text (OMR_LastName m),
     MemR_AvatarURL = opt_text (OMR_AvatarUrl m), MemR_Role = OMR_Role m, MemR_JoinedAt = fmt (OMR_CreatedAt m)\<rparr>"

record createOrgRequest =
  COR_Slug :: string
  COR_Name :: string

definition decode_createOrgRequest :: "json \<Rightarrow> createOrgRequest option" where
  "decode_createOrgRequest j =
     (case j of
        JNull \<Rightarrow> Some \<lparr>COR_Slug = '''', COR_Name = ''''\<rparr>
      | JObj ms \<Rightarrow> (case (str_field ''slug'' '''' ms, str_field ''name'' '''' ms) of
          (Some s, Some n) \<Rightarrow> Some \<lparr>COR_Slug = s, COR_Name = n\<rparr> | _ \<Rightarrow> None)
      | _ \<Rightarrow> None)"

definition createOrgRequest_fields :: "createOrgRequest \<Rightarrow> vfield list" where
  "createOrgRequest_fields r = [(''Slug'', [VRequired, VMin 2, VMax 50], VStr (COR_Slug r)),
     (''Name'', [VRequired, VMin 1, VMax 100], VStr (COR_Name r))]"

record updateOrgRequest =
  UOR_Name :: string
  UOR_LogoURL :: string
  UOR_BillingEmail :: string

definition decode_updateOrgRequest :: "json \<Rightarrow> updateOrgRequest option" where
  "decode_updateOrgRequest j =
     (case j of
        JNull \<Rightarrow> Some \<lparr>UOR_Name = '''', UOR_LogoURL = '''', UOR_BillingEmail = ''''\<rparr>
      | JObj ms \<Rightarrow>
          (case (str_field ''name'' '''' ms, str_field ''logo_url'' '''' ms, str_field ''billing_email'' '''' ms) of
             (Some n, Some l, Some b) \<Rightarrow> Some \<lparr>UOR_Name = n, UOR_LogoURL = l, UOR_BillingEmail = b\<rparr> | _ \<Rightarrow> None)
      | _ \<Rightarrow> None)"

definition updateOrgRequest_fields :: "updateOrgRequest \<Rightarrow> vfield list" where
  "updateOrgRequest_fields r = [(''Name'', [VRequired, VMin 1, VMax 100], VStr (UOR_Name r)),
     (''LogoURL'', [VMax 500], VStr (UOR_LogoURL r)),
     (''BillingEmail'', [VOmitEmpty, VEmail, VMax 255], VStr (UOR_BillingEmail r))]"

text \<open>Bodies with a single string member.\<close>

definition decode_single :: "string \<Rightarrow> json \<Rightarrow> string option" where
  "decode_single name j = (case j of JNull \<Rightarrow> Some '''' | JObj ms \<Rightarrow> str_field name '''' ms | _ \<Rightarrow> None)"

definition updateRoleRequest_fields :: "string \<Rightarrow> vfield list" where
  "updateRoleRequest_fields role = [(''Role'', [VRequired, VOneof [''admin'', ''member'']], VStr role)]"

definition transferRequest_fields :: "string \<Rightarrow> vfield list" where
  "transferRequest_fields i = [(''NewOwnerID'', [VRequired, VUUID], VStr i)]"

section \<open>Organizations (\<open>org.go\<close>)\<close>

definition org_Create ::
  "aext \<Rightarrow> env \<Rightarrow> (timestamp \<Rightarrow> string) \<Rightarrow> jwt_claims option \<Rightarrow> areq \<Rightarrow> string \<Rightarrow> adb \<Rightarrow> auth_orgResponse reply \<times> adb" where
  "org_Create x env fmt claims req body d =
     (case auth_UserIDFromContext x claims of
        Inl _ \<Rightarrow> (ErrResponse 401 ErrInvalidUserID, d)
      | Inr usr \<Rightarrow>
        (case read_body x decode_createOrgRequest createOrgRequest_fields body of
           Inl r \<Rightarrow> (r, d)
         | Inr b \<Rightarrow>
           (case guarded env ''CreateOrganization'' 0 (CreateOrganization env 0 (COR_Slug b) (COR_Name b) d) of
              Inl _ \<Rightarrow> (ErrResponse 500 ErrInternal, d)
            | Inr (org, d1) \<Rightarrow>
              (case guarded env ''CreateOrgMembership'' 0 (CreateOrgMembership env 1 (AOrg_ID org) usr ''owner'' d1) of
                 Inl _ \<Rightarrow> (ErrResponse 500 ErrInternal, d1)
               | Inr (_, d2) \<Rightarrow> (WriteJSON 201 (toOrgResponse x fmt org),
                   audit_Log x env 2 0 (Some (AOrg_ID org)) (Some usr) ''org.created'' '''' None (Some req) None d2)))))"

definition org_List ::
  "aext \<Rightarrow> env \<Rightarrow> (timestamp \<Rightarrow> string) \<Rightarrow> jwt_claims option \<Rightarrow> adb \<Rightarrow> auth_orgResponse list reply" where
  "org_List x env fmt claims d =
     (case auth_UserIDFromContext x claims of
        Inl _ \<Rightarrow> ErrResponse 401 ErrInvalidUserID
      | Inr usr \<Rightarrow> if e_fault env ''ListUserOrganizations'' 0 then ErrResponse 500 ErrInternal
          else OkResponse (map (toOrgResponse x fmt) (ListUserOrganizations (Some usr) d)))"

definition org_Get :: "aext \<Rightarrow> env \<Rightarrow> (timestamp \<Rightarrow> string) \<Rightarrow> string \<Rightarrow> adb \<Rightarrow> auth_orgResponse reply" where
  "org_Get x env fmt orgID d =
     (case ParseUUIDParam x orgID of
        None \<Rightarrow> ErrResponse 400 ErrInvalidOrgID
      | Some org \<Rightarrow>
        (case guarded env ''GetOrganizationByID'' 0 (auth_GetOrganizationByID (Some org) d) of
           Inl _ \<Rightarrow> ErrResponse 404 ''organization not found''
         | Inr g \<Rightarrow> OkResponse (toOrgResponse x fmt g)))"

definition org_Update ::
  "aext \<Rightarrow> env \<Rightarrow> (timestamp \<Rightarrow> string) \<Rightarrow> jwt_claims option \<Rightarrow> areq \<Rightarrow> string \<Rightarrow> string \<Rightarrow> adb
    \<Rightarrow> auth_orgResponse reply \<times> adb" where
  "org_Update x env fmt claims req orgID body d =
     (case org_admin x env claims orgID d of
        Inl r \<Rightarrow> (r, d)
      | Inr (usr, org) \<Rightarrow>
        (case read_body x decode_updateOrgRequest updateOrgRequest_fields body of
           Inl r \<Rightarrow> (r, d)
         | Inr b \<Rightarrow>
           (case guarded env ''UpdateOrganization'' 0 (auth_UpdateOrganization env (Some org) (UOR_Name b)
              (text_opt (UOR_LogoURL b)) (text_opt (UOR_BillingEmail b)) d) of
              Inl _ \<Rightarrow> (ErrResponse 500 ErrInternal, d)
            | Inr (g, d1) \<Rightarrow> (OkResponse (toOrgResponse x fmt g),
                audit_Log x env 0 0 (Some org) (Some usr) ''org.updated'' '''' None (Some req) None d1))))"

text \<open>\<open>requireOwner\<close>: the message of its error, or \<open>None\<close>.\<close>

definition requireOwner :: "env \<Rightarrow> uuid \<Rightarrow> uuid \<Rightarrow> adb \<Rightarrow> string option" where
  "requireOwner env org usr d =
     (case guarded env ''GetOrgMembership'' 0 (GetOrgMembership (Some org) (Some usr) d) of
        Inl _ \<Rightarrow> Some ErrForbidden
      | Inr m \<Rightarrow> if OM_Role m \<noteq> ''owner'' then Some ''only the owner can perform this action'' else None)"

definition org_Delete ::
  "aext \<Rightarrow> env \<Rightarrow> jwt_claims option \<Rightarrow> areq \<Rightarrow> string \<Rightarrow> adb \<Rightarrow> string reply \<times> adb" where
  "org_Delete x env claims req orgID d =
     (case actor_and_org x claims orgID of
        Inl r \<Rightarrow> (r, d)
      | Inr (usr, org) \<Rightarrow>
        (case requireOwner env org usr d of
           Some err \<Rightarrow> (ErrResponse 403 err, d)
         | None \<Rightarrow>
             if e_fault env ''DeleteOrganization'' 0 then (ErrResponse 500 ErrInternal, d)
             else (WriteJSON 200 ''deleted'',
               audit_Log x env 0 0 (Some org) (Some usr) ''org.deleted'' '''' None (Some req) None
                 (auth_DeleteOrganization (Some org) d))))"

section \<open>Members (\<open>members.go\<close>)\<close>

definition org_ListMembers :: "aext \<Rightarrow> env \<Rightarrow> (timestamp \<Rightarrow> string) \<Rightarrow> string \<Rightarrow> adb \<Rightarrow> memberResponse list reply" where
  "org_ListMembers x env fmt orgID d =
     (case ParseUUIDParam x orgID of
        None \<Rightarrow> ErrResponse 400 ErrInvalidOrgID
      | Some org \<Rightarrow> if e_fault env ''ListOrgMembers'' 0 then ErrResponse 500 ErrInternal
          else OkResponse (map (toMemberResponse x fmt) (ListOrgMembers (Some org) d)))"

text \<open>The target of a change must be a member who is not the owner.\<close>

definition other_member :: "env \<Rightarrow> uuid \<Rightarrow> uuid \<Rightarrow> adb \<Rightarrow> 'a reply option" where
  "other_member env org target d =
     (case guarded env ''GetOrgMembership'' 1 (GetOrgMembership (Some org) (Some target) d) of
        Inl _ \<Rightarrow> Some (ErrResponse 404 ''member not found'')
      | Inr m \<Rightarrow> if OM_Role m = ''owner'' then Some (ErrResponse 403 ''cannot remove the org owner'') else None)"

definition org_UpdateMemberRole ::
  "aext \<Rightarrow> env \<Rightarrow> jwt_claims option \<Rightarrow> areq \<Rightarrow> string \<Rightarrow> string \<Rightarrow> string \<Rightarrow> adb \<Rightarrow> string reply \<times> adb" where
  "org_UpdateMemberRole x env claims req orgID userID body d =
     (case org_admin x env claims orgID d of
        Inl r \<Rightarrow> (r, d)
      | Inr (actor, org) \<Rightarrow>
        (case ParseUUIDParam x userID of
           None \<Rightarrow> (ErrResponse 400 ErrInvalidUserID, d)
         | Some target \<Rightarrow>
           (case read_body x (decode_single ''role'') updateRoleRequest_fields body of
              Inl r \<Rightarrow> (r, d)
            | Inr role \<Rightarrow>
              (case other_member env org target d of
                 Some r \<Rightarrow> (r, d)
               | None \<Rightarrow>
                 (case guarded env ''UpdateOrgMemberRole'' 0 (UpdateOrgMemberRole env (Some org) (Some target) role d) of
                    Inl _ \<Rightarrow> (ErrResponse 500 ErrInternal, d)
                  | Inr d1 \<Rightarrow> (WriteJSON 200 ''updated'',
                      audit_Log x env 0 0 (Some org) (Some actor) ''org.member.role_changed'' ''user'' (Some target)
                        (Some req) (Some (''{\"role\":\"'' @ role @ ''\"}'')) d1))))))"

definition org_RemoveMember ::
  "aext \<Rightarrow> env \<Rightarrow> jwt_claims option \<Rightarrow> areq \<Rightarrow> string \<Rightarrow> string \<Rightarrow> adb \<Rightarrow> string reply \<times> adb" where
  "org_RemoveMember x env claims req orgID userID d =
     (case org_admin x env claims orgID d of
        Inl r \<Rightarrow> (r, d)
      | Inr (actor, org) \<Rightarrow>
        (case ParseUUIDParam x userID of
           None \<Rightarrow> (ErrResponse 400 ErrInvalidUserID, d)
         | Some target \<Rightarrow>
           (case other_member env org target d of
              Some r \<Rightarrow> (r, d)
            | None \<Rightarrow>
                if e_fault env ''DeleteOrgMembership'' 0 then (ErrResponse 500 ErrInternal, d)
                else (WriteJSON 200 ''removed'',
                  audit_Log x env 0 0 (Some org) (Some actor) ''org.member.removed'' ''user'' (Some target) (Some req) None
                    (DeleteOrgMembership (Some org) (Some target) d)))))"

definition TransferOwnership ::
  "aext \<Rightarrow> env \<Rightarrow> jwt_claims option \<Rightarrow> areq \<Rightarrow> string \<Rightarrow> string \<Rightarrow> adb \<Rightarrow> string reply \<times> adb" where
  "TransferOwnership x env claims req orgID body d =
     (case actor_and_org x claims orgID of
        Inl r \<Rightarrow> (r, d)
      | Inr (actor, org) \<Rightarrow>
        (case requireOwner env org actor d of
           Some err \<Rightarrow> (ErrResponse 403 err, d)
         | None \<Rightarrow>
           (case read_body x (decode_single ''new_owner_id'') transferRequest_fields body of
              Inl r \<Rightarrow> (r, d)
            | Inr i \<Rightarrow>
              (case x_uuid_scan (a_ext x) i of
                 None \<Rightarrow> (ErrResponse 400 ErrInvalidUserID, d)
               | Some new \<Rightarrow>
                 (case guarded env ''GetOrgMembership'' 1 (GetOrgMembership (Some org) (Some new) d) of
                    Inl _ \<Rightarrow> (ErrResponse 404 ''member not found'', d)
                  | Inr _ \<Rightarrow>
                    (case guarded env ''UpdateOrgMemberRole'' 0 (UpdateOrgMemberRole env (Some org) (Some new) ''owner'' d) of
                       Inl _ \<Rightarrow> (ErrResponse 500 ErrInternal, d)
                     | Inr d1 \<Rightarrow>
                       (case guarded env ''UpdateOrgMemberRole'' 1 (UpdateOrgMemberRole env (Some org) (Some actor) ''admin'' d1) of
                          Inl _ \<Rightarrow> (ErrResponse 500 ErrInternal, d1)
                        | Inr d2 \<Rightarrow> (WriteJSON 200 ''transferred'',
                            audit_Log x env 0 0 (Some org) (Some actor) ''org.owner.transferred'' ''user'' (Some new)
                              (Some req) None d2))))))))"

section \<open>Invitations (\<open>invite.go\<close>)\<close>

abbreviation inviteTTL :: timestamp where "inviteTTL \<equiv> 7 * usec_per_day"

record inviteResponse =
  InvR_ID :: string
  InvR_OrgID :: string
  InvR_Email :: string
  InvR_Role :: string
  InvR_Status :: string
  InvR_ExpiresAt :: string
  InvR_CreatedAt :: string

definition toInviteResponse :: "aext \<Rightarrow> (timestamp \<Rightarrow> string) \<Rightarrow> Invite \<Rightarrow> inviteResponse" where
  "toInviteResponse x fmt i = \<lparr>InvR_ID = UUIDToString (a_ext x) (Some (Inv_ID i)),
     InvR_OrgID = UUIDToString (a_ext x) (Some (Inv_OrgID i)), InvR_Email = Inv_Email i, InvR_Role = Inv_Role i,
     InvR_Status = Inv_Status i, InvR_ExpiresAt = fmt (Inv_ExpiresAt i), InvR_CreatedAt = fmt (Inv_CreatedAt i)\<rparr>"

record createInviteRequest =
  CIR_Email :: string
  CIR_Role :: string

definition decode_createInviteRequest :: "json \<Rightarrow> createInviteRequest option" where
  "decode_createInviteRequest j =
     (case j of
        JNull \<Rightarrow> Some \<lparr>CIR_Email = '''', CIR_Role = ''''\<rparr>
      | JObj ms \<Rightarrow> (case (str_field ''email'' '''' ms, str_field ''role'' '''' ms) of
          (Some e, Some r) \<Rightarrow> Some \<lparr>CIR_Email = e, CIR_Role = r\<rparr> | _ \<Rightarrow> None)
      | _ \<Rightarrow> None)"

definition createInviteRequest_fields :: "createInviteRequest \<Rightarrow> vfield list" where
  "createInviteRequest_fields r = [(''Email'', [VRequired, VEmail, VMax 255], VStr (CIR_Email r)),
     (''Role'', [VRequired, VOneof [''admin'', ''member'']], VStr (CIR_Role r))]"

definition acceptInviteRequest_fields :: "string \<Rightarrow> vfield list" where
  "acceptInviteRequest_fields t = [(''Token'', [VRequired], VStr t)]"

definition generateInviteToken :: "rand \<Rightarrow> string option" where
  "generateInviteToken rand = map_option hex_encode (rand 32)"

text \<open>The member limit; \<open>int32\<close> is Go's conversion of the 64-bit count.\<close>

definition int32 :: "int \<Rightarrow> int" where
  "int32 n = sint (word_of_int n :: 32 word)"

definition member_limit :: "env \<Rightarrow> uuid \<Rightarrow> adb \<Rightarrow> 'a reply option" where
  "member_limit env org d =
     (case guarded env ''GetOrganizationByID'' 0 (auth_GetOrganizationByID (Some org) d) of
        Inl _ \<Rightarrow> Some (ErrResponse 500 ErrInternal)
      | Inr g \<Rightarrow>
          if e_fault env ''CountOrgMembers'' 0 then Some (ErrResponse 500 ErrInternal)
          else if int32 (CountOrgMembers (Some org) d) \<ge> AOrg_MaxMembers g
          then Some (ErrResponse 403 ''organization has reached its member limit'') else None)"

definition invite_Create ::
  "aext \<Rightarrow> env \<Rightarrow> (timestamp \<Rightarrow> string) \<Rightarrow> rand \<Rightarrow> jwt_claims option \<Rightarrow> areq \<Rightarrow> string \<Rightarrow> string \<Rightarrow> adb
    \<Rightarrow> (inviteResponse \<times> string) reply \<times> adb" where
  "invite_Create x env fmt rand claims req orgID body d =
     (case org_admin x env claims orgID d of
        Inl r \<Rightarrow> (r, d)
      | Inr (actor, org) \<Rightarrow>
        (case read_body x decode_createInviteRequest createInviteRequest_fields body of
           Inl r \<Rightarrow> (r, d)
         | Inr b \<Rightarrow>
           (case member_limit env org d of
              Some r \<Rightarrow> (r, d)
            | None \<Rightarrow>
              (case generateInviteToken rand of
                 None \<Rightarrow> (ErrResponse 500 ErrInternal, d)
               | Some raw \<Rightarrow>
                 (case guarded env ''CreateInvite'' 0 (CreateInvite env 0 org None actor (CIR_Email b) (CIR_Role b)
                    (HashToken x raw) (e_now env + inviteTTL) d) of
                    Inl _ \<Rightarrow> (ErrResponse 500 ErrInternal, d)
                  | Inr (iv, d1) \<Rightarrow> (WriteJSON 201 (toInviteResponse x fmt iv, raw),
                      audit_Log x env 1 0 (Some org) (Some actor) ''invite.created'' '''' None (Some req) None d1))))))"

definition invite_ListOrgInvites ::
  "aext \<Rightarrow> env \<Rightarrow> (timestamp \<Rightarrow> string) \<Rightarrow> string \<Rightarrow> adb \<Rightarrow> inviteResponse list reply" where
  "invite_ListOrgInvites x env fmt orgID d =
     (case ParseUUIDParam x orgID of
        None \<Rightarrow> ErrResponse 400 ErrInvalidOrgID
      | Some org \<Rightarrow> if e_fault env ''ListOrgInvites'' 0 then ErrResponse 500 ErrInternal
          else OkResponse (map (toInviteResponse x fmt) (ListOrgInvites (Some org) d)))"

definition invite_Revoke ::
  "aext \<Rightarrow> env \<Rightarrow> jwt_claims option \<Rightarrow> areq \<Rightarrow> string \<Rightarrow> string \<Rightarrow> adb \<Rightarrow> string reply \<times> adb" where
  "invite_Revoke x env claims req orgID inviteID d =
     (case org_admin x env claims orgID d of
        Inl r \<Rightarrow> (r, d)
      | Inr (actor, org) \<Rightarrow>
        (case x_uuid_scan (a_ext x) inviteID of
           None \<Rightarrow> (ErrResponse 400 ''invalid invite id'', d)
         | Some i \<Rightarrow>
             if e_fault env ''RevokeInvite'' 0 then (ErrResponse 500 ErrInternal, d)
             else (WriteJSON 200 ''revoked'',
               audit_Log x env 0 0 (Some org) (Some actor) ''invite.revoked'' '''' None (Some req) None
                 (RevokeInvite (Some i) (Some org) d))))"

definition invite_Accept ::
  "aext \<Rightarrow> env \<Rightarrow> jwt_claims option \<Rightarrow> areq \<Rightarrow> string \<Rightarrow> adb \<Rightarrow> string reply \<times> adb" where
  "invite_Accept x env claims req body d =
     (case auth_UserIDFromContext x claims of
        Inl _ \<Rightarrow> (ErrResponse 401 ErrInvalidUserID, d)
      | Inr usr \<Rightarrow>
        (case read_body x (decode_single ''token'') acceptInviteRequest_fields body of
           Inl r \<Rightarrow> (r, d)
         | Inr tok \<Rightarrow>
           (case guarded env ''GetInviteByTokenHash'' 0 (GetInviteByTokenHash env (HashToken x tok) d) of
              Inl _ \<Rightarrow> (ErrResponse 400 ''invalid or expired invite token'', d)
            | Inr iv \<Rightarrow>
              (case member_limit env (Inv_OrgID iv) d of
                 Some r \<Rightarrow> (r, d)
               | None \<Rightarrow>
                 (case guarded env ''AcceptInvite'' 0 (AcceptInvite env (Some (Inv_ID iv)) d) of
                    Inl _ \<Rightarrow> (ErrResponse 500 ErrInternal, d)
                  | Inr (_, d1) \<Rightarrow>
                    (case guarded env ''CreateOrgMembership'' 0 (CreateOrgMembership env 0 (Inv_OrgID iv) usr (Inv_Role iv) d1) of
                       Inl _ \<Rightarrow> (ErrResponse 500 ErrInternal, d1)
                     | Inr (_, d2) \<Rightarrow> (WriteJSON 200 ''accepted'',
                         audit_Log x env 1 0 (Some (Inv_OrgID iv)) (Some usr) ''invite.accepted'' '''' None (Some req) None d2)))))))"

record publicInviteResponse =
  PIR_OrgName :: string
  PIR_OrgSlug :: string
  PIR_Email :: string
  PIR_Role :: string
  PIR_ExpiresAt :: string

definition GetByToken :: "aext \<Rightarrow> env \<Rightarrow> (timestamp \<Rightarrow> string) \<Rightarrow> string \<Rightarrow> adb \<Rightarrow> publicInviteResponse reply" where
  "GetByToken x env fmt tok d =
     (case guarded env ''GetInviteByTokenHash'' 0 (GetInviteByTokenHash env (HashToken x tok) d) of
        Inl _ \<Rightarrow> ErrResponse 404 ''invalid or expired invite token''
      | Inr iv \<Rightarrow>
        (case guarded env ''GetOrganizationByID'' 0 (auth_GetOrganizationByID (Some (Inv_OrgID iv)) d) of
           Inl _ \<Rightarrow> ErrResponse 500 ErrInternal
         | Inr g \<Rightarrow> OkResponse \<lparr>PIR_OrgName = AOrg_Name g, PIR_OrgSlug = AOrg_Slug g, PIR_Email = Inv_Email iv,
             PIR_Role = Inv_Role iv, PIR_ExpiresAt = fmt (Inv_ExpiresAt iv)\<rparr>))"

end
