(* ===== verification/AuthOrgSystem.thy ===== *)
theory AuthOrgSystem
  imports AuthOrgs AuthSystem
begin

text \<open>
  Who owns an organization of the auth service: under the organization and invitation endpoints an
  organization has at most one owner and keeps the one it has, as long as nobody transfers it to
  himself; the invitation life cycle and the member limit.
\<close>

section \<open>Owners\<close>

definition owners :: "uuid \<Rightarrow> adb \<Rightarrow> uuid set" where
  "owners g d = OM_UserID ` {m \<in> set (a_org_memberships d). OM_OrgID m = g \<and> OM_Role m = ''owner''}"

definition member_key :: "OrgMembership \<Rightarrow> uuid \<times> uuid" where
  "member_key m = (OM_OrgID m, OM_UserID m)"

definition invitable :: "string \<Rightarrow> bool" where
  "invitable r \<longleftrightarrow> r \<in> {''admin'', ''member''}"

text \<open>
  The keys of the migrations that matter here, the roles an invitation may carry, and at most one
  owner for every organization.
\<close>

definition org_wf :: "adb \<Rightarrow> bool" where
  "org_wf d \<longleftrightarrow> distinct (map member_key (a_org_memberships d))
     \<and> (\<forall>m \<in> set (a_org_memberships d). org_exists (OM_OrgID m) d)
     \<and> (\<forall>v \<in> set (a_invites d). invitable (Inv_Role v))
     \<and> (\<forall>g u v. u \<in> owners g d \<longrightarrow> v \<in> owners g d \<longrightarrow> u = v)"

lemma org_wfD:
  assumes "org_wf d"
  shows "distinct (map member_key (a_org_memberships d))"
    and "m \<in> set (a_org_memberships d) \<Longrightarrow> org_exists (OM_OrgID m) d"
    and "v \<in> set (a_invites d) \<Longrightarrow> invitable (Inv_Role v)"
    and "u \<in> owners g d \<Longrightarrow> w \<in> owners g d \<Longrightarrow> u = w"
  using assms unfolding org_wf_def by blast+

lemma org_wfI:
  assumes "distinct (map member_key (a_org_memberships d))"
    and "\<And>m. m \<in> set (a_org_memberships d) \<Longrightarrow> org_exists (OM_OrgID m) d"
    and "\<And>v. v \<in> set (a_invites d) \<Longrightarrow> invitable (Inv_Role v)"
    and "\<And>g u w. u \<in> owners g d \<Longrightarrow> w \<in> owners g d \<Longrightarrow> u = w"
  shows "org_wf d"
  using assms unfolding org_wf_def by blast

definition owner_safe :: "adb \<Rightarrow> adb \<Rightarrow> bool" where
  "owner_safe d d' \<longleftrightarrow> org_wf d' \<and> (\<forall>g. org_exists g d \<longrightarrow> org_exists g d' \<longrightarrow> (owners g d' = {} \<longleftrightarrow> owners g d = {}))"

lemma audit_Log_org_frame [frame_simps]:
  "a_org_memberships (audit_Log x env n k org actor act ty tgt rq meta d) = a_org_memberships d"
  "a_organizations (audit_Log x env n k org actor act ty tgt rq meta d) = a_organizations d"
  "a_invites (audit_Log x env n k org actor act ty tgt rq meta d) = a_invites d"
  "a_teams (audit_Log x env n k org actor act ty tgt rq meta d) = a_teams d"
  "a_team_memberships (audit_Log x env n k org actor act ty tgt rq meta d) = a_team_memberships d"
  "a_users (audit_Log x env n k org actor act ty tgt rq meta d) = a_users d"
  by (auto simp: audit_Log_def CreateAuditLog_def split: sum.splits if_splits)

lemma owners_cong: "a_org_memberships d' = a_org_memberships d \<Longrightarrow> owners g d' = owners g d"
  by (simp add: owners_def)

lemma owner_safe_same:
  assumes "org_wf d" and "a_org_memberships d' = a_org_memberships d"
    and "AOrg_ID ` set (a_organizations d) \<subseteq> AOrg_ID ` set (a_organizations d')"
    and "\<forall>v \<in> set (a_invites d'). invitable (Inv_Role v)"
  shows "owner_safe d d'"
  using assms by (auto simp: owner_safe_def org_wf_def owners_cong [OF assms(2)])

lemma owner_safe_same_tables:
  assumes "org_wf d" and "a_org_memberships d' = a_org_memberships d" and "a_organizations d' = a_organizations d"
    and "a_invites d' = a_invites d"
  shows "owner_safe d d'"
  using assms by (intro owner_safe_same) (auto simp: org_wf_def)

lemma owner_safe_audit:
  "owner_safe d d' \<Longrightarrow> owner_safe d (audit_Log x env n k org actor act ty tgt rq meta d')"
  unfolding owner_safe_def org_wf_def owners_def audit_Log_org_frame .

lemma owner_safe_refl: "org_wf d \<Longrightarrow> owner_safe d d"
  by (simp add: owner_safe_def)

lemma is_membership_Some [simp]: "is_membership (Some g) (Some u) = (\<lambda>m. member_key m = (g, u))"
  by (rule ext) (auto simp: is_membership_def member_key_def)

lemma owner_safe_add:
  assumes "org_wf d" and "CreateOrgMembership env n g u role d = Inr (m, d')" and "role \<noteq> ''owner''"
  shows "owner_safe d d'"
proof -
  have d': "d' = d\<lparr>a_org_memberships := a_org_memberships d @ [m]\<rparr>" "OM_OrgID m = g" "OM_UserID m = u" "OM_Role m = role"
      "org_exists g d" "(g, u) \<notin> member_key ` set (a_org_memberships d)"
    using assms(2) by (auto simp: CreateOrgMembership_def Let_def member_key_def split: if_splits)
  have "owners h d' = owners h d" for h using assms(3) by (auto simp: d' owners_def)
  then show ?thesis using assms(1) d'(2-6) by (simp add: owner_safe_def org_wf_def d'(1) member_key_def)
qed

lemma owner_safe_remove:
  assumes "org_wf d" and "u \<notin> owners g d"
  shows "owner_safe d (DeleteOrgMembership (Some g) (Some u) d)"
proof -
  let ?d = "DeleteOrgMembership (Some g) (Some u) d"
  have "owners h ?d = owners h d" for h
    using assms(2) by (auto simp: owners_def DeleteOrgMembership_def set_delete_where member_key_def)
  moreover have "distinct (map member_key (a_org_memberships ?d))"
    using assms(1) by (simp add: DeleteOrgMembership_def delete_where_def org_wf_def distinct_map_filter_key)
  ultimately show ?thesis using assms(1)
    by (auto simp: owner_safe_def org_wf_def DeleteOrgMembership_def set_delete_where)
qed

lemma owner_safe_role:
  assumes "org_wf d" and "u \<notin> owners g d" and "role \<noteq> ''owner''" and "UpdateOrgMemberRole env (Some g) (Some u) role d = Inr d'"
  shows "owner_safe d d'"
proof -
  have d': "d' = d\<lparr>a_org_memberships := update_where (\<lambda>m. member_key m = (g, u)) (\<lambda>m. m\<lparr>OM_Role := role, OM_UpdatedAt := e_now env\<rparr>)
      (a_org_memberships d)\<rparr>"
    using assms(4) by (auto simp: UpdateOrgMemberRole_def split: if_splits)
  have "owners h d' = owners h d" for h
  proof -
    have "OM_Role m \<noteq> ''owner''" if "m \<in> set (a_org_memberships d)" "member_key m = (g, u)" for m
      using assms(2) that by (auto simp: owners_def member_key_def)
    then show ?thesis using assms(3) by (auto simp: d' owners_def set_update_where image_iff)
  qed
  moreover have "map member_key (a_org_memberships d') = map member_key (a_org_memberships d)"
    by (simp add: d' map_update_where member_key_def)
  moreover have "\<forall>m \<in> set (a_org_memberships d'). org_exists (OM_OrgID m) d'"
    using assms(1) by (auto simp: org_wf_def d' set_update_where)
  ultimately show ?thesis using assms(1) by (simp add: owner_safe_def org_wf_def) (simp add: d')
qed

lemma no_owner_of_new: "org_wf d \<Longrightarrow> \<not> org_exists g d \<Longrightarrow> owners g d = {}"
  using org_wfD(2) by (fastforce simp: owners_def)

lemma CreateOrganization_safe:
  assumes "org_wf d" and "CreateOrganization env n slug name d = Inr (org, d1)"
  shows "owner_safe d d1" and "\<not> org_exists (AOrg_ID org) d" and "a_org_memberships d1 = a_org_memberships d"
    and "a_organizations d1 = a_organizations d @ [org]" and "a_invites d1 = a_invites d"
proof -
  show *: "\<not> org_exists (AOrg_ID org) d" "a_org_memberships d1 = a_org_memberships d"
    "a_organizations d1 = a_organizations d @ [org]" "a_invites d1 = a_invites d"
    using assms(2) by (auto simp: CreateOrganization_def Let_def split: if_splits)
  show "owner_safe d d1" by (rule owner_safe_same [OF assms(1) *(2)]) (use org_wfD(3) [OF assms(1)] * in auto)
qed

lemma new_owner_safe:
  assumes "org_wf d" and "CreateOrganization env n slug name d = Inr (org, d1)"
    and "CreateOrgMembership env k (AOrg_ID org) u ''owner'' d1 = Inr (m, d2)"
  shows "owner_safe d d2" and "owners (AOrg_ID org) d2 = {u}"
proof -
  let ?g = "AOrg_ID org"
  note org = CreateOrganization_safe [OF assms(1,2)]
  have d2: "a_org_memberships d2 = a_org_memberships d @ [m]" "a_organizations d2 = a_organizations d @ [org]" "a_invites d2 = a_invites d"
      "OM_OrgID m = ?g" "OM_UserID m = u" "OM_Role m = ''owner''" "(?g, u) \<notin> member_key ` set (a_org_memberships d)"
    using assms(3) org(3-5) by (auto simp: CreateOrgMembership_def Let_def member_key_def split: if_splits)
  have own: "owners h d2 = (if h = ?g then insert u (owners h d) else owners h d)" for h
    by (cases "h = ?g") (simp_all add: owners_def d2 conj_disj_distribR Collect_disj_eq image_Un Collect_conv_if)
  have none: "owners ?g d = {}" using no_owner_of_new [OF assms(1) org(2)] .
  show "owners ?g d2 = {u}" by (simp add: own none)
  have "org_wf d2"
  proof (rule org_wfI)
    show "distinct (map member_key (a_org_memberships d2))"
      using org_wfD(1) [OF assms(1)] d2(4,5,7) by (simp add: d2(1) member_key_def)
    show "org_exists (OM_OrgID r) d2" if "r \<in> set (a_org_memberships d2)" for r
      using that org_wfD(2) [OF assms(1), of r] by (auto simp: d2)
    show "invitable (Inv_Role v)" if "v \<in> set (a_invites d2)" for v
      using that org_wfD(3) [OF assms(1)] by (simp add: d2(3))
    show "x = y" if "x \<in> owners h d2" "y \<in> owners h d2" for h x y
      using that none org_wfD(4) [OF assms(1)] unfolding own by (cases "h = ?g") auto
  qed
  then show "owner_safe d d2" using org(2) by (auto simp: owner_safe_def own)
qed

lemma owner_safe_delete_org:
  assumes "org_wf d"
  shows "owner_safe d (auth_DeleteOrganization (Some g) d)"
proof (cases "find (\<lambda>x. AOrg_ID x = g) (a_organizations d)")
  case None
  then have "auth_DeleteOrganization (Some g) d = d" by (simp add: auth_DeleteOrganization_def)
  then show ?thesis using owner_safe_refl [OF assms] by simp
next
  case (Some org)
  let ?d = "auth_DeleteOrganization (Some g) d"
  have g: "AOrg_ID org = g" using Some by (auto simp: find_Some_iff)
  have d': "a_org_memberships ?d = delete_where (\<lambda>m. OM_OrgID m = g) (a_org_memberships d)"
      "a_organizations ?d = delete_where (\<lambda>r. AOrg_ID r = g) (a_organizations d)"
      "a_invites ?d = delete_where (\<lambda>v. Inv_OrgID v = g) (a_invites d)"
    using Some by (simp_all add: auth_DeleteOrganization_def Let_def g)
  have own: "owners h ?d = (if h = g then {} else owners h d)" for h
    by (auto simp: owners_def d' set_delete_where)
  have "org_wf ?d"
  proof (rule org_wfI)
    show "distinct (map member_key (a_org_memberships ?d))"
      using org_wfD(1) [OF assms] by (simp add: d' delete_where_def distinct_map_filter_key)
    show "org_exists (OM_OrgID r) ?d" if "r \<in> set (a_org_memberships ?d)" for r
      using that org_wfD(2) [OF assms, of r] by (auto simp: d' set_delete_where)
    show "invitable (Inv_Role v)" if "v \<in> set (a_invites ?d)" for v
      using that org_wfD(3) [OF assms] by (auto simp: d' set_delete_where)
    show "x = y" if "x \<in> owners h ?d" "y \<in> owners h ?d" for h x y
      using that org_wfD(4) [OF assms] unfolding own by (cases "h = g") auto
  qed
  moreover have "\<not> org_exists g ?d" by (auto simp: d' set_delete_where)
  ultimately show ?thesis by (auto simp: owner_safe_def own)
qed

lemma UpdateOrgMemberRole_effect:
  assumes "UpdateOrgMemberRole env (Some g) (Some u) role d = Inr d'"
  shows "map member_key (a_org_memberships d') = map member_key (a_org_memberships d)"
    and "a_organizations d' = a_organizations d" and "a_invites d' = a_invites d"
    and "h \<noteq> g \<Longrightarrow> owners h d' = owners h d"
    and "role = ''owner'' \<Longrightarrow> (g, u) \<in> member_key ` set (a_org_memberships d) \<Longrightarrow> owners g d' = insert u (owners g d)"
    and "role \<noteq> ''owner'' \<Longrightarrow> owners g d' = owners g d - {u}"
proof -
  let ?f = "\<lambda>m. m\<lparr>OM_Role := role, OM_UpdatedAt := e_now env\<rparr>"
  have d': "d' = d\<lparr>a_org_memberships := update_where (\<lambda>m. member_key m = (g, u)) ?f (a_org_memberships d)\<rparr>"
    using assms by (auto simp: UpdateOrgMemberRole_def split: if_splits)
  show "map member_key (a_org_memberships d') = map member_key (a_org_memberships d)"
    by (simp add: d' map_update_where member_key_def)
  show "a_organizations d' = a_organizations d" "a_invites d' = a_invites d" by (simp_all add: d')
  have own: "owners h d' = OM_UserID ` {m \<in> set (a_org_memberships d). member_key m \<noteq> (g, u) \<and> OM_OrgID m = h \<and> OM_Role m = ''owner''}
      \<union> (if h = g \<and> role = ''owner'' \<and> (g, u) \<in> member_key ` set (a_org_memberships d) then {u} else {})" for h
  proof -
    have "{m \<in> set (a_org_memberships d'). OM_OrgID m = h \<and> OM_Role m = ''owner''}
        = {m \<in> set (a_org_memberships d). member_key m \<noteq> (g, u) \<and> OM_OrgID m = h \<and> OM_Role m = ''owner''}
          \<union> ?f ` {m \<in> set (a_org_memberships d). member_key m = (g, u) \<and> OM_OrgID m = h \<and> role = ''owner''}"
      by (auto simp: d' set_update_where)
    then have "owners h d' = OM_UserID ` {m \<in> set (a_org_memberships d). member_key m \<noteq> (g, u) \<and> OM_OrgID m = h \<and> OM_Role m = ''owner''}
        \<union> OM_UserID ` {m \<in> set (a_org_memberships d). member_key m = (g, u) \<and> OM_OrgID m = h \<and> role = ''owner''}"
      by (simp add: owners_def image_Un image_image)
    moreover have "OM_UserID ` {m \<in> set (a_org_memberships d). member_key m = (g, u) \<and> OM_OrgID m = h \<and> role = ''owner''}
        = (if h = g \<and> role = ''owner'' \<and> (g, u) \<in> member_key ` set (a_org_memberships d) then {u} else {})"
      by (auto simp: member_key_def image_iff)
    ultimately show ?thesis by simp
  qed
  show "owners h d' = owners h d" if "h \<noteq> g" using that unfolding own by (auto simp: owners_def member_key_def)
  show "owners g d' = insert u (owners g d)" if "role = ''owner''" "(g, u) \<in> member_key ` set (a_org_memberships d)"
    using that unfolding own by (auto simp: owners_def member_key_def)
  show "owners g d' = owners g d - {u}" if "role \<noteq> ''owner''"
    using that unfolding own by (auto simp: owners_def member_key_def)
qed

lemma org_wf_same_keys:
  assumes "org_wf d" and "map member_key (a_org_memberships d') = map member_key (a_org_memberships d)"
    and "a_organizations d' = a_organizations d" and "a_invites d' = a_invites d"
    and "\<And>h u v. u \<in> owners h d' \<Longrightarrow> v \<in> owners h d' \<Longrightarrow> u = v"
  shows "org_wf d'"
proof (rule org_wfI)
  show "distinct (map member_key (a_org_memberships d'))" using org_wfD(1) [OF assms(1)] assms(2) by simp
  show "org_exists (OM_OrgID r) d'" if "r \<in> set (a_org_memberships d')" for r
  proof -
    have "member_key r \<in> member_key ` set (a_org_memberships d)" using that assms(2) by (metis image_eqI list.set_map)
    then show ?thesis using org_wfD(2) [OF assms(1)] by (auto simp: assms(3) member_key_def)
  qed
qed (use org_wfD(3) [OF assms(1)] assms(4,5) in auto)

lemma owner_safe_transfer:
  assumes "org_wf d" and "actor \<in> owners g d" and "new \<noteq> actor" and "(g, new) \<in> member_key ` set (a_org_memberships d)"
    and "UpdateOrgMemberRole env (Some g) (Some new) ''owner'' d = Inr d1"
    and "UpdateOrgMemberRole env (Some g) (Some actor) ''admin'' d1 = Inr d2"
  shows "owner_safe d d2" and "owners g d2 = {new}"
proof -
  note up = UpdateOrgMemberRole_effect [OF assms(5)] and down = UpdateOrgMemberRole_effect [OF assms(6)]
  have one: "owners g d = {actor}" using assms(2) org_wfD(4) [OF assms(1)] by auto
  show new: "owners g d2 = {new}" using up(5) down(6) assms(3,4) one by auto
  have keys: "map member_key (a_org_memberships d2) = map member_key (a_org_memberships d)" using up(1) down(1) by simp
  have same: "owners h d2 = owners h d" if "h \<noteq> g" for h using up(4) down(4) that by simp
  have tables: "a_organizations d2 = a_organizations d" "a_invites d2 = a_invites d" using up(2,3) down(2,3) by simp_all
  have "x = y" if "x \<in> owners h d2" "y \<in> owners h d2" for h x y
    using that new same org_wfD(4) [OF assms(1)] by (cases "h = g") auto
  with org_wf_same_keys [OF assms(1) keys tables] have "org_wf d2" by blast
  then show "owner_safe d d2" using same new one by (simp add: owner_safe_def) (metis insert_not_empty)
qed

section \<open>The endpoints\<close>

lemma GetOrgMembership_owner:
  assumes "GetOrgMembership (Some g) (Some u) d = Inr m"
  shows "(g, u) \<in> member_key ` set (a_org_memberships d)" and "OM_Role m = ''owner'' \<Longrightarrow> u \<in> owners g d"
    and "org_wf d \<Longrightarrow> OM_Role m \<noteq> ''owner'' \<Longrightarrow> u \<notin> owners g d"
proof -
  have m: "m \<in> set (a_org_memberships d)" "member_key m = (g, u)"
    using assms by (auto simp: GetOrgMembership_def dest: query_one_Inr)
  then show "(g, u) \<in> member_key ` set (a_org_memberships d)" by force
  show "u \<in> owners g d" if "OM_Role m = ''owner''" using m that by (force simp: owners_def member_key_def)
  show "u \<notin> owners g d" if "org_wf d" "OM_Role m \<noteq> ''owner''"
  proof
    assume "u \<in> owners g d"
    then obtain m' where "m' \<in> set (a_org_memberships d)" "member_key m' = (g, u)" "OM_Role m' = ''owner''"
      by (auto simp: owners_def member_key_def)
    then show False using distinct_key_eq [OF org_wfD(1) [OF that(1)], of m m'] m that(2) by simp
  qed
qed

lemma other_member_not_owner:
  "other_member env g u d = None \<Longrightarrow> org_wf d \<Longrightarrow> u \<notin> owners g d"
  using GetOrgMembership_owner(3) by (auto simp: other_member_def split: sum.splits if_splits)

lemma org_Create_safe:
  assumes "org_wf d" and "org_Create x env fmt claims req body d = (r, d')"
  shows "owner_safe d d'"
  using assms unfolding org_Create_def
  by (auto intro!: owner_safe_audit
      intro: owner_safe_refl CreateOrganization_safe(1) new_owner_safe(1) split: sum.splits prod.splits)

lemma org_Update_safe:
  assumes "org_wf d" and "org_Update x env fmt claims req orgID body d = (r, d')"
  shows "owner_safe d d'"
proof -
  have "owner_safe d d1" if "auth_UpdateOrganization env i n l b d = Inr (g, d1)" for i n l b g d1
  proof (rule owner_safe_same [OF assms(1)])
    show "a_org_memberships d1 = a_org_memberships d"
      using that by (auto simp: auth_UpdateOrganization_def set_org_def Let_def split: sum.splits)
    show "AOrg_ID ` set (a_organizations d) \<subseteq> AOrg_ID ` set (a_organizations d1)"
      using that by (auto simp: auth_UpdateOrganization_def set_org_def Let_def image_update_where split: sum.splits)
    have "a_invites d1 = a_invites d"
      using that by (auto simp: auth_UpdateOrganization_def set_org_def Let_def split: sum.splits)
    then show "\<forall>v \<in> set (a_invites d1). invitable (Inv_Role v)" using org_wfD(3) [OF assms(1)] by simp
  qed
  then show ?thesis
    using assms unfolding org_Update_def
    by (auto intro!: owner_safe_audit intro: owner_safe_refl split: sum.splits prod.splits)
qed

lemma org_Delete_safe:
  assumes "org_wf d" and "org_Delete x env claims req orgID d = (r, d')"
  shows "owner_safe d d'"
  using assms unfolding org_Delete_def
  by (auto intro!: owner_safe_audit owner_safe_delete_org intro: owner_safe_refl split: sum.splits prod.splits option.splits if_splits)

lemma read_body_Inr:
  assumes "read_body x decode rules body = Inr b"
  shows "auth_validate x (rules b) = None"
  using assms by (auto simp: read_body_def split: option.splits)

lemma updateRole_not_owner:
  assumes "read_body x (decode_single ''role'') updateRoleRequest_fields body = Inr role" and "validator_sound (a_ext x)"
  shows "role \<noteq> ''owner''"
  using auth_validate_rule [OF assms(2) read_body_Inr [OF assms(1)], of "''Role''" "[VRequired, VOneof [''admin'', ''member'']]" "VStr role"
      "VOneof [''admin'', ''member'']"]
  by (auto simp: updateRoleRequest_fields_def)

lemma org_UpdateMemberRole_safe:
  assumes "org_wf d" and "validator_sound (a_ext x)" and "org_UpdateMemberRole x env claims req orgID userID body d = (r, d')"
  shows "owner_safe d d'"
  using assms unfolding org_UpdateMemberRole_def
  by (auto intro!: owner_safe_audit intro: owner_safe_refl owner_safe_role dest: other_member_not_owner updateRole_not_owner
      split: sum.splits prod.splits option.splits)

lemma org_RemoveMember_safe:
  assumes "org_wf d" and "org_RemoveMember x env claims req orgID userID d = (r, d')"
  shows "owner_safe d d'"
  using assms unfolding org_RemoveMember_def
  by (auto intro!: owner_safe_audit intro: owner_safe_refl owner_safe_remove dest: other_member_not_owner
      split: sum.splits prod.splits option.splits if_splits)

lemma requireOwner_owner: "requireOwner env g u d = None \<Longrightarrow> u \<in> owners g d"
  using GetOrgMembership_owner(2) by (auto simp: requireOwner_def split: sum.splits if_splits)

text \<open>Where a transfer goes and what it leaves, on every path that changes the database.\<close>

lemma TransferOwnership_cases:
  assumes "TransferOwnership x env claims req orgID body d = (r, d')"
  obtains (unchanged) "d' = d" "reply_status r \<noteq> 200"
    | (half) g actor new where "actor_and_org x claims orgID = (Inr (actor, g) :: string reply + uuid \<times> uuid)"
        "(g, new) \<in> member_key ` set (a_org_memberships d)"
        "e_fault env ''UpdateOrgMemberRole'' 1" "UpdateOrgMemberRole env (Some g) (Some new) ''owner'' d = Inr d'" "reply_status r \<noteq> 200"
    | (moved) g actor new i d1 d2 where "actor_and_org x claims orgID = (Inr (actor, g) :: string reply + uuid \<times> uuid)" "actor \<in> owners g d"
        "read_body x (decode_single ''new_owner_id'') transferRequest_fields body = (Inr i :: string reply + string)"
        "x_uuid_scan (a_ext x) i = Some new" "(g, new) \<in> member_key ` set (a_org_memberships d)"
        "UpdateOrgMemberRole env (Some g) (Some new) ''owner'' d = Inr d1"
        "UpdateOrgMemberRole env (Some g) (Some actor) ''admin'' d1 = Inr d2" "r = WriteJSON 200 ''transferred''"
        "d' = audit_Log x env 0 0 (Some g) (Some actor) ''org.owner.transferred'' ''user'' (Some new) (Some req) None d2"
proof (cases "actor_and_org x claims orgID :: string reply + uuid \<times> uuid")
  case (Inl e)
  then show thesis using assms unchanged by (auto simp: TransferOwnership_def actor_and_org_def split: sum.splits option.splits)
next
  case (Inr p)
  obtain actor g where ag: "actor_and_org x claims orgID = (Inr (actor, g) :: string reply + uuid \<times> uuid)" using Inr by (cases p) auto
  note call = assms [unfolded TransferOwnership_def ag sum.case prod.case]
  show thesis
  proof (cases "requireOwner env g actor d")
    case (Some err)
    then show thesis using call unchanged by auto
  next
    case None
    show thesis
    proof (cases "read_body x (decode_single ''new_owner_id'') transferRequest_fields body :: string reply + string")
      case (Inl e)
      then show thesis using call None unchanged by (auto simp: read_body_def split: option.splits)
    next
      case i: (Inr i)
      show thesis
      proof (cases "x_uuid_scan (a_ext x) i = None \<or> (\<exists>e. guarded env ''GetOrgMembership'' 1 (GetOrgMembership (Some g) (x_uuid_scan (a_ext x) i) d) = Inl e)")
        case True
        then show thesis using call None i unchanged by (auto split: option.splits)
      next
        case False
        then obtain new m where new: "x_uuid_scan (a_ext x) i = Some new" and m: "guarded env ''GetOrgMembership'' 1 (GetOrgMembership (Some g) (Some new) d) = Inr m"
          by (cases "guarded env ''GetOrgMembership'' 1 (GetOrgMembership (Some g) (x_uuid_scan (a_ext x) i) d)") auto
        have mem: "(g, new) \<in> member_key ` set (a_org_memberships d)" using m GetOrgMembership_owner(1) by (simp only: guarded_Inr_iff)
        note rest = call [unfolded None option.case i sum.case new m]
        show thesis
        proof (cases "guarded env ''UpdateOrgMemberRole'' 0 (UpdateOrgMemberRole env (Some g) (Some new) ''owner'' d)")
          case (Inl e)
          then show thesis using rest unchanged by auto
        next
          case d1: (Inr d1)
          then have up: "UpdateOrgMemberRole env (Some g) (Some new) ''owner'' d = Inr d1" by (simp only: guarded_Inr_iff)
          have "\<exists>d2. UpdateOrgMemberRole env (Some g) (Some actor) ''admin'' d1 = Inr d2"
            by (simp add: UpdateOrgMemberRole_def valid_org_role_def)
          then obtain d2 where d2: "UpdateOrgMemberRole env (Some g) (Some actor) ''admin'' d1 = Inr d2" ..
          show thesis
          proof (cases "e_fault env ''UpdateOrgMemberRole'' 1")
            case True
            then show thesis using rest d1 half [OF ag mem True] up by auto
          next
            case no: False
            then show thesis using rest d1 d2 moved [OF ag requireOwner_owner [OF None] i new mem up d2] by auto
          qed
        qed
      qed
    qed
  qed
qed

lemma TransferOwnership_safe:
  assumes "org_wf d" and "TransferOwnership x env claims req orgID body d = (r, d')"
    and "\<not> e_fault env ''UpdateOrgMemberRole'' 1"
    and "\<And>actor g i. actor_and_org x claims orgID = (Inr (actor, g) :: string reply + uuid \<times> uuid) \<Longrightarrow>
        read_body x (decode_single ''new_owner_id'') transferRequest_fields body = (Inr i :: string reply + string) \<Longrightarrow>
        x_uuid_scan (a_ext x) i \<noteq> Some actor"
  shows "owner_safe d d'"
  using assms(2)
proof (cases rule: TransferOwnership_cases)
  case (moved g actor new i d1 d2)
  have "new \<noteq> actor" using assms(4) [OF moved(1,3)] moved(4) by auto
  then have "owner_safe d d2" using owner_safe_transfer(1) [OF assms(1) moved(2) _ moved(5,6,7)] by blast
  then show ?thesis unfolding moved(9) by (rule owner_safe_audit)
qed (use owner_safe_refl [OF assms(1)] assms(3) in auto)

lemma invite_Create_safe:
  assumes "org_wf d" and "invite_Create x env fmt rand claims req orgID body d = (r, d')"
  shows "owner_safe d d'"
proof -
  have "owner_safe d d1" if "CreateInvite env n g t i e ro h ex d = Inr (v, d1)" for n g t i e ro h ex v d1
  proof (rule owner_safe_same [OF assms(1)])
    show "a_org_memberships d1 = a_org_memberships d" "AOrg_ID ` set (a_organizations d) \<subseteq> AOrg_ID ` set (a_organizations d1)"
      using that by (auto simp: CreateInvite_def Let_def split: if_splits)
    show "\<forall>v \<in> set (a_invites d1). invitable (Inv_Role v)"
      using that org_wfD(3) [OF assms(1)] by (auto simp: CreateInvite_def Let_def invitable_def [of "''admin''"] invitable_def [of "''member''"] split: if_splits)
  qed
  then show ?thesis
    using assms unfolding invite_Create_def
    by (auto intro!: owner_safe_audit intro: owner_safe_refl split: sum.splits prod.splits option.splits)
qed

lemma invites_role_kept:
  assumes "org_wf d" and "a_invites d' = update_where P f (a_invites d)" and "\<And>v. Inv_Role (f v) = Inv_Role v"
  shows "\<forall>v \<in> set (a_invites d'). invitable (Inv_Role v)"
  using org_wfD(3) [OF assms(1)] assms(2,3) by (auto simp: set_update_where)

lemma invite_Revoke_safe:
  assumes "org_wf d" and "invite_Revoke x env claims req orgID inviteID d = (r, d')"
  shows "owner_safe d d'"
proof -
  have "owner_safe d (RevokeInvite i g d)" for i g
  proof (rule owner_safe_same [OF assms(1)])
    show "\<forall>v \<in> set (a_invites (RevokeInvite i g d)). invitable (Inv_Role v)"
      by (rule invites_role_kept [OF assms(1), where f = "Inv_Status_update (\<lambda>_. ''revoked'')"]) (simp add: RevokeInvite_def, simp)
  qed (simp_all add: RevokeInvite_def)
  then show ?thesis
    using assms unfolding invite_Revoke_def
    by (auto intro!: owner_safe_audit intro: owner_safe_refl split: sum.splits prod.splits option.splits if_splits)
qed

lemma AcceptInvite_effect:
  assumes "AcceptInvite env (Some i) d = Inr (w, d1)"
  shows "a_invites d1 = update_where (\<lambda>v. Inv_ID v = i \<and> pending env v)
      (\<lambda>v. v\<lparr>Inv_Status := ''accepted'', Inv_AcceptedAt := Some (e_now env)\<rparr>) (a_invites d)"
    and "a_org_memberships d1 = a_org_memberships d" and "a_organizations d1 = a_organizations d" and "a_users d1 = a_users d"
  using assms by (auto simp: AcceptInvite_def Let_def split: sum.splits)

lemma AcceptInvite_safe:
  assumes "org_wf d" and "AcceptInvite env (Some i) d = Inr (w, d1)"
  shows "owner_safe d d1"
proof (rule owner_safe_same [OF assms(1)])
  show "\<forall>v \<in> set (a_invites d1). invitable (Inv_Role v)"
    by (rule invites_role_kept [OF assms(1) AcceptInvite_effect(1) [OF assms(2)]]) simp
qed (simp_all add: AcceptInvite_effect [OF assms(2)])

lemma owner_safe_trans_accept:
  assumes "owner_safe d d1" and "a_org_memberships d1 = a_org_memberships d" and "a_organizations d1 = a_organizations d" and "owner_safe d1 d2"
  shows "owner_safe d d2"
  using assms by (auto simp: owner_safe_def owners_def)

lemma invite_Accept_safe:
  assumes "org_wf d" and "invite_Accept x env claims req body d = (r, d')"
  shows "owner_safe d d'"
proof -
  have "owner_safe d d2" if "GetInviteByTokenHash env h d = Inr v" "AcceptInvite env (Some (Inv_ID v)) d = Inr (w, d1)"
      "CreateOrgMembership env 0 (Inv_OrgID v) u (Inv_Role v) d1 = Inr (m, d2)" for h v w d1 u m d2
  proof (rule owner_safe_trans_accept)
    show safe: "owner_safe d d1" using AcceptInvite_safe [OF assms(1) that(2)] .
    show "a_org_memberships d1 = a_org_memberships d" "a_organizations d1 = a_organizations d"
      using AcceptInvite_effect [OF that(2)] by simp_all
    have "v \<in> set (a_invites d)" using that(1) by (auto simp: GetInviteByTokenHash_def dest: query_one_Inr)
    then have "Inv_Role v \<noteq> ''owner''" using org_wfD(3) [OF assms(1)] by (force simp: invitable_def)
    moreover have "org_wf d1" using safe by (simp add: owner_safe_def)
    ultimately show "owner_safe d1 d2" using owner_safe_add that(3) by blast
  qed
  then show ?thesis
    using assms unfolding invite_Accept_def
    by (auto intro!: owner_safe_audit intro: owner_safe_refl AcceptInvite_safe split: sum.splits prod.splits option.splits)
qed

section \<open>Sequences of requests\<close>

text \<open>
  One request to the organization or invitation endpoints. A transfer must name somebody else than
  the caller, and its second update must reach the database.
\<close>

inductive org_step :: "adb \<Rightarrow> adb \<Rightarrow> bool" where
  create: "org_Create x env fmt claims req body d = (r, d') \<Longrightarrow> org_step d d'"
| update: "org_Update x env fmt claims req orgID body d = (r, d') \<Longrightarrow> org_step d d'"
| delete: "org_Delete x env claims req orgID d = (r, d') \<Longrightarrow> org_step d d'"
| role: "org_UpdateMemberRole x env claims req orgID userID body d = (r, d') \<Longrightarrow> validator_sound (a_ext x) \<Longrightarrow> org_step d d'"
| remove: "org_RemoveMember x env claims req orgID userID d = (r, d') \<Longrightarrow> org_step d d'"
| transfer: "TransferOwnership x env claims req orgID body d = (r, d') \<Longrightarrow> \<not> e_fault env ''UpdateOrgMemberRole'' 1 \<Longrightarrow>
    (\<And>actor g i. actor_and_org x claims orgID = (Inr (actor, g) :: string reply + uuid \<times> uuid) \<Longrightarrow>
        read_body x (decode_single ''new_owner_id'') transferRequest_fields body = (Inr i :: string reply + string) \<Longrightarrow>
        x_uuid_scan (a_ext x) i \<noteq> Some actor) \<Longrightarrow> org_step d d'"
| invite: "invite_Create x env fmt rand claims req orgID body d = (r', d') \<Longrightarrow> org_step d d'"
| revoke: "invite_Revoke x env claims req orgID inviteID d = (r, d') \<Longrightarrow> org_step d d'"
| accept: "invite_Accept x env claims req body d = (r, d') \<Longrightarrow> org_step d d'"

lemma org_step_safe: "org_step d d' \<Longrightarrow> org_wf d \<Longrightarrow> owner_safe d d'"
  by (induction rule: org_step.induct)
    (blast intro: org_Create_safe org_Update_safe org_Delete_safe org_UpdateMemberRole_safe org_RemoveMember_safe
      TransferOwnership_safe invite_Create_safe invite_Revoke_safe invite_Accept_safe)+

interpretation org_runs: invariant_system org_step org_wf
  by unfold_locales (use org_step_safe in \<open>auto simp: owner_safe_def\<close>)


text \<open>
  C40. An owner who transfers the organization to himself is told that it worked, and the organization
  is left without an owner: he is promoted to owner and then demoted to admin. No later request gives
  it an owner again, so nobody can delete or transfer it any more.
\<close>

theorem self_transfer_orphans_organization:
  assumes "org_wf d" and "requireOwner env g u d = None" and "org_exists g d"
    and "actor_and_org x claims orgID = (Inr (u, g) :: string reply + uuid \<times> uuid)"
    and "read_body x (decode_single ''new_owner_id'') transferRequest_fields body = (Inr i :: string reply + string)"
    and "x_uuid_scan (a_ext x) i = Some u" and "\<And>call k. \<not> e_fault env call k"
  shows "\<exists>d1. TransferOwnership x env claims req orgID body d = (WriteJSON 200 ''transferred'', d1) \<and> owners g d1 = {}
    \<and> (\<forall>d2. (\<lambda>a b. org_step a b \<and> org_exists g b)\<^sup>*\<^sup>* d1 d2 \<longrightarrow>
         owners g d2 = {} \<and> (\<forall>envB v. requireOwner envB g v d2 \<noteq> None))"
proof -
  have own: "owners g d = {u}" using requireOwner_owner [OF assms(2)] org_wfD(4) [OF assms(1)] by auto
  obtain m where m: "GetOrgMembership (Some g) (Some u) d = Inr m"
    using assms(2,7) by (auto simp: requireOwner_def split: sum.splits)
  have mem: "(g, u) \<in> member_key ` set (a_org_memberships d)" using GetOrgMembership_owner(1) [OF m] .
  obtain d1 where d1: "UpdateOrgMemberRole env (Some g) (Some u) ''owner'' d = Inr d1"
    by (simp add: UpdateOrgMemberRole_def valid_org_role_def)
  obtain d2 where d2: "UpdateOrgMemberRole env (Some g) (Some u) ''admin'' d1 = Inr d2"
    by (simp add: UpdateOrgMemberRole_def valid_org_role_def)
  note up = UpdateOrgMemberRole_effect [OF d1] and down = UpdateOrgMemberRole_effect [OF d2]
  let ?d3 = "audit_Log x env 0 0 (Some g) (Some u) ''org.owner.transferred'' ''user'' (Some u) (Some req) None d2"
  have call: "TransferOwnership x env claims req orgID body d = (WriteJSON 200 ''transferred'', ?d3)"
    by (simp add: TransferOwnership_def assms(2,4-7) m d1 d2)
  have none: "owners g ?d3 = {}" using up(5) down(6) own mem by (simp add: owners_def frame_simps)
  have "owners h d2 \<subseteq> owners h d" for h using up(4,5) down(4,6) own mem by (cases "h = g") auto
  then have "a = b" if "a \<in> owners h d2" "b \<in> owners h d2" for h a b using that org_wfD(4) [OF assms(1)] by blast
  then have "org_wf d2" using org_wf_same_keys [OF assms(1), of d2] up(1-3) down(1-3) by simp
  then have wf: "org_wf ?d3" unfolding org_wf_def owners_def audit_Log_org_frame .
  have ex: "org_exists g ?d3" unfolding audit_Log_org_frame down(2) up(2) by (rule assms(3))
  have "owners g w = {} \<and> (\<forall>envB v. requireOwner envB g v w \<noteq> None)"
    if run: "(\<lambda>a b. org_step a b \<and> org_exists g b)\<^sup>*\<^sup>* ?d3 w" for w
  proof -
    have "org_exists g w \<and> owners g w = {} \<and> org_wf w"
      using run
    proof (induction rule: rtranclp_induct)
      case (step a b)
      have "owner_safe a b" using org_step_safe step.hyps(2) step.IH by blast
      then show ?case using step.hyps(2) step.IH unfolding owner_safe_def by blast
    qed (use wf ex none in auto)
    then show ?thesis using requireOwner_owner by blast
  qed
  then show ?thesis using call none by blast
qed

section \<open>A concrete organization\<close>

definition sample_aorg :: AuthOrganization where
  "sample_aorg = \<lparr>AOrg_ID = 41, AOrg_Slug = ''acme'', AOrg_Name = ''Acme'', AOrg_LogoUrl = None, AOrg_Plan = ''free'',
     AOrg_BillingEmail = None, AOrg_MaxMembers = 5, AOrg_CreatedAt = 0, AOrg_UpdatedAt = 0\<rparr>"

definition sample_member :: "uuid \<Rightarrow> uuid \<Rightarrow> string \<Rightarrow> OrgMembership" where
  "sample_member i u role = \<lparr>OM_ID = i, OM_OrgID = 41, OM_UserID = u, OM_Role = role, OM_CreatedAt = 0, OM_UpdatedAt = 0\<rparr>"

definition sample_org_db :: adb where
  "sample_org_db = sample_adb\<lparr>a_users := [sample_user, sample_user\<lparr>AU_ID := 14, AU_Email := ''bob@acme''\<rparr>],
     a_organizations := [sample_aorg], a_org_memberships := [sample_member 42 11 ''owner'', sample_member 43 14 ''member'']\<rparr>"

lemma sample_org_simps:
  "a_org_memberships sample_org_db = [sample_member 42 11 ''owner'', sample_member 43 14 ''member'']"
  "a_organizations sample_org_db = [sample_aorg]" "a_invites sample_org_db = []" "AOrg_ID sample_aorg = 41" "AOrg_MaxMembers sample_aorg = 5"
  "a_users sample_org_db = [sample_user, sample_user\<lparr>AU_ID := 14, AU_Email := ''bob@acme''\<rparr>]"
  "OM_OrgID (sample_member i u role) = 41" "OM_UserID (sample_member i u role) = u" "OM_Role (sample_member i u role) = role"
  by (simp_all add: sample_org_db_def sample_aorg_def sample_member_def sample_adb_def empty_adb_def)

lemma sample_owners: "owners 41 sample_org_db = {11}"
  by (force simp: owners_def sample_org_simps)

lemma sample_org_wf: "org_wf sample_org_db"
proof (rule org_wfI)
  show "u = w" if "u \<in> owners g sample_org_db" "w \<in> owners g sample_org_db" for g u w
    using that by (auto simp: owners_def sample_org_simps)
qed (auto simp: sample_org_simps member_key_def)

definition sample_transfer :: "string \<Rightarrow> json" where
  "sample_transfer i = JObj [(''new_owner_id'', JStr i)]"

lemma sample_transfer_body:
  assumes "i \<noteq> ''''"
  shows "read_body (sample_aext [sample_transfer i] []) (decode_single ''new_owner_id'') transferRequest_fields (json_text (sample_transfer i))
    = (Inr i :: string reply + string)"
proof -
  have "field_match ''new_owner_id'' ''new_owner_id''" by (simp add: field_match_def)
  then have "decode_single ''new_owner_id'' (sample_transfer i) = Some i"
    by (simp add: decode_single_def sample_transfer_def)
  then show ?thesis
    using assms by (simp add: read_body_def auth_validate_def sample_validate_def transferRequest_fields_def)
qed

lemma sample_actor: "actor_and_org (sample_aext js []) (Some sample_claims) (replicate 41 CHR ''g'') = Inr (11, 41)"
  by (simp add: actor_and_org_def auth_UserIDFromContext_def ParseUUIDParam_def sample_subject)

lemma sample_requireOwner: "requireOwner (sample_env t) 41 11 sample_org_db = None"
  by (simp add: requireOwner_def GetOrgMembership_def query_one_def sample_org_simps member_key_def sample_env_simps)

theorem self_transfer_orphans_organization_witness:
  "\<exists>d1. TransferOwnership (sample_aext [sample_transfer ''uuuuuuuuuuu''] []) (sample_env 0) (Some sample_claims) sample_req
      (replicate 41 CHR ''g'') (json_text (sample_transfer ''uuuuuuuuuuu'')) sample_org_db = (WriteJSON 200 ''transferred'', d1)
    \<and> owners 41 d1 = {} \<and> (\<forall>envB v. requireOwner envB 41 v d1 \<noteq> None)"
proof -
  have ex: "org_exists 41 sample_org_db" by (simp add: sample_org_simps)
  have i: "''uuuuuuuuuuu'' \<noteq> ''''" and sc: "x_uuid_scan (a_ext (sample_aext [sample_transfer ''uuuuuuuuuuu''] [])) ''uuuuuuuuuuu'' = Some 11"
    by simp_all
  from self_transfer_orphans_organization [OF sample_org_wf sample_requireOwner ex sample_actor sample_transfer_body [OF i] sc sample_env_simps(3),
      where req = sample_req]
  show ?thesis by blast
qed


section \<open>Accepting an invitation\<close>

lemma int32_id: "- (2 ^ 31) \<le> n \<Longrightarrow> n < 2 ^ 31 \<Longrightarrow> int32 n = n"
  unfolding int32_def by (simp add: sint_sbintrunc' signed_take_bit_int_eq_self)

lemma member_limit_None:
  assumes "member_limit env g d = None" and "CountOrgMembers (Some g) d < 2 ^ 31"
  shows "\<exists>o' \<in> set (a_organizations d). AOrg_ID o' = g \<and> CountOrgMembers (Some g) d < AOrg_MaxMembers o'"
proof -
  obtain r where r: "auth_GetOrganizationByID (Some g) d = Inr r" "\<not> int32 (CountOrgMembers (Some g) d) \<ge> AOrg_MaxMembers r"
    using assms(1) by (auto simp: member_limit_def split: sum.splits if_splits)
  moreover have "int32 (CountOrgMembers (Some g) d) = CountOrgMembers (Some g) d"
    by (rule int32_id) (use assms(2) in \<open>simp_all add: CountOrgMembers_def\<close>)
  ultimately show ?thesis by (auto simp: auth_GetOrganizationByID_def dest!: query_one_Inr)
qed

lemma accepted_not_pending:
  assumes "AcceptInvite env (Some i) d = Inr (w, d1)" and "v \<in> set (a_invites d1)" and "Inv_ID v = i"
    and "Inv_Status v = ''pending''"
  shows "\<not> e_now env < Inv_ExpiresAt v"
proof -
  have "\<not> (Inv_ID v = i \<and> pending env v) \<or> Inv_Status v = ''accepted''"
    using assms(2) unfolding AcceptInvite_effect(1) [OF assms(1)] set_update_where
    by (elim UnE imageE CollectE) simp_all
  then show ?thesis using assms(3,4) by (simp add: pending_def)
qed

lemma CreateOrgMembership_members:
  assumes "CreateOrgMembership env n g u role d = Inr (m, d')"
  shows "a_org_memberships d' = a_org_memberships d @ [m]" "OM_OrgID m = g" "OM_UserID m = u" "OM_Role m = role"
    "a_invites d' = a_invites d" "a_organizations d' = a_organizations d"
  using assms by (auto simp: CreateOrgMembership_def Let_def split: if_splits)

lemma invite_Accept_cases:
  assumes "invite_Accept x env claims req body d = (WriteJSON 200 s, d')"
  obtains usr tok iv w d1 m d2 where "auth_UserIDFromContext x claims = Inr usr"
    "read_body x (decode_single ''token'') acceptInviteRequest_fields body = (Inr tok :: string reply + string)"
    "GetInviteByTokenHash env (HashToken x tok) d = Inr iv" "member_limit env (Inv_OrgID iv) d = (None :: string reply option)"
    "AcceptInvite env (Some (Inv_ID iv)) d = Inr (w, d1)"
    "CreateOrgMembership env 0 (Inv_OrgID iv) usr (Inv_Role iv) d1 = Inr (m, d2)"
    "d' = audit_Log x env 1 0 (Some (Inv_OrgID iv)) (Some usr) ''invite.accepted'' '''' None (Some req) None d2"
  using assms unfolding invite_Accept_def
  by (auto simp: read_body_def member_limit_def split: sum.splits prod.splits option.splits if_splits)

text \<open>
  C22. An accepted invitation was pending and unexpired, it makes the caller a member with the role it
  names and keeps the organization within its member limit. Its token is of no use to anybody after
  that: a later acceptance with the same token is refused and changes nothing.
\<close>

theorem invitation_accepted_once:
  assumes "invite_Accept x env claims req body d = (WriteJSON 200 s, d')"
    and "distinct (map Inv_TokenHash (a_invites d))" and "\<And>g. CountOrgMembers (Some g) d < 2 ^ 31"
  shows "\<exists>usr tok iv. auth_UserIDFromContext x claims = Inr usr
    \<and> read_body x (decode_single ''token'') acceptInviteRequest_fields body = (Inr tok :: string reply + string)
    \<and> iv \<in> set (a_invites d) \<and> Inv_TokenHash iv = HashToken x tok \<and> pending env iv
    \<and> (\<exists>m \<in> set (a_org_memberships d'). OM_OrgID m = Inv_OrgID iv \<and> OM_UserID m = usr \<and> OM_Role m = Inv_Role iv)
    \<and> (\<exists>g \<in> set (a_organizations d'). AOrg_ID g = Inv_OrgID iv \<and> CountOrgMembers (Some (Inv_OrgID iv)) d' \<le> AOrg_MaxMembers g)
    \<and> (e_now env \<le> e_now envB \<longrightarrow>
        read_body x (decode_single ''token'') acceptInviteRequest_fields bodyB = (Inr tok :: string reply + string) \<longrightarrow>
        (\<exists>e. invite_Accept x envB claimsB reqB bodyB d' = (e, d') \<and> reply_status e \<in> {400, 401}))"
proof -
  from assms(1) obtain usr tok iv w d1 m d2 where usr: "auth_UserIDFromContext x claims = Inr usr"
    and tok: "read_body x (decode_single ''token'') acceptInviteRequest_fields body = (Inr tok :: string reply + string)"
    and iv: "GetInviteByTokenHash env (HashToken x tok) d = Inr iv" and lim: "member_limit env (Inv_OrgID iv) d = (None :: string reply option)"
    and acc: "AcceptInvite env (Some (Inv_ID iv)) d = Inr (w, d1)"
    and mem: "CreateOrgMembership env 0 (Inv_OrgID iv) usr (Inv_Role iv) d1 = Inr (m, d2)"
    and d': "d' = audit_Log x env 1 0 (Some (Inv_OrgID iv)) (Some usr) ''invite.accepted'' '''' None (Some req) None d2"
    by (rule invite_Accept_cases)
  note new = CreateOrgMembership_members [OF mem] and eff = AcceptInvite_effect [OF acc]
  have v: "iv \<in> set (a_invites d)" "Inv_TokenHash iv = HashToken x tok" "pending env iv"
    using iv by (auto simp: GetInviteByTokenHash_def dest: query_one_Inr)
  have members: "a_org_memberships d' = a_org_memberships d @ [m]" and orgs: "a_organizations d' = a_organizations d"
    and invs: "a_invites d' = a_invites d1"
    unfolding d' audit_Log_org_frame using new eff by simp_all
  have count: "CountOrgMembers (Some (Inv_OrgID iv)) d' = CountOrgMembers (Some (Inv_OrgID iv)) d + 1"
    using new(2) by (simp add: CountOrgMembers_def members)
  have limit: "\<exists>g \<in> set (a_organizations d'). AOrg_ID g = Inv_OrgID iv \<and> CountOrgMembers (Some (Inv_OrgID iv)) d' \<le> AOrg_MaxMembers g"
    using member_limit_None [OF lim assms(3)] unfolding orgs count by fastforce
  have member: "\<exists>m \<in> set (a_org_memberships d'). OM_OrgID m = Inv_OrgID iv \<and> OM_UserID m = usr \<and> OM_Role m = Inv_Role iv"
    using new members by auto
  have gone: "\<not> pending envB r" if "r \<in> set (a_invites d')" "Inv_TokenHash r = HashToken x tok" "e_now env \<le> e_now envB" for r
  proof -
    have "Inv_ID r = Inv_ID iv"
    proof -
      from that(1) obtain r0 where r0: "r0 \<in> set (a_invites d)" "Inv_TokenHash r0 = Inv_TokenHash r" "Inv_ID r0 = Inv_ID r"
        unfolding invs eff(1) by (auto simp: set_update_where)
      then show ?thesis using distinct_key_eq [OF assms(2) r0(1) v(1)] that(2) v(2) by simp
    qed
    then show ?thesis using accepted_not_pending [OF acc] that(1,3) unfolding invs pending_def by fastforce
  qed
  have "\<exists>e. invite_Accept x envB claimsB reqB bodyB d' = (e, d') \<and> reply_status e \<in> {400, 401}"
    if later: "e_now env \<le> e_now envB"
      and body: "read_body x (decode_single ''token'') acceptInviteRequest_fields bodyB = (Inr tok :: string reply + string)"
  proof -
    have "GetInviteByTokenHash envB (HashToken x tok) d' = Inl ErrNoRows"
      using gone later by (auto simp: GetInviteByTokenHash_def query_one_NoRows_iff)
    then show ?thesis using body by (cases "e_fault envB ''GetInviteByTokenHash'' 0") (auto simp: invite_Accept_def split: sum.splits)
  qed
  then show ?thesis using usr tok v member limit by blast
qed

definition sample_invite :: Invite where
  "sample_invite = \<lparr>Inv_ID = 51, Inv_OrgID = 41, Inv_TeamID = None, Inv_InvitedBy = 14, Inv_Email = ''ann@acme'', Inv_Role = ''member'',
     Inv_TokenHash = hex_encode ''kot'', Inv_Status = ''pending'', Inv_ExpiresAt = usec_per_day, Inv_AcceptedAt = None, Inv_CreatedAt = 0\<rparr>"

definition sample_invite_db :: adb where
  "sample_invite_db = sample_org_db\<lparr>a_org_memberships := [sample_member 43 14 ''owner''], a_invites := [sample_invite]\<rparr>"

definition sample_token :: json where
  "sample_token = JObj [(''token'', JStr ''tok'')]"

lemma sample_invite_simps:
  "a_org_memberships sample_invite_db = [sample_member 43 14 ''owner'']" "a_organizations sample_invite_db = [sample_aorg]"
  "a_invites sample_invite_db = [sample_invite]" "a_users sample_invite_db = a_users sample_org_db"
  "Inv_ID sample_invite = 51" "Inv_OrgID sample_invite = 41" "Inv_TokenHash sample_invite = hex_encode ''kot''"
  "Inv_Role sample_invite = ''member''" "pending (sample_env t) sample_invite = (t < usec_per_day)"
  by (simp_all add: sample_invite_db_def sample_org_db_def sample_invite_def pending_def sample_env_simps)

lemma sample_accept:
  obtains d' where "invite_Accept (sample_aext [sample_token] []) (sample_env 0) (Some sample_claims) sample_req (json_text sample_token)
    sample_invite_db = (WriteJSON 200 ''accepted'', d')"
proof -
  let ?x = "sample_aext [sample_token] []"
  have usr: "auth_UserIDFromContext ?x (Some sample_claims) = Inr 11" by (simp add: auth_UserIDFromContext_def sample_subject)
  have "decode_single ''token'' sample_token = Some ''tok''" by code_simp
  then have tok: "read_body ?x (decode_single ''token'') acceptInviteRequest_fields (json_text sample_token) = (Inr ''tok'' :: string reply + string)"
    by (simp add: read_body_def auth_validate_def sample_validate_def acceptInviteRequest_fields_def)
  have iv: "GetInviteByTokenHash (sample_env 0) (HashToken ?x ''tok'') sample_invite_db = Inr sample_invite"
    by (simp add: GetInviteByTokenHash_def query_one_def sample_invite_simps HashToken_def)
  have "int32 (CountOrgMembers (Some 41) sample_invite_db) = 1"
    using int32_id [of 1] by (simp add: CountOrgMembers_def sample_invite_simps sample_org_simps)
  then have lim: "member_limit (sample_env 0) 41 sample_invite_db = (None :: string reply option)"
    by (simp add: member_limit_def auth_GetOrganizationByID_def query_one_def sample_invite_simps sample_org_simps sample_env_simps)
  obtain w d1 where acc: "AcceptInvite (sample_env 0) (Some 51) sample_invite_db = Inr (w, d1)"
    by (simp add: AcceptInvite_def query_one_def sample_invite_simps Let_def)
  obtain m d2 where "CreateOrgMembership (sample_env 0) 0 41 11 ''member'' d1 = Inr (m, d2)"
    using AcceptInvite_effect [OF acc]
    by (simp add: CreateOrgMembership_def valid_org_role_def Let_def sample_invite_simps sample_org_simps sample_env_simps sample_auth_simps)
      (simp add: sample_member_def sample_auth_simps sample_org_simps Let_def)
  then show thesis
    using that usr tok iv lim acc by (simp add: invite_Accept_def sample_env_simps sample_invite_simps)
qed

theorem invitation_accepted_once_witness:
  "\<exists>d'. invite_Accept (sample_aext [sample_token] []) (sample_env 0) (Some sample_claims) sample_req (json_text sample_token)
      sample_invite_db = (WriteJSON 200 ''accepted'', d')
    \<and> (\<exists>m \<in> set (a_org_memberships d'). OM_OrgID m = 41 \<and> OM_UserID m = 11 \<and> OM_Role m = ''member'')"
proof -
  obtain d' where call: "invite_Accept (sample_aext [sample_token] []) (sample_env 0) (Some sample_claims) sample_req (json_text sample_token)
    sample_invite_db = (WriteJSON 200 ''accepted'', d')" by (rule sample_accept)
  have inv: "distinct (map Inv_TokenHash (a_invites sample_invite_db))" by (simp add: sample_invite_simps)
  have lim: "CountOrgMembers (Some g) sample_invite_db < 2 ^ 31" for g by (simp add: CountOrgMembers_def sample_invite_simps)
  from invitation_accepted_once [OF call inv lim]
  obtain usr iv where "auth_UserIDFromContext (sample_aext [sample_token] []) (Some sample_claims) = Inr usr" "iv \<in> set (a_invites sample_invite_db)"
      "\<exists>m \<in> set (a_org_memberships d'). OM_OrgID m = Inv_OrgID iv \<and> OM_UserID m = usr \<and> OM_Role m = Inv_Role iv" by blast
  then show ?thesis using call by (simp add: auth_UserIDFromContext_def sample_subject sample_invite_simps)
qed

section \<open>What the audit log misses\<close>

text \<open>
  Deleting an organization is never recorded: the entry is written after the row it refers to is
  gone, violates the foreign key and is dropped, so no entry of the log is new.
\<close>

theorem org_deletion_not_audited:
  assumes "org_Delete x env claims req orgID d = (WriteJSON 200 s, d')"
  shows "map Log_ID (a_audit_logs d') = map Log_ID (a_audit_logs d) \<and> map Log_Action (a_audit_logs d') = map Log_Action (a_audit_logs d)"
proof -
  obtain u g where d': "d' = audit_Log x env 0 0 (Some g) (Some u) ''org.deleted'' '''' None (Some req) None (auth_DeleteOrganization (Some g) d)"
    using assms unfolding org_Delete_def by (auto simp: actor_and_org_def split: sum.splits prod.splits option.splits if_splits)
  let ?d = "auth_DeleteOrganization (Some g) d"
  have "\<not> org_exists g ?d"
    by (auto simp: auth_DeleteOrganization_def Let_def delete_where_def find_None_iff split: option.splits dest!: find_Some_iff [THEN iffD1])
  then have "d' = ?d" by (auto simp: d' audit_Log_def CreateAuditLog_def guarded_def)
  then show ?thesis
    by (auto simp: auth_DeleteOrganization_def Let_def map_update_where split: option.splits)
qed

definition sample_deletion :: "string reply \<times> adb" where
  "sample_deletion = org_Delete (sample_aext [] []) (sample_env 0) (Some sample_claims) sample_req (replicate 41 CHR ''g'') sample_org_db"

theorem org_deletion_not_audited_witness:
  "fst sample_deletion = WriteJSON 200 ''deleted'' \<and> a_organizations (snd sample_deletion) = [] \<and> a_audit_logs (snd sample_deletion) = []"
proof -
  have del: "sample_deletion = (WriteJSON 200 ''deleted'', audit_Log (sample_aext [] []) (sample_env 0) 0 0 (Some 41) (Some 11) ''org.deleted''
      '''' None (Some sample_req) None (auth_DeleteOrganization (Some 41) sample_org_db))"
    by (simp add: sample_deletion_def org_Delete_def sample_actor sample_requireOwner sample_env_simps)
  have "map Log_ID (a_audit_logs (snd sample_deletion)) = map Log_ID (a_audit_logs sample_org_db)"
    using org_deletion_not_audited [OF del [unfolded sample_deletion_def]] by (simp add: del)
  moreover have "a_audit_logs sample_org_db = []" by (simp add: sample_org_db_def sample_auth_simps)
  moreover have "a_organizations (snd sample_deletion) = []"
    by (simp add: del frame_simps auth_DeleteOrganization_def Let_def delete_where_def sample_org_simps)
  ultimately show ?thesis by (simp add: del)
qed

end
