(* ===== verification/AuthTeams.thy ===== *)
theory AuthTeams
  imports AuthOrgSystem
begin

text \<open>
  The team endpoints of the auth service (\<open>auth/internal/handler/team\<close>). The organization and the
  team of a request are two independent URL parameters: the role check is about the first, the
  queries are about the second.
\<close>

section \<open>Responses and requests\<close>

record teamResponse =
  TmR_ID :: string
  TmR_OrgID :: string
  TmR_Slug :: string
  TmR_Name :: string
  TmR_Description :: string
  TmR_CreatedAt :: string

definition toTeamResponse :: "aext \<Rightarrow> (timestamp \<Rightarrow> string) \<Rightarrow> Team \<Rightarrow> teamResponse" where
  "toTeamResponse x fmt t = \<lparr>TmR_ID = UUIDToString (a_ext x) (Some (Team_ID t)), TmR_OrgID = UUIDToString (a_ext x) (Some (Team_OrgID t)),
     TmR_Slug = Team_Slug t, TmR_Name = Team_Name t, TmR_Description = opt_text (Team_Description t),
     TmR_CreatedAt = fmt (Team_CreatedAt t)\<rparr>"

definition team_toMemberResponse :: "aext \<Rightarrow> (timestamp \<Rightarrow> string) \<Rightarrow> ListTeamMembersRow \<Rightarrow> memberResponse" where
  "team_toMemberResponse x fmt m = \<lparr>MemR_ID = UUIDToString (a_ext x) (Some (TMR_ID m)),
     MemR_UserID = UUIDToString (a_ext x) (Some (TMR_UserID m)), MemR_Email = TMR_Email m,
     MemR_FirstName = opt_text (TMR_FirstName m), MemR_LastName = opt_text (TMR_LastName m),
     MemR_AvatarURL = opt_text (TMR_AvatarUrl m), MemR_Role = TMR_Role m, MemR_JoinedAt = fmt (TMR_CreatedAt m)\<rparr>"

text \<open>\<open>createTeamRequest\<close> and \<open>updateTeamRequest\<close> have the same members and rules.\<close>

record teamRequest =
  TRq_Slug :: string
  TRq_Name :: string
  TRq_Description :: string

definition decode_teamRequest :: "json \<Rightarrow> teamRequest option" where
  "decode_teamRequest j =
     (case j of
        JNull \<Rightarrow> Some \<lparr>TRq_Slug = '''', TRq_Name = '''', TRq_Description = ''''\<rparr>
      | JObj ms \<Rightarrow>
          (case (str_field ''slug'' '''' ms, str_field ''name'' '''' ms, str_field ''description'' '''' ms) of
             (Some s, Some n, Some e) \<Rightarrow> Some \<lparr>TRq_Slug = s, TRq_Name = n, TRq_Description = e\<rparr> | _ \<Rightarrow> None)
      | _ \<Rightarrow> None)"

definition teamRequest_fields :: "teamRequest \<Rightarrow> vfield list" where
  "teamRequest_fields r = [(''Slug'', [VRequired, VMin 2, VMax 50], VStr (TRq_Slug r)),
     (''Name'', [VRequired, VMin 1, VMax 100], VStr (TRq_Name r)), (''Description'', [VMax 500], VStr (TRq_Description r))]"

record addMemberRequest =
  AMR_UserID :: string
  AMR_Role :: string

definition decode_addMemberRequest :: "json \<Rightarrow> addMemberRequest option" where
  "decode_addMemberRequest j =
     (case j of
        JNull \<Rightarrow> Some \<lparr>AMR_UserID = '''', AMR_Role = ''''\<rparr>
      | JObj ms \<Rightarrow> (case (str_field ''user_id'' '''' ms, str_field ''role'' '''' ms) of
          (Some u, Some r) \<Rightarrow> Some \<lparr>AMR_UserID = u, AMR_Role = r\<rparr> | _ \<Rightarrow> None)
      | _ \<Rightarrow> None)"

definition addMemberRequest_fields :: "addMemberRequest \<Rightarrow> vfield list" where
  "addMemberRequest_fields r = [(''UserID'', [VRequired, VUUID], VStr (AMR_UserID r)),
     (''Role'', [VRequired, VOneof [''lead'', ''member'']], VStr (AMR_Role r))]"

definition team_updateRoleRequest_fields :: "string \<Rightarrow> vfield list" where
  "team_updateRoleRequest_fields role = [(''Role'', [VRequired, VOneof [''lead'', ''member'']], VStr role)]"

section \<open>Teams (\<open>team.go\<close>)\<close>

text \<open>
  The checks of the handlers that name a row besides the organization: user, organization and row are
  parsed, then the role in the organization is checked. \<open>err\<close> is the message for a bad identifier.
\<close>

definition org_item_admin ::
  "aext \<Rightarrow> env \<Rightarrow> jwt_claims option \<Rightarrow> string \<Rightarrow> string \<Rightarrow> string \<Rightarrow> adb \<Rightarrow> 'a reply + uuid \<times> uuid \<times> uuid" where
  "org_item_admin x env claims orgID itemID err d =
     (case actor_and_org x claims orgID of
        Inl r \<Rightarrow> Inl r
      | Inr (actor, org) \<Rightarrow>
        (case ParseUUIDParam x itemID of
           None \<Rightarrow> Inl (ErrResponse 400 err)
         | Some i \<Rightarrow>
             if RequireOrgAdminOrOwner env 0 (Some org) (Some actor) d then Inr (actor, org, i)
             else Inl (ErrResponse 403 ErrForbidden)))"

abbreviation errInvalidTeamID :: string where "errInvalidTeamID \<equiv> ''invalid team id''"

definition team_Create ::
  "aext \<Rightarrow> env \<Rightarrow> (timestamp \<Rightarrow> string) \<Rightarrow> jwt_claims option \<Rightarrow> areq \<Rightarrow> string \<Rightarrow> string \<Rightarrow> adb \<Rightarrow> teamResponse reply \<times> adb" where
  "team_Create x env fmt claims req orgID body d =
     (case org_admin x env claims orgID d of
        Inl r \<Rightarrow> (r, d)
      | Inr (actor, org) \<Rightarrow>
        (case read_body x decode_teamRequest teamRequest_fields body of
           Inl r \<Rightarrow> (r, d)
         | Inr b \<Rightarrow>
           (case guarded env ''CreateTeam'' 0 (CreateTeam env 0 org (TRq_Slug b) (TRq_Name b) (text_opt (TRq_Description b)) d) of
              Inl _ \<Rightarrow> (ErrResponse 500 ErrInternal, d)
            | Inr (t, d1) \<Rightarrow> (WriteJSON 201 (toTeamResponse x fmt t),
                audit_Log x env 1 0 (Some org) (Some actor) ''team.created'' ''team'' (Some (Team_ID t)) (Some req) None d1))))"

definition team_List :: "aext \<Rightarrow> env \<Rightarrow> (timestamp \<Rightarrow> string) \<Rightarrow> string \<Rightarrow> adb \<Rightarrow> teamResponse list reply" where
  "team_List x env fmt orgID d =
     (case ParseUUIDParam x orgID of
        None \<Rightarrow> ErrResponse 400 ErrInvalidOrgID
      | Some org \<Rightarrow> if e_fault env ''ListTeamsByOrg'' 0 then ErrResponse 500 ErrInternal
          else OkResponse (map (toTeamResponse x fmt) (ListTeamsByOrg (Some org) d)))"

definition team_Get :: "aext \<Rightarrow> env \<Rightarrow> (timestamp \<Rightarrow> string) \<Rightarrow> string \<Rightarrow> adb \<Rightarrow> teamResponse reply" where
  "team_Get x env fmt teamID d =
     (case ParseUUIDParam x teamID of
        None \<Rightarrow> ErrResponse 400 errInvalidTeamID
      | Some i \<Rightarrow>
        (case guarded env ''GetTeamByID'' 0 (GetTeamByID (Some i) d) of
           Inl _ \<Rightarrow> ErrResponse 404 ''team not found''
         | Inr t \<Rightarrow> OkResponse (toTeamResponse x fmt t)))"

definition team_Update ::
  "aext \<Rightarrow> env \<Rightarrow> (timestamp \<Rightarrow> string) \<Rightarrow> jwt_claims option \<Rightarrow> areq \<Rightarrow> string \<Rightarrow> string \<Rightarrow> string \<Rightarrow> adb \<Rightarrow> teamResponse reply \<times> adb"
  where
  "team_Update x env fmt claims req orgID teamID body d =
     (case org_item_admin x env claims orgID teamID errInvalidTeamID d of
        Inl r \<Rightarrow> (r, d)
      | Inr (actor, org, team) \<Rightarrow>
        (case read_body x decode_teamRequest teamRequest_fields body of
           Inl r \<Rightarrow> (r, d)
         | Inr b \<Rightarrow>
           (case guarded env ''UpdateTeam'' 0 (UpdateTeam env (Some team) (TRq_Name b) (TRq_Slug b) (text_opt (TRq_Description b)) d) of
              Inl _ \<Rightarrow> (ErrResponse 500 ErrInternal, d)
            | Inr (t, d1) \<Rightarrow> (OkResponse (toTeamResponse x fmt t),
                audit_Log x env 0 0 (Some org) (Some actor) ''team.updated'' ''team'' (Some team) (Some req) None d1))))"

definition team_Delete ::
  "aext \<Rightarrow> env \<Rightarrow> jwt_claims option \<Rightarrow> areq \<Rightarrow> string \<Rightarrow> string \<Rightarrow> adb \<Rightarrow> string reply \<times> adb" where
  "team_Delete x env claims req orgID teamID d =
     (case org_item_admin x env claims orgID teamID errInvalidTeamID d of
        Inl r \<Rightarrow> (r, d)
      | Inr (actor, org, team) \<Rightarrow>
          if e_fault env ''DeleteTeam'' 0 then (ErrResponse 500 ErrInternal, d)
          else (WriteJSON 200 ''deleted'',
            audit_Log x env 0 0 (Some org) (Some actor) ''team.deleted'' ''team'' (Some team) (Some req) None
              (DeleteTeam (Some team) d)))"

section \<open>Team members (\<open>members.go\<close>)\<close>

definition team_ListMembers :: "aext \<Rightarrow> env \<Rightarrow> (timestamp \<Rightarrow> string) \<Rightarrow> string \<Rightarrow> adb \<Rightarrow> memberResponse list reply" where
  "team_ListMembers x env fmt teamID d =
     (case ParseUUIDParam x teamID of
        None \<Rightarrow> ErrResponse 400 errInvalidTeamID
      | Some i \<Rightarrow> if e_fault env ''ListTeamMembers'' 0 then ErrResponse 500 ErrInternal
          else OkResponse (map (team_toMemberResponse x fmt) (ListTeamMembers (Some i) d)))"

definition team_AddMember ::
  "aext \<Rightarrow> env \<Rightarrow> jwt_claims option \<Rightarrow> areq \<Rightarrow> string \<Rightarrow> string \<Rightarrow> string \<Rightarrow> adb \<Rightarrow> string reply \<times> adb" where
  "team_AddMember x env claims req orgID teamID body d =
     (case org_item_admin x env claims orgID teamID errInvalidTeamID d of
        Inl r \<Rightarrow> (r, d)
      | Inr (actor, org, team) \<Rightarrow>
        (case read_body x decode_addMemberRequest addMemberRequest_fields body of
           Inl r \<Rightarrow> (r, d)
         | Inr b \<Rightarrow>
           (case x_uuid_scan (a_ext x) (AMR_UserID b) of
              None \<Rightarrow> (ErrResponse 400 ErrInvalidUserID, d)
            | Some target \<Rightarrow>
              (case guarded env ''CreateTeamMembership'' 0 (CreateTeamMembership env 0 team target (AMR_Role b) d) of
                 Inl _ \<Rightarrow> (ErrResponse 500 ErrInternal, d)
               | Inr (_, d1) \<Rightarrow> (WriteJSON 201 ''added'',
                   audit_Log x env 1 0 (Some org) (Some actor) ''team.member.added'' ''user'' (Some target) (Some req)
                     (Some (''{\"team_id\":\"'' @ UUIDToString (a_ext x) (Some team) @ ''\",\"role\":\"'' @ AMR_Role b @ ''\"}'')) d1)))))"

definition team_RemoveMember ::
  "aext \<Rightarrow> env \<Rightarrow> jwt_claims option \<Rightarrow> areq \<Rightarrow> string \<Rightarrow> string \<Rightarrow> string \<Rightarrow> adb \<Rightarrow> string reply \<times> adb" where
  "team_RemoveMember x env claims req orgID teamID userID d =
     (case org_item_admin x env claims orgID teamID errInvalidTeamID d of
        Inl r \<Rightarrow> (r, d)
      | Inr (actor, org, team) \<Rightarrow>
        (case ParseUUIDParam x userID of
           None \<Rightarrow> (ErrResponse 400 ErrInvalidUserID, d)
         | Some target \<Rightarrow>
             if e_fault env ''DeleteTeamMembership'' 0 then (ErrResponse 500 ErrInternal, d)
             else (WriteJSON 200 ''removed'',
               audit_Log x env 0 0 (Some org) (Some actor) ''team.member.removed'' ''user'' (Some target) (Some req) None
                 (DeleteTeamMembership (Some team) (Some target) d))))"

definition team_UpdateMemberRole ::
  "aext \<Rightarrow> env \<Rightarrow> jwt_claims option \<Rightarrow> string \<Rightarrow> string \<Rightarrow> string \<Rightarrow> string \<Rightarrow> adb \<Rightarrow> string reply \<times> adb" where
  "team_UpdateMemberRole x env claims orgID teamID userID body d =
     (case org_item_admin x env claims orgID teamID errInvalidTeamID d of
        Inl r \<Rightarrow> (r, d)
      | Inr (actor, org, team) \<Rightarrow>
        (case ParseUUIDParam x userID of
           None \<Rightarrow> (ErrResponse 400 ErrInvalidUserID, d)
         | Some target \<Rightarrow>
           (case read_body x (decode_single ''role'') team_updateRoleRequest_fields body of
              Inl r \<Rightarrow> (r, d)
            | Inr role \<Rightarrow>
              (case guarded env ''UpdateTeamMemberRole'' 0 (UpdateTeamMemberRole (Some team) (Some target) role d) of
                 Inl _ \<Rightarrow> (ErrResponse 500 ErrInternal, d)
               | Inr d1 \<Rightarrow> (WriteJSON 200 ''updated'', d1)))))"

section \<open>The role that is checked is not the role that counts\<close>

text \<open>
  Whoever administers any organization, his own fresh one for instance, can delete the team of
  every other organization: the check is about the organization of the URL, and the deletion does
  not ask whether the team belongs to it.
\<close>

theorem team_deletion_crosses_organizations:
  assumes "actor_and_org x claims orgID = (Inr (actor, g) :: string reply + uuid \<times> uuid)" and "ParseUUIDParam x teamID = Some i"
    and "RequireOrgAdminOrOwner env 0 (Some g) (Some actor) d" and "\<not> e_fault env ''DeleteTeam'' 0"
    and "t \<in> set (a_teams d)" and "Team_ID t = i" and "Team_OrgID t \<noteq> g"
  shows "\<exists>d'. team_Delete x env claims req orgID teamID d = (WriteJSON 200 ''deleted'', d') \<and> t \<notin> set (a_teams d')
    \<and> (\<forall>m \<in> set (a_team_memberships d'). TM_TeamID m \<noteq> i)"
proof -
  let ?d = "audit_Log x env 0 0 (Some g) (Some actor) ''team.deleted'' ''team'' (Some i) (Some req) None (DeleteTeam (Some i) d)"
  have "team_Delete x env claims req orgID teamID d = (WriteJSON 200 ''deleted'', ?d)"
    using assms(1-4) by (simp add: team_Delete_def org_item_admin_def)
  moreover have "t \<notin> set (a_teams ?d)" "\<forall>m \<in> set (a_team_memberships ?d). TM_TeamID m \<noteq> i"
    unfolding audit_Log_org_frame using assms(6) by (auto simp: DeleteTeam_def set_delete_where)
  ultimately show ?thesis by blast
qed

definition sample_foreign_team :: Team where
  "sample_foreign_team = \<lparr>Team_ID = 3, Team_OrgID = 99, Team_Slug = ''core'', Team_Name = ''Core'', Team_Description = None,
     Team_CreatedAt = 0, Team_UpdatedAt = 0\<rparr>"

theorem team_deletion_crosses_organizations_witness:
  "\<exists>d'. team_Delete (sample_aext [] []) (sample_env 0) (Some sample_claims) sample_req (replicate 41 CHR ''g'') ''ttt''
      (sample_org_db\<lparr>a_teams := [sample_foreign_team]\<rparr>) = (WriteJSON 200 ''deleted'', d') \<and> sample_foreign_team \<notin> set (a_teams d')"
proof -
  let ?d = "sample_org_db\<lparr>a_teams := [sample_foreign_team]\<rparr>"
  have i: "ParseUUIDParam (sample_aext [] []) ''ttt'' = Some 3" by (simp add: ParseUUIDParam_def)
  have role: "RequireOrgAdminOrOwner (sample_env 0) 0 (Some 41) (Some 11) ?d"
    by (simp add: RequireOrgAdminOrOwner_def GetOrgMembership_def query_one_def sample_org_simps member_key_def sample_env_simps)
  have t: "sample_foreign_team \<in> set (a_teams ?d)" "Team_ID sample_foreign_team = 3" "Team_OrgID sample_foreign_team \<noteq> 41"
    by (simp_all add: sample_foreign_team_def)
  from team_deletion_crosses_organizations [OF sample_actor i role sample_env_simps(3) t] show ?thesis by blast
qed

end
