(* ===== verification/AuthUsers.thy ===== *)
theory AuthUsers
  imports AuthTeams
begin

text \<open>
  The profile, administration and audit endpoints of the auth service (\<open>auth/internal/handler/user\<close>,
  \<open>handler/admin\<close>, \<open>handler/audit\<close>). Parsing and printing of times are parameters; times are in UTC.
\<close>

section \<open>More fields of a request\<close>

text \<open>An \<open>int32\<close> field, a pointer to a boolean and a raw JSON value.\<close>

fun int32_field :: "string \<Rightarrow> int \<Rightarrow> (string \<times> json) list \<Rightarrow> int option" where
  "int32_field name v [] = Some v"
| "int32_field name v ((k, j) # ms) =
     (if field_match name k
      then (case j of
          JNum n \<Rightarrow> (if - (2 ^ 31) \<le> n \<and> n < 2 ^ 31 then int32_field name n ms else None)
        | JNull \<Rightarrow> int32_field name v ms
        | _ \<Rightarrow> None)
      else int32_field name v ms)"

fun opt_bool_field :: "string \<Rightarrow> bool option \<Rightarrow> (string \<times> json) list \<Rightarrow> bool option option" where
  "opt_bool_field name v [] = Some v"
| "opt_bool_field name v ((k, j) # ms) =
     (if field_match name k
      then (case j of JBool b \<Rightarrow> opt_bool_field name (Some b) ms | JNull \<Rightarrow> opt_bool_field name None ms | _ \<Rightarrow> None)
      else opt_bool_field name v ms)"

fun raw_field :: "string \<Rightarrow> json option \<Rightarrow> (string \<times> json) list \<Rightarrow> json option" where
  "raw_field name v [] = v"
| "raw_field name v ((k, j) # ms) = raw_field name (if field_match name k then Some j else v) ms"

section \<open>Profiles (\<open>user/profile.go\<close>)\<close>

record auth_profileResponse =
  Prof_ID :: string
  Prof_Email :: string
  Prof_EmailVerified :: bool
  Prof_FirstName :: string
  Prof_LastName :: string
  Prof_Nickname :: string
  Prof_Bio :: string
  Prof_Country :: string
  Prof_Age :: int
  Prof_Timezone :: string
  Prof_Language :: string
  Prof_AvatarURL :: string
  Prof_SocialLinks :: string
  Prof_ProfileVisibility :: string
  Prof_OnboardingStep :: string
  Prof_CreatedAt :: string

definition toProfileResponse :: "aext \<Rightarrow> (timestamp \<Rightarrow> string) \<Rightarrow> AuthUser \<Rightarrow> auth_profileResponse" where
  "toProfileResponse x fmt u = \<lparr>Prof_ID = UUIDToString (a_ext x) (Some (AU_ID u)), Prof_Email = AU_Email u,
     Prof_EmailVerified = AU_EmailVerified u, Prof_FirstName = opt_text (AU_FirstName u), Prof_LastName = opt_text (AU_LastName u),
     Prof_Nickname = opt_text (AU_Nickname u), Prof_Bio = opt_text (AU_Bio u), Prof_Country = opt_text (AU_Country u),
     Prof_Age = (case AU_Age u of None \<Rightarrow> 0 | Some a \<Rightarrow> a), Prof_Timezone = AU_Timezone u, Prof_Language = AU_Language u,
     Prof_AvatarURL = opt_text (AU_AvatarUrl u), Prof_SocialLinks = AU_SocialLinks u,
     Prof_ProfileVisibility = AU_ProfileVisibility u, Prof_OnboardingStep = AU_OnboardingStep u,
     Prof_CreatedAt = fmt (AU_CreatedAt u)\<rparr>"

record auth_updateProfileRequest =
  UPq_FirstName :: string
  UPq_LastName :: string
  UPq_Nickname :: string
  UPq_Bio :: string
  UPq_Country :: string
  UPq_Age :: int
  UPq_Timezone :: string
  UPq_Language :: string
  UPq_SocialLinks :: "json option"
  UPq_ProfileVisibility :: string

definition auth_decode_updateProfileRequest :: "json \<Rightarrow> auth_updateProfileRequest option" where
  "auth_decode_updateProfileRequest j =
     (let decode = (\<lambda>ms.
        (case (str_field ''first_name'' '''' ms, str_field ''last_name'' '''' ms, str_field ''nickname'' '''' ms, str_field ''bio'' '''' ms,
               str_field ''country'' '''' ms, int32_field ''age'' 0 ms, str_field ''timezone'' '''' ms, str_field ''language'' '''' ms,
               str_field ''profile_visibility'' '''' ms) of
           (Some f, Some l, Some n, Some b, Some c, Some a, Some t, Some g, Some v) \<Rightarrow>
             Some \<lparr>UPq_FirstName = f, UPq_LastName = l, UPq_Nickname = n, UPq_Bio = b, UPq_Country = c, UPq_Age = a,
               UPq_Timezone = t, UPq_Language = g, UPq_SocialLinks = raw_field ''social_links'' None ms, UPq_ProfileVisibility = v\<rparr>
         | _ \<Rightarrow> None))
      in case j of JNull \<Rightarrow> decode [] | JObj ms \<Rightarrow> decode ms | _ \<Rightarrow> None)"

definition auth_updateProfileRequest_fields :: "auth_updateProfileRequest \<Rightarrow> vfield list" where
  "auth_updateProfileRequest_fields r = [(''FirstName'', [VMax 100], VStr (UPq_FirstName r)), (''LastName'', [VMax 100], VStr (UPq_LastName r)),
     (''Nickname'', [VMax 50], VStr (UPq_Nickname r)), (''Bio'', [VMax 500], VStr (UPq_Bio r)), (''Country'', [VMax 100], VStr (UPq_Country r)),
     (''Age'', [VOmitEmpty, VGte 13, VMax 150], VInt (UPq_Age r)), (''Timezone'', [VMax 50], VStr (UPq_Timezone r)),
     (''Language'', [VMax 10], VStr (UPq_Language r)),
     (''ProfileVisibility'', [VOmitEmpty, VOneof [''public'', ''private'', ''team_only'']], VStr (UPq_ProfileVisibility r))]"

definition GetMe :: "aext \<Rightarrow> env \<Rightarrow> (timestamp \<Rightarrow> string) \<Rightarrow> jwt_claims option \<Rightarrow> adb \<Rightarrow> auth_profileResponse reply" where
  "GetMe x env fmt claims d =
     (case auth_UserIDFromContext x claims of
        Inl err \<Rightarrow> ErrResponse 401 err
      | Inr usr \<Rightarrow>
        (case guarded env ''GetUserByID'' 0 (auth_GetUserByID (Some usr) d) of
           Inl _ \<Rightarrow> ErrResponse 500 ErrInternal
         | Inr u \<Rightarrow> OkResponse (toProfileResponse x fmt u)))"

text \<open>The parameters of the update, with the defaults the handler fills in.\<close>

definition or_default :: "string \<Rightarrow> string \<Rightarrow> string" where
  "or_default dflt s = (if s = '''' then dflt else s)"

definition profile_params :: "aext \<Rightarrow> auth_updateProfileRequest \<Rightarrow> UpdateUserProfileParams" where
  "profile_params x b = \<lparr>UUP_FirstName = text_opt (UPq_FirstName b), UUP_LastName = text_opt (UPq_LastName b),
     UUP_Nickname = text_opt (UPq_Nickname b), UUP_Bio = text_opt (UPq_Bio b), UUP_Country = text_opt (UPq_Country b),
     UUP_Age = (if UPq_Age b > 0 then Some (UPq_Age b) else None), UUP_Timezone = or_default ''UTC'' (UPq_Timezone b),
     UUP_Language = or_default ''en'' (UPq_Language b),
     UUP_SocialLinks = (case UPq_SocialLinks b of None \<Rightarrow> ''{}'' | Some j \<Rightarrow> x_marshal (a_ext x) j),
     UUP_ProfileVisibility = or_default ''team_only'' (UPq_ProfileVisibility b)\<rparr>"

definition UpdateMe ::
  "aext \<Rightarrow> env \<Rightarrow> (timestamp \<Rightarrow> string) \<Rightarrow> jwt_claims option \<Rightarrow> string \<Rightarrow> adb \<Rightarrow> auth_profileResponse reply \<times> adb" where
  "UpdateMe x env fmt claims body d =
     (case auth_UserIDFromContext x claims of
        Inl err \<Rightarrow> (ErrResponse 401 err, d)
      | Inr usr \<Rightarrow>
        (case read_body x auth_decode_updateProfileRequest auth_updateProfileRequest_fields body of
           Inl r \<Rightarrow> (r, d)
         | Inr b \<Rightarrow>
           (case guarded env ''UpdateUserProfile'' 0 (UpdateUserProfile env (Some usr) (profile_params x b) d) of
              Inl _ \<Rightarrow> (ErrResponse 500 ErrInternal, d)
            | Inr (u, d1) \<Rightarrow> (OkResponse (toProfileResponse x fmt u), d1))))"

definition updateOnboardingRequest_fields :: "string \<Rightarrow> vfield list" where
  "updateOnboardingRequest_fields s =
     [(''Step'', [VRequired, VOneof [''profile'', ''connect_oauth'', ''join_team'', ''completed'']], VStr s)]"

definition UpdateOnboarding :: "aext \<Rightarrow> env \<Rightarrow> jwt_claims option \<Rightarrow> string \<Rightarrow> adb \<Rightarrow> string reply \<times> adb" where
  "UpdateOnboarding x env claims body d =
     (case auth_UserIDFromContext x claims of
        Inl err \<Rightarrow> (ErrResponse 401 err, d)
      | Inr usr \<Rightarrow>
        (case read_body x (decode_single ''step'') updateOnboardingRequest_fields body of
           Inl r \<Rightarrow> (r, d)
         | Inr step \<Rightarrow>
           (case guarded env ''UpdateUserOnboardingStep'' 0 (UpdateUserOnboardingStep env (Some usr) step d) of
              Inl _ \<Rightarrow> (ErrResponse 500 ErrInternal, d)
            | Inr d1 \<Rightarrow> (WriteJSON 200 step, d1))))"

section \<open>Identities (\<open>user/identities.go\<close>)\<close>

record identityResponse =
  IdR_Provider :: string
  IdR_ProviderID :: string
  IdR_Email :: string
  IdR_DisplayName :: string
  IdR_AvatarURL :: string

definition identity_item :: "OauthIdentity \<Rightarrow> identityResponse" where
  "identity_item i = \<lparr>IdR_Provider = Ident_Provider i, IdR_ProviderID = Ident_ProviderID i, IdR_Email = opt_text (Ident_Email i),
     IdR_DisplayName = opt_text (Ident_DisplayName i), IdR_AvatarURL = opt_text (Ident_AvatarUrl i)\<rparr>"

definition ListIdentities :: "aext \<Rightarrow> env \<Rightarrow> jwt_claims option \<Rightarrow> adb \<Rightarrow> identityResponse list reply" where
  "ListIdentities x env claims d =
     (case auth_UserIDFromContext x claims of
        Inl err \<Rightarrow> ErrResponse 401 err
      | Inr usr \<Rightarrow> if e_fault env ''ListOAuthIdentitiesByUser'' 0 then ErrResponse 500 ErrInternal
          else OkResponse (map identity_item (ListOAuthIdentitiesByUser (Some usr) d)))"

definition UnlinkIdentity :: "aext \<Rightarrow> env \<Rightarrow> jwt_claims option \<Rightarrow> string \<Rightarrow> adb \<Rightarrow> string reply \<times> adb" where
  "UnlinkIdentity x env claims provider d =
     (case auth_UserIDFromContext x claims of
        Inl err \<Rightarrow> (ErrResponse 401 err, d)
      | Inr usr \<Rightarrow>
          if e_fault env ''CountOAuthIdentitiesByUser'' 0 then (ErrResponse 500 ErrInternal, d)
          else if CountOAuthIdentitiesByUser (Some usr) d \<le> 1 then (ErrResponse 400 ''cannot unlink the only identity'', d)
          else if e_fault env ''DeleteOAuthIdentity'' 0 then (ErrResponse 500 ErrInternal, d)
          else (WriteJSON 200 ''unlinked'', DeleteOAuthIdentity (Some usr) provider d))"

section \<open>Administration (\<open>admin/admin.go\<close>)\<close>

text \<open>\<open>requirePlatformAdmin\<close>: whether the check passes.\<close>

definition requirePlatformAdmin :: "aext \<Rightarrow> env \<Rightarrow> jwt_claims option \<Rightarrow> adb \<Rightarrow> bool" where
  "requirePlatformAdmin x env claims d =
     (case auth_UserIDFromContext x claims of
        Inl _ \<Rightarrow> False
      | Inr usr \<Rightarrow> (case guarded env ''GetUserByID'' 0 (auth_GetUserByID (Some usr) d) of
          Inl _ \<Rightarrow> False | Inr u \<Rightarrow> AU_IsPlatformAdmin u))"

abbreviation errPlatformAdmin :: string where "errPlatformAdmin \<equiv> ''platform admin required''"

definition parsePagination :: "string \<Rightarrow> string \<Rightarrow> int \<times> int" where
  "parsePagination limit offset =
     ((case (if limit = '''' then None else parse_int limit) of
         None \<Rightarrow> 50 | Some n \<Rightarrow> if n > 0 \<and> n \<le> 100 then int32 n else 50),
      (case (if offset = '''' then None else parse_int offset) of
         None \<Rightarrow> 0 | Some n \<Rightarrow> if n \<ge> 0 then int32 n else 0))"

record admin_userResponse =
  AdU_ID :: string
  AdU_Email :: string
  AdU_FirstName :: string
  AdU_LastName :: string
  AdU_IsPlatformAdmin :: bool
  AdU_OnboardingStep :: string
  AdU_CreatedAt :: string

definition toUserResponse :: "aext \<Rightarrow> (timestamp \<Rightarrow> string) \<Rightarrow> AuthUser \<Rightarrow> admin_userResponse" where
  "toUserResponse x fmt u = \<lparr>AdU_ID = UUIDToString (a_ext x) (Some (AU_ID u)), AdU_Email = AU_Email u,
     AdU_FirstName = opt_text (AU_FirstName u), AdU_LastName = opt_text (AU_LastName u),
     AdU_IsPlatformAdmin = AU_IsPlatformAdmin u, AdU_OnboardingStep = AU_OnboardingStep u, AdU_CreatedAt = fmt (AU_CreatedAt u)\<rparr>"

record admin_orgResponse =
  AdO_ID :: string
  AdO_Slug :: string
  AdO_Name :: string
  AdO_Plan :: string
  AdO_MaxMembers :: int
  AdO_CreatedAt :: string

definition admin_toOrgResponse :: "aext \<Rightarrow> (timestamp \<Rightarrow> string) \<Rightarrow> AuthOrganization \<Rightarrow> admin_orgResponse" where
  "admin_toOrgResponse x fmt g = \<lparr>AdO_ID = UUIDToString (a_ext x) (Some (AOrg_ID g)), AdO_Slug = AOrg_Slug g, AdO_Name = AOrg_Name g,
     AdO_Plan = AOrg_Plan g, AdO_MaxMembers = AOrg_MaxMembers g, AdO_CreatedAt = fmt (AOrg_CreatedAt g)\<rparr>"

text \<open>A page is answered with its items and the total number of rows.\<close>

definition admin_ListUsers ::
  "aext \<Rightarrow> env \<Rightarrow> (timestamp \<Rightarrow> string) \<Rightarrow> jwt_claims option \<Rightarrow> string \<Rightarrow> string \<Rightarrow> adb \<Rightarrow> (admin_userResponse list \<times> int) reply" where
  "admin_ListUsers x env fmt claims limit offset d =
     (if \<not> requirePlatformAdmin x env claims d then ErrResponse 403 errPlatformAdmin
      else (case guarded env ''ListUsers'' 0 (ListUsers (fst (parsePagination limit offset)) (snd (parsePagination limit offset)) d) of
         Inl _ \<Rightarrow> ErrResponse 500 ErrInternal
       | Inr us \<Rightarrow> if e_fault env ''CountUsers'' 0 then ErrResponse 500 ErrInternal
           else OkResponse (map (toUserResponse x fmt) us, CountUsers d)))"

definition admin_GetUser ::
  "aext \<Rightarrow> env \<Rightarrow> (timestamp \<Rightarrow> string) \<Rightarrow> jwt_claims option \<Rightarrow> string \<Rightarrow> adb \<Rightarrow> admin_userResponse reply" where
  "admin_GetUser x env fmt claims userID d =
     (if \<not> requirePlatformAdmin x env claims d then ErrResponse 403 errPlatformAdmin
      else case ParseUUIDParam x userID of
        None \<Rightarrow> ErrResponse 400 ''invalid id''
      | Some i \<Rightarrow> (case guarded env ''GetUserByID'' 1 (auth_GetUserByID (Some i) d) of
          Inl _ \<Rightarrow> ErrResponse 404 ''user not found''
        | Inr u \<Rightarrow> OkResponse (toUserResponse x fmt u)))"

definition decode_updateUserRequest :: "json \<Rightarrow> bool option option" where
  "decode_updateUserRequest j =
     (case j of JNull \<Rightarrow> Some None | JObj ms \<Rightarrow> opt_bool_field ''is_platform_admin'' None ms | _ \<Rightarrow> None)"

definition admin_UpdateUser ::
  "aext \<Rightarrow> env \<Rightarrow> jwt_claims option \<Rightarrow> string \<Rightarrow> string \<Rightarrow> adb \<Rightarrow> string reply \<times> adb" where
  "admin_UpdateUser x env claims userID body d =
     (if \<not> requirePlatformAdmin x env claims d then (ErrResponse 403 errPlatformAdmin, d)
      else case ParseUUIDParam x userID of
        None \<Rightarrow> (ErrResponse 400 ''invalid id'', d)
      | Some i \<Rightarrow>
        (case Option.bind (x_json (a_ext x) body) decode_updateUserRequest of
           None \<Rightarrow> (ErrResponse 400 ErrDecode, d)
         | Some None \<Rightarrow> (WriteJSON 200 ''updated'', d)
         | Some (Some b) \<Rightarrow>
             if e_fault env ''UpdateUserPlatformAdmin'' 0 then (ErrResponse 500 ErrInternal, d)
             else (WriteJSON 200 ''updated'', UpdateUserPlatformAdmin env (Some i) b d)))"

definition admin_ListOrgs ::
  "aext \<Rightarrow> env \<Rightarrow> (timestamp \<Rightarrow> string) \<Rightarrow> jwt_claims option \<Rightarrow> string \<Rightarrow> string \<Rightarrow> adb \<Rightarrow> (admin_orgResponse list \<times> int) reply" where
  "admin_ListOrgs x env fmt claims limit offset d =
     (if \<not> requirePlatformAdmin x env claims d then ErrResponse 403 errPlatformAdmin
      else (case guarded env ''ListOrganizations'' 0
              (ListOrganizations (fst (parsePagination limit offset)) (snd (parsePagination limit offset)) d) of
         Inl _ \<Rightarrow> ErrResponse 500 ErrInternal
       | Inr gs \<Rightarrow> if e_fault env ''CountOrganizations'' 0 then ErrResponse 500 ErrInternal
           else OkResponse (map (admin_toOrgResponse x fmt) gs, CountOrganizations d)))"

record updateOrgPlanRequest =
  UPl_Plan :: string
  UPl_MaxMembers :: int

definition decode_updateOrgPlanRequest :: "json \<Rightarrow> updateOrgPlanRequest option" where
  "decode_updateOrgPlanRequest j =
     (case j of
        JNull \<Rightarrow> Some \<lparr>UPl_Plan = '''', UPl_MaxMembers = 0\<rparr>
      | JObj ms \<Rightarrow> (case (str_field ''plan'' '''' ms, int32_field ''max_members'' 0 ms) of
          (Some p, Some m) \<Rightarrow> Some \<lparr>UPl_Plan = p, UPl_MaxMembers = m\<rparr> | _ \<Rightarrow> None)
      | _ \<Rightarrow> None)"

definition updateOrgPlanRequest_fields :: "updateOrgPlanRequest \<Rightarrow> vfield list" where
  "updateOrgPlanRequest_fields r = [(''Plan'', [VRequired, VOneof [''free'', ''pro'', ''enterprise'']], VStr (UPl_Plan r)),
     (''MaxMembers'', [VRequired, VGte 1], VInt (UPl_MaxMembers r))]"

definition UpdateOrgPlan ::
  "aext \<Rightarrow> env \<Rightarrow> (timestamp \<Rightarrow> string) \<Rightarrow> jwt_claims option \<Rightarrow> string \<Rightarrow> string \<Rightarrow> adb \<Rightarrow> admin_orgResponse reply \<times> adb" where
  "UpdateOrgPlan x env fmt claims orgID body d =
     (if \<not> requirePlatformAdmin x env claims d then (ErrResponse 403 errPlatformAdmin, d)
      else case ParseUUIDParam x orgID of
        None \<Rightarrow> (ErrResponse 400 ''invalid id'', d)
      | Some i \<Rightarrow>
        (case read_body x decode_updateOrgPlanRequest updateOrgPlanRequest_fields body of
           Inl r \<Rightarrow> (r, d)
         | Inr b \<Rightarrow>
           (case guarded env ''UpdateOrganizationPlan'' 0 (UpdateOrganizationPlan env (Some i) (UPl_Plan b) (UPl_MaxMembers b) d) of
              Inl _ \<Rightarrow> (ErrResponse 500 ErrInternal, d)
            | Inr (g, d1) \<Rightarrow> (OkResponse (admin_toOrgResponse x fmt g), d1))))"

section \<open>Audit log and metrics (\<open>audit/audit.go\<close>)\<close>

record auditLogResponse =
  AuR_ID :: string
  AuR_ActorID :: string
  AuR_Action :: string
  AuR_TargetType :: string
  AuR_TargetID :: string
  AuR_IPAddress :: string
  AuR_CreatedAt :: string

definition toAuditLogResponse :: "aext \<Rightarrow> (timestamp \<Rightarrow> string) \<Rightarrow> AuthAuditLog \<Rightarrow> auditLogResponse" where
  "toAuditLogResponse x fmt a = \<lparr>AuR_ID = UUIDToString (a_ext x) (Some (Log_ID a)), AuR_ActorID = UUIDToString (a_ext x) (Log_ActorID a),
     AuR_Action = Log_Action a, AuR_TargetType = opt_text (Log_TargetType a), AuR_TargetID = UUIDToString (a_ext x) (Log_TargetID a),
     AuR_IPAddress = (case Log_IpAddress a of None \<Rightarrow> '''' | Some i \<Rightarrow> i), AuR_CreatedAt = fmt (Log_CreatedAt a)\<rparr>"

text \<open>These handlers parse the organization before they look at the claims.\<close>

definition audit_admin :: "aext \<Rightarrow> env \<Rightarrow> jwt_claims option \<Rightarrow> string \<Rightarrow> adb \<Rightarrow> 'a reply + uuid" where
  "audit_admin x env claims orgID d =
     (case ParseUUIDParam x orgID of
        None \<Rightarrow> Inl (ErrResponse 400 ErrInvalidOrgID)
      | Some org \<Rightarrow>
        (case auth_UserIDFromContext x claims of
           Inl err \<Rightarrow> Inl (ErrResponse 401 err)
         | Inr actor \<Rightarrow> if RequireOrgAdminOrOwner env 0 (Some org) (Some actor) d then Inr org
             else Inl (ErrResponse 403 ErrForbidden)))"

text \<open>
  \<open>List\<close>: \<open>parse\<close> reads RFC 3339, \<open>fmt\<close> prints it and \<open>fmtNano\<close> prints it with fractions. The second
  component of the answer is the cursor for the next page.
\<close>

definition audit_List ::
  "aext \<Rightarrow> env \<Rightarrow> (string \<Rightarrow> timestamp option) \<Rightarrow> (timestamp \<Rightarrow> string) \<Rightarrow> (timestamp \<Rightarrow> string) \<Rightarrow> jwt_claims option
    \<Rightarrow> string \<Rightarrow> string \<Rightarrow> string \<Rightarrow> adb \<Rightarrow> (auditLogResponse list \<times> string option) reply" where
  "audit_List x env parse fmt fmtNano claims orgID cursor action d =
     (case audit_admin x env claims orgID d of
        Inl r \<Rightarrow> r
      | Inr org \<Rightarrow>
        (case (if cursor = '''' then Some (e_now env) else parse cursor) of
           None \<Rightarrow> ErrResponse 400 ''invalid date format, expected RFC3339''
         | Some c \<Rightarrow>
             if e_fault env (if action \<noteq> '''' then ''ListAuditLogsByAction'' else ''ListAuditLogs'') 0 then ErrResponse 500 ErrInternal
             else let logs = (if action \<noteq> '''' then ListAuditLogsByAction (Some org) action c 50 d else ListAuditLogs (Some org) c 50 d)
                  in WriteJSON 200 (map (toAuditLogResponse x fmt) logs,
                       if length logs = 50 then Some (fmtNano (Log_CreatedAt (last logs))) else None)))"

text \<open>\<open>parseDateRange\<close>: \<open>parse_day\<close> reads a date as the time of its midnight.\<close>

definition parseDateRange :: "env \<Rightarrow> (string \<Rightarrow> timestamp option) \<Rightarrow> string \<Rightarrow> string \<Rightarrow> timestamp \<times> timestamp" where
  "parseDateRange env parse_day fro til =
     ((case (if fro = '''' then None else parse_day fro) of None \<Rightarrow> e_now env - 30 * usec_per_day | Some t \<Rightarrow> t),
      (case (if til = '''' then None else parse_day til) of None \<Rightarrow> e_now env | Some t \<Rightarrow> t + (usec_per_day - usec_per_sec)))"

definition LoginMetrics ::
  "aext \<Rightarrow> env \<Rightarrow> (string \<Rightarrow> timestamp option) \<Rightarrow> (int \<Rightarrow> string) \<Rightarrow> jwt_claims option \<Rightarrow> string \<Rightarrow> string \<Rightarrow> string \<Rightarrow> adb
    \<Rightarrow> (string \<times> int) list reply" where
  "LoginMetrics x env parse_day fmt_day claims orgID fro til d =
     (case audit_admin x env claims orgID d of
        Inl r \<Rightarrow> r
      | Inr org \<Rightarrow>
          if e_fault env ''CountLoginsByDay'' 0 then ErrResponse 500 ErrInternal
          else OkResponse (map (\<lambda>(day, n). (fmt_day day, n))
            (CountLoginsByDay (Some org) (fst (parseDateRange env parse_day fro til)) (snd (parseDateRange env parse_day fro til)) d)))"

definition FailedLoginMetrics ::
  "aext \<Rightarrow> env \<Rightarrow> (string \<Rightarrow> timestamp option) \<Rightarrow> (int \<Rightarrow> string) \<Rightarrow> jwt_claims option \<Rightarrow> string \<Rightarrow> string \<Rightarrow> string \<Rightarrow> adb
    \<Rightarrow> (string \<times> int) list reply" where
  "FailedLoginMetrics x env parse_day fmt_day claims orgID fro til d =
     (case audit_admin x env claims orgID d of
        Inl r \<Rightarrow> r
      | Inr org \<Rightarrow>
          if e_fault env ''CountFailedLoginsByDay'' 0 then ErrResponse 500 ErrInternal
          else OkResponse (map (\<lambda>(day, n). (fmt_day day, n))
            (CountFailedLoginsByDay (fst (parseDateRange env parse_day fro til)) (snd (parseDateRange env parse_day fro til)) d)))"

section \<open>Properties\<close>

text \<open>
  The administration lists page with between 1 and 100 rows whatever the query says, and the
  offset stays within 32 bits; an offset from \<open>2\<^sup>3\<^sup>1\<close> up to \<open>2\<^sup>3\<^sup>2\<close> is accepted and wraps to a negative
  number, which the database refuses, so the request ends in an internal error.
\<close>

theorem admin_paging_bounds:
  "1 \<le> fst (parsePagination lim off) \<and> fst (parsePagination lim off) \<le> 100
    \<and> - (2 ^ 31) \<le> snd (parsePagination lim off) \<and> snd (parsePagination lim off) < 2 ^ 31
    \<and> (\<forall>n. 2 ^ 31 \<le> n \<and> n < 2 ^ 32 \<longrightarrow> snd (parsePagination lim (int_text n)) < 0
        \<and> reply_status (admin_ListUsers x env fmt claims lim (int_text n) d) \<noteq> 200)"
proof -
  have "int32 n \<in> {- (2 ^ 31) ..< 2 ^ 31}" for n
    using sint_ge [of "word_of_int n :: 32 word"] sint_lt [of "word_of_int n :: 32 word"] by (simp add: int32_def)
  then have off: "- (2 ^ 31) \<le> snd (parsePagination lim off) \<and> snd (parsePagination lim off) < 2 ^ 31"
    by (auto simp: parsePagination_def split: option.splits)
  have "1 \<le> int32 n \<and> int32 n \<le> 100" if "0 < n" "n \<le> 100" for n using that int32_id [of n] by simp
  then have lim: "1 \<le> fst (parsePagination lim off) \<and> fst (parsePagination lim off) \<le> 100"
    by (auto simp: parsePagination_def split: option.splits)
  have neg: "snd (parsePagination lim (int_text n)) < 0" if n: "2 ^ 31 \<le> n" "n < 2 ^ 32" for n
  proof -
    have "int_text n \<noteq> ''''" using parse_int_text [of n] n by (auto simp: int64_range_def parse_int_def)
    moreover have "parse_int (int_text n) = Some n" using parse_int_text [of n] n by (simp add: int64_range_def)
    moreover have "int32 n = n - 2 ^ 32"
    proof -
      have "(word_of_int n :: 32 word) = word_of_int (n - 2 ^ 32)" by (simp add: word_of_int_eq_iff take_bit_eq_mod)
      then have "int32 n = int32 (n - 2 ^ 32)" unfolding int32_def by (rule arg_cong)
      also have "\<dots> = n - 2 ^ 32" by (rule int32_id) (use n in simp_all)
      finally show ?thesis .
    qed
    ultimately show ?thesis using n by (simp add: parsePagination_def)
  qed
  then have "reply_status (admin_ListUsers x env fmt claims lim (int_text n) d) \<noteq> 200" if "2 ^ 31 \<le> n" "n < 2 ^ 32" for n
    using neg [OF that] by (cases "e_fault env ''ListUsers'' 0") (auto simp: admin_ListUsers_def ListUsers_def page_of_def)
  then show ?thesis using off lim neg by blast
qed

lemma set_user_flags:
  assumes "\<And>u. AU_IsPlatformAdmin (f u) = AU_IsPlatformAdmin u" and "\<And>u. AU_ID (f u) = AU_ID u"
  shows "map (\<lambda>u. (AU_ID u, AU_IsPlatformAdmin u)) (a_users (set_user env i f d)) = map (\<lambda>u. (AU_ID u, AU_IsPlatformAdmin u)) (a_users d)"
  unfolding set_user_def by (simp add: map_update_where assms)

text \<open>
  C23. Only a platform administrator changes anything through the administration endpoints, and no
  endpoint of the own account touches the administrator flag of anybody.
\<close>

theorem platform_admin_guarded:
  "(snd (admin_UpdateUser x env claims userID body d) \<noteq> d \<or> snd (UpdateOrgPlan x env fmt claims orgID body d) \<noteq> d \<longrightarrow>
      (\<exists>usr u. auth_UserIDFromContext x claims = Inr usr \<and> u \<in> set (a_users d) \<and> AU_ID u = usr \<and> AU_IsPlatformAdmin u))
   \<and> (\<forall>d' \<in> {snd (UpdateMe x env fmt claims body d), snd (UpdateOnboarding x env claims body d), snd (UnlinkIdentity x env claims provider d)}.
        map (\<lambda>u. (AU_ID u, AU_IsPlatformAdmin u)) (a_users d') = map (\<lambda>u. (AU_ID u, AU_IsPlatformAdmin u)) (a_users d))"
proof -
  have "\<exists>usr u. auth_UserIDFromContext x claims = Inr usr \<and> u \<in> set (a_users d) \<and> AU_ID u = usr \<and> AU_IsPlatformAdmin u"
    if "requirePlatformAdmin x env claims d"
    using that unfolding requirePlatformAdmin_def
    by (auto simp: auth_GetUserByID_def dest!: query_one_Inr split: sum.splits)
  moreover have "requirePlatformAdmin x env claims d"
    if "snd (admin_UpdateUser x env claims userID body d) \<noteq> d \<or> snd (UpdateOrgPlan x env fmt claims orgID body d) \<noteq> d"
    using that by (auto simp: admin_UpdateUser_def UpdateOrgPlan_def split: if_splits)
  moreover have "map (\<lambda>u. (AU_ID u, AU_IsPlatformAdmin u)) (a_users (snd (UpdateMe x env fmt claims body d)))
      = map (\<lambda>u. (AU_ID u, AU_IsPlatformAdmin u)) (a_users d)"
    by (auto simp: UpdateMe_def UpdateUserProfile_def Let_def set_user_flags split: sum.splits if_splits)
  moreover have "map (\<lambda>u. (AU_ID u, AU_IsPlatformAdmin u)) (a_users (snd (UpdateOnboarding x env claims body d)))
      = map (\<lambda>u. (AU_ID u, AU_IsPlatformAdmin u)) (a_users d)"
    by (auto simp: UpdateOnboarding_def UpdateUserOnboardingStep_def set_user_flags split: sum.splits if_splits)
  moreover have "a_users (snd (UnlinkIdentity x env claims provider d)) = a_users d"
    by (auto simp: UnlinkIdentity_def DeleteOAuthIdentity_def split: sum.splits)
  ultimately show ?thesis by auto
qed

theorem admin_paging_bounds_witness:
  "parsePagination ''1000'' '''' = (50, 0) \<and> snd (parsePagination '''' (int_text 2147483648)) < 0
    \<and> reply_status (admin_ListUsers (sample_aext [] []) (sample_env 0) (\<lambda>_. '''') (Some sample_claims) '''' (int_text 2147483648) sample_adb) \<noteq> 200"
proof -
  have "parsePagination ''1000'' '''' = (50, 0)" by code_simp
  then show ?thesis
    using admin_paging_bounds [of "''''" "''''" "sample_aext [] []" "sample_env 0" "\<lambda>_. ''''" "Some sample_claims" sample_adb] by simp
qed

definition sample_grant :: json where
  "sample_grant = JObj [(''is_platform_admin'', JBool True)]"

definition sample_root_db :: adb where
  "sample_root_db = sample_adb\<lparr>a_users := [sample_user\<lparr>AU_IsPlatformAdmin := True\<rparr>, sample_user\<lparr>AU_ID := 14\<rparr>]\<rparr>"

theorem platform_admin_guarded_witness:
  "snd (admin_UpdateUser (sample_aext [sample_grant] []) (sample_env 0) (Some sample_claims) (replicate 14 CHR ''u'') (json_text sample_grant)
      sample_root_db) \<noteq> sample_root_db
    \<and> (\<exists>u \<in> set (a_users sample_root_db). AU_ID u = 11 \<and> AU_IsPlatformAdmin u)"
proof -
  let ?x = "sample_aext [sample_grant] []"
  let ?out = "admin_UpdateUser ?x (sample_env 0) (Some sample_claims) (replicate 14 CHR ''u'') (json_text sample_grant) sample_root_db"
  have usr: "auth_UserIDFromContext ?x (Some sample_claims) = Inr 11" by (simp add: auth_UserIDFromContext_def sample_subject)
  have users: "a_users sample_root_db = [sample_user\<lparr>AU_IsPlatformAdmin := True\<rparr>, sample_user\<lparr>AU_ID := 14\<rparr>]"
    by (simp add: sample_root_db_def)
  have adm: "requirePlatformAdmin ?x (sample_env 0) (Some sample_claims) sample_root_db"
    by (simp add: requirePlatformAdmin_def usr auth_GetUserByID_def query_one_def users sample_auth_simps sample_env_simps)
  have grant: "decode_updateUserRequest sample_grant = Some (Some True)" by code_simp
  have "snd ?out = UpdateUserPlatformAdmin (sample_env 0) (Some 14) True sample_root_db"
    by (simp add: admin_UpdateUser_def adm ParseUUIDParam_def grant sample_env_simps)
  then have granted: "AU_IsPlatformAdmin ` set (a_users (snd ?out)) = {True}"
    by (simp add: UpdateUserPlatformAdmin_def set_user_def update_where_def users sample_auth_simps)
  have before: "AU_IsPlatformAdmin ` set (a_users sample_root_db) = {True, False}" by (simp add: users sample_user_def)
  have changed: "snd ?out \<noteq> sample_root_db"
  proof
    assume same: "snd ?out = sample_root_db"
    have "{True} = {True, False}" using granted unfolding same before by (rule sym)
    then show False by blast
  qed
  then have "snd ?out \<noteq> sample_root_db \<or> snd (UpdateOrgPlan ?x (sample_env 0) (\<lambda>_. []) (Some sample_claims) [] (json_text sample_grant) sample_root_db) \<noteq> sample_root_db"
    by (rule disjI1)
  with platform_admin_guarded [THEN conjunct1]
  obtain u where "u \<in> set (a_users sample_root_db)" "Inr (AU_ID u) = auth_UserIDFromContext ?x (Some sample_claims)" "AU_IsPlatformAdmin u"
    by metis
  then show ?thesis using changed unfolding usr by blast
qed

text \<open>
  Profile round trip: what the update answers is what a later read of the own profile answers, with
  the names, the time zone, the language and the visibility of the request or their defaults.
\<close>

theorem profile_roundtrip:
  assumes "UpdateMe x env fmt claims body d = (WriteJSON 200 p, d')" and "\<not> e_fault envB ''GetUserByID'' 0"
  shows "GetMe x envB fmt claims d' = WriteJSON 200 p
    \<and> (\<exists>b. read_body x auth_decode_updateProfileRequest auth_updateProfileRequest_fields body
          = (Inr b :: auth_profileResponse reply + auth_updateProfileRequest)
        \<and> Prof_FirstName p = UPq_FirstName b \<and> Prof_LastName p = UPq_LastName b \<and> Prof_Nickname p = UPq_Nickname b
        \<and> Prof_Timezone p = or_default ''UTC'' (UPq_Timezone b) \<and> Prof_Language p = or_default ''en'' (UPq_Language b)
        \<and> Prof_ProfileVisibility p = or_default ''team_only'' (UPq_ProfileVisibility b))"
proof -
  obtain usr b u where usr: "auth_UserIDFromContext x claims = Inr usr"
    and b: "read_body x auth_decode_updateProfileRequest auth_updateProfileRequest_fields body
          = (Inr b :: auth_profileResponse reply + auth_updateProfileRequest)"
    and up: "UpdateUserProfile env (Some usr) (profile_params x b) d = Inr (u, d')" and p: "p = toProfileResponse x fmt u"
    using assms(1) by (auto simp: UpdateMe_def OkResponse_def read_body_def split: sum.splits prod.splits option.splits)
  have get: "auth_GetUserByID (Some usr) d' = Inr u"
    using up by (auto simp: UpdateUserProfile_def Let_def split: sum.splits if_splits)
  obtain r where "u = (r\<lparr>AU_FirstName := UUP_FirstName (profile_params x b), AU_LastName := UUP_LastName (profile_params x b),
      AU_Nickname := UUP_Nickname (profile_params x b), AU_Bio := UUP_Bio (profile_params x b), AU_Country := UUP_Country (profile_params x b),
      AU_Age := UUP_Age (profile_params x b), AU_Timezone := UUP_Timezone (profile_params x b), AU_Language := UUP_Language (profile_params x b),
      AU_SocialLinks := UUP_SocialLinks (profile_params x b),
      AU_ProfileVisibility := UUP_ProfileVisibility (profile_params x b)\<rparr>)\<lparr>AU_UpdatedAt := e_now env\<rparr>"
    using up unfolding UpdateUserProfile_def Let_def set_user_def auth_GetUserByID_def
    by (auto simp: query_one_update_same split: sum.splits if_splits)
  then have "AU_FirstName u = text_opt (UPq_FirstName b)" "AU_LastName u = text_opt (UPq_LastName b)" "AU_Nickname u = text_opt (UPq_Nickname b)"
      "AU_Timezone u = or_default ''UTC'' (UPq_Timezone b)" "AU_Language u = or_default ''en'' (UPq_Language b)"
      "AU_ProfileVisibility u = or_default ''team_only'' (UPq_ProfileVisibility b)"
    by (simp_all add: profile_params_def)
  moreover have "opt_text (text_opt s) = s" for s by (simp add: opt_text_def text_opt_def)
  ultimately show ?thesis using usr b get p assms(2) by (simp add: GetMe_def OkResponse_def toProfileResponse_def)
qed

definition sample_profile :: json where
  "sample_profile = JObj [(''first_name'', JStr ''Ann''), (''language'', JStr ''de'')]"

theorem profile_roundtrip_witness:
  "\<exists>p d'. UpdateMe (sample_aext [sample_profile] []) (sample_env 0) (\<lambda>_. '''') (Some sample_claims) (json_text sample_profile) sample_adb
      = (WriteJSON 200 p, d')
    \<and> GetMe (sample_aext [sample_profile] []) (sample_env 1) (\<lambda>_. '''') (Some sample_claims) d' = WriteJSON 200 p"
proof -
  let ?x = "sample_aext [sample_profile] []"
  have usr: "auth_UserIDFromContext ?x (Some sample_claims) = Inr 11" by (simp add: auth_UserIDFromContext_def sample_subject)
  obtain b where b: "auth_decode_updateProfileRequest sample_profile = Some b" "UPq_ProfileVisibility b = ''''"
    "auth_validate ?x (auth_updateProfileRequest_fields b) = None"
  proof
    let ?b = "\<lparr>UPq_FirstName = ''Ann'', UPq_LastName = '''', UPq_Nickname = '''', UPq_Bio = '''', UPq_Country = '''', UPq_Age = 0,
      UPq_Timezone = '''', UPq_Language = ''de'', UPq_SocialLinks = None, UPq_ProfileVisibility = ''''\<rparr>"
    show "auth_decode_updateProfileRequest sample_profile = Some ?b" by code_simp
    show "UPq_ProfileVisibility ?b = ''''" by simp
    show "auth_validate ?x (auth_updateProfileRequest_fields ?b) = None"
      by (simp add: auth_validate_def sample_validate_def auth_updateProfileRequest_fields_def)
  qed
  have "\<exists>u d'. UpdateUserProfile (sample_env 0) (Some 11) (profile_params ?x b) sample_adb = Inr (u, d')"
    using b(2) by (simp add: UpdateUserProfile_def auth_GetUserByID_def query_one_def set_user_def update_where_def sample_auth_simps
        profile_params_def or_default_def valid_visibility_def Let_def)
  then obtain p d' where up: "UpdateMe ?x (sample_env 0) (\<lambda>_. '''') (Some sample_claims) (json_text sample_profile) sample_adb = (WriteJSON 200 p, d')"
    using b by (auto simp: UpdateMe_def usr read_body_def sample_env_simps OkResponse_def)
  show ?thesis using profile_roundtrip [OF up sample_env_simps(3)] up by blast
qed

text \<open>
  Unlinking a provider removes the caller's identities of that provider and nothing else, and only
  when he has more than one identity. The count is over all providers: a user whose identities all
  come from the provider he unlinks is left without any, although the endpoint means to refuse that.
\<close>

theorem unlink_may_remove_last_identity:
  assumes "auth_UserIDFromContext x claims = Inr usr" and "\<And>call k. \<not> e_fault env call k"
    and "1 < CountOAuthIdentitiesByUser (Some usr) d"
  shows "\<exists>d'. UnlinkIdentity x env claims provider d = (WriteJSON 200 ''unlinked'', d')
    \<and> (\<forall>u. filter (\<lambda>i. Ident_UserID i = u) (a_identities d')
          = filter (\<lambda>i. Ident_UserID i = u \<and> \<not> (u = usr \<and> Ident_Provider i = provider)) (a_identities d))
    \<and> ((\<forall>i \<in> set (a_identities d). Ident_UserID i = usr \<longrightarrow> Ident_Provider i = provider) \<longrightarrow>
         CountOAuthIdentitiesByUser (Some usr) d' = 0)"
proof -
  let ?d = "DeleteOAuthIdentity (Some usr) provider d"
  have call: "UnlinkIdentity x env claims provider d = (WriteJSON 200 ''unlinked'', ?d)"
    using assms by (simp add: UnlinkIdentity_def)
  have left: "filter (\<lambda>i. Ident_UserID i = u) (a_identities ?d)
      = filter (\<lambda>i. Ident_UserID i = u \<and> \<not> (u = usr \<and> Ident_Provider i = provider)) (a_identities d)" for u
    by (auto simp: DeleteOAuthIdentity_def delete_where_def intro!: filter_cong)
  have "CountOAuthIdentitiesByUser (Some usr) ?d = 0"
    if "\<forall>i \<in> set (a_identities d). Ident_UserID i = usr \<longrightarrow> Ident_Provider i = provider"
    using that by (auto simp: CountOAuthIdentitiesByUser_def DeleteOAuthIdentity_def delete_where_def filter_empty_conv)
  then show ?thesis using call left by blast
qed

definition sample_identity :: "uuid \<Rightarrow> string \<Rightarrow> OauthIdentity" where
  "sample_identity i pid = \<lparr>Ident_ID = i, Ident_UserID = 11, Ident_Provider = ''google'', Ident_ProviderID = pid, Ident_Email = None,
     Ident_DisplayName = None, Ident_AvatarUrl = None, Ident_AccessToken = None, Ident_RefreshToken = None, Ident_TokenExpiresAt = None,
     Ident_CreatedAt = 0, Ident_UpdatedAt = 0\<rparr>"

theorem unlink_may_remove_last_identity_witness:
  "\<exists>d'. UnlinkIdentity (sample_aext [] []) (sample_env 0) (Some sample_claims) ''google''
      (sample_adb\<lparr>a_identities := [sample_identity 61 ''g1'', sample_identity 62 ''g2'']\<rparr>) = (WriteJSON 200 ''unlinked'', d')
    \<and> CountOAuthIdentitiesByUser (Some 11) d' = 0"
proof -
  let ?d = "sample_adb\<lparr>a_identities := [sample_identity 61 ''g1'', sample_identity 62 ''g2'']\<rparr>"
  have usr: "auth_UserIDFromContext (sample_aext [] []) (Some sample_claims) = Inr 11" by (simp add: auth_UserIDFromContext_def sample_subject)
  have count: "1 < CountOAuthIdentitiesByUser (Some 11) ?d" by (simp add: CountOAuthIdentitiesByUser_def sample_identity_def)
  have "\<forall>i \<in> set (a_identities ?d). Ident_UserID i = 11 \<longrightarrow> Ident_Provider i = ''google''" by (simp add: sample_identity_def)
  then show ?thesis using unlink_may_remove_last_identity [OF usr sample_env_simps(3) count, where provider = "''google''"] by blast
qed

text \<open>The daily login counts of an organization are empty as long as login entries name no organization, as the login handlers write them.\<close>

lemma login_metrics_empty:
  assumes "\<And>l. l \<in> set (a_audit_logs d) \<Longrightarrow> Log_Action l = ''user.login'' \<Longrightarrow> Log_OrgID l = None"
  shows "CountLoginsByDay (Some g) a b d = []"
proof -
  have "filter (\<lambda>l. sql_eq (Log_OrgID l) (Some g) \<and> Log_Action l = ''user.login'' \<and> a \<le> Log_CreatedAt l \<and> Log_CreatedAt l \<le> b) (a_audit_logs d) = []"
    using assms by (auto simp: filter_empty_conv)
  then show ?thesis by (simp add: CountLoginsByDay_def count_by_day_def order_desc_def)
qed

end
