(* ===== verification/AuthWebhooks.thy ===== *)
theory AuthWebhooks
  imports AuthUsers
begin

text \<open>
  Webhooks of the auth service: the endpoints that manage subscriptions (\<open>auth/internal/handler/webhook\<close>)
  and the dispatcher that records and delivers events (\<open>service/webhook/dispatcher.go\<close>).
\<close>

section \<open>Subscriptions\<close>

record webhookResponse =
  WhR_ID :: string
  WhR_OrgID :: string
  WhR_URL :: string
  WhR_Events :: "string list"
  WhR_Active :: bool
  WhR_CreatedAt :: string

definition toWebhookResponse :: "aext \<Rightarrow> (timestamp \<Rightarrow> string) \<Rightarrow> WebhookSubscription \<Rightarrow> webhookResponse" where
  "toWebhookResponse x fmt s = \<lparr>WhR_ID = UUIDToString (a_ext x) (Some (Sub_ID s)), WhR_OrgID = UUIDToString (a_ext x) (Some (Sub_OrgID s)),
     WhR_URL = Sub_Url s, WhR_Events = Sub_Events s, WhR_Active = Sub_Active s, WhR_CreatedAt = fmt (Sub_CreatedAt s)\<rparr>"

record deliveryResponse =
  DvR_ID :: string
  DvR_Event :: string
  DvR_ResponseStatus :: int
  DvR_Attempts :: int
  DvR_DeliveredAt :: string
  DvR_CreatedAt :: string

definition toDeliveryResponse :: "aext \<Rightarrow> (timestamp \<Rightarrow> string) \<Rightarrow> WebhookDelivery \<Rightarrow> deliveryResponse" where
  "toDeliveryResponse x fmt v = \<lparr>DvR_ID = UUIDToString (a_ext x) (Some (Dlv_ID v)), DvR_Event = Dlv_Event v,
     DvR_ResponseStatus = (case Dlv_ResponseStatus v of None \<Rightarrow> 0 | Some c \<Rightarrow> c), DvR_Attempts = Dlv_Attempts v,
     DvR_DeliveredAt = (case Dlv_DeliveredAt v of None \<Rightarrow> '''' | Some t \<Rightarrow> fmt t), DvR_CreatedAt = fmt (Dlv_CreatedAt v)\<rparr>"

text \<open>\<open>createWebhookRequest\<close> and \<open>updateWebhookRequest\<close>; only the second has the member \<open>active\<close>.\<close>

record webhookRequest =
  WRq_URL :: string
  WRq_Events :: "string list"
  WRq_Active :: bool

definition decode_webhookRequest :: "bool \<Rightarrow> json \<Rightarrow> webhookRequest option" where
  "decode_webhookRequest upd j =
     (let decode = (\<lambda>ms.
        (case (str_field ''url'' '''' ms, strs_field ''events'' [] ms, if upd then bool_field ''active'' False ms else Some False) of
           (Some u, Some e, Some a) \<Rightarrow> Some \<lparr>WRq_URL = u, WRq_Events = e, WRq_Active = a\<rparr> | _ \<Rightarrow> None))
      in case j of JNull \<Rightarrow> decode [] | JObj ms \<Rightarrow> decode ms | _ \<Rightarrow> None)"

definition webhookRequest_fields :: "webhookRequest \<Rightarrow> vfield list" where
  "webhookRequest_fields r = [(''URL'', [VRequired, VUrl, VMax 500], VStr (WRq_URL r)), (''Events'', [VRequired, VMin 1], VStrs (WRq_Events r))]"

definition generateSecret :: "rand \<Rightarrow> string option" where
  "generateSecret rand = map_option (\<lambda>b. ''whsec_'' @ hex_encode b) (rand 32)"

definition webhook_Create ::
  "aext \<Rightarrow> env \<Rightarrow> (timestamp \<Rightarrow> string) \<Rightarrow> rand \<Rightarrow> jwt_claims option \<Rightarrow> string \<Rightarrow> string \<Rightarrow> adb
    \<Rightarrow> (webhookResponse \<times> string) reply \<times> adb" where
  "webhook_Create x env fmt rand claims orgID body d =
     (case org_admin x env claims orgID d of
        Inl r \<Rightarrow> (r, d)
      | Inr (actor, org) \<Rightarrow>
        (case read_body x (decode_webhookRequest False) webhookRequest_fields body of
           Inl r \<Rightarrow> (r, d)
         | Inr b \<Rightarrow>
           (case generateSecret rand of
              None \<Rightarrow> (ErrResponse 500 ErrInternal, d)
            | Some secret \<Rightarrow>
              (case guarded env ''CreateWebhookSubscription'' 0 (CreateWebhookSubscription env 0 org (WRq_URL b) secret (WRq_Events b) d) of
                 Inl _ \<Rightarrow> (ErrResponse 500 ErrInternal, d)
               | Inr (s, d1) \<Rightarrow> (WriteJSON 201 (toWebhookResponse x fmt s, secret), d1)))))"

definition webhook_List :: "aext \<Rightarrow> env \<Rightarrow> (timestamp \<Rightarrow> string) \<Rightarrow> string \<Rightarrow> adb \<Rightarrow> webhookResponse list reply" where
  "webhook_List x env fmt orgID d =
     (case ParseUUIDParam x orgID of
        None \<Rightarrow> ErrResponse 400 ErrInvalidOrgID
      | Some org \<Rightarrow> if e_fault env ''ListWebhookSubscriptions'' 0 then ErrResponse 500 ErrInternal
          else OkResponse (map (toWebhookResponse x fmt) (ListWebhookSubscriptions (Some org) d)))"

definition ListDeliveries :: "aext \<Rightarrow> env \<Rightarrow> (timestamp \<Rightarrow> string) \<Rightarrow> string \<Rightarrow> adb \<Rightarrow> deliveryResponse list reply" where
  "ListDeliveries x env fmt whID d =
     (case ParseUUIDParam x whID of
        None \<Rightarrow> ErrResponse 400 ''invalid id''
      | Some i \<Rightarrow> if e_fault env ''ListWebhookDeliveries'' 0 then ErrResponse 500 ErrInternal
          else OkResponse (map (toDeliveryResponse x fmt) (ListWebhookDeliveries (Some i) 50 d)))"

definition webhook_Update ::
  "aext \<Rightarrow> env \<Rightarrow> (timestamp \<Rightarrow> string) \<Rightarrow> jwt_claims option \<Rightarrow> string \<Rightarrow> string \<Rightarrow> string \<Rightarrow> adb \<Rightarrow> webhookResponse reply \<times> adb" where
  "webhook_Update x env fmt claims orgID whID body d =
     (case org_item_admin x env claims orgID whID ''invalid id'' d of
        Inl r \<Rightarrow> (r, d)
      | Inr (actor, org, i) \<Rightarrow>
        (case read_body x (decode_webhookRequest True) webhookRequest_fields body of
           Inl r \<Rightarrow> (r, d)
         | Inr b \<Rightarrow>
           (case guarded env ''UpdateWebhookSubscription'' 0
              (UpdateWebhookSubscription env (Some i) (WRq_URL b) (WRq_Events b) (WRq_Active b) d) of
              Inl _ \<Rightarrow> (ErrResponse 500 ErrInternal, d)
            | Inr (s, d1) \<Rightarrow> (OkResponse (toWebhookResponse x fmt s), d1))))"

definition webhook_Delete ::
  "aext \<Rightarrow> env \<Rightarrow> jwt_claims option \<Rightarrow> string \<Rightarrow> string \<Rightarrow> adb \<Rightarrow> string reply \<times> adb" where
  "webhook_Delete x env claims orgID whID d =
     (case org_item_admin x env claims orgID whID ''invalid id'' d of
        Inl r \<Rightarrow> (r, d)
      | Inr (actor, org, i) \<Rightarrow>
          if e_fault env ''DeleteWebhookSubscription'' 0 then (ErrResponse 500 ErrInternal, d)
          else (WriteJSON 200 ''deleted'', DeleteWebhookSubscription (Some i) d))"

section \<open>The dispatcher\<close>

abbreviation maxAttempts :: int where "maxAttempts \<equiv> 5"
abbreviation maxResponseBodyLen :: nat where "maxResponseBodyLen \<equiv> 1024"

definition webhook_Sign :: "aext \<Rightarrow> string \<Rightarrow> string \<Rightarrow> string" where
  "webhook_Sign x payload secret = ''sha256='' @ hex_encode (x_mac (a_ext x) secret payload)"

definition isSuccessStatus :: "int \<Rightarrow> bool" where
  "isSuccessStatus status \<longleftrightarrow> 200 \<le> status \<and> status < 300"

text \<open>The payload is what \<open>json.Marshal\<close> makes of it, \<open>None\<close> when it refuses the value.\<close>

record Event =
  Ev_OrgID :: pg_uuid
  Ev_Action :: string
  Ev_Payload :: "string option"

text \<open>
  \<open>Dispatch\<close> passes a list with one action where the statement compares a single text: whether and
  how the driver encodes it is the parameter \<open>enc\<close>. The records are inserted one by one and the \<open>k\<close>-th
  uses the \<open>k\<close>-th generated identifier.
\<close>

fun insert_deliveries :: "env \<Rightarrow> nat \<Rightarrow> string \<Rightarrow> string \<Rightarrow> WebhookSubscription list \<Rightarrow> adb \<Rightarrow> adb" where
  "insert_deliveries env k action payload [] d = d"
| "insert_deliveries env k action payload (s # ss) d =
     insert_deliveries env (Suc k) action payload ss
       (case guarded env ''CreateWebhookDelivery'' k (CreateWebhookDelivery env k (Sub_ID s) action payload 0 None d) of
          Inl _ \<Rightarrow> d | Inr (_, d1) \<Rightarrow> d1)"

definition Dispatch :: "env \<Rightarrow> (string list \<Rightarrow> string option) \<Rightarrow> Event \<Rightarrow> adb \<Rightarrow> adb" where
  "Dispatch env enc e d =
     (case enc [Ev_Action e] of
        None \<Rightarrow> d
      | Some action \<Rightarrow>
          if e_fault env ''ListActiveWebhooksByEvent'' 0 then d
          else (case Ev_Payload e of
             None \<Rightarrow> d
           | Some payload \<Rightarrow> insert_deliveries env 0 (Ev_Action e) payload (ListActiveWebhooksByEvent (Ev_OrgID e) action d) d))"

text \<open>
  \<open>post\<close> sends a payload to a URL under the event name and the signature and gives the status and the
  body of the response, or \<open>None\<close> when no response came.
\<close>

type_synonym http_post = "string \<Rightarrow> string \<Rightarrow> string \<Rightarrow> string \<Rightarrow> (nat \<times> string) option"

definition deliver :: "aext \<Rightarrow> http_post \<Rightarrow> WebhookSubscription \<Rightarrow> WebhookDelivery \<Rightarrow> (nat \<times> string) option" where
  "deliver x post s v =
     map_option (\<lambda>(status, body). (status, take maxResponseBodyLen body))
       (post (Sub_Url s) (Dlv_Event v) (webhook_Sign x (Dlv_Payload v) (Sub_Secret s)) (Dlv_Payload v))"

text \<open>The columns written after a failed attempt: response, end of the delivery, and the next attempt.\<close>

definition recordFailure :: "env \<Rightarrow> nat \<Rightarrow> uuid \<Rightarrow> int \<Rightarrow> string \<Rightarrow> int \<Rightarrow> adb \<Rightarrow> adb" where
  "recordFailure env k i status body attempts d =
     (let nextRetry = (if attempts < maxAttempts then Some (e_now env + 2 ^ nat attempts * usec_per_min) else None);
          respStatus = (if status > 0 then Some status else None);
          respBody = (if status > 0 then Some body else None);
          delivered = (if attempts \<ge> maxAttempts then Some (e_now env) else None)
      in try_exec env ''UpdateWebhookDeliveryResult'' k
           (UpdateWebhookDeliveryResult (Some i) respStatus respBody delivered attempts nextRetry) d)"

definition processDelivery ::
  "aext \<Rightarrow> env \<Rightarrow> nat \<Rightarrow> http_post \<Rightarrow> WebhookSubscription \<Rightarrow> WebhookDelivery \<Rightarrow> adb \<Rightarrow> adb" where
  "processDelivery x env k post s v d =
     (let attempts = Dlv_Attempts v + 1 in
      case deliver x post s v of
        Some (status, body) \<Rightarrow>
          if isSuccessStatus (int status)
          then try_exec env ''UpdateWebhookDeliveryResult'' k
            (UpdateWebhookDeliveryResult (Some (Dlv_ID v)) (Some (int status)) (Some body) (Some (e_now env)) attempts None) d
          else recordFailure env k (Dlv_ID v) (int status) body attempts d
      | None \<Rightarrow> recordFailure env k (Dlv_ID v) 0 '''' attempts d)"

fun deliver_all :: "aext \<Rightarrow> env \<Rightarrow> nat \<Rightarrow> (nat \<Rightarrow> http_post) \<Rightarrow> WebhookDelivery list \<Rightarrow> adb \<Rightarrow> adb" where
  "deliver_all x env k post [] d = d"
| "deliver_all x env k post (v # vs) d =
     deliver_all x env (Suc k) post vs
       (case guarded env ''GetWebhookSubscription'' k (GetWebhookSubscription (Some (Dlv_SubscriptionID v)) d) of
          Inl _ \<Rightarrow> d
        | Inr s \<Rightarrow> processDelivery x env k (post k) s v d)"

definition DeliverPending :: "aext \<Rightarrow> env \<Rightarrow> (nat \<Rightarrow> http_post) \<Rightarrow> int \<Rightarrow> adb \<Rightarrow> adb" where
  "DeliverPending x env post batchSize d =
     (if e_fault env ''ListPendingDeliveries'' 0 then d
      else deliver_all x env 0 post (ListPendingDeliveries env batchSize d) d)"

section \<open>Attempts are bounded\<close>

definition deliveries_ok :: "adb \<Rightarrow> bool" where
  "deliveries_ok d \<longleftrightarrow> distinct (map Dlv_ID (a_deliveries d))
     \<and> (\<forall>v \<in> set (a_deliveries d). 0 \<le> Dlv_Attempts v \<and> (Dlv_DeliveredAt v = None \<longrightarrow> Dlv_Attempts v < maxAttempts)
          \<and> Dlv_SubscriptionID v \<in> Sub_ID ` set (a_webhooks d))"

definition row_budget :: "WebhookDelivery \<Rightarrow> nat" where
  "row_budget v = (if Dlv_DeliveredAt v = None then nat (maxAttempts - Dlv_Attempts v) else 0)"

definition open_attempts :: "adb \<Rightarrow> nat" where
  "open_attempts d = sum_list (map row_budget (a_deliveries d))"

text \<open>What an attempt does to its row: one more attempt, and the end of the delivery or a later retry.\<close>

definition attempted :: "env \<Rightarrow> WebhookDelivery \<Rightarrow> WebhookDelivery \<Rightarrow> bool" where
  "attempted env v w \<longleftrightarrow> Dlv_ID w = Dlv_ID v \<and> Dlv_SubscriptionID w = Dlv_SubscriptionID v \<and> Dlv_Attempts w = Dlv_Attempts v + 1
     \<and> (Dlv_DeliveredAt w = Some (e_now env)
        \<or> Dlv_DeliveredAt w = None \<and> Dlv_Attempts w < maxAttempts \<and> Dlv_NextRetryAt w = Some (e_now env + 2 ^ nat (Dlv_Attempts w) * usec_per_min))"

lemma processDelivery_effect:
  assumes "\<And>call k. \<not> e_fault env call k"
  obtains f where "processDelivery x env k post s v d = d\<lparr>a_deliveries := update_where (\<lambda>r. Dlv_ID r = Dlv_ID v) f (a_deliveries d)\<rparr>"
    and "attempted env v (f v)"
proof -
  let ?f = "\<lambda>st b de rt r. r\<lparr>Dlv_ResponseStatus := st, Dlv_ResponseBody := b, Dlv_DeliveredAt := de,
    Dlv_Attempts := Dlv_Attempts v + 1, Dlv_NextRetryAt := rt\<rparr>"
  have fail: "recordFailure env k (Dlv_ID v) st b (Dlv_Attempts v + 1) d = d\<lparr>a_deliveries := update_where (\<lambda>r. Dlv_ID r = Dlv_ID v)
      (?f (if st > 0 then Some st else None) (if st > 0 then Some b else None)
        (if Dlv_Attempts v + 1 \<ge> maxAttempts then Some (e_now env) else None)
        (if Dlv_Attempts v + 1 < maxAttempts then Some (e_now env + 2 ^ nat (Dlv_Attempts v + 1) * usec_per_min) else None)) (a_deliveries d)\<rparr>" for st b
    using assms by (simp add: recordFailure_def Let_def try_exec_def UpdateWebhookDeliveryResult_def)
  have att: "attempted env v (?f st b (if Dlv_Attempts v + 1 \<ge> maxAttempts then Some (e_now env) else None)
      (if Dlv_Attempts v + 1 < maxAttempts then Some (e_now env + 2 ^ nat (Dlv_Attempts v + 1) * usec_per_min) else None) v)" for st b
    by (simp add: attempted_def)
  show thesis
  proof (cases "deliver x post s v")
    case None
    then show thesis using that fail [of 0 "''''"] att by (simp add: processDelivery_def Let_def)
  next
    case (Some p)
    obtain status body where p: "p = (status, body)" by (cases p)
    show thesis
    proof (cases "isSuccessStatus (int status)")
      case True
      then have "processDelivery x env k post s v d = d\<lparr>a_deliveries := update_where (\<lambda>r. Dlv_ID r = Dlv_ID v)
          (?f (Some (int status)) (Some body) (Some (e_now env)) None) (a_deliveries d)\<rparr>"
        using assms Some p by (simp add: processDelivery_def Let_def try_exec_def UpdateWebhookDeliveryResult_def)
      then show thesis by (rule that) (simp add: attempted_def)
    next
      case False
      then show thesis using that fail att Some p by (simp add: processDelivery_def Let_def)
    qed
  qed
qed

lemma deliver_all_effect:
  assumes "\<And>call k. \<not> e_fault env call k" and "distinct (map Dlv_ID (a_deliveries d))" and "set vs \<subseteq> set (a_deliveries d)" and "distinct vs"
    and "\<And>v. v \<in> set vs \<Longrightarrow> Dlv_SubscriptionID v \<in> Sub_ID ` set (a_webhooks d)"
  shows "\<exists>f. a_deliveries (deliver_all x env k post vs d) = map f (a_deliveries d) \<and> a_webhooks (deliver_all x env k post vs d) = a_webhooks d
    \<and> (\<forall>r \<in> set (a_deliveries d). if r \<in> set vs then attempted env r (f r) else f r = r)"
  using assms(2-5)
proof (induction vs arbitrary: k d)
  case (Cons v vs)
  obtain s where s: "GetWebhookSubscription (Some (Dlv_SubscriptionID v)) d = Inr s"
    using Cons.prems(4) [of v] query_one_NoRows_iff [of "\<lambda>s. Sub_ID s = Dlv_SubscriptionID v" "a_webhooks d"]
    by (cases "GetWebhookSubscription (Some (Dlv_SubscriptionID v)) d") (auto simp: GetWebhookSubscription_def dest: query_one_Inl)
  let ?d = "processDelivery x env k (post k) s v d"
  obtain g where g: "?d = d\<lparr>a_deliveries := update_where (\<lambda>r. Dlv_ID r = Dlv_ID v) g (a_deliveries d)\<rparr>" "attempted env v (g v)"
    using processDelivery_effect [OF assms(1)] by blast
  let ?h = "\<lambda>r. if r = v then g v else r"
  have vin: "v \<in> set (a_deliveries d)" using Cons.prems(2) by simp
  have same: "Dlv_ID r = Dlv_ID v \<longleftrightarrow> r = v" if "r \<in> set (a_deliveries d)" for r
    using distinct_key_eq [OF Cons.prems(1) that vin] by auto
  then have del: "a_deliveries ?d = map ?h (a_deliveries d)" and web: "a_webhooks ?d = a_webhooks d"
    by (simp_all add: g(1) update_where_def)
  have gid: "Dlv_ID (g v) = Dlv_ID v" using g(2) by (simp add: attempted_def)
  have "map Dlv_ID (a_deliveries ?d) = map Dlv_ID (a_deliveries d)" using gid by (simp add: del)
  then have prem: "distinct (map Dlv_ID (a_deliveries ?d))" using Cons.prems(1) by simp
  have "set vs \<subseteq> set (a_deliveries ?d)" using Cons.prems(2,3) by (auto simp: del image_iff)
  from Cons.IH [OF prem this _, of "Suc k"] obtain f where f: "a_deliveries (deliver_all x env (Suc k) post vs ?d) = map f (a_deliveries ?d)"
      "a_webhooks (deliver_all x env (Suc k) post vs ?d) = a_webhooks d"
      "\<forall>r \<in> set (a_deliveries ?d). if r \<in> set vs then attempted env r (f r) else f r = r"
    using Cons.prems(3,4) web by auto
  have step: "deliver_all x env k post (v # vs) d = deliver_all x env (Suc k) post vs ?d" using s assms(1) by simp
  have rows: "if r \<in> set (v # vs) then attempted env r ((f \<circ> ?h) r) else (f \<circ> ?h) r = r" if r: "r \<in> set (a_deliveries d)" for r
  proof (cases "r = v")
    case True
    have "g v \<notin> set vs"
    proof
      assume "g v \<in> set vs"
      then have "g v \<in> set (a_deliveries d)" using Cons.prems(2) by auto
      then show False using same gid \<open>g v \<in> set vs\<close> Cons.prems(3) by auto
    qed
    moreover have "g v \<in> set (a_deliveries ?d)" using vin by (force simp: del)
    ultimately have "f (g v) = g v" using f(3) by auto
    then show ?thesis using True g(2) by simp
  next
    case False
    then have "r \<in> set (a_deliveries ?d)" using r by (force simp: del)
    then show ?thesis using False f(3) by auto
  qed
  show ?case unfolding step
  proof (intro exI conjI ballI)
    show "a_deliveries (deliver_all x env (Suc k) post vs ?d) = map (f \<circ> ?h) (a_deliveries d)" using f(1) del by simp
    show "a_webhooks (deliver_all x env (Suc k) post vs ?d) = a_webhooks d" by (rule f(2))
  qed (rule rows)
qed (auto intro: exI [of _ id])

lemma attempted_budget:
  assumes "attempted env v w" and "Dlv_DeliveredAt v = None" and "0 \<le> Dlv_Attempts v" and "Dlv_Attempts v < maxAttempts"
  shows "row_budget w + 1 \<le> row_budget v"
  using assms by (auto simp: attempted_def row_budget_def)

lemma sum_budget:
  assumes "\<And>r. r \<in> set rs \<Longrightarrow> b (f r) + (if r \<in> S then 1 else 0) \<le> (b r :: nat)"
  shows "sum_list (map b (map f rs)) + length (filter (\<lambda>r. r \<in> S) rs) \<le> sum_list (map b rs)"
  using assms by (induction rs) fastforce+

lemma pending_in_table:
  assumes "deliveries_ok d" and "v \<in> set (ListPendingDeliveries env n d)"
  shows "v \<in> set (a_deliveries d)" "Dlv_DeliveredAt v = None" "Dlv_Attempts v < maxAttempts" "0 \<le> Dlv_Attempts v"
    "Dlv_SubscriptionID v \<in> Sub_ID ` set (a_webhooks d)"
proof -
  show v: "v \<in> set (a_deliveries d)" "Dlv_DeliveredAt v = None"
    using set_take_subset assms(2) unfolding ListPendingDeliveries_def by fastforce+
  then show "Dlv_Attempts v < maxAttempts" "0 \<le> Dlv_Attempts v" "Dlv_SubscriptionID v \<in> Sub_ID ` set (a_webhooks d)"
    using assms(1) by (auto simp: deliveries_ok_def)
qed

lemma distinct_pending:
  assumes "deliveries_ok d"
  shows "distinct (ListPendingDeliveries env n d)"
proof -
  have "distinct (a_deliveries d)" using assms by (simp add: deliveries_ok_def distinct_map)
  then show ?thesis by (simp add: ListPendingDeliveries_def)
qed

lemma filter_members_length:
  assumes "distinct vs" and "set vs \<subseteq> set rs" and "distinct rs"
  shows "length (filter (\<lambda>r. r \<in> set vs) rs) = length vs"
  using assms by (metis distinct_card distinct_filter inf.absorb_iff2 set_filter Int_def Collect_cong inf_commute)

lemma DeliverPending_effect:
  assumes "deliveries_ok d" and "\<And>call k. \<not> e_fault env call k"
  shows "deliveries_ok (DeliverPending x env post n d)"
    and "open_attempts (DeliverPending x env post n d) + length (ListPendingDeliveries env n d) \<le> open_attempts d"
    and "v \<in> set (ListPendingDeliveries env n d) \<Longrightarrow> \<exists>w \<in> set (a_deliveries (DeliverPending x env post n d)). attempted env v w"
proof -
  let ?vs = "ListPendingDeliveries env n d" and ?d = "DeliverPending x env post n d"
  have ids: "distinct (map Dlv_ID (a_deliveries d))" using assms(1) by (simp add: deliveries_ok_def)
  have sub: "set ?vs \<subseteq> set (a_deliveries d)" using pending_in_table(1) [OF assms(1)] by blast
  have "?d = deliver_all x env 0 post ?vs d" using assms(2) by (simp add: DeliverPending_def)
  moreover have "Dlv_SubscriptionID v \<in> Sub_ID ` set (a_webhooks d)" if "v \<in> set ?vs" for v using pending_in_table(5) [OF assms(1) that] .
  ultimately obtain f where f: "a_deliveries ?d = map f (a_deliveries d)" "a_webhooks ?d = a_webhooks d"
      "\<And>r. r \<in> set (a_deliveries d) \<Longrightarrow> if r \<in> set ?vs then attempted env r (f r) else f r = r"
    using deliver_all_effect [OF assms(2) ids sub distinct_pending [OF assms(1)], where x = x and k = 0 and post = post] by auto
  have key: "Dlv_ID (f r) = Dlv_ID r \<and> Dlv_SubscriptionID (f r) = Dlv_SubscriptionID r" if "r \<in> set (a_deliveries d)" for r
    using f(3) [OF that] by (auto simp: attempted_def split: if_splits)
  then have same: "map Dlv_ID (map f (a_deliveries d)) = map Dlv_ID (a_deliveries d)" by simp
  have "distinct (map Dlv_ID (a_deliveries ?d))" unfolding f(1) same by (rule ids)
  moreover have "0 \<le> Dlv_Attempts w \<and> (Dlv_DeliveredAt w = None \<longrightarrow> Dlv_Attempts w < maxAttempts) \<and> Dlv_SubscriptionID w \<in> Sub_ID ` set (a_webhooks ?d)"
    if w: "w \<in> set (a_deliveries ?d)" for w
  proof -
    from w obtain r where r: "r \<in> set (a_deliveries d)" "w = f r" unfolding f(1) by auto
    have old: "0 \<le> Dlv_Attempts r \<and> (Dlv_DeliveredAt r = None \<longrightarrow> Dlv_Attempts r < maxAttempts) \<and> Dlv_SubscriptionID r \<in> Sub_ID ` set (a_webhooks d)"
      using assms(1) r(1) by (auto simp: deliveries_ok_def)
    show ?thesis using f(3) [OF r(1)] key [OF r(1)] old unfolding r(2) f(2) by (cases "r \<in> set ?vs") (auto simp: attempted_def)
  qed
  ultimately show "deliveries_ok ?d" by (auto simp: deliveries_ok_def)
  have "row_budget (f r) + (if r \<in> set ?vs then 1 else 0) \<le> row_budget r" if "r \<in> set (a_deliveries d)" for r
    using f(3) [OF that] attempted_budget [of env r "f r"] pending_in_table [OF assms(1), of r env n] by (cases "r \<in> set ?vs") auto
  from sum_budget [of "a_deliveries d" row_budget f "set ?vs", OF this]
  show "open_attempts ?d + length ?vs \<le> open_attempts d"
    using filter_members_length [OF distinct_pending [OF assms(1)] sub] ids by (simp add: open_attempts_def f(1) distinct_map)
  show "\<exists>w \<in> set (a_deliveries ?d). attempted env v w" if "v \<in> set ?vs"
    using that f(3) [of v] sub unfolding f(1) by auto
qed

text \<open>Rounds of the dispatcher, and the number of attempts they make.\<close>

type_synonym dispatch_round = "env \<times> (nat \<Rightarrow> http_post) \<times> int"

fun run_rounds :: "aext \<Rightarrow> dispatch_round list \<Rightarrow> adb \<Rightarrow> adb \<times> nat" where
  "run_rounds x [] d = (d, 0)"
| "run_rounds x ((env, post, n) # rs) d =
     (let (d', k) = run_rounds x rs (DeliverPending x env post n d) in (d', length (ListPendingDeliveries env n d) + k))"



definition sample_webhook_db :: adb where
  "sample_webhook_db = empty_adb\<lparr>
     a_webhooks := [\<lparr>Sub_ID = 5, Sub_OrgID = 41, Sub_Url = ''https://hook'', Sub_Secret = ''s'', Sub_Events = [''team.deleted''], Sub_Active = True,
       Sub_CreatedAt = 0, Sub_UpdatedAt = 0\<rparr>],
     a_deliveries := [\<lparr>Dlv_ID = 7, Dlv_SubscriptionID = 5, Dlv_Event = ''team.deleted'', Dlv_Payload = ''{}'', Dlv_ResponseStatus = None,
       Dlv_ResponseBody = None, Dlv_DeliveredAt = None, Dlv_Attempts = 0, Dlv_NextRetryAt = None, Dlv_CreatedAt = 0\<rparr>]\<rparr>"

definition sample_rounds :: "dispatch_round list" where
  "sample_rounds = [(sample_env 0, \<lambda>_ _ _ _ _. None, 10), (sample_env (2 * usec_per_min), \<lambda>_ _ _ _ _. Some (200, ''ok''), 10)]"


text \<open>In this run the first attempt gets no answer and the second, after the pause, is answered 200.\<close>

lemma sample_rounds_run:
  "map Dlv_Attempts (a_deliveries (fst (run_rounds (sample_aext [] []) sample_rounds sample_webhook_db))) = [2]"
  "snd (run_rounds (sample_aext [] []) sample_rounds sample_webhook_db) = 2"
  by (simp_all add: sample_rounds_def sample_webhook_db_def empty_adb_def DeliverPending_def ListPendingDeliveries_def sample_env_simps
      GetWebhookSubscription_def query_one_def processDelivery_def Let_def deliver_def recordFailure_def try_exec_def
      UpdateWebhookDeliveryResult_def update_where_def isSuccessStatus_def)

end
