(* ===== verification/AiStream.thy ===== *)
theory AiStream
  imports JobService
begin

text \<open>
  Streaming the answer of a language model to a client (\<open>api/internal/service/aiprovider\<close>): the
  server-sent events of \<open>sseutil\<close> and the four providers. The HTTP client is a parameter: which URLs
  it takes, and what a POST is answered. What a provider writes to the client is returned as text.
\<close>

section \<open>Server-sent events (\<open>sseutil\<close>)\<close>

abbreviation LF :: char where "LF \<equiv> CHR 0x0A"
abbreviation CR :: char where "CR \<equiv> CHR 0x0D"

datatype stream_error =
    ErrEmptyAPIKey
  | ErrEmptyPrompt
  | BadRequest \<comment> \<open>the request cannot be built\<close>
  | RequestFailed \<comment> \<open>no response\<close>
  | BadStatus nat
  | UnknownProvider string

definition ValidateInput :: "string \<Rightarrow> string \<Rightarrow> stream_error option" where
  "ValidateInput apiKey prompt =
     (if apiKey = '''' then Some ErrEmptyAPIKey else if prompt = '''' then Some ErrEmptyPrompt else None)"

definition ParseSSELine :: "string \<Rightarrow> string option" where
  "ParseSSELine line = cut_prefix line ''data: ''"

definition WriteChunk :: "string \<Rightarrow> string" where
  "WriteChunk t = ''data: '' @ t @ [LF, LF]"

definition WriteDone :: string where
  "WriteDone = ''data: [DONE]'' @ [LF, LF]"

definition WriteError :: "string \<Rightarrow> string" where
  "WriteError msg = WriteChunk (''[ERROR] '' @ msg) @ WriteDone"

text \<open>
  \<open>NewJSONRequest\<close>: the request is its URL, its headers and its body; it fails when the URL does not
  parse. \<open>hc_post\<close> is \<open>http.DefaultClient.Do\<close>: the status and the text that arrives before the body
  ends or breaks off.
\<close>

record http_client =
  hc_url_ok :: "string \<Rightarrow> bool"
  hc_post :: "string \<Rightarrow> (string \<times> string) list \<Rightarrow> string \<Rightarrow> (nat \<times> string) option"

record json_request =
  Rq_URL :: string
  Rq_Headers :: "(string \<times> string) list"
  Rq_Body :: string

definition NewJSONRequest :: "ext \<Rightarrow> http_client \<Rightarrow> string \<Rightarrow> json \<Rightarrow> (string \<times> string) list \<Rightarrow> json_request option" where
  "NewJSONRequest x hc url body headers =
     (if hc_url_ok hc url
      then Some \<lparr>Rq_URL = url, Rq_Headers = (''Content-Type'', ''application/json'') # headers, Rq_Body = x_marshal x body\<rparr>
      else None)"

text \<open>
  \<open>bufio.Scanner\<close> with its default split: lines without their line feed and a carriage return before
  it; the scan ends at the first line that does not fit the buffer, and an unterminated last line
  counts when it is not empty.
\<close>

abbreviation MaxScanTokenSize :: nat where "MaxScanTokenSize \<equiv> 65536"

fun split_lines :: "string \<Rightarrow> string \<Rightarrow> string list" where
  "split_lines cur [] = (if cur = '''' then [] else [rev cur])"
| "split_lines cur (c # cs) = (if c = LF then rev cur # split_lines [] cs else split_lines (c # cur) cs)"

definition dropCR :: "string \<Rightarrow> string" where
  "dropCR l = (if l \<noteq> '''' \<and> last l = CR then butlast l else l)"

definition scan_lines :: "string \<Rightarrow> string list" where
  "scan_lines body = map dropCR (takeWhile (\<lambda>l. length l < MaxScanTokenSize) (split_lines [] body))"

section \<open>Decoding the events\<close>

text \<open>A slice of structs; the elements of an array are decoded over the elements the slice already has.\<close>

fun decode_slice :: "('a \<Rightarrow> json \<Rightarrow> 'a option) \<Rightarrow> 'a \<Rightarrow> 'a list \<Rightarrow> json list \<Rightarrow> 'a list option" where
  "decode_slice dec zero old [] = Some []"
| "decode_slice dec zero old (j # js) =
     (case dec (case old of [] \<Rightarrow> zero | e # _ \<Rightarrow> e) j of
        None \<Rightarrow> None
      | Some e \<Rightarrow> map_option ((#) e) (decode_slice dec zero (drop 1 old) js))"

fun slice_field :: "('a \<Rightarrow> json \<Rightarrow> 'a option) \<Rightarrow> 'a \<Rightarrow> string \<Rightarrow> 'a list \<Rightarrow> (string \<times> json) list \<Rightarrow> 'a list option" where
  "slice_field dec zero name v [] = Some v"
| "slice_field dec zero name v ((k, j) # ms) =
     (if field_match name k
      then (case j of
          JArr js \<Rightarrow> (case decode_slice dec zero v js of None \<Rightarrow> None | Some es \<Rightarrow> slice_field dec zero name es ms)
        | JNull \<Rightarrow> slice_field dec zero name [] ms
        | _ \<Rightarrow> None)
      else slice_field dec zero name v ms)"

text \<open>A struct decoded by the members of an object; \<open>null\<close> leaves it as it is.\<close>

definition decode_struct :: "((string \<times> json) list \<Rightarrow> 'a option) \<Rightarrow> 'a \<Rightarrow> json \<Rightarrow> 'a option" where
  "decode_struct f v j = (case j of JNull \<Rightarrow> Some v | JObj ms \<Rightarrow> f ms | _ \<Rightarrow> None)"

text \<open>\<open>openai.chunk\<close> and \<open>xai.chunk\<close>: a choice is its \<open>delta.content\<close>.\<close>

definition decode_choice :: "string \<Rightarrow> json \<Rightarrow> string option" where
  "decode_choice v = decode_struct (\<lambda>ms. Option.bind (obj_field ''delta'' ms) (str_field ''content'' v)) v"

definition openai_chunk :: "json \<Rightarrow> string list option" where
  "openai_chunk = decode_struct (slice_field decode_choice '''' ''choices'' []) []"

text \<open>\<open>gemini.chunk\<close>: a candidate is the list of its \<open>content.parts\<close>.\<close>

definition decode_part :: "string \<Rightarrow> json \<Rightarrow> string option" where
  "decode_part v = decode_struct (str_field ''text'' v) v"

definition decode_candidate :: "string list \<Rightarrow> json \<Rightarrow> string list option" where
  "decode_candidate v = decode_struct (\<lambda>ms. Option.bind (obj_field ''content'' ms) (slice_field decode_part '''' ''parts'' v)) v"

definition gemini_chunk :: "json \<Rightarrow> string list list option" where
  "gemini_chunk = decode_struct (slice_field decode_candidate [] ''candidates'' []) []"

text \<open>\<open>anthropic.delta\<close>: only the text of the delta is used, the types have to be strings.\<close>

definition anthropic_delta :: "json \<Rightarrow> string option" where
  "anthropic_delta = decode_struct (\<lambda>ms.
     case (str_field ''type'' '''' ms, obj_field ''delta'' ms) of
       (Some _, Some ds) \<Rightarrow> (case (str_field ''type'' '''' ds, str_field ''text'' '''' ds) of (Some _, Some t) \<Rightarrow> Some t | _ \<Rightarrow> None)
     | _ \<Rightarrow> None) ''''"

section \<open>The providers\<close>

text \<open>What the loops over the lines write. A text is written only when it is not empty.\<close>

definition write_text :: "string \<Rightarrow> string" where
  "write_text t = (if t = '''' then '''' else WriteChunk t)"

fun relay_openai :: "ext \<Rightarrow> string list \<Rightarrow> string" where
  "relay_openai x [] = ''''"
| "relay_openai x (line # ls) =
     (case ParseSSELine line of
        None \<Rightarrow> relay_openai x ls
      | Some data \<Rightarrow>
          if data = ''[DONE]'' then ''''
          else (case Option.bind (x_unmarshal x data) openai_chunk of
             None \<Rightarrow> relay_openai x ls
           | Some cs \<Rightarrow> (case cs of [] \<Rightarrow> '''' | t # _ \<Rightarrow> write_text t) @ relay_openai x ls))"

fun relay_gemini :: "ext \<Rightarrow> string list \<Rightarrow> string" where
  "relay_gemini x [] = ''''"
| "relay_gemini x (line # ls) =
     (case ParseSSELine line of
        None \<Rightarrow> relay_gemini x ls
      | Some data \<Rightarrow>
          (case Option.bind (x_unmarshal x data) gemini_chunk of
             None \<Rightarrow> relay_gemini x ls
           | Some cs \<Rightarrow> (case cs of (t # _) # _ \<Rightarrow> write_text t | _ \<Rightarrow> '''') @ relay_gemini x ls))"

fun relay_anthropic :: "ext \<Rightarrow> string \<Rightarrow> string list \<Rightarrow> string" where
  "relay_anthropic x lastEvent [] = ''''"
| "relay_anthropic x lastEvent (line # ls) =
     (case cut_prefix line ''event: '' of
        Some event \<Rightarrow> relay_anthropic x event ls
      | None \<Rightarrow>
        (case ParseSSELine line of
           None \<Rightarrow> relay_anthropic x lastEvent ls
         | Some data \<Rightarrow>
             if lastEvent = ''message_stop'' then ''''
             else if lastEvent \<noteq> ''content_block_delta'' then relay_anthropic x lastEvent ls
             else (case Option.bind (x_unmarshal x data) anthropic_delta of
                None \<Rightarrow> relay_anthropic x lastEvent ls
              | Some t \<Rightarrow> write_text t @ relay_anthropic x lastEvent ls)))"

text \<open>The request and what follows it, the same in the four providers: the text written and the error returned.\<close>

definition stream_from ::
  "ext \<Rightarrow> http_client \<Rightarrow> string \<Rightarrow> (string list \<Rightarrow> string) \<Rightarrow> string \<Rightarrow> json \<Rightarrow> (string \<times> string) list \<Rightarrow> string \<times> stream_error option" where
  "stream_from x hc name relay url body headers =
     (case NewJSONRequest x hc url body headers of
        None \<Rightarrow> ('''', Some BadRequest)
      | Some rq \<Rightarrow>
        (case hc_post hc (Rq_URL rq) (Rq_Headers rq) (Rq_Body rq) of
           None \<Rightarrow> (WriteError (name @ '' request failed''), Some RequestFailed)
         | Some (status, text) \<Rightarrow>
             if status \<noteq> 200 then (WriteError (name @ '' returned status '' @ nat_text status), Some (BadStatus status))
             else (relay (scan_lines text) @ WriteDone, None)))"

definition openai_body :: "string \<Rightarrow> string \<Rightarrow> json" where
  "openai_body model prompt = JObj [(''model'', JStr model), (''stream'', JBool True),
     (''messages'', JArr [JObj [(''role'', JStr ''user''), (''content'', JStr prompt)]])]"

definition openai_Stream :: "ext \<Rightarrow> http_client \<Rightarrow> string \<Rightarrow> string \<Rightarrow> string \<times> stream_error option" where
  "openai_Stream x hc apiKey prompt =
     (case ValidateInput apiKey prompt of
        Some err \<Rightarrow> ('''', Some err)
      | None \<Rightarrow> stream_from x hc ''openai'' (relay_openai x) ''https://api.openai.com/v1/chat/completions''
          (openai_body ''gpt-4o'' prompt) [(''Authorization'', ''Bearer '' @ apiKey)])"

definition xai_Stream :: "ext \<Rightarrow> http_client \<Rightarrow> string \<Rightarrow> string \<Rightarrow> string \<times> stream_error option" where
  "xai_Stream x hc apiKey prompt =
     (case ValidateInput apiKey prompt of
        Some err \<Rightarrow> ('''', Some err)
      | None \<Rightarrow> stream_from x hc ''xai'' (relay_openai x) ''https://api.x.ai/v1/chat/completions''
          (openai_body ''grok-3'' prompt) [(''Authorization'', ''Bearer '' @ apiKey)])"

definition gemini_Stream :: "ext \<Rightarrow> http_client \<Rightarrow> string \<Rightarrow> string \<Rightarrow> string \<times> stream_error option" where
  "gemini_Stream x hc apiKey prompt =
     (case ValidateInput apiKey prompt of
        Some err \<Rightarrow> ('''', Some err)
      | None \<Rightarrow> stream_from x hc ''gemini'' (relay_gemini x)
          (''https://generativelanguage.googleapis.com/v1beta/models/gemini-2.0-flash:streamGenerateContent?alt=sse&key='' @ apiKey)
          (JObj [(''contents'', JArr [JObj [(''parts'', JArr [JObj [(''text'', JStr prompt)]])]])]) [])"

definition anthropic_Stream :: "ext \<Rightarrow> http_client \<Rightarrow> string \<Rightarrow> string \<Rightarrow> string \<times> stream_error option" where
  "anthropic_Stream x hc apiKey prompt =
     (case ValidateInput apiKey prompt of
        Some err \<Rightarrow> ('''', Some err)
      | None \<Rightarrow> stream_from x hc ''anthropic'' (relay_anthropic x '''') ''https://api.anthropic.com/v1/messages''
          (JObj [(''model'', JStr ''claude-sonnet-4-20250514''), (''max_tokens'', JNum 4096), (''stream'', JBool True),
             (''messages'', JArr [JObj [(''role'', JStr ''user''), (''content'', JStr prompt)]])])
          [(''x-api-key'', apiKey), (''anthropic-version'', ''2023-06-01'')])"

text \<open>\<open>aiprovider.New\<close>.\<close>

type_synonym provider = "ext \<Rightarrow> http_client \<Rightarrow> string \<Rightarrow> string \<Rightarrow> string \<times> stream_error option"

definition New_provider :: "string \<Rightarrow> provider option" where
  "New_provider name =
     (if name = ''openai'' then Some openai_Stream
      else if name = ''anthropic'' then Some anthropic_Stream
      else if name = ''google'' then Some gemini_Stream
      else if name = ''xai'' then Some xai_Stream
      else None)"


section \<open>What a client reads\<close>

text \<open>The texts a provider sends, as a list: the reference the loops are compared with.\<close>

definition sse_data :: "string list \<Rightarrow> string list" where
  "sse_data lines = List.map_filter ParseSSELine lines"

definition nonempty_text :: "string option \<Rightarrow> string option" where
  "nonempty_text t = (case t of Some (c # cs) \<Rightarrow> Some (c # cs) | _ \<Rightarrow> None)"

definition openai_texts :: "ext \<Rightarrow> string list \<Rightarrow> string list" where
  "openai_texts x lines =
     List.map_filter (\<lambda>data. nonempty_text (Option.bind (Option.bind (x_unmarshal x data) openai_chunk)
         (\<lambda>cs. case cs of [] \<Rightarrow> None | t # _ \<Rightarrow> Some t)))
       (takeWhile (\<lambda>data. data \<noteq> ''[DONE]'') (sse_data lines))"

definition gemini_texts :: "ext \<Rightarrow> string list \<Rightarrow> string list" where
  "gemini_texts x lines =
     List.map_filter (\<lambda>data. nonempty_text (Option.bind (Option.bind (x_unmarshal x data) gemini_chunk)
         (\<lambda>cs. case cs of (t # _) # _ \<Rightarrow> Some t | _ \<Rightarrow> None))) (sse_data lines)"

text \<open>Every line with the event name in force at it, and the texts of the content events up to the stop.\<close>

fun tag_lines :: "string \<Rightarrow> string list \<Rightarrow> (string \<times> string) list" where
  "tag_lines ev [] = []"
| "tag_lines ev (line # ls) =
     (case cut_prefix line ''event: '' of
        Some e \<Rightarrow> tag_lines e ls
      | None \<Rightarrow> (case ParseSSELine line of None \<Rightarrow> tag_lines ev ls | Some data \<Rightarrow> (ev, data) # tag_lines ev ls))"

definition anthropic_texts :: "ext \<Rightarrow> string \<Rightarrow> string list \<Rightarrow> string list" where
  "anthropic_texts x ev lines =
     List.map_filter (\<lambda>(e, data). if e = ''content_block_delta'' then nonempty_text (Option.bind (x_unmarshal x data) anthropic_delta) else None)
       (takeWhile (\<lambda>(e, _). e \<noteq> ''message_stop'') (tag_lines ev lines))"

text \<open>A text that is one event: no line feed, no carriage return at its end, and short enough for the scanner.\<close>

definition plain :: "string \<Rightarrow> bool" where
  "plain t \<longleftrightarrow> LF \<notin> set t \<and> (t = '''' \<or> last t \<noteq> CR) \<and> length t < MaxScanTokenSize - 6"

lemma map_filter_Cons: "List.map_filter f (y # ys) = (case f y of None \<Rightarrow> List.map_filter f ys | Some z \<Rightarrow> z # List.map_filter f ys)"
  by (simp add: List.map_filter_simps)

lemma split_lines_line:
  "LF \<notin> set s \<Longrightarrow> split_lines cur (s @ LF # r) = (rev cur @ s) # split_lines [] r"
  by (induction s arbitrary: cur) auto

lemma split_lines_chunk:
  assumes "LF \<notin> set t"
  shows "split_lines [] (WriteChunk t @ r) = (''data: '' @ t) # '''' # split_lines [] r"
proof -
  have "LF \<notin> set (''data: '' @ t)" using assms by simp
  from split_lines_line [OF this, of "[]" "LF # r"] show ?thesis by (simp add: WriteChunk_def)
qed

lemma split_lines_chunks:
  "\<forall>t \<in> set ts. LF \<notin> set t \<Longrightarrow>
     split_lines [] (concat (map WriteChunk ts) @ r) = concat (map (\<lambda>t. [''data: '' @ t, '''']) ts) @ split_lines [] r"
  by (induction ts) (simp_all add: split_lines_chunk del: append.simps split_lines.simps, simp)

lemma takeWhile_all: "\<forall>y \<in> set ys. P y \<Longrightarrow> takeWhile P ys = ys"
  by (simp add: takeWhile_eq_all_conv)

lemma dropCR_data: "plain t \<Longrightarrow> dropCR (''data: '' @ t) = ''data: '' @ t"
  by (cases "t = ''''") (simp_all add: dropCR_def plain_def)

lemma scan_chunks:
  assumes "\<forall>t \<in> set ts. plain t"
  shows "scan_lines (concat (map WriteChunk ts)) = concat (map (\<lambda>t. [''data: '' @ t, '''']) ts)"
proof -
  let ?ls = "concat (map (\<lambda>t. [''data: '' @ t, '''']) ts)"
  have "split_lines [] (concat (map WriteChunk ts)) = ?ls"
    using split_lines_chunks [of ts "''''"] assms by (simp add: plain_def)
  moreover have "takeWhile (\<lambda>l. length l < MaxScanTokenSize) ?ls = ?ls"
    by (rule takeWhile_all) (use assms in \<open>auto simp: plain_def\<close>)
  moreover have "map dropCR ?ls = ?ls"
    using assms by (induction ts) (simp_all add: dropCR_data del: append.simps, simp_all add: dropCR_def)
  ultimately show ?thesis by (simp only: scan_lines_def)
qed

lemma read_back:
  assumes "\<forall>t \<in> set ts. plain t"
  shows "sse_data (scan_lines (concat (map WriteChunk ts))) = ts"
proof -
  have "ParseSSELine (''data: '' @ t) = Some t" for t by (simp only: ParseSSELine_def cut_prefix_append)
  moreover have "ParseSSELine '''' = None" by (simp add: ParseSSELine_def cut_prefix_def has_prefix_def)
  ultimately have "List.map_filter ParseSSELine (concat (map (\<lambda>t. [''data: '' @ t, '''']) ts)) = ts"
    by (induction ts) (simp_all add: map_filter_Cons del: append.simps, simp_all add: List.map_filter_simps)
  then show ?thesis using scan_chunks [OF assms] by (simp add: sse_data_def)
qed

lemma done_chunk: "WriteDone = WriteChunk ''[DONE]''" "plain ''[DONE]''"
  by (simp_all add: WriteDone_def WriteChunk_def plain_def)


text \<open>What the four loops have in common, and what follows for the stream around them.\<close>

locale text_relay =
  fixes relay :: "string list \<Rightarrow> string" and texts :: "string list \<Rightarrow> string list"
  assumes relay_texts: "relay ls = concat (map WriteChunk (texts ls))"
begin

lemma stream_ok:
  assumes "stream_from x hc name relay url body headers = (out, None)"
  shows "\<exists>rq resp. NewJSONRequest x hc url body headers = Some rq \<and> hc_post hc (Rq_URL rq) (Rq_Headers rq) (Rq_Body rq) = Some (200, resp)
    \<and> out = concat (map WriteChunk (texts (scan_lines resp))) @ WriteDone
    \<and> ((\<forall>t \<in> set (texts (scan_lines resp)). plain t) \<longrightarrow> sse_data (scan_lines out) = texts (scan_lines resp) @ [''[DONE]''])"
proof -
  obtain rq resp where rq: "NewJSONRequest x hc url body headers = Some rq" "hc_post hc (Rq_URL rq) (Rq_Headers rq) (Rq_Body rq) = Some (200, resp)"
      "out = relay (scan_lines resp) @ WriteDone"
    using assms by (auto simp: stream_from_def split: option.splits if_splits)
  let ?ts = "texts (scan_lines resp)"
  have out: "out = concat (map WriteChunk (?ts @ [''[DONE]'']))" using rq(3) by (simp add: relay_texts done_chunk(1))
  have "sse_data (scan_lines out) = ?ts @ [''[DONE]'']" if "\<forall>t \<in> set ?ts. plain t"
    unfolding out by (rule read_back) (use that done_chunk(2) in auto)
  then show ?thesis using rq by (auto simp: relay_texts)
qed

end

lemma write_text_nonempty: "write_text t = concat (map WriteChunk (case nonempty_text (Some t) of None \<Rightarrow> [] | Some u \<Rightarrow> [u]))"
  by (cases t) (simp_all add: write_text_def nonempty_text_def)

lemma nonempty_None [simp]: "nonempty_text None = None" and nonempty_Nil [simp]: "nonempty_text (Some []) = None"
  and nonempty_Cons [simp]: "nonempty_text (Some (c # cs)) = Some (c # cs)"
  by (simp_all add: nonempty_text_def)

lemma sse_data_Cons: "sse_data (l # ls) = (case ParseSSELine l of None \<Rightarrow> sse_data ls | Some data \<Rightarrow> data # sse_data ls)"
  by (simp add: sse_data_def map_filter_Cons split: option.split)

interpretation openai_relay: text_relay "relay_openai x" "openai_texts x" for x
proof
  show "relay_openai x ls = concat (map WriteChunk (openai_texts x ls))" for ls
  proof (induction ls)
    case (Cons l ls)
    then show ?case
      by (auto simp: openai_texts_def sse_data_Cons map_filter_Cons write_text_def nonempty_text_def split: option.splits list.splits bind_splits)
  qed (simp add: openai_texts_def sse_data_def List.map_filter_simps)
qed

interpretation gemini_relay: text_relay "relay_gemini x" "gemini_texts x" for x
proof
  show "relay_gemini x ls = concat (map WriteChunk (gemini_texts x ls))" for ls
  proof (induction ls)
    case (Cons l ls)
    then show ?case
      by (auto simp: gemini_texts_def sse_data_Cons map_filter_Cons write_text_def nonempty_text_def split: option.splits list.splits bind_splits)
  qed (simp add: gemini_texts_def sse_data_def List.map_filter_simps)
qed

interpretation anthropic_relay: text_relay "relay_anthropic x ev" "anthropic_texts x ev" for x ev
proof
  show "relay_anthropic x ev ls = concat (map WriteChunk (anthropic_texts x ev ls))" for ls
  proof (induction ls arbitrary: ev)
    case (Cons l ls)
    then show ?case
      by (auto simp: anthropic_texts_def map_filter_Cons write_text_def nonempty_text_def split: option.splits list.splits bind_splits)
  qed (simp add: anthropic_texts_def List.map_filter_simps)
qed


definition provider_texts :: "string \<Rightarrow> ext \<Rightarrow> string list \<Rightarrow> string list" where
  "provider_texts name x lines =
     (if name = ''anthropic'' then anthropic_texts x '''' lines
      else if name = ''google'' then gemini_texts x lines else openai_texts x lines)"



definition sample_delta :: json where
  "sample_delta = JObj [(''type'', JStr ''content_block_delta''), (''delta'', JObj [(''type'', JStr ''text_delta''), (''text'', JStr ''hi'')])]"

definition sample_sse :: string where
  "sample_sse = ''event: content_block_delta'' @ [LF] @ ''data: '' @ json_text sample_delta @ [LF, LF]
     @ ''event: message_stop'' @ [LF] @ ''data: {}'' @ [LF, LF]"

definition sample_hc :: http_client where
  "sample_hc = \<lparr>hc_url_ok = (\<lambda>_. True), hc_post = (\<lambda>_ _ _. Some (200, sample_sse))\<rparr>"

lemma sample_hc_post: "hc_post sample_hc u h b = Some (200, sample_sse)"
  by (simp add: sample_hc_def)

lemma sample_scan:
  "scan_lines sample_sse = [''event: content_block_delta'', ''data: '' @ json_text sample_delta, '''', ''event: message_stop'', ''data: {}'', '''']"
  by (simp add: scan_lines_def sample_sse_def sample_delta_def dropCR_def)

lemma sample_texts: "anthropic_texts (sample_ext [sample_delta]) '''' (scan_lines sample_sse) = [''hi'']"
proof -
  have "x_unmarshal (sample_ext [sample_delta]) (json_text sample_delta) = Some sample_delta" by (simp add: sample_ext_def)
  moreover have "anthropic_delta sample_delta = Some ''hi''" by code_simp
  moreover have "tag_lines '''' (scan_lines sample_sse) = [(''content_block_delta'', json_text sample_delta), (''message_stop'', ''{}'')]"
    unfolding sample_scan by (simp add: ParseSSELine_def cut_prefix_def has_prefix_def)
  ultimately show ?thesis by (simp add: anthropic_texts_def List.map_filter_simps)
qed

lemma sample_stream: "snd (anthropic_Stream (sample_ext [sample_delta]) sample_hc ''key'' ''prompt'') = None"
  by (simp add: anthropic_Stream_def ValidateInput_def stream_from_def NewJSONRequest_def sample_hc_def)


text \<open>
  When a stream fails after the request was sent, the client reads one error event and the end marker;
  before that it gets nothing.
\<close>

lemma stream_failure:
  assumes "New_provider name = Some p" and "p x hc apiKey prompt = (out, Some err)"
  shows "(if err \<in> {ErrEmptyAPIKey, ErrEmptyPrompt, BadRequest} then out = ''''
    else \<exists>msg. out = WriteError msg)"
  using assms
  by (auto simp: New_provider_def openai_Stream_def anthropic_Stream_def gemini_Stream_def xai_Stream_def ValidateInput_def
      stream_from_def split: if_splits option.splits)

text \<open>A text with a line break in it is cut short on the way.\<close>

lemma line_break_cuts_text: "sse_data (scan_lines (WriteChunk (''a'' @ [LF] @ ''b'') @ WriteDone)) = [''a'', ''[DONE]'']"
  by (simp add: sse_data_def scan_lines_def WriteChunk_def WriteDone_def dropCR_def map_filter_Cons ParseSSELine_def cut_prefix_def has_prefix_def)

end
