(* ===== verification/Query.thy ===== *)
theory Query
  imports AiStream ContextUrl
begin

text \<open>
  The query console (\<open>api/internal/handler/query\<close>): a question about a repository is sent, with the
  assembled document of a snapshot, to the first language model the organization has a key for, and
  the answer is streamed back.
\<close>

section \<open>The handler\<close>

definition SystemPrompt :: string where
  "SystemPrompt = ''You are an expert on this codebase. Refer to files by their full path. Answer concisely and precisely. If unsure, say so.''"

definition ProviderOrder :: "string list" where
  "ProviderOrder = [''anthropic'', ''openai'', ''google'', ''xai'']"

record queryRequest =
  Q_Question :: string
  Q_SnapshotID :: "string option"

definition decode_queryRequest :: "json \<Rightarrow> queryRequest option" where
  "decode_queryRequest j =
     (case j of
        JNull \<Rightarrow> Some \<lparr>Q_Question = '''', Q_SnapshotID = None\<rparr>
      | JObj ms \<Rightarrow> (case (str_field ''question'' '''' ms, opt_str_field ''snapshot_id'' None ms) of
          (Some q, Some s) \<Rightarrow> Some \<lparr>Q_Question = q, Q_SnapshotID = s\<rparr> | _ \<Rightarrow> None)
      | _ \<Rightarrow> None)"

definition queryRequest_fields :: "queryRequest \<Rightarrow> vfield list" where
  "queryRequest_fields r = [(''Question'', [VRequired, VMin 1, VMax 4000], VStr (Q_Question r)),
     (''SnapshotID'', [VOmitEmpty, VUUID], VPtr (Q_SnapshotID r))]"

text \<open>The dash of the message is the UTF-8 encoding of U+2014.\<close>

definition errNoAIKey :: string where
  "errNoAIKey = ''no AI provider key configured '' @ [CHR 0xE2, CHR 0x80, CHR 0x94] @ '' add one in Settings''"

text \<open>The loop of \<open>selectProvider\<close>: a provider without a key, or with a key that does not decrypt, is passed over.\<close>

fun select_from :: "env \<Rightarrow> aead \<Rightarrow> pg_uuid \<Rightarrow> db \<Rightarrow> nat \<Rightarrow> string list \<Rightarrow> (string \<times> string) option" where
  "select_from env enc org d n [] = None"
| "select_from env enc org d n (p # ps) =
     (case guarded env ''GetAIProviderKeyForOrg'' n (GetAIProviderKeyForOrg org p d) of
        Inl _ \<Rightarrow> select_from env enc org d (Suc n) ps
      | Inr k \<Rightarrow>
        (case Decrypt enc (AiKey_KeyCipher k) of
           None \<Rightarrow> select_from env enc org d (Suc n) ps
         | Some raw \<Rightarrow> Some (p, raw)))"

definition selectProvider :: "env \<Rightarrow> aead \<Rightarrow> pg_uuid \<Rightarrow> db \<Rightarrow> (string \<times> string) option" where
  "selectProvider env enc org d = select_from env enc org d 0 ProviderOrder"

definition resolveSnapshot :: "ext \<Rightarrow> env \<Rightarrow> string option \<Rightarrow> uuid \<Rightarrow> string \<Rightarrow> db \<Rightarrow> Snapshot option" where
  "resolveSnapshot x env snapshotID repoID defaultBranch d =
     (case snapshotID of
        Some s \<Rightarrow>
          (case x_uuid_scan x s of
             None \<Rightarrow> None
           | Some i \<Rightarrow> (case guarded env ''GetSnapshotByID'' 0 (GetSnapshotByID (Some i) d) of Inl _ \<Rightarrow> None | Inr s \<Rightarrow> Some s))
      | None \<Rightarrow>
          (case guarded env ''GetLatestSnapshot'' 0 (GetLatestSnapshot (Some repoID) defaultBranch d) of Inl _ \<Rightarrow> None | Inr s \<Rightarrow> Some s))"

text \<open>The document and what is left to a goroutine; \<open>None\<close> when it cannot be assembled.\<close>

definition getOrAssembleContext ::
  "ext \<Rightarrow> env \<Rightarrow> blobs \<Rightarrow> Repository \<Rightarrow> Snapshot \<Rightarrow> gcs \<Rightarrow> cache \<Rightarrow> (string \<times> background list) option" where
  "getOrAssembleContext x env blobs repo snap g c =
     (let key = cache_Key (x_uuid_string x (Repo_ID repo)) (Snap_CommitSha snap) in
      case cache_Get env key c of
        Some cached \<Rightarrow> Some (cached, [])
      | None \<Rightarrow>
        (case Download env (Snap_GcsPath snap) g of
           Inl _ \<Rightarrow> None
         | Inr metaBytes \<Rightarrow>
           (case Option.bind (x_unmarshal x metaBytes) decode_meta of
              None \<Rightarrow> None
            | Some files \<Rightarrow>
                let (doc, ok) = Assemble (Repo_FullName repo) (Snap_CommitSha snap) files
                      (blobs (Repo_InstallationID repo) (Repo_FullName repo)) (\<lambda>_. False)
                in if ok then Some (doc, [CacheDocument key doc]) else None)))"

definition streamAI :: "ext \<Rightarrow> http_client \<Rightarrow> string \<Rightarrow> string \<Rightarrow> string \<Rightarrow> string \<times> stream_error option" where
  "streamAI x hc providerName apiKey prompt =
     (case New_provider providerName of
        None \<Rightarrow> ('''', Some (UnknownProvider providerName))
      | Some p \<Rightarrow> p x hc apiKey prompt)"

definition query_prompt :: "string \<Rightarrow> string \<Rightarrow> string" where
  "query_prompt contextMD question =
     SystemPrompt @ [LF, LF] @ ''---'' @ [LF, LF] @ contextMD @ [LF, LF] @ ''---'' @ [LF, LF] @ ''User: '' @ question"

datatype query_reply = QueryError nat string | QueryStream string

text \<open>\<open>scanErr\<close> is pgtype's message for a text that is not an identifier.\<close>

definition Query_handler ::
  "ext \<Rightarrow> env \<Rightarrow> aead \<Rightarrow> http_client \<Rightarrow> blobs \<Rightarrow> (string \<Rightarrow> string) \<Rightarrow> pg_uuid \<Rightarrow> string \<Rightarrow> string \<Rightarrow> db \<Rightarrow> gcs \<Rightarrow> cache
    \<Rightarrow> query_reply \<times> background list" where
  "Query_handler x env enc hc blobs scanErr org repoID body d g c =
     (case Option.bind (x_json x body) decode_queryRequest of
        None \<Rightarrow> (QueryError 400 ErrInvalidBody, [])
      | Some req \<Rightarrow>
        (case validate_struct x (queryRequest_fields req) of
           Some err \<Rightarrow> (QueryError 400 err, [])
         | None \<Rightarrow>
           (case selectProvider env enc org d of
              None \<Rightarrow> (QueryError 422 errNoAIKey, [])
            | Some (provider, rawKey) \<Rightarrow>
              (case x_uuid_scan x repoID of
                 None \<Rightarrow> (QueryError 400 (scanErr repoID), [])
               | Some rid \<Rightarrow>
                 (case guarded env ''GetRepoByID'' 0 (GetRepoByID (Some rid) d) of
                    Inl _ \<Rightarrow> (QueryError 404 ''repository not found'', [])
                  | Inr repo \<Rightarrow>
                      if Repo_OrgID repo \<noteq> org then (QueryError 404 ''repository not found'', [])
                      else (case resolveSnapshot x env (Q_SnapshotID req) rid (Repo_DefaultBranch repo) d of
                         None \<Rightarrow> (QueryError 404 ''no snapshot available'', [])
                       | Some snap \<Rightarrow>
                           if Snap_SnapshotVersion snap < 2 then (QueryError 422 errSnapshotOutdated, [])
                           else (case getOrAssembleContext x env blobs repo snap g c of
                              None \<Rightarrow> (QueryError 500 ErrInternal, [])
                            | Some (contextMD, bg) \<Rightarrow>
                                (QueryStream (fst (streamAI x hc provider rawKey (query_prompt contextMD (Q_Question req)))), bg))))))))"


section \<open>Properties\<close>

lemma select_from_Some:
  assumes "select_from env enc org d n ps = Some (p, raw)"
  shows "p \<in> set ps" and "\<exists>k \<in> set (ai_provider_keys d). AiKey_OrgID k = org \<and> org \<noteq> None \<and> AiKey_Provider k = p \<and> Decrypt enc (AiKey_KeyCipher k) = Some raw"
proof -
  have "p \<in> set ps \<and> (\<exists>k. GetAIProviderKeyForOrg org p d = Inr k \<and> Decrypt enc (AiKey_KeyCipher k) = Some raw)"
    using assms
  proof (induction ps arbitrary: n)
    case (Cons q ps)
    then show ?case by (auto simp: guarded_def split: sum.splits option.splits if_splits)
  qed simp
  then show "p \<in> set ps" and "\<exists>k \<in> set (ai_provider_keys d). AiKey_OrgID k = org \<and> org \<noteq> None \<and> AiKey_Provider k = p \<and> Decrypt enc (AiKey_KeyCipher k) = Some raw"
    unfolding GetAIProviderKeyForOrg_def by (auto simp: sql_eq_def dest!: query_one_Inr)
qed

lemma ProviderOrder_known: "p \<in> set ProviderOrder \<Longrightarrow> \<exists>f. New_provider p = Some f"
  by (auto simp: ProviderOrder_def New_provider_def)


lemma upsert_ai_key_other_provider:
  assumes "UpsertAIProviderKeyForOrg env n org p c h d = Inr (k, d')" and "q \<noteq> p"
  shows "GetAIProviderKeyForOrg org q d' = GetAIProviderKeyForOrg org q d"
proof -
  let ?P = "\<lambda>k. sql_eq (AiKey_OrgID k) org \<and> AiKey_Provider k = p"
  let ?Q = "\<lambda>k. sql_eq (AiKey_OrgID k) org \<and> AiKey_Provider k = q"
  have "query_one ?Q (update_where ?P f (ai_provider_keys d)) = query_one ?Q (ai_provider_keys d)"
    if "\<And>k. AiKey_Provider (f k) = AiKey_Provider k" for f
    by (rule query_one_update_other) (use assms(2) that in auto)
  then show ?thesis using assms
    by (auto simp: UpsertAIProviderKeyForOrg_def upsert_ai_key_def Let_def GetAIProviderKeyForOrg_def
        query_one_append split: if_splits option.splits sum.splits)
qed

lemma select_from_skip:
  assumes "\<forall>q \<in> set ps. \<exists>e. GetAIProviderKeyForOrg org q d = Inl e"
  shows "select_from env enc org d n (ps @ qs) = select_from env enc org d (n + length ps) qs"
  using assms by (induction ps arbitrary: n) (auto simp: guarded_def)

text \<open>
  The key an organization stores for a provider is the key its questions are answered with: the
  encrypted row decrypts to the very text, and the provider is chosen as soon as none before it in
  the order of preference has a key.
\<close>

theorem stored_key_is_used:
  assumes "aead_ok enc" and "rand_ok rand" and "aikeys_Upsert x env enc rand org body d = (WriteHeader 204, d')"
    and "Option.bind (x_json x body) decode_aikeys_body = Some b"
    and "ProviderOrder = before @ AK_Provider b # after" and "\<forall>q \<in> set before. GetAIProviderKeyForOrg org q d = Inl ErrNoRows"
    and "\<And>call k. \<not> e_fault envB call k"
  shows "selectProvider envB enc org d' = Some (AK_Provider b, AK_RawKey b)"
proof -
  obtain cipher h k where c: "Encrypt enc rand (AK_RawKey b) = Some cipher"
      and up: "UpsertAIProviderKeyForOrg env 0 org (AK_Provider b) cipher h d = Inr (k, d')"
    using assms(3,4) by (auto simp: aikeys_Upsert_def guarded_def split: option.splits sum.splits prod.splits if_splits)
  have get: "GetAIProviderKeyForOrg org (AK_Provider b) d' = Inr k" "AiKey_KeyCipher k = cipher" using upsert_ai_key_get [OF up] by simp_all
  have "distinct ProviderOrder" by (simp add: ProviderOrder_def)
  then have "AK_Provider b \<notin> set before" unfolding assms(5) by simp
  then have "\<forall>q \<in> set before. \<exists>e. GetAIProviderKeyForOrg org q d' = Inl e"
    using upsert_ai_key_other_provider [OF up] assms(6) by metis
  then show ?thesis
    using select_from_skip [of before org d' envB enc 0 "AK_Provider b # after"] get Decrypt_Encrypt [OF assms(1,2) c] assms(7)
    by (simp add: selectProvider_def assms(5))
qed

text \<open>A snapshot that the request names is taken whatever repository it belongs to.\<close>

lemma named_snapshot_any_repository:
  "resolveSnapshot x env (Some s) rid branch d = resolveSnapshot x env (Some s) rid' branch' d"
  by (simp add: resolveSnapshot_def)


subsection \<open>A concrete question\<close>

definition sample_cipher :: aead where
  "sample_cipher = \<lparr>seal = (\<lambda>n p. n @ p), unseal = (\<lambda>n c. Some (drop (length n) c))\<rparr>"

definition sample_ai_key :: json where
  "sample_ai_key = JObj [(''provider'', JStr ''anthropic''), (''raw_key'', JStr ''sk-12345'')]"

definition sample_question :: json where
  "sample_question = JObj [(''question'', JStr ''why?'')]"

definition sample_query_db :: db where
  "sample_query_db = sample_db\<lparr>snapshots := [sample_v2],
     ai_provider_keys := [\<lparr>AiKey_ID = 3, AiKey_OrgID = Some 5, AiKey_Provider = ''anthropic'', AiKey_KeyCipher = replicate 12 CHR ''n'' @ replicate 12 CHR ''n'' @ ''sk-12345'',
       AiKey_KeyHint = ''2345'', AiKey_CreatedAt = 0, AiKey_UserID = None\<rparr>]\<rparr>"

lemma sample_ask:
  "\<exists>out bg. Query_handler (sample_ext [sample_question, sample_delta]) (sample_env 0) sample_cipher sample_hc (\<lambda>_ _ _. None) (\<lambda>_. ''bad'') (Some 5)
     ''rrrrrrr'' (json_text sample_question) sample_query_db Map.empty (Map.empty(''ctx:uuuuuuu:c1'' \<mapsto> (''doc'', 1))) = (QueryStream out, bg)"
proof -
  let ?x = "sample_ext [sample_question, sample_delta]"
  have "x_json ?x (json_text sample_question) = Some sample_question" by (simp add: sample_ext_def)
  moreover have "decode_queryRequest sample_question = Some \<lparr>Q_Question = ''why?'', Q_SnapshotID = None\<rparr>" by code_simp
  moreover have "validate_struct ?x (queryRequest_fields \<lparr>Q_Question = ''why?'', Q_SnapshotID = None\<rparr>) = None"
    by (simp add: validate_struct_def queryRequest_fields_def sample_ext_def sample_validate_def)
  moreover have "selectProvider (sample_env 0) sample_cipher (Some 5) sample_query_db = Some (''anthropic'', ''sk-12345'')"
    by (simp add: selectProvider_def ProviderOrder_def GetAIProviderKeyForOrg_def query_one_def sample_query_db_def sample_defs Decrypt_def
        sample_cipher_def numeral_eq_Suc)
  moreover have "replicate (unat (7 :: uuid)) CHR ''u'' = ''uuuuuuu''" by code_simp
  ultimately show ?thesis
    by (simp add: Query_handler_def GetRepoByID_def query_one_def sample_query_db_def sample_v2_def resolveSnapshot_def GetLatestSnapshot_def order_desc_def
        getOrAssembleContext_def cache_Key_def cache_Get_def Let_def sample_defs)
qed


theorem stored_key_is_used_witness:
  "\<exists>d'. aikeys_Upsert (sample_ext [sample_ai_key]) (sample_env 0) sample_cipher (\<lambda>n. Some (replicate n CHR ''n'')) (Some 5) (json_text sample_ai_key)
       sample_query_db = (WriteHeader 204, d')
     \<and> selectProvider (sample_env 1) sample_cipher (Some 5) d' = Some (''anthropic'', ''sk-12345'')"
proof -
  let ?x = "sample_ext [sample_ai_key]" and ?b = "\<lparr>AK_Provider = ''anthropic'', AK_RawKey = ''sk-12345''\<rparr>"
  have ok: "aead_ok sample_cipher" "rand_ok (\<lambda>n. Some (replicate n CHR ''n''))" by (simp_all add: aead_ok_def sample_cipher_def rand_ok_def)
  have dec: "decode_aikeys_body sample_ai_key = Some ?b" by code_simp
  have js: "Option.bind (x_json ?x (json_text sample_ai_key)) decode_aikeys_body = Some ?b" by (simp add: dec)
  have val: "validate_struct ?x (aikeys_fields ?b) = None"
    by (simp add: validate_struct_def aikeys_fields_def sample_ext_def sample_validate_def)
  have "\<exists>d'. aikeys_Upsert ?x (sample_env 0) sample_cipher (\<lambda>n. Some (replicate n CHR ''n'')) (Some 5) (json_text sample_ai_key) sample_query_db = (WriteHeader 204, d')"
    by (simp add: aikeys_Upsert_def dec val Encrypt_def UpsertAIProviderKeyForOrg_def upsert_ai_key_def Let_def sample_query_db_def
        sample_defs one_owner_def valid_provider_def)
  then obtain d' where up: "aikeys_Upsert ?x (sample_env 0) sample_cipher (\<lambda>n. Some (replicate n CHR ''n'')) (Some 5) (json_text sample_ai_key) sample_query_db
      = (WriteHeader 204, d')" by blast
  have order: "ProviderOrder = [] @ AK_Provider ?b # [''openai'', ''google'', ''xai'']" by (simp add: ProviderOrder_def)
  have nf: "\<not> e_fault (sample_env 1) c k" for c k by (simp add: sample_defs)
  from stored_key_is_used [OF ok up js order _ nf] up show ?thesis by auto
qed

end
