(* ===== verification/GithubClient.thy ===== *)
theory GithubClient
  imports AiStream
begin

text \<open>
  The calls the services make to GitHub as an app (\<open>shared/go/provider/github/client.go\<close>,
  \<open>api.go\<close>) and the circuit breaker around them (\<open>shared/go/circuitbreaker\<close>). The HTTP client, the
  signing of the app's JWT, URL parsing, running git and the breaker library are parameters.
\<close>

section \<open>Circuit breaker\<close>

text \<open>
  The breaker library keeps a state and is asked before a call and told its outcome after it.
\<close>

record 'b breaker =
  br_allows :: "'b \<Rightarrow> timestamp \<Rightarrow> bool"
  br_report :: "'b \<Rightarrow> timestamp \<Rightarrow> bool \<Rightarrow> 'b"

record breaker_settings =
  BS_MaxRequests :: nat
  BS_Interval :: timestamp
  BS_Timeout :: timestamp
  BS_ReadyToTrip :: "nat \<Rightarrow> bool" \<comment> \<open>of the number of consecutive failures\<close>

definition breaker_config :: "nat \<Rightarrow> timestamp \<Rightarrow> timestamp \<Rightarrow> nat \<Rightarrow> breaker_settings" where
  "breaker_config maxRequests interval timeout failureThreshold =
     \<lparr>BS_MaxRequests = maxRequests, BS_Interval = interval, BS_Timeout = timeout,
      BS_ReadyToTrip = (\<lambda>failures. failures \<ge> failureThreshold)\<rparr>"

definition New_breaker :: breaker_settings where
  "New_breaker = breaker_config 1 usec_per_min (10 * usec_per_sec) 5"

text \<open>\<open>Execute\<close>: the outcome of the call, or \<open>None\<close> in its place when the breaker is open; the last component is its state.\<close>

definition Execute_breaker :: "'b breaker \<Rightarrow> timestamp \<Rightarrow> 'b \<Rightarrow> ('e + 'a) \<Rightarrow> ('e + 'a) option \<times> 'b" where
  "Execute_breaker br now b r =
     (if br_allows br b now then (Some r, br_report br b now (\<not> isl r)) else (None, b))"

section \<open>The client\<close>

record APIClient =
  GC_appID :: int
  GC_privateKey :: string
  GC_webhookSecret :: string
  GC_apiBaseURL :: string

definition NewAPIClient :: "int \<Rightarrow> string \<Rightarrow> string \<Rightarrow> (APIClient \<Rightarrow> APIClient) list \<Rightarrow> string + APIClient" where
  "NewAPIClient appID privateKey webhookSecret opts =
     (if privateKey = '''' then Inl ''privateKey must not be empty''
      else if webhookSecret = '''' then Inl ''webhookSecret must not be empty''
      else Inr (fold (\<lambda>opt a. opt a) opts
        \<lparr>GC_appID = appID, GC_privateKey = privateKey, GC_webhookSecret = webhookSecret, GC_apiBaseURL = ''https://api.github.com''\<rparr>))"

definition WithBaseURL :: "string \<Rightarrow> APIClient \<Rightarrow> APIClient" where
  "WithBaseURL url a = a\<lparr>GC_apiBaseURL := url\<rparr>"

text \<open>
  What lies outside: signing claims with the key of a PEM text, \<open>http.NewRequest\<close> taking a URL, and
  the response to a request by method, URL and \<open>Authorization\<close> and \<open>Accept\<close> headers: its status, the
  part of the body that arrives and whether that is all of it.
\<close>

record app_claims =
  AC_IssuedAt :: int \<comment> \<open>seconds\<close>
  AC_ExpiresAt :: int
  AC_Issuer :: string

record github =
  gh_sign :: "string \<Rightarrow> app_claims \<Rightarrow> string option"
  gh_url_ok :: "string \<Rightarrow> bool"
  gh_do :: "string \<Rightarrow> string \<Rightarrow> string \<Rightarrow> string \<Rightarrow> (nat \<times> string \<times> bool) option"

datatype gh_error = GhJWT | GhRequest | GhCall | GhStatus nat string | GhDecode | GhEmptyToken | GhBreakerOpen | GhURL | GhClone

text \<open>The claims carry whole seconds.\<close>

definition generateAppJWT :: "github \<Rightarrow> env \<Rightarrow> APIClient \<Rightarrow> gh_error + string" where
  "generateAppJWT gh env c =
     (let iat = e_now env - 60 * usec_per_sec in
      case gh_sign gh (GC_privateKey c) \<lparr>AC_IssuedAt = iat div usec_per_sec, AC_ExpiresAt = (iat + 10 * usec_per_min) div usec_per_sec,
          AC_Issuer = int_text (GC_appID c)\<rparr> of
        None \<Rightarrow> Inl GhJWT
      | Some jwt \<Rightarrow> Inr jwt)"

text \<open>A request and the body of its answer, which has to have the given status.\<close>

definition gh_call :: "github \<Rightarrow> string \<Rightarrow> string \<Rightarrow> string \<Rightarrow> string \<Rightarrow> nat \<Rightarrow> gh_error + (string \<times> bool)" where
  "gh_call gh meth url authorization accept status =
     (if \<not> gh_url_ok gh url then Inl GhRequest
      else case gh_do gh meth url authorization accept of
        None \<Rightarrow> Inl GhCall
      | Some (code, body, complete) \<Rightarrow> if code \<noteq> status then Inl (GhStatus code body) else Inr (body, complete))"

definition token_url :: "APIClient \<Rightarrow> int \<Rightarrow> string" where
  "token_url c installationID = GC_apiBaseURL c @ ''/app/installations/'' @ int_text installationID @ ''/access_tokens''"

definition decode_token :: "json \<Rightarrow> string option" where
  "decode_token = decode_struct (str_field ''token'' '''') ''''"

text \<open>The closure \<open>do\<close> of \<open>GenerateCloneToken\<close>.\<close>

definition fetch_token :: "ext \<Rightarrow> github \<Rightarrow> env \<Rightarrow> APIClient \<Rightarrow> int \<Rightarrow> gh_error + string" where
  "fetch_token x gh env c installationID =
     (case generateAppJWT gh env c of
        Inl e \<Rightarrow> Inl e
      | Inr appJWT \<Rightarrow>
        (case gh_call gh ''POST'' (token_url c installationID) (''Bearer '' @ appJWT) ''application/vnd.github+json'' 201 of
           Inl e \<Rightarrow> Inl e
         | Inr (body, _) \<Rightarrow>
           (case Option.bind (x_json x body) decode_token of
              None \<Rightarrow> Inl GhDecode
            | Some token \<Rightarrow> if token = '''' then Inl GhEmptyToken else Inr token)))"

definition GenerateCloneToken ::
  "ext \<Rightarrow> github \<Rightarrow> env \<Rightarrow> 'b breaker option \<Rightarrow> APIClient \<Rightarrow> int \<Rightarrow> 'b \<Rightarrow> (gh_error + string) \<times> 'b" where
  "GenerateCloneToken x gh env cb c installationID b =
     (case cb of
        None \<Rightarrow> (fetch_token x gh env c installationID, b)
      | Some br \<Rightarrow>
          let (r, b') = Execute_breaker br (e_now env) b (fetch_token x gh env c installationID)
          in (case r of None \<Rightarrow> Inl GhBreakerOpen | Some r \<Rightarrow> r, b'))"

text \<open>
  \<open>BuildAuthURL\<close>: a parsed URL is its scheme and how it prints with a user and password in it or
  as it is.
\<close>

record parsed_url =
  PU_Scheme :: string
  PU_String :: "(string \<times> string) option \<Rightarrow> string"

definition BuildAuthURL :: "(string \<Rightarrow> parsed_url option) \<Rightarrow> string \<Rightarrow> string \<Rightarrow> string option" where
  "BuildAuthURL parse repoURL token =
     (case parse repoURL of
        None \<Rightarrow> None
      | Some u \<Rightarrow> Some (PU_String u (if token \<noteq> '''' \<and> PU_Scheme u = ''https'' then Some (''x-access-token'', token) else None)))"

definition CloneRepo :: "(string \<Rightarrow> parsed_url option) \<Rightarrow> (string list \<Rightarrow> bool) \<Rightarrow> string \<Rightarrow> string \<Rightarrow> string \<Rightarrow> string \<Rightarrow> gh_error option" where
  "CloneRepo parse git repoURL ref token dst =
     (case BuildAuthURL parse repoURL token of
        None \<Rightarrow> Some GhURL
      | Some authURL \<Rightarrow> if git [''clone'', ''--depth'', ''1'', ''--branch'', ref, authURL, dst] then None else Some GhClone)"

definition GetBlob :: "ext \<Rightarrow> github \<Rightarrow> env \<Rightarrow> 'b breaker option \<Rightarrow> APIClient \<Rightarrow> int \<Rightarrow> string \<Rightarrow> string \<Rightarrow> 'b \<Rightarrow> (gh_error + string) \<times> 'b" where
  "GetBlob x gh env cb c installationID repoFullName sha b =
     (let (t, b') = GenerateCloneToken x gh env cb c installationID b in
      (case t of
         Inl e \<Rightarrow> Inl e
       | Inr token \<Rightarrow>
         (case gh_call gh ''GET'' (GC_apiBaseURL c @ ''/repos/'' @ repoFullName @ ''/git/blobs/'' @ sha)
             (''token '' @ token) ''application/vnd.github.raw+json'' 200 of
            Inl e \<Rightarrow> Inl e
          | Inr (body, complete) \<Rightarrow> if complete then Inr body else Inl GhCall), b'))"

section \<open>Listing the repositories of an installation\<close>

record Repo =
  GR_ID :: int
  GR_FullName :: string
  GR_DefaultBranch :: string

definition zero_repo :: Repo where
  "zero_repo = \<lparr>GR_ID = 0, GR_FullName = '''', GR_DefaultBranch = ''''\<rparr>"

definition decode_repo :: "Repo \<Rightarrow> json \<Rightarrow> Repo option" where
  "decode_repo v = decode_struct (\<lambda>ms.
     case (int_field ''id'' (GR_ID v) ms, str_field ''full_name'' (GR_FullName v) ms, str_field ''default_branch'' (GR_DefaultBranch v) ms) of
       (Some i, Some n, Some b) \<Rightarrow> Some \<lparr>GR_ID = i, GR_FullName = n, GR_DefaultBranch = b\<rparr>
     | _ \<Rightarrow> None) v"

definition decode_repo_page :: "json \<Rightarrow> (int \<times> Repo list) option" where
  "decode_repo_page = decode_struct (\<lambda>ms.
     case (int_field ''total_count'' 0 ms, slice_field decode_repo zero_repo ''repositories'' [] ms) of
       (Some n, Some rs) \<Rightarrow> Some (n, rs) | _ \<Rightarrow> None) (0, [])"

definition repos_url :: "APIClient \<Rightarrow> nat \<Rightarrow> string" where
  "repos_url c page = GC_apiBaseURL c @ ''/installation/repositories?per_page=100&page='' @ nat_text page"

definition fetch_page :: "ext \<Rightarrow> github \<Rightarrow> APIClient \<Rightarrow> string \<Rightarrow> nat \<Rightarrow> gh_error + (int \<times> Repo list)" where
  "fetch_page x gh c token page =
     (case gh_call gh ''GET'' (repos_url c page) (''token '' @ token) ''application/vnd.github+json'' 200 of
        Inl e \<Rightarrow> Inl e
      | Inr (body, _) \<Rightarrow> (case Option.bind (x_json x body) decode_repo_page of None \<Rightarrow> Inl GhDecode | Some p \<Rightarrow> Inr p))"

text \<open>The loop goes on until as many repositories have come as the last page says there are; not returning is \<open>None\<close>.\<close>

partial_function (option) list_pages ::
  "(nat \<Rightarrow> gh_error + (int \<times> Repo list)) \<Rightarrow> nat \<Rightarrow> Repo list \<Rightarrow> (gh_error + Repo list) option" where
  "list_pages fetch page repos =
     (case fetch page of
        Inl e \<Rightarrow> Some (Inl e)
      | Inr (count, rs) \<Rightarrow>
          if int (length (repos @ rs)) \<ge> count then Some (Inr (repos @ rs)) else list_pages fetch (Suc page) (repos @ rs))"

definition github_ListRepos ::
  "ext \<Rightarrow> github \<Rightarrow> env \<Rightarrow> 'b breaker option \<Rightarrow> APIClient \<Rightarrow> int \<Rightarrow> 'b \<Rightarrow> (gh_error + Repo list) option \<times> 'b" where
  "github_ListRepos x gh env cb c installationID b =
     (let (t, b') = GenerateCloneToken x gh env cb c installationID b in
      (case t of Inl e \<Rightarrow> Some (Inl e) | Inr token \<Rightarrow> list_pages (fetch_page x gh c token) 1 [], b'))"


section \<open>Properties\<close>

text \<open>
  A page as GitHub documents it: the number of repositories, and the repositories from the place of
  the page on, a hundred at most.
\<close>

definition repo_json :: "Repo \<Rightarrow> json" where
  "repo_json r = JObj [(''id'', JNum (GR_ID r)), (''full_name'', JStr (GR_FullName r)), (''default_branch'', JStr (GR_DefaultBranch r))]"

definition page_of :: "nat \<Rightarrow> 'a list \<Rightarrow> 'a list" where
  "page_of page rs = take 100 (drop (100 * (page - 1)) rs)"

definition page_json :: "nat \<Rightarrow> Repo list \<Rightarrow> json" where
  "page_json page rs = JObj [(''total_count'', JNum (int (length rs))), (''repositories'', JArr (map repo_json (page_of page rs)))]"

lemma decode_repo_json: "int64_range (GR_ID r) \<Longrightarrow> decode_repo v (repo_json r) = Some r"
  by (simp add: decode_repo_def decode_struct_def repo_json_def field_match_def lower_def)

lemma decode_slice_repos:
  "\<forall>r \<in> set rs. int64_range (GR_ID r) \<Longrightarrow> decode_slice decode_repo zero_repo old (map repo_json rs) = Some rs"
  by (induction rs arbitrary: old) (simp_all add: decode_repo_json)

lemma decode_page_json:
  assumes "\<forall>r \<in> set rs. int64_range (GR_ID r)" and "int64_range (int (length rs))"
  shows "decode_repo_page (page_json page rs) = Some (int (length rs), page_of page rs)"
proof -
  have "\<forall>r \<in> set (page_of page rs). int64_range (GR_ID r)"
    using assms(1) unfolding page_of_def by (meson in_set_dropD in_set_takeD)
  then show ?thesis using assms(2)
    by (simp add: decode_repo_page_def decode_struct_def page_json_def decode_slice_repos field_match_def lower_def)
qed

lemma list_pages_complete:
  assumes "\<And>p. k \<le> p \<Longrightarrow> fetch p = Inr (int (length rs), page_of p rs)" and "0 < k"
  shows "list_pages fetch k (take (100 * (k - 1)) rs) = Some (Inr rs)"
  using assms
proof (induction "length rs - 100 * (k - 1)" arbitrary: k rule: less_induct)
  case less
  have "100 * (k - 1) + 100 = 100 * k" using less.prems(2) by simp
  then have join: "take (100 * (k - 1)) rs @ page_of k rs = take (100 * k) rs"
    unfolding page_of_def take_add [symmetric] by (rule arg_cong)
  have step: "list_pages fetch k (take (100 * (k - 1)) rs) =
      (if int (length (take (100 * k) rs)) \<ge> int (length rs) then Some (Inr (take (100 * k) rs)) else list_pages fetch (Suc k) (take (100 * k) rs))"
    by (subst list_pages.simps) (simp only: less.prems(1) [OF order_refl] join sum.case prod.case)
  show ?case
  proof (cases "length rs \<le> 100 * k")
    case True
    then show ?thesis unfolding step by simp
  next
    case False
    then have "list_pages fetch (Suc k) (take (100 * (Suc k - 1)) rs) = Some (Inr rs)"
      using less.prems by (intro less.hyps) auto
    then show ?thesis unfolding step using False by simp
  qed
qed


text \<open>The loop has no other end: it runs forever when a page is empty while the count is not reached.\<close>

lemma list_pages_diverges:
  assumes "list_pages fetch k repos = Some r" and "\<And>p. k \<le> p \<Longrightarrow> fetch p = Inr (count, [])"
  shows "int (length repos) \<ge> count"
proof -
  have "(\<forall>p \<ge> k. fetch p = Inr (count, [])) \<longrightarrow> count \<le> int (length repos)"
  proof (rule list_pages.raw_induct [where P = "\<lambda>fetch k repos r. (\<forall>p \<ge> k. fetch p = Inr (count, [])) \<longrightarrow> count \<le> int (length repos)", OF _ assms(1)])
    fix lp fetch k repos and r :: "gh_error + Repo list"
    assume IH: "\<And>fetch k repos r. lp fetch k repos = Some r \<Longrightarrow> (\<forall>p \<ge> k. fetch p = Inr (count, [])) \<longrightarrow> count \<le> int (length (repos :: Repo list))"
      and body: "(case fetch k of Inl e \<Rightarrow> Some (Inl e)
        | Inr (count, rs) \<Rightarrow> if int (length (repos @ rs)) \<ge> count then Some (Inr (repos @ rs)) else lp fetch (Suc k) (repos @ rs)) = Some r"
    show "(\<forall>p \<ge> k. fetch p = Inr (count, [])) \<longrightarrow> count \<le> int (length repos)"
    proof (intro impI)
      assume empty: "\<forall>p \<ge> k. fetch p = Inr (count, [])"
      show "count \<le> int (length repos)"
      proof (rule ccontr)
        assume "\<not> count \<le> int (length repos)"
        then have "lp fetch (Suc k) repos = Some r" using body empty by simp
        then show False using IH empty \<open>\<not> count \<le> int (length repos)\<close> by fastforce
      qed
    qed
  qed
  then show ?thesis using assms(2) by blast
qed

text \<open>
  A clone token comes from GitHub: it is not empty, the breaker let the call through, and it is
  the token of a 201 answer to a request signed with the app's own key in a window of ten minutes.
\<close>

theorem clone_token_genuine:
  assumes "GenerateCloneToken x gh env cb c inst b = (Inr token, b')"
  shows "\<exists>jwt body complete. token \<noteq> '''' \<and> (\<forall>br. cb = Some br \<longrightarrow> br_allows br b (e_now env))
    \<and> generateAppJWT gh env c = Inr jwt
    \<and> gh_do gh ''POST'' (token_url c inst) (''Bearer '' @ jwt) ''application/vnd.github+json'' = Some (201, body, complete)
    \<and> Option.bind (x_json x body) decode_token = Some token"
proof -
  have "fetch_token x gh env c inst = Inr token \<and> (\<forall>br. cb = Some br \<longrightarrow> br_allows br b (e_now env))"
    using assms by (auto simp: GenerateCloneToken_def Execute_breaker_def split: option.splits if_splits)
  then show ?thesis
    by (auto simp: fetch_token_def gh_call_def split: sum.splits option.splits if_splits prod.splits)
qed

lemma app_jwt_window:
  assumes "generateAppJWT gh env c = Inr jwt"
  shows "\<exists>cl. gh_sign gh (GC_privateKey c) cl = Some jwt \<and> AC_IssuedAt cl * usec_per_sec \<le> e_now env - 60 * usec_per_sec
    \<and> AC_ExpiresAt cl = AC_IssuedAt cl + 600"
proof -
  let ?iat = "e_now env - 60 * usec_per_sec"
  have "(?iat + 10 * usec_per_min) div usec_per_sec = ?iat div usec_per_sec + 600"
    using div_mult_self4 [of usec_per_sec 600 ?iat] by (simp add: algebra_simps)
  moreover have "?iat div usec_per_sec * usec_per_sec \<le> ?iat" by (simp add: minus_mod_eq_div_mult [symmetric])
  ultimately show ?thesis using assms by (auto simp: generateAppJWT_def Let_def split: option.splits)
qed


subsection \<open>A concrete installation\<close>

definition sample_token_json :: json where
  "sample_token_json = JObj [(''token'', JStr ''ghs_1'')]"

definition sample_gh_repos :: "Repo list" where
  "sample_gh_repos = [\<lparr>GR_ID = 42, GR_FullName = ''acme/app'', GR_DefaultBranch = ''main''\<rparr>]"

definition sample_client :: APIClient where
  "sample_client = \<lparr>GC_appID = 1, GC_privateKey = ''k'', GC_webhookSecret = ''s'', GC_apiBaseURL = ''https://api.github.com''\<rparr>"

definition sample_answer :: "nat \<Rightarrow> string" where
  "sample_answer p = json_text (page_json (if p = 1 then 1 else 2) sample_gh_repos)"

definition sample_gh :: github where
  "sample_gh = \<lparr>gh_sign = (\<lambda>k c. Some (k @ AC_Issuer c)), gh_url_ok = (\<lambda>_. True),
     gh_do = (\<lambda>m url a acc. if m = ''POST'' then Some (201, json_text sample_token_json, True)
       else Some (200, sample_answer (if url = repos_url sample_client 1 then 1 else 2), True))\<rparr>"

abbreviation sample_gh_ext :: ext where
  "sample_gh_ext \<equiv> sample_ext [sample_token_json, page_json 1 sample_gh_repos, page_json 2 sample_gh_repos]"

lemma nat_text_inject: "nat_text m = nat_text n \<longleftrightarrow> m = n"
  by (metis digits_val_nat_text option.inject)

lemma sample_clone_token: "GenerateCloneToken sample_gh_ext sample_gh (sample_env 0) None sample_client 9 () = (Inr ''ghs_1'', ())"
proof -
  have "x_json sample_gh_ext (json_text sample_token_json) = Some sample_token_json" by (simp add: sample_ext_def)
  moreover have "decode_token sample_token_json = Some ''ghs_1''" by code_simp
  ultimately show ?thesis
    by (simp add: GenerateCloneToken_def fetch_token_def generateAppJWT_def gh_call_def sample_gh_def Let_def)
qed

lemma sample_pages:
  assumes "1 \<le> p"
  shows "x_json sample_gh_ext (sample_answer p) = Some (page_json p sample_gh_repos)"
proof -
  have "page_json p sample_gh_repos = page_json 2 sample_gh_repos" if "p \<noteq> 1"
    using that assms by (simp add: page_json_def page_of_def sample_gh_repos_def)
  moreover have "json_text (page_json 1 sample_gh_repos) \<noteq> json_text sample_token_json"
      "json_text (page_json 2 sample_gh_repos) \<noteq> json_text sample_token_json"
      "json_text (page_json 2 sample_gh_repos) \<noteq> json_text (page_json 1 sample_gh_repos)"
    by code_simp+
  ultimately show ?thesis by (auto simp: sample_answer_def sample_ext_def)
qed


theorem clone_token_genuine_witness:
  "\<exists>jwt. generateAppJWT sample_gh (sample_env 0) sample_client = Inr jwt
     \<and> (\<exists>body. gh_do sample_gh ''POST'' (token_url sample_client 9) (''Bearer '' @ jwt) ''application/vnd.github+json'' = Some (201, body, True))"
proof -
  obtain jwt body complete where "generateAppJWT sample_gh (sample_env 0) sample_client = Inr jwt"
      "gh_do sample_gh ''POST'' (token_url sample_client 9) (''Bearer '' @ jwt) ''application/vnd.github+json'' = Some (201, body, complete)"
    using clone_token_genuine [OF sample_clone_token] by blast
  then show ?thesis by (auto simp: sample_gh_def)
qed

end
