(* ===== verification/Routes.thy ===== *)
theory Routes
  imports Prelude
begin

text \<open>
  The route tables of the two services (\<open>api/internal/routes\<close>, \<open>auth/internal/routes\<close>) and the
  router they are registered on (\<open>shared/go/router\<close>). A route is kept with the middlewares of its
  group; handlers are named by the field of \<open>Deps\<close> and the method. Matching a request to a route is
  chi's; what is shown here is which guards stand before which handler.
\<close>

section \<open>Router\<close>

datatype middleware =
    BodyLimit int
  | RequireJSON
  | RateLimitMw int string \<comment> \<open>requests a minute and key prefix\<close>
  | JobTokenAuth
  | WatchdogSecret
  | JWTAuth
  | ScopeMw
  | CliTokenAuth

record Subroute =
  SR_Method :: string
  SR_Path :: string
  SR_Handler :: string

record route =
  Rt_Sub :: Subroute
  Rt_Middlewares :: "middleware list"

definition router_methods :: "string list" where
  "router_methods = [''GET'', ''POST'', ''PUT'', ''DELETE'', ''PATCH'', ''HEAD'']"

text \<open>\<open>Create\<close> registers the subroutes with a known method and reports the others.\<close>

definition Group_Create :: "middleware list \<Rightarrow> Subroute list \<Rightarrow> Subroute list \<times> route list" where
  "Group_Create mws subs =
     (filter (\<lambda>s. SR_Method s \<notin> set router_methods) subs,
      map (\<lambda>s. \<lparr>Rt_Sub = s, Rt_Middlewares = mws\<rparr>) (filter (\<lambda>s. SR_Method s \<in> set router_methods) subs))"

text \<open>Registration stops at the first group with an error.\<close>

fun register_all :: "(middleware list \<times> Subroute list) list \<Rightarrow> Subroute list \<times> route list" where
  "register_all [] = ([], [])"
| "register_all ((mws, subs) # gs) =
     (case Group_Create mws subs of
        (e # es, rs) \<Rightarrow> (e # es, rs)
      | ([], rs) \<Rightarrow> (case register_all gs of (errs, rs') \<Rightarrow> (errs, rs @ rs')))"

abbreviation sub_GET :: "string \<Rightarrow> string \<Rightarrow> Subroute" where
  "sub_GET p h \<equiv> \<lparr>SR_Method = ''GET'', SR_Path = p, SR_Handler = h\<rparr>"

abbreviation sub_POST :: "string \<Rightarrow> string \<Rightarrow> Subroute" where
  "sub_POST p h \<equiv> \<lparr>SR_Method = ''POST'', SR_Path = p, SR_Handler = h\<rparr>"

abbreviation sub_PUT :: "string \<Rightarrow> string \<Rightarrow> Subroute" where
  "sub_PUT p h \<equiv> \<lparr>SR_Method = ''PUT'', SR_Path = p, SR_Handler = h\<rparr>"

abbreviation sub_DELETE :: "string \<Rightarrow> string \<Rightarrow> Subroute" where
  "sub_DELETE p h \<equiv> \<lparr>SR_Method = ''DELETE'', SR_Path = p, SR_Handler = h\<rparr>"

abbreviation sub_PATCH :: "string \<Rightarrow> string \<Rightarrow> Subroute" where
  "sub_PATCH p h \<equiv> \<lparr>SR_Method = ''PATCH'', SR_Path = p, SR_Handler = h\<rparr>"

abbreviation sub_HEAD :: "string \<Rightarrow> string \<Rightarrow> Subroute" where
  "sub_HEAD p h \<equiv> \<lparr>SR_Method = ''HEAD'', SR_Path = p, SR_Handler = h\<rparr>"

section \<open>API service\<close>

definition registerHealth :: "middleware list \<times> Subroute list" where
  "registerHealth = ([],
    [sub_GET ''/livez'' ''Health.Liveness'',
    sub_GET ''/readyz'' ''Health.Readiness''])"

definition registerGithubAuth :: "middleware list \<times> Subroute list" where
  "registerGithubAuth = ([RateLimitMw 30 ''oauth''],
    [sub_GET ''/auth/github/install'' ''GithubAuth.Install'',
    sub_GET ''/auth/github/callback'' ''GithubAuth.Callback''])"

definition registerInternal :: "(middleware list \<times> Subroute list) list" where
  "registerInternal =
    [([BodyLimit (2 ^ 20), RequireJSON, RateLimitMw 120 ''webhook''],
      [sub_POST ''/internal/webhooks/github'' ''Webhook.ServeHTTP'']),
     ([BodyLimit (2 ^ 20), RequireJSON, JobTokenAuth],
      [sub_POST ''/internal/jobs/start'' ''Callback.Start'',
    sub_POST ''/internal/jobs/complete'' ''Callback.Complete''])]"

definition registerWatchdog :: "middleware list \<times> Subroute list" where
  "registerWatchdog = ([WatchdogSecret],
    [sub_POST ''/internal/watchdog/timeout'' ''Watchdog.Timeout''])"

definition repoSubroutes :: "Subroute list" where
  "repoSubroutes = [sub_GET ''/api/v1/repos'' ''API.ListRepos'',
    sub_GET ''/api/v1/repos/{repoID}'' ''API.GetRepo'',
    sub_GET ''/api/v1/repos/{repoID}/jobs'' ''API.ListJobs'',
    sub_GET ''/api/v1/repos/{repoID}/jobs/{jobID}'' ''API.GetJob'',
    sub_GET ''/api/v1/repos/{repoID}/snapshots'' ''API.ListSnapshots'',
    sub_GET ''/api/v1/repos/{repoID}/snapshots/latest'' ''API.GetLatestSnapshot'',
    sub_GET ''/api/v1/snapshots/{snapshotID}'' ''API.GetSnapshot'']"

definition settingsSubroutes :: "Subroute list" where
  "settingsSubroutes = [sub_GET ''/api/v1/repos/{repoID}/context-tokens'' ''CtxTokens.List'',
    sub_POST ''/api/v1/repos/{repoID}/context-tokens'' ''CtxTokens.Create'',
    sub_DELETE ''/api/v1/repos/{repoID}/context-tokens/{tokenID}'' ''CtxTokens.Delete'',
    sub_PUT ''/api/v1/repos/{repoID}/context-tokens/{tokenID}/allowed-users'' ''CtxTokens.UpdateAllowedUsers'',
    sub_GET ''/api/v1/repos/{repoID}/context-tokens/{tokenID}/allowed-users'' ''CtxTokens.ListAllowedUsers'',
    sub_GET ''/api/v1/orgs/settings/ai-keys'' ''AIKeys.List'',
    sub_PUT ''/api/v1/orgs/settings/ai-keys'' ''AIKeys.Upsert'',
    sub_DELETE ''/api/v1/orgs/settings/ai-keys/{provider}'' ''AIKeys.Delete'',
    sub_GET ''/api/v1/orgs/settings/cli-keys'' ''CLIKeys.List'',
    sub_POST ''/api/v1/orgs/settings/cli-keys'' ''CLIKeys.Create'',
    sub_DELETE ''/api/v1/orgs/settings/cli-keys/{keyID}'' ''CLIKeys.Delete'',
    sub_POST ''/api/v1/repos/{repoID}/query'' ''Query.Query'']"

definition accountSubroutes :: "Subroute list" where
  "accountSubroutes = [sub_GET ''/api/v1/account'' ''Account.GetProfile'',
    sub_PATCH ''/api/v1/account'' ''Account.UpdateProfile'',
    sub_DELETE ''/api/v1/account'' ''Account.DeleteAccount'',
    sub_GET ''/api/v1/account/sessions'' ''Account.ListSessions'',
    sub_DELETE ''/api/v1/account/sessions/{id}'' ''Account.RevokeSession'']"

definition api_orgSubroutes :: "Subroute list" where
  "api_orgSubroutes = [sub_POST ''/api/v1/orgs'' ''Org.CreateOrg'',
    sub_GET ''/api/v1/orgs'' ''Org.ListOrgs'',
    sub_PATCH ''/api/v1/orgs/{orgID}'' ''Org.UpdateOrg'',
    sub_DELETE ''/api/v1/orgs/{orgID}'' ''Org.DeleteOrg'',
    sub_GET ''/api/v1/orgs/{orgID}/members'' ''Org.ListMembers'',
    sub_POST ''/api/v1/orgs/{orgID}/members'' ''Org.InviteMember'',
    sub_PATCH ''/api/v1/orgs/{orgID}/members/{userID}'' ''Org.UpdateMemberRole'',
    sub_DELETE ''/api/v1/orgs/{orgID}/members/{userID}'' ''Org.RemoveMember'',
    sub_GET ''/api/v1/orgs/{orgID}/audit-log'' ''Org.ListAuditLog'']"

definition registerAPIv1 :: "middleware list \<times> Subroute list" where
  "registerAPIv1 = ([JWTAuth, ScopeMw, RateLimitMw 60 ''api''],
    repoSubroutes @ settingsSubroutes @ accountSubroutes @ api_orgSubroutes)"

definition registerContext :: "middleware list \<times> Subroute list" where
  "registerContext = ([],
    [sub_HEAD ''/v1/context/{token}'' ''ContextURL.Head'',
    sub_GET ''/v1/context/{token}'' ''ContextURL.Get''])"

definition registerUpload :: "middleware list \<times> Subroute list" where
  "registerUpload = ([BodyLimit (10 * 2 ^ 20), RequireJSON, CliTokenAuth, RateLimitMw 60 ''upload''],
    [sub_POST ''/api/v1/upload'' ''Upload.Upload''])"

definition api_Register :: "Subroute list \<times> route list" where
  "api_Register = register_all ([registerHealth, registerGithubAuth] @ registerInternal
     @ [registerWatchdog, registerAPIv1, registerContext, registerUpload])"

section \<open>Auth service\<close>

definition auth_registerHealth :: "(middleware list \<times> Subroute list) list" where
  "auth_registerHealth =
    [([], [sub_GET ''/livez'' ''Health.Liveness'',
    sub_GET ''/readyz'' ''Health.Readiness'']),
     ([], [sub_GET ''/auth/.well-known/jwks.json'' ''OAuth.JWKS'']),
     ([], [sub_GET ''/auth/invites/{token}'' ''Invite.GetByToken''])]"

definition registerOAuth :: "middleware list \<times> Subroute list" where
  "registerOAuth = ([RateLimitMw 30 ''oauth''],
    [sub_GET ''/auth/oauth/{provider}/start'' ''OAuth.Start'',
    sub_GET ''/auth/oauth/{provider}/callback'' ''OAuth.Callback''])"

definition registerSession :: "middleware list \<times> Subroute list" where
  "registerSession = ([RateLimitMw 30 ''refresh''],
    [sub_POST ''/auth/token/refresh'' ''Session.Refresh'',
    sub_POST ''/auth/logout'' ''Session.Logout''])"

definition registerMFAPublic :: "middleware list \<times> Subroute list" where
  "registerMFAPublic = ([RateLimitMw 10 ''mfa''],
    [sub_POST ''/auth/mfa/totp/challenge'' ''MFA.Challenge'',
    sub_POST ''/auth/mfa/backup-codes/verify'' ''MFA.BackupCodeVerify''])"

definition sessionAuthSubroutes :: "Subroute list" where
  "sessionAuthSubroutes = [sub_POST ''/auth/logout/all'' ''Session.LogoutAll'',
    sub_GET ''/auth/sessions'' ''Session.ListSessions'',
    sub_DELETE ''/auth/sessions/{sessionID}'' ''Session.RevokeSession'']"

definition mfaAuthSubroutes :: "Subroute list" where
  "mfaAuthSubroutes = [sub_POST ''/auth/mfa/totp/setup'' ''MFA.Setup'',
    sub_POST ''/auth/mfa/totp/verify'' ''MFA.Verify'',
    sub_POST ''/auth/mfa/totp/disable'' ''MFA.Disable'',
    sub_POST ''/auth/mfa/backup-codes/generate'' ''MFA.RegenerateBackupCodes'']"

definition userSubroutes :: "Subroute list" where
  "userSubroutes = [sub_GET ''/auth/me'' ''User.GetMe'',
    sub_PUT ''/auth/me'' ''User.UpdateMe'',
    sub_PUT ''/auth/me/onboarding'' ''User.UpdateOnboarding'',
    sub_GET ''/auth/me/identities'' ''User.ListIdentities'',
    sub_DELETE ''/auth/me/identities/{provider}'' ''User.UnlinkIdentity'']"

definition orgSubroutes :: "Subroute list" where
  "orgSubroutes = [sub_POST ''/auth/orgs'' ''Org.Create'',
    sub_GET ''/auth/orgs'' ''Org.List'',
    sub_GET ''/auth/orgs/{orgID}'' ''Org.Get'',
    sub_PUT ''/auth/orgs/{orgID}'' ''Org.Update'',
    sub_DELETE ''/auth/orgs/{orgID}'' ''Org.Delete'',
    sub_GET ''/auth/orgs/{orgID}/members'' ''Org.ListMembers'',
    sub_PUT ''/auth/orgs/{orgID}/members/{userID}'' ''Org.UpdateMemberRole'',
    sub_DELETE ''/auth/orgs/{orgID}/members/{userID}'' ''Org.RemoveMember'',
    sub_POST ''/auth/orgs/{orgID}/transfer'' ''Org.TransferOwnership'']"

definition inviteSubroutes :: "Subroute list" where
  "inviteSubroutes = [sub_POST ''/auth/orgs/{orgID}/invites'' ''Invite.Create'',
    sub_GET ''/auth/orgs/{orgID}/invites'' ''Invite.ListOrgInvites'',
    sub_DELETE ''/auth/orgs/{orgID}/invites/{inviteID}'' ''Invite.Revoke'',
    sub_POST ''/auth/invites/accept'' ''Invite.Accept'']"

definition teamSubroutes :: "Subroute list" where
  "teamSubroutes = [sub_POST ''/auth/orgs/{orgID}/teams'' ''Team.Create'',
    sub_GET ''/auth/orgs/{orgID}/teams'' ''Team.List'',
    sub_GET ''/auth/orgs/{orgID}/teams/{teamID}'' ''Team.Get'',
    sub_PUT ''/auth/orgs/{orgID}/teams/{teamID}'' ''Team.Update'',
    sub_DELETE ''/auth/orgs/{orgID}/teams/{teamID}'' ''Team.Delete'',
    sub_GET ''/auth/orgs/{orgID}/teams/{teamID}/members'' ''Team.ListMembers'',
    sub_POST ''/auth/orgs/{orgID}/teams/{teamID}/members'' ''Team.AddMember'',
    sub_PUT ''/auth/orgs/{orgID}/teams/{teamID}/members/{userID}'' ''Team.UpdateMemberRole'',
    sub_DELETE ''/auth/orgs/{orgID}/teams/{teamID}/members/{userID}'' ''Team.RemoveMember'']"

definition auditSubroutes :: "Subroute list" where
  "auditSubroutes = [sub_GET ''/auth/orgs/{orgID}/audit-logs'' ''Audit.List'',
    sub_GET ''/auth/orgs/{orgID}/metrics/logins'' ''Audit.LoginMetrics'',
    sub_GET ''/auth/orgs/{orgID}/metrics/failed-logins'' ''Audit.FailedLoginMetrics'']"

definition webhookSubroutes :: "Subroute list" where
  "webhookSubroutes = [sub_POST ''/auth/orgs/{orgID}/webhooks'' ''Webhook.Create'',
    sub_GET ''/auth/orgs/{orgID}/webhooks'' ''Webhook.List'',
    sub_PUT ''/auth/orgs/{orgID}/webhooks/{whID}'' ''Webhook.Update'',
    sub_DELETE ''/auth/orgs/{orgID}/webhooks/{whID}'' ''Webhook.Delete'',
    sub_GET ''/auth/orgs/{orgID}/webhooks/{whID}/deliveries'' ''Webhook.ListDeliveries'']"

definition adminSubroutes :: "Subroute list" where
  "adminSubroutes = [sub_GET ''/auth/admin/users'' ''Admin.ListUsers'',
    sub_GET ''/auth/admin/users/{userID}'' ''Admin.GetUser'',
    sub_PUT ''/auth/admin/users/{userID}'' ''Admin.UpdateUser'',
    sub_GET ''/auth/admin/orgs'' ''Admin.ListOrgs'',
    sub_PUT ''/auth/admin/orgs/{orgID}'' ''Admin.UpdateOrgPlan'']"

definition registerAuthenticated :: "middleware list \<times> Subroute list" where
  "registerAuthenticated = ([JWTAuth, RateLimitMw 60 ''auth''],
    sessionAuthSubroutes @ mfaAuthSubroutes @ userSubroutes @ orgSubroutes @ inviteSubroutes @ teamSubroutes
      @ auditSubroutes @ webhookSubroutes @ adminSubroutes)"

definition auth_Register :: "Subroute list \<times> route list" where
  "auth_Register = register_all (auth_registerHealth @ [registerOAuth, registerSession, registerMFAPublic, registerAuthenticated])"

section \<open>What is guarded\<close>

lemma Group_Create_known:
  assumes "\<forall>s \<in> set subs. SR_Method s \<in> set router_methods"
  shows "Group_Create mws subs = ([], map (\<lambda>s. \<lparr>Rt_Sub = s, Rt_Middlewares = mws\<rparr>) subs)"
  using assms by (simp add: Group_Create_def)

text \<open>Every group that is registered puts its own middlewares before every one of its routes.\<close>

lemma register_all_known:
  assumes "\<forall>(mws, subs) \<in> set gs. \<forall>s \<in> set subs. SR_Method s \<in> set router_methods"
  shows "register_all gs = ([], concat (map (\<lambda>(mws, subs). map (\<lambda>s. \<lparr>Rt_Sub = s, Rt_Middlewares = mws\<rparr>) subs) gs))"
  using assms by (induction gs) (auto simp: Group_Create_known)

definition route_key :: "route \<Rightarrow> string \<times> string" where
  "route_key r = (SR_Method (Rt_Sub r), SR_Path (Rt_Sub r))"

definition guarded_by :: "middleware \<Rightarrow> route list \<Rightarrow> string list" where
  "guarded_by mw rs = map (SR_Handler \<circ> Rt_Sub) (filter (\<lambda>r. mw \<in> set (Rt_Middlewares r)) rs)"

definition unguarded :: "middleware list \<Rightarrow> route list \<Rightarrow> string list" where
  "unguarded mws rs = map (SR_Handler \<circ> Rt_Sub) (filter (\<lambda>r. \<forall>mw \<in> set (Rt_Middlewares r). mw \<notin> set mws) rs)"

text \<open>
  All routes of the API are registered, no two answer the same method and path, and the handlers
  that can be reached without a JWT, a job token, a CLI key or the watchdog's secret are the health
  checks, the GitHub installation pages, the signed webhook and the context endpoint.
\<close>

lemma api_routes:
  "fst api_Register = []"
  "distinct (map route_key (snd api_Register))"
  "unguarded [JWTAuth, JobTokenAuth, CliTokenAuth, WatchdogSecret] (snd api_Register)
     = [''Health.Liveness'', ''Health.Readiness'', ''GithubAuth.Install'', ''GithubAuth.Callback'', ''Webhook.ServeHTTP'',
        ''ContextURL.Head'', ''ContextURL.Get'']"
  "guarded_by JobTokenAuth (snd api_Register) = [''Callback.Start'', ''Callback.Complete'']"
  "\<forall>r \<in> set (snd api_Register). JWTAuth \<in> set (Rt_Middlewares r) \<longrightarrow> Rt_Middlewares r = [JWTAuth, ScopeMw, RateLimitMw 60 ''api'']"
  by code_simp+

text \<open>The same for the auth service: what needs no session is the login and the endpoints that carry their own secret.\<close>

lemma auth_routes:
  "fst auth_Register = []"
  "distinct (map route_key (snd auth_Register))"
  "unguarded [JWTAuth] (snd auth_Register)
     = [''Health.Liveness'', ''Health.Readiness'', ''OAuth.JWKS'', ''Invite.GetByToken'', ''OAuth.Start'', ''OAuth.Callback'',
        ''Session.Refresh'', ''Session.Logout'', ''MFA.Challenge'', ''MFA.BackupCodeVerify'']"
  by code_simp+

end
