(* ===== verification/Configs.thy ===== *)
theory Configs
  imports JobService "HOL-Library.Monad_Syntax"
begin

text \<open>
  The configuration of the three programs: \<open>config.Load\<close> of the API and of the auth service and
  \<open>config.LoadConfig\<close> of the worker, each with the environment variables its struct tags name. Reading
  a variable by its tag, the conversion to the type of a field and the loading of a file of variables
  are the libraries' (\<open>caarlos0/env\<close>, \<open>godotenv\<close>): they are the fields of \<open>env_lib\<close>.
\<close>

section \<open>Variables and tags\<close>

type_synonym environ = "string \<Rightarrow> string option"

record env_tag =
  Tag_Name :: string
  Tag_Required :: bool
  Tag_Default :: "string option"

record env_lib =
  el_value :: "environ \<Rightarrow> env_tag \<Rightarrow> string option" \<comment> \<open>the text of a field; no value is the error of a required variable\<close>
  el_int :: "string \<Rightarrow> int option"
  el_duration :: "string \<Rightarrow> timestamp option"
  el_list :: "string \<Rightarrow> string list" \<comment> \<open>separated by commas\<close>
  el_dotenv :: "string \<Rightarrow> environ \<Rightarrow> environ option"

text \<open>
  What the documentation of the library promises: a variable that is not set is an error when it is
  required, and otherwise gives the default, if any; a variable set to a text gives this text.
\<close>

definition env_documented :: "env_lib \<Rightarrow> bool" where
  "env_documented lib \<longleftrightarrow>
     (\<forall>e t. e (Tag_Name t) = None \<longrightarrow>
        el_value lib e t = (if Tag_Required t then None else Some (case Tag_Default t of None \<Rightarrow> '''' | Some v \<Rightarrow> v)))
     \<and> (\<forall>e t v. e (Tag_Name t) = Some v \<and> v \<noteq> '''' \<longrightarrow> el_value lib e t = Some v)"

definition required :: "env_lib \<Rightarrow> environ \<Rightarrow> string \<Rightarrow> string option" where
  "required lib e n = el_value lib e \<lparr>Tag_Name = n, Tag_Required = True, Tag_Default = None\<rparr>"

definition optional :: "env_lib \<Rightarrow> environ \<Rightarrow> string \<Rightarrow> string option" where
  "optional lib e n = el_value lib e \<lparr>Tag_Name = n, Tag_Required = False, Tag_Default = None\<rparr>"

definition envDefault :: "env_lib \<Rightarrow> environ \<Rightarrow> string \<Rightarrow> string \<Rightarrow> string option" where
  "envDefault lib e n v = el_value lib e \<lparr>Tag_Name = n, Tag_Required = False, Tag_Default = Some v\<rparr>"

text \<open>\<open>strings.ReplaceAll(s, `\n`, "\n")\<close>: a backslash and an n become a line break.\<close>

fun unescape_newlines :: "string \<Rightarrow> string" where
  "unescape_newlines (a # b # s) =
     (if a = CHR 0x5C \<and> b = CHR ''n'' then CHR 0x0A # unescape_newlines s else a # unescape_newlines (b # s))"
| "unescape_newlines s = s"

section \<open>The API\<close>

record AppConfig =
  App_GithubAppID :: int
  App_GithubAppSlug :: string
  App_GithubAppPrivateKey :: string
  App_GithubAppWebhookSecret :: string
  App_JWTPublicKeyBase64 :: string
  App_JWTIssuer :: string
  App_HMACSigningKey :: string
  App_HMACSigningKeyPrev :: string
  App_WatchdogSecret :: string
  App_EncryptionKeyBase64 :: string
  App_CLIAPIKey :: string

record GCSConfig =
  GCS_Bucket :: string
  GCS_Endpoint :: string

record Config =
  C_App :: AppConfig
  C_Port :: string
  C_DBURL :: string
  C_RedisURL :: string
  C_GCS :: GCSConfig
  C_CloudTasks :: CloudTasksConfig
  C_AllowedOrigins :: "string list"

definition Enabled :: "CloudTasksConfig \<Rightarrow> bool" where
  "Enabled c \<longleftrightarrow> CT_Project c \<noteq> '''' \<and> CT_Location c \<noteq> '''' \<and> CT_Queue c \<noteq> '''' \<and> CT_WorkerURL c \<noteq> ''''"

definition parse_AppConfig :: "env_lib \<Rightarrow> environ \<Rightarrow> AppConfig option" where
  "parse_AppConfig lib e = do {
     idText \<leftarrow> required lib e ''GITHUB_APP_ID'';
     appID \<leftarrow> el_int lib idText;
     slug \<leftarrow> required lib e ''GITHUB_APP_SLUG'';
     privateKey \<leftarrow> required lib e ''GITHUB_APP_PRIVATE_KEY'';
     webhookSecret \<leftarrow> required lib e ''GITHUB_APP_WEBHOOK_SECRET'';
     publicKey \<leftarrow> required lib e ''JWT_PUBLIC_KEY_BASE64'';
     issuer \<leftarrow> required lib e ''JWT_ISSUER'';
     hmac \<leftarrow> required lib e ''HMAC_SIGNING_KEY'';
     hmacPrev \<leftarrow> optional lib e ''HMAC_SIGNING_KEY_PREV'';
     watchdog \<leftarrow> required lib e ''WATCHDOG_SECRET'';
     encryption \<leftarrow> required lib e ''ENCRYPTION_KEY_BASE64'';
     cli \<leftarrow> required lib e ''CLI_API_KEY'';
     Some \<lparr>App_GithubAppID = appID, App_GithubAppSlug = slug, App_GithubAppPrivateKey = privateKey,
       App_GithubAppWebhookSecret = webhookSecret, App_JWTPublicKeyBase64 = publicKey, App_JWTIssuer = issuer,
       App_HMACSigningKey = hmac, App_HMACSigningKeyPrev = hmacPrev, App_WatchdogSecret = watchdog,
       App_EncryptionKeyBase64 = encryption, App_CLIAPIKey = cli\<rparr>
   }"

definition parse_GCSConfig :: "env_lib \<Rightarrow> environ \<Rightarrow> GCSConfig option" where
  "parse_GCSConfig lib e = do {
     bucket \<leftarrow> required lib e ''GCS_BUCKET'';
     endpoint \<leftarrow> optional lib e ''GCS_ENDPOINT'';
     Some \<lparr>GCS_Bucket = bucket, GCS_Endpoint = endpoint\<rparr>
   }"

definition parse_CloudTasksConfig :: "env_lib \<Rightarrow> environ \<Rightarrow> CloudTasksConfig option" where
  "parse_CloudTasksConfig lib e = do {
     project \<leftarrow> optional lib e ''CLOUD_TASKS_PROJECT'';
     location \<leftarrow> optional lib e ''CLOUD_TASKS_LOCATION'';
     queue \<leftarrow> optional lib e ''CLOUD_TASKS_QUEUE'';
     workerURL \<leftarrow> optional lib e ''CLOUD_TASKS_WORKER_URL'';
     serviceAccount \<leftarrow> optional lib e ''CLOUD_TASKS_SERVICE_ACCOUNT'';
     Some \<lparr>CT_Project = project, CT_Location = location, CT_Queue = queue, CT_WorkerURL = workerURL,
       CT_ServiceAccount = serviceAccount\<rparr>
   }"

definition parse_Config :: "env_lib \<Rightarrow> environ \<Rightarrow> Config option" where
  "parse_Config lib e = do {
     app \<leftarrow> parse_AppConfig lib e;
     port \<leftarrow> required lib e ''PORT'';
     db \<leftarrow> required lib e ''DATABASE_URL'';
     redis \<leftarrow> required lib e ''REDIS_URL'';
     gcs \<leftarrow> parse_GCSConfig lib e;
     tasks \<leftarrow> parse_CloudTasksConfig lib e;
     origins \<leftarrow> optional lib e ''CORS_ALLOWED_ORIGINS'';
     Some \<lparr>C_App = app, C_Port = port, C_DBURL = db, C_RedisURL = redis, C_GCS = gcs, C_CloudTasks = tasks,
       C_AllowedOrigins = el_list lib origins\<rparr>
   }"

text \<open>\<open>Load\<close>: in development a file named by the environment may add variables first.\<close>

definition dev_environ :: "env_lib \<Rightarrow> environ \<Rightarrow> environ option" where
  "dev_environ lib e =
     (if e ''APP_ENV'' = Some ''dev'' then
        (case e ''ENV_FILE'' of
           None \<Rightarrow> Some e
         | Some f \<Rightarrow> if f \<noteq> '''' then el_dotenv lib f e else Some e)
      else Some e)"

definition Load :: "env_lib \<Rightarrow> environ \<Rightarrow> Config option" where
  "Load lib e = do {
     e' \<leftarrow> dev_environ lib e;
     cfg \<leftarrow> parse_Config lib e';
     Some (cfg\<lparr>C_App := (C_App cfg)\<lparr>App_GithubAppPrivateKey := unescape_newlines (App_GithubAppPrivateKey (C_App cfg))\<rparr>\<rparr>)
   }"

section \<open>The auth service\<close>

record auth_AppConfig =
  AA_JWTPrivateKeyBase64 :: string
  AA_JWTPublicKeyBase64 :: string
  AA_JWTIssuer :: string
  AA_JWTAccessTokenTTL :: timestamp
  AA_JWTRefreshTokenTTL :: timestamp
  AA_GithubOAuthClientID :: string
  AA_GithubOAuthClientSecret :: string
  AA_GoogleOAuthClientID :: string
  AA_GoogleOAuthClientSecret :: string
  AA_OAuthCallbackBaseURL :: string
  AA_EncryptionKeyBase64 :: string
  AA_JWKSKeyID :: string
  AA_FrontendURL :: string
  AA_SessionMaxAge :: timestamp

record auth_Config =
  AC_App :: auth_AppConfig
  AC_Port :: string
  AC_DBURL :: string
  AC_RedisURL :: string
  AC_AllowedOrigins :: "string list"

definition parse_auth_AppConfig :: "env_lib \<Rightarrow> environ \<Rightarrow> auth_AppConfig option" where
  "parse_auth_AppConfig lib e = do {
     privateKey \<leftarrow> required lib e ''JWT_PRIVATE_KEY_BASE64'';
     publicKey \<leftarrow> required lib e ''JWT_PUBLIC_KEY_BASE64'';
     issuer \<leftarrow> required lib e ''JWT_ISSUER'';
     accessText \<leftarrow> envDefault lib e ''JWT_ACCESS_TOKEN_TTL'' ''15m'';
     accessTTL \<leftarrow> el_duration lib accessText;
     refreshText \<leftarrow> envDefault lib e ''JWT_REFRESH_TOKEN_TTL'' ''168h'';
     refreshTTL \<leftarrow> el_duration lib refreshText;
     githubID \<leftarrow> required lib e ''GITHUB_OAUTH_CLIENT_ID'';
     githubSecret \<leftarrow> required lib e ''GITHUB_OAUTH_CLIENT_SECRET'';
     googleID \<leftarrow> required lib e ''GOOGLE_OAUTH_CLIENT_ID'';
     googleSecret \<leftarrow> required lib e ''GOOGLE_OAUTH_CLIENT_SECRET'';
     callback \<leftarrow> required lib e ''OAUTH_CALLBACK_BASE_URL'';
     encryption \<leftarrow> required lib e ''ENCRYPTION_KEY_BASE64'';
     jwks \<leftarrow> envDefault lib e ''JWKS_KEY_ID'' ''zagforge-auth-1'';
     frontend \<leftarrow> envDefault lib e ''FRONTEND_URL'' ''http://localhost:3000'';
     maxAgeText \<leftarrow> envDefault lib e ''SESSION_MAX_AGE'' ''720h'';
     maxAge \<leftarrow> el_duration lib maxAgeText;
     Some \<lparr>AA_JWTPrivateKeyBase64 = privateKey, AA_JWTPublicKeyBase64 = publicKey, AA_JWTIssuer = issuer,
       AA_JWTAccessTokenTTL = accessTTL, AA_JWTRefreshTokenTTL = refreshTTL,
       AA_GithubOAuthClientID = githubID, AA_GithubOAuthClientSecret = githubSecret,
       AA_GoogleOAuthClientID = googleID, AA_GoogleOAuthClientSecret = googleSecret,
       AA_OAuthCallbackBaseURL = callback, AA_EncryptionKeyBase64 = encryption, AA_JWKSKeyID = jwks,
       AA_FrontendURL = frontend, AA_SessionMaxAge = maxAge\<rparr>
   }"

definition parse_auth_Config :: "env_lib \<Rightarrow> environ \<Rightarrow> auth_Config option" where
  "parse_auth_Config lib e = do {
     app \<leftarrow> parse_auth_AppConfig lib e;
     port \<leftarrow> required lib e ''PORT'';
     db \<leftarrow> required lib e ''AUTH_DATABASE_URL'';
     redis \<leftarrow> required lib e ''REDIS_URL'';
     origins \<leftarrow> optional lib e ''CORS_ALLOWED_ORIGINS'';
     Some \<lparr>AC_App = app, AC_Port = port, AC_DBURL = db, AC_RedisURL = redis, AC_AllowedOrigins = el_list lib origins\<rparr>
   }"

definition auth_Load :: "env_lib \<Rightarrow> environ \<Rightarrow> auth_Config option" where
  "auth_Load lib e = do { e' \<leftarrow> dev_environ lib e; parse_auth_Config lib e' }"

section \<open>The worker\<close>

record GitHubConfig =
  GH_AppID :: int
  GH_PrivateKey :: string
  GH_WebhookSecret :: string

record worker_Config =
  WC_DatabaseURL :: string
  WC_AppEnv :: string
  WC_WorkspaceDir :: string
  WC_ZigzagBin :: string
  WC_ReportsDir :: string
  WC_JobTimeout :: timestamp
  WC_MaxConcurrency :: int
  WC_APIBaseURL :: string
  WC_HMACSigningKey :: string
  WC_HMACSigningKeyPrev :: string
  WC_WorkerMode :: string
  WC_Port :: string
  WC_GitHub :: GitHubConfig
  WC_GCS :: GCSConfig

definition parse_GitHubConfig :: "env_lib \<Rightarrow> environ \<Rightarrow> GitHubConfig option" where
  "parse_GitHubConfig lib e = do {
     idText \<leftarrow> required lib e ''GITHUB_APP_ID'';
     appID \<leftarrow> el_int lib idText;
     privateKeyRaw \<leftarrow> required lib e ''GITHUB_APP_PRIVATE_KEY'';
     webhookSecret \<leftarrow> required lib e ''GITHUB_APP_WEBHOOK_SECRET'';
     Some \<lparr>GH_AppID = appID, GH_PrivateKey = privateKeyRaw, GH_WebhookSecret = webhookSecret\<rparr>
   }"

definition parse_worker_Config :: "env_lib \<Rightarrow> environ \<Rightarrow> worker_Config option" where
  "parse_worker_Config lib e = do {
     db \<leftarrow> required lib e ''DATABASE_URL'';
     appEnv \<leftarrow> optional lib e ''APP_ENV'';
     workspace \<leftarrow> optional lib e ''WORKSPACE_DIR'';
     zigzag \<leftarrow> envDefault lib e ''ZIGZAG_BIN'' ''zigzag'';
     reports \<leftarrow> envDefault lib e ''REPORTS_DIR'' ''/data/reports'';
     timeoutText \<leftarrow> envDefault lib e ''JOB_TIMEOUT'' ''5m'';
     timeout \<leftarrow> el_duration lib timeoutText;
     concurrencyText \<leftarrow> envDefault lib e ''MAX_CONCURRENCY'' ''5'';
     concurrency \<leftarrow> el_int lib concurrencyText;
     api \<leftarrow> required lib e ''API_BASE_URL'';
     hmac \<leftarrow> required lib e ''HMAC_SIGNING_KEY'';
     hmacPrev \<leftarrow> optional lib e ''HMAC_SIGNING_KEY_PREV'';
     mode \<leftarrow> envDefault lib e ''WORKER_MODE'' ''poll'';
     port \<leftarrow> envDefault lib e ''PORT'' ''8080'';
     github \<leftarrow> parse_GitHubConfig lib e;
     gcs \<leftarrow> parse_GCSConfig lib e;
     Some \<lparr>WC_DatabaseURL = db, WC_AppEnv = appEnv, WC_WorkspaceDir = workspace, WC_ZigzagBin = zigzag,
       WC_ReportsDir = reports, WC_JobTimeout = timeout, WC_MaxConcurrency = concurrency, WC_APIBaseURL = api,
       WC_HMACSigningKey = hmac, WC_HMACSigningKeyPrev = hmacPrev, WC_WorkerMode = mode, WC_Port = port,
       WC_GitHub = github, WC_GCS = gcs\<rparr>
   }"

text \<open>\<open>LoadConfig\<close>; \<open>tmp\<close> is \<open>os.TempDir()\<close>, a clean path other than the root.\<close>

definition LoadConfig :: "env_lib \<Rightarrow> string \<Rightarrow> environ \<Rightarrow> string + worker_Config" where
  "LoadConfig lib tmp e =
     (case parse_worker_Config lib e of
        None \<Rightarrow> Inl ''parse config''
      | Some cfg \<Rightarrow>
          let cfg1 = (if WC_WorkspaceDir cfg = '''' then cfg\<lparr>WC_WorkspaceDir := tmp @ ''/zagforge-workspace''\<rparr> else cfg)
          in if WC_MaxConcurrency cfg1 < 1 then Inl ''invalid MAX_CONCURRENCY: must be >= 1''
             else Inr (cfg1\<lparr>WC_GitHub := (WC_GitHub cfg1)\<lparr>GH_PrivateKey := unescape_newlines (GH_PrivateKey (WC_GitHub cfg1))\<rparr>\<rparr>))"

section \<open>What a loaded configuration has\<close>

text \<open>A key without backslashes survives being written into one line and read back.\<close>

definition escape_newlines :: "string \<Rightarrow> string" where
  "escape_newlines s = concat (map (\<lambda>c. if c = CHR 0x0A then [CHR 0x5C, CHR ''n''] else [c]) s)"

lemma unescape_cons: "a \<noteq> CHR 0x5C \<Longrightarrow> unescape_newlines (a # s) = a # unescape_newlines s"
  by (cases s) simp_all

lemma unescape_escape: "CHR 0x5C \<notin> set s \<Longrightarrow> unescape_newlines (escape_newlines s) = s"
proof (induction s)
  case (Cons a s)
  then have "a \<noteq> CHR 0x5C" by auto
  then show ?case using Cons by (simp add: escape_newlines_def unescape_cons)
qed (simp add: escape_newlines_def)

lemma required_unset: "env_documented lib \<Longrightarrow> e n = None \<Longrightarrow> required lib e n = None"
  unfolding env_documented_def required_def by (elim conjE allE [of _ e]) simp

lemma envDefault_unset: "env_documented lib \<Longrightarrow> e n = None \<Longrightarrow> envDefault lib e n v = Some v"
  unfolding env_documented_def envDefault_def by (elim conjE allE [of _ e]) simp

definition api_required :: "string list" where
  "api_required = [''GITHUB_APP_ID'', ''GITHUB_APP_SLUG'', ''GITHUB_APP_PRIVATE_KEY'', ''GITHUB_APP_WEBHOOK_SECRET'',
     ''JWT_PUBLIC_KEY_BASE64'', ''JWT_ISSUER'', ''HMAC_SIGNING_KEY'', ''WATCHDOG_SECRET'', ''ENCRYPTION_KEY_BASE64'',
     ''CLI_API_KEY'', ''PORT'', ''DATABASE_URL'', ''REDIS_URL'', ''GCS_BUCKET'']"

definition auth_required :: "string list" where
  "auth_required = [''JWT_PRIVATE_KEY_BASE64'', ''JWT_PUBLIC_KEY_BASE64'', ''JWT_ISSUER'', ''GITHUB_OAUTH_CLIENT_ID'',
     ''GITHUB_OAUTH_CLIENT_SECRET'', ''GOOGLE_OAUTH_CLIENT_ID'', ''GOOGLE_OAUTH_CLIENT_SECRET'', ''OAUTH_CALLBACK_BASE_URL'',
     ''ENCRYPTION_KEY_BASE64'', ''PORT'', ''AUTH_DATABASE_URL'', ''REDIS_URL'']"

definition worker_required :: "string list" where
  "worker_required = [''DATABASE_URL'', ''API_BASE_URL'', ''HMAC_SIGNING_KEY'', ''GITHUB_APP_ID'', ''GITHUB_APP_PRIVATE_KEY'',
     ''GITHUB_APP_WEBHOOK_SECRET'', ''GCS_BUCKET'']"

lemma parse_required:
  assumes "parse_Config lib e = Some cfg" and "n \<in> set api_required"
  shows "required lib e n \<noteq> None"
proof -
  from assms(1) have "\<forall>n \<in> set api_required. required lib e n \<noteq> None"
    by (auto simp: parse_Config_def parse_AppConfig_def parse_GCSConfig_def api_required_def bind_eq_Some_conv)
  with assms(2) show ?thesis by blast
qed

lemma parse_auth_required:
  assumes "parse_auth_Config lib e = Some cfg" and "n \<in> set auth_required"
  shows "required lib e n \<noteq> None"
proof -
  from assms(1) have "\<forall>n \<in> set auth_required. required lib e n \<noteq> None"
    by (auto simp: parse_auth_Config_def parse_auth_AppConfig_def auth_required_def bind_eq_Some_conv)
  with assms(2) show ?thesis by blast
qed

lemma parse_worker_required:
  assumes "parse_worker_Config lib e = Some cfg" and "n \<in> set worker_required"
  shows "required lib e n \<noteq> None"
proof -
  from assms(1) have "\<forall>n \<in> set worker_required. required lib e n \<noteq> None"
    by (auto simp: parse_worker_Config_def parse_GitHubConfig_def parse_GCSConfig_def worker_required_def bind_eq_Some_conv)
  with assms(2) show ?thesis by blast
qed

text \<open>
  No program starts without its required variables: outside development a missing one is an error of
  \<open>Load\<close>, \<open>Load\<close> of the auth service and \<open>LoadConfig\<close>.
\<close>

theorem missing_variable_is_error:
  assumes lib: "env_documented lib" and prod: "e ''APP_ENV'' \<noteq> Some ''dev''" and unset: "e n = None"
  shows "n \<in> set api_required \<Longrightarrow> Load lib e = None"
    and "n \<in> set auth_required \<Longrightarrow> auth_Load lib e = None"
    and "n \<in> set worker_required \<Longrightarrow> LoadConfig lib tmp e = Inl ''parse config''"
proof -
  have none: "required lib e n = None" using lib unset by (rule required_unset)
  show "n \<in> set api_required \<Longrightarrow> Load lib e = None"
    using parse_required [of lib e _ n] none prod
    by (cases "parse_Config lib e") (simp_all add: Load_def dev_environ_def)
  show "n \<in> set auth_required \<Longrightarrow> auth_Load lib e = None"
    using parse_auth_required [of lib e _ n] none prod
    by (cases "parse_auth_Config lib e") (simp_all add: auth_Load_def dev_environ_def)
  show "n \<in> set worker_required \<Longrightarrow> LoadConfig lib tmp e = Inl ''parse config''"
    using parse_worker_required [of lib e _ n] none
    by (cases "parse_worker_Config lib e") (simp_all add: LoadConfig_def)
qed

lemma LoadConfig_ok:
  assumes "LoadConfig lib tmp e = Inr cfg"
  shows "1 \<le> WC_MaxConcurrency cfg" "WC_WorkspaceDir cfg \<noteq> []"
  using assms by (auto simp: LoadConfig_def Let_def split: option.splits if_splits)

end
