(* ===== verification/Lifecycle.thy ===== *)
theory Lifecycle
  imports Worker
begin

text \<open>
  The worker as a process: the goroutines the runner tracks (\<open>GoWait\<close>, \<open>InFlight\<close>, \<open>Wait\<close> and
  \<open>Drain\<close> of \<open>shared/go/runner/runner.go\<close>) and the poll loop that starts and, on shutdown, drains them
  (\<open>Run\<close> of \<open>worker/poller/poller.go\<close>). The two counters of the runner are changed by different
  goroutines one atomic operation at a time; the steps below are these operations.
\<close>

section \<open>The goroutines of the runner\<close>

text \<open>
  How far the goroutine of a job is: counted but not yet started, executing the job, returned from it
  with the counter taken back, gone from the wait group.
\<close>

datatype job_phase = Launching | Executing | Returned | Gone

record runner =
  rn_jobs :: "job_phase list"
  rn_inflight :: int
  rn_wg :: nat

text \<open>\<open>GoWait\<close>: first the counter, then the wait group and the goroutine, which takes back both when it ends.\<close>

definition gowait_count :: "runner \<Rightarrow> runner" where
  "gowait_count r = r\<lparr>rn_jobs := rn_jobs r @ [Launching], rn_inflight := rn_inflight r + 1\<rparr>"

definition gowait_start :: "nat \<Rightarrow> runner \<Rightarrow> runner" where
  "gowait_start i r = r\<lparr>rn_jobs := (rn_jobs r)[i := Executing], rn_wg := rn_wg r + 1\<rparr>"

definition job_returns :: "nat \<Rightarrow> runner \<Rightarrow> runner" where
  "job_returns i r = r\<lparr>rn_jobs := (rn_jobs r)[i := Returned], rn_inflight := rn_inflight r - 1\<rparr>"

definition job_leaves :: "nat \<Rightarrow> runner \<Rightarrow> runner" where
  "job_leaves i r = r\<lparr>rn_jobs := (rn_jobs r)[i := Gone], rn_wg := rn_wg r - 1\<rparr>"

definition InFlight :: "runner \<Rightarrow> int" where
  "InFlight r = rn_inflight r"

text \<open>\<open>Wait\<close> gets past the wait group when its counter is zero.\<close>

definition Wait_done :: "runner \<Rightarrow> bool" where
  "Wait_done r \<longleftrightarrow> rn_wg r = 0"

text \<open>The \<open>select\<close> of \<open>Drain\<close>: \<open>None\<close> is another turn of the loop, \<open>Some\<close> is what \<open>Drain\<close> returns.\<close>

datatype drain_event = DoneClosed | TickerFired | DeadlinePassed

definition Drain_select :: "drain_event \<Rightarrow> runner \<Rightarrow> string option option" where
  "Drain_select ev r =
     (case ev of
        DoneClosed \<Rightarrow> Some None
      | TickerFired \<Rightarrow> None
      | DeadlinePassed \<Rightarrow>
          if InFlight r = 0 then Some None
          else Some (Some (''drain timeout: '' @ int_text (InFlight r) @ '' jobs still running'')))"

text \<open>\<open>Run\<close> of the runner, for a webhook event: the token is generated first.\<close>

definition runner_Run ::
  "ext \<Rightarrow> env \<Rightarrow> os \<Rightarrow> string \<Rightarrow> cloner \<Rightarrow> WebhookEvent \<Rightarrow> string list \<Rightarrow> (string + Result) \<times> string list" where
  "runner_Run x env os reportsDir cloner event dirs =
     (case cloner (Ev_InstallationID event) of
        None \<Rightarrow> (Inl ''generate clone token'', dirs)
      | Some token \<Rightarrow> cloneAndRun x env os reportsDir (Ev_CloneURL event) (Ev_Branch event) token dirs)"

section \<open>The poll loop\<close>

text \<open>
  Where the loop is: waiting in its \<open>select\<close>, claiming jobs with a number of slots left, in the middle
  of starting one, draining, or returned with the result of \<open>Drain\<close>.
\<close>

datatype loop = Waiting | Polling nat | Starting nat nat | Draining | Stopped "string option"

record worker_state =
  wk_runner :: runner
  wk_loop :: loop
  wk_cancelled :: bool
  wk_db :: db

inductive worker_step :: "int \<Rightarrow> worker_state \<Rightarrow> worker_state \<Rightarrow> bool" for maxConcurrency where
  tick: "wk_loop s = Waiting \<Longrightarrow>
    worker_step maxConcurrency s (s\<lparr>wk_loop := Polling (nat (maxConcurrency - InFlight (wk_runner s)))\<rparr>)"
| claim: "wk_loop s = Polling (Suc k) \<Longrightarrow> claimOne x env locked others (wk_db s) = (Inr la, d) \<Longrightarrow>
    worker_step maxConcurrency s (s\<lparr>wk_db := d, wk_runner := gowait_count (wk_runner s), wk_loop := Starting k (length (rn_jobs (wk_runner s)))\<rparr>)"
| go: "wk_loop s = Starting k i \<Longrightarrow>
    worker_step maxConcurrency s (s\<lparr>wk_runner := gowait_start i (wk_runner s), wk_loop := Polling k\<rparr>)"
| no_claim: "wk_loop s = Polling (Suc k) \<Longrightarrow> claimOne x env locked others (wk_db s) = (Inl e, d) \<Longrightarrow>
    worker_step maxConcurrency s (s\<lparr>wk_db := d, wk_loop := Waiting\<rparr>)"
| batch_ends: "wk_loop s = Polling k \<Longrightarrow> k = 0 \<or> wk_cancelled s \<Longrightarrow>
    worker_step maxConcurrency s (s\<lparr>wk_loop := Waiting\<rparr>)"
| cancel: "worker_step maxConcurrency s (s\<lparr>wk_cancelled := True\<rparr>)"
| shutdown: "wk_loop s = Waiting \<Longrightarrow> wk_cancelled s \<Longrightarrow> worker_step maxConcurrency s (s\<lparr>wk_loop := Draining\<rparr>)"
| drain: "wk_loop s = Draining \<Longrightarrow> (ev = DoneClosed \<Longrightarrow> Wait_done (wk_runner s)) \<Longrightarrow>
    Drain_select ev (wk_runner s) = Some res \<Longrightarrow> worker_step maxConcurrency s (s\<lparr>wk_loop := Stopped res\<rparr>)"
| returns: "i < length (rn_jobs (wk_runner s)) \<Longrightarrow> rn_jobs (wk_runner s) ! i = Executing \<Longrightarrow>
    worker_step maxConcurrency s (s\<lparr>wk_runner := job_returns i (wk_runner s), wk_db := d\<rparr>)"
| leaves: "i < length (rn_jobs (wk_runner s)) \<Longrightarrow> rn_jobs (wk_runner s) ! i = Returned \<Longrightarrow>
    worker_step maxConcurrency s (s\<lparr>wk_runner := job_leaves i (wk_runner s)\<rparr>)"

definition worker_start :: "db \<Rightarrow> worker_state" where
  "worker_start d = \<lparr>wk_runner = \<lparr>rn_jobs = [], rn_inflight = 0, rn_wg = 0\<rparr>, wk_loop = Waiting, wk_cancelled = False, wk_db = d\<rparr>"


section \<open>The counters tell the truth\<close>

definition jobs_in :: "job_phase set \<Rightarrow> runner \<Rightarrow> nat" where
  "jobs_in ps r = length (filter (\<lambda>p. p \<in> ps) (rn_jobs r))"

lemma length_filter_update:
  assumes "i < length xs"
  shows "length (filter P (xs[i := y])) + (if P (xs ! i) then 1 else 0) = length (filter P xs) + (if P y then 1 else 0)"
  using assms
proof (induction xs arbitrary: i)
  case (Cons x xs)
  then show ?case by (cases i) auto
qed simp

lemma jobs_in_update:
  assumes "i < length (rn_jobs r)" and "rn_jobs r' = (rn_jobs r)[i := p]"
  shows "jobs_in ps r' + (if rn_jobs r ! i \<in> ps then 1 else 0) = jobs_in ps r + (if p \<in> ps then 1 else 0)"
  using length_filter_update [OF assms(1), of "\<lambda>p. p \<in> ps" p] assms(2) by (simp add: jobs_in_def)

lemma jobs_in_count [simp]: "jobs_in ps (gowait_count r) = jobs_in ps r + (if Launching \<in> ps then 1 else 0)"
  by (simp add: jobs_in_def gowait_count_def)

lemma jobs_in_pos: "i < length (rn_jobs r) \<Longrightarrow> rn_jobs r ! i \<in> ps \<Longrightarrow> 0 < jobs_in ps r"
  by (auto simp: jobs_in_def filter_empty_conv intro: nth_mem)

text \<open>The slots of the current batch that are still open, and the job that is just being started.\<close>

fun slots_left :: "loop \<Rightarrow> nat" where
  "slots_left (Polling k) = k"
| "slots_left (Starting k i) = k"
| "slots_left _ = 0"

fun starting :: "loop \<Rightarrow> nat option" where
  "starting (Starting k i) = Some i"
| "starting _ = None"

definition worker_ok :: "int \<Rightarrow> worker_state \<Rightarrow> bool" where
  "worker_ok maxConcurrency s \<longleftrightarrow> (let r = wk_runner s in
     rn_inflight r = int (jobs_in {Launching, Executing} r) \<and> rn_wg r = jobs_in {Executing, Returned} r
     \<and> jobs_in {Launching} r = (if starting (wk_loop s) = None then 0 else 1)
     \<and> (\<forall>i. starting (wk_loop s) = Some i \<longrightarrow> i < length (rn_jobs r) \<and> rn_jobs r ! i = Launching)
     \<and> rn_inflight r + int (slots_left (wk_loop s)) \<le> max 0 maxConcurrency)"

lemma worker_ok_start: "worker_ok m (worker_start d)"
  by (simp add: worker_ok_def worker_start_def jobs_in_def)

lemma worker_ok_loop:
  assumes "worker_ok m s" and "starting (wk_loop s) = None" and "starting l = None" and "slots_left l \<le> slots_left (wk_loop s)"
  shows "worker_ok m (s\<lparr>wk_loop := l\<rparr>)"
  using assms by (simp add: worker_ok_def Let_def)

lemma worker_ok_db: "worker_ok m (s\<lparr>wk_db := d\<rparr>) = worker_ok m s"
  by (simp add: worker_ok_def)

lemma worker_ok_cancelled: "worker_ok m (s\<lparr>wk_cancelled := c\<rparr>) = worker_ok m s"
  by (simp add: worker_ok_def)

lemma worker_ok_tick:
  assumes "worker_ok m s" and "wk_loop s = Waiting"
  shows "worker_ok m (s\<lparr>wk_loop := Polling (nat (m - InFlight (wk_runner s)))\<rparr>)"
  using assms by (auto simp: worker_ok_def Let_def InFlight_def)

lemma worker_ok_claim:
  assumes "worker_ok m s" and "wk_loop s = Polling (Suc k)"
  shows "worker_ok m (s\<lparr>wk_db := d, wk_runner := gowait_count (wk_runner s), wk_loop := Starting k (length (rn_jobs (wk_runner s)))\<rparr>)"
  using assms by (simp add: worker_ok_def Let_def) (simp add: gowait_count_def)

lemma worker_ok_go:
  assumes "worker_ok m s" and "wk_loop s = Starting k i"
  shows "worker_ok m (s\<lparr>wk_runner := gowait_start i (wk_runner s), wk_loop := Polling k\<rparr>)"
proof -
  let ?r = "wk_runner s" and ?r' = "gowait_start i (wk_runner s)"
  have i: "i < length (rn_jobs ?r)" "rn_jobs ?r ! i = Launching" using assms by (simp_all add: worker_ok_def Let_def)
  have "jobs_in ps ?r' + (if Launching \<in> ps then 1 else 0) = jobs_in ps ?r + (if Executing \<in> ps then 1 else 0)" for ps
    using jobs_in_update [OF i(1), of ?r' Executing ps] i(2) by (simp add: gowait_start_def)
  from this [of "{Launching, Executing}"] this [of "{Executing, Returned}"] this [of "{Launching}"] show ?thesis
    using assms by (simp add: worker_ok_def Let_def) (simp add: gowait_start_def)
qed

lemma worker_ok_returns:
  assumes "worker_ok m s" and "i < length (rn_jobs (wk_runner s))" and "rn_jobs (wk_runner s) ! i = Executing"
  shows "worker_ok m (s\<lparr>wk_runner := job_returns i (wk_runner s), wk_db := d\<rparr>)"
proof -
  let ?r = "wk_runner s" and ?r' = "job_returns i (wk_runner s)"
  have upd: "jobs_in ps ?r' + (if Executing \<in> ps then 1 else 0) = jobs_in ps ?r + (if Returned \<in> ps then 1 else 0)" for ps
    using jobs_in_update [OF assms(2), of ?r' Returned ps] assms(3) by (simp add: job_returns_def)
  have keep: "(rn_jobs ?r)[i := Returned] ! j = Launching" if "rn_jobs ?r ! j = Launching" for j
    using that assms(3) by (cases "j = i") simp_all
  from upd [of "{Launching, Executing}"] upd [of "{Executing, Returned}"] upd [of "{Launching}"] show ?thesis
    using assms(1) keep by (auto simp: worker_ok_def Let_def job_returns_def)
qed

lemma worker_ok_leaves:
  assumes "worker_ok m s" and "i < length (rn_jobs (wk_runner s))" and "rn_jobs (wk_runner s) ! i = Returned"
  shows "worker_ok m (s\<lparr>wk_runner := job_leaves i (wk_runner s)\<rparr>)"
proof -
  let ?r = "wk_runner s" and ?r' = "job_leaves i (wk_runner s)"
  have upd: "jobs_in ps ?r' + (if Returned \<in> ps then 1 else 0) = jobs_in ps ?r + (if Gone \<in> ps then 1 else 0)" for ps
    using jobs_in_update [OF assms(2), of ?r' Gone ps] assms(3) by (simp add: job_leaves_def)
  have keep: "(rn_jobs ?r)[i := Gone] ! j = Launching" if "rn_jobs ?r ! j = Launching" for j
    using that assms(3) by (cases "j = i") simp_all
  from upd [of "{Launching, Executing}"] upd [of "{Executing, Returned}"] upd [of "{Launching}"] show ?thesis
    using assms(1) keep by (auto simp: worker_ok_def Let_def job_leaves_def)
qed

lemma worker_ok_step:
  assumes "worker_step m s t" and "worker_ok m s"
  shows "worker_ok m t"
  using assms
proof cases
  case tick
  then show ?thesis using worker_ok_tick [OF assms(2)] by simp
next
  case claim
  then show ?thesis using worker_ok_claim [OF assms(2)] by simp
next
  case go
  then show ?thesis using worker_ok_go [OF assms(2)] by simp
next
  case (no_claim k x env locked others e d)
  then show ?thesis using worker_ok_loop [of m "s\<lparr>wk_db := d\<rparr>" Waiting] assms(2) by (simp add: worker_ok_db)
next
  case (returns i d)
  then show ?thesis using worker_ok_returns [OF assms(2)] by simp
next
  case (leaves i)
  then show ?thesis using worker_ok_leaves [OF assms(2)] by simp
qed (use assms(2) worker_ok_loop [OF assms(2)] in \<open>simp_all add: worker_ok_cancelled\<close>)

interpretation worker_runs: invariant_system "worker_step m" "worker_ok m" for m
  by unfold_locales (rule worker_ok_step)

section \<open>What a stopped worker says\<close>

text \<open>
  The result of \<open>Drain\<close> against the goroutines: without an error no job executes, with one the number
  in the message bounds the jobs that still do. The jobs left when the deadline passes may end later.
\<close>

definition drained_ok :: "int \<Rightarrow> worker_state \<Rightarrow> bool" where
  "drained_ok maxConcurrency s \<longleftrightarrow>
     (case wk_loop s of
        Stopped None \<Rightarrow> jobs_in {Executing} (wk_runner s) = 0
      | Stopped (Some msg) \<Rightarrow>
          (\<exists>n. msg = ''drain timeout: '' @ int_text (int n) @ '' jobs still running'' \<and> 0 < n
               \<and> int n \<le> maxConcurrency \<and> jobs_in {Executing} (wk_runner s) \<le> n)
      | _ \<Rightarrow> True)"

lemma length_filter_two:
  assumes "p \<noteq> q"
  shows "length (filter (\<lambda>x. x \<in> {p, q}) xs) = length (filter (\<lambda>x. x \<in> {p}) xs) + length (filter (\<lambda>x. x \<in> {q}) xs)"
  using assms by (induction xs) auto

lemma jobs_in_split: "jobs_in {Launching, Executing} r = jobs_in {Launching} r + jobs_in {Executing} r"
  unfolding jobs_in_def by (rule length_filter_two) simp

lemma worker_ok_executing:
  assumes "worker_ok m s"
  shows "int (jobs_in {Executing} (wk_runner s)) \<le> InFlight (wk_runner s)"
    and "InFlight (wk_runner s) \<le> max 0 m"
    and "starting (wk_loop s) = None \<Longrightarrow> InFlight (wk_runner s) = int (jobs_in {Executing} (wk_runner s))"
  using assms by (simp_all add: worker_ok_def Let_def InFlight_def jobs_in_split)

lemma Drain_truth:
  assumes ok: "worker_ok m s" and "wk_loop s = Draining"
    and "ev = DoneClosed \<Longrightarrow> Wait_done (wk_runner s)" and "Drain_select ev (wk_runner s) = Some res"
  shows "drained_ok m (s\<lparr>wk_loop := Stopped res\<rparr>)"
proof -
  let ?n = "jobs_in {Executing} (wk_runner s)"
  have n: "InFlight (wk_runner s) = int ?n" "int ?n \<le> max 0 m"
    using worker_ok_executing [OF ok] assms(2) by simp_all
  show ?thesis
  proof (cases ev)
    case DoneClosed
    then have "rn_wg (wk_runner s) = 0" using assms(3) by (simp add: Wait_done_def)
    then have "jobs_in {Executing, Returned} (wk_runner s) = 0" using ok by (simp add: worker_ok_def Let_def)
    then have "?n = 0" unfolding jobs_in_def by (simp add: filter_empty_conv)
    then show ?thesis using DoneClosed assms(4) by (auto simp: Drain_select_def drained_ok_def)
  next
    case DeadlinePassed
    show ?thesis
    proof (cases "?n = 0")
      case True
      then show ?thesis using DeadlinePassed assms(4) n by (auto simp: Drain_select_def drained_ok_def)
    next
      case False
      with n have "0 < ?n \<and> int ?n \<le> m" by linarith
      moreover from False have "res = Some (''drain timeout: '' @ int_text (int ?n) @ '' jobs still running'')"
        using DeadlinePassed assms(4) n(1) by (auto simp: Drain_select_def)
      ultimately show ?thesis unfolding drained_ok_def by (auto intro: exI [of _ ?n])
    qed
  qed (use assms(4) in \<open>simp add: Drain_select_def\<close>)
qed

lemma drained_ok_fewer:
  assumes "drained_ok m s" and "wk_loop t = wk_loop s" and "jobs_in {Executing} (wk_runner t) \<le> jobs_in {Executing} (wk_runner s)"
  shows "drained_ok m t"
  using assms by (auto simp: drained_ok_def split: loop.splits option.splits intro: order_trans)

lemma executing_returns:
  assumes "i < length (rn_jobs r)" and "rn_jobs r ! i = Executing"
  shows "jobs_in {Executing} (job_returns i r) \<le> jobs_in {Executing} r"
  using jobs_in_update [OF assms(1), of "job_returns i r" Returned "{Executing}"] by (simp add: job_returns_def assms(2))

lemma executing_leaves:
  assumes "i < length (rn_jobs r)" and "rn_jobs r ! i = Returned"
  shows "jobs_in {Executing} (job_leaves i r) \<le> jobs_in {Executing} r"
  using jobs_in_update [OF assms(1), of "job_leaves i r" Gone "{Executing}"] by (simp add: job_leaves_def assms(2))

lemma drained_ok_step:
  assumes "worker_step m s t" and "worker_ok m s" and "drained_ok m s"
  shows "drained_ok m t"
  using assms
proof cases
  case (drain ev res)
  then show ?thesis using Drain_truth [OF assms(2), of ev res] by simp
next
  case (returns i d)
  then show ?thesis by (intro drained_ok_fewer [OF assms(3)]) (simp_all add: executing_returns)
next
  case (leaves i)
  then show ?thesis by (intro drained_ok_fewer [OF assms(3)]) (simp_all add: executing_leaves)
next
  case cancel
  then show ?thesis by (intro drained_ok_fewer [OF assms(3)]) simp_all
qed (simp_all add: drained_ok_def)

text \<open>
  C37. The worker keeps to its capacity and drains truthfully: however the goroutines of the jobs and
  the poll loop interleave, at most \<open>maxConcurrency\<close> jobs execute at a time (none when it is not
  positive); and once \<open>Run\<close> has returned, it returned no error only if no job executes any more, and
  otherwise the error names a positive number of jobs, within the capacity, that is at least the number
  still executing.
\<close>

theorem worker_within_capacity:
  assumes "(worker_step maxConcurrency)\<^sup>*\<^sup>* (worker_start d) s"
  shows "int (jobs_in {Executing} (wk_runner s)) \<le> max 0 maxConcurrency \<and> drained_ok maxConcurrency s"
proof -
  have ok: "worker_ok maxConcurrency s"
    by (rule worker_runs.run_inv [OF assms worker_ok_start])
  have "drained_ok maxConcurrency (worker_start d)"
    by (simp add: drained_ok_def worker_start_def)
  then have "drained_ok maxConcurrency s"
    by (rule worker_runs.run_stable [OF assms worker_ok_start]) (rule drained_ok_step)
  then show ?thesis using worker_ok_executing [OF ok] by simp
qed

lemma sample_claim:
  "\<exists>la d. claimOne (sample_ext []) (sample_env 9) [] id sample_queued = (Inr la, d)"
  by (simp add: claimOne_def guarded_def ClaimJob_def GetRepoForJob_def query_one_def sample_queued_def sample_defs
      update_jobs_def update_where_def Let_def)

text \<open>One slot: the job is claimed and started, the worker is shut down and the deadline of the drain passes.\<close>

theorem worker_within_capacity_witness:
  "\<exists>s. (worker_step 1)\<^sup>*\<^sup>* (worker_start sample_queued) s \<and> jobs_in {Executing} (wk_runner s) = 1
     \<and> wk_loop s = Stopped (Some ''drain timeout: 1 jobs still running'')
     \<and> int (jobs_in {Executing} (wk_runner s)) \<le> max 0 1 \<and> drained_ok 1 s"
proof -
  obtain la d where c: "claimOne (sample_ext []) (sample_env 9) [] id sample_queued = (Inr la, d)"
    using sample_claim by blast
  let ?r0 = "\<lparr>rn_jobs = [], rn_inflight = 0, rn_wg = 0\<rparr>"
    and ?st = "\<lambda>r l c d. \<lparr>wk_runner = r, wk_loop = l, wk_cancelled = c, wk_db = d\<rparr>"
  have one_text: "nat_text (Suc 0) = ''1''" by code_simp
  let ?r1 = "\<lparr>rn_jobs = [Launching], rn_inflight = 1, rn_wg = 0\<rparr>"
    and ?r2 = "\<lparr>rn_jobs = [Executing], rn_inflight = 1, rn_wg = 1\<rparr>"
    and ?msg = "Stopped (Some ''drain timeout: 1 jobs still running'')"
  have "worker_step 1 (?st ?r0 Waiting False sample_queued) (?st ?r0 (Polling 1) False sample_queued)"
    using worker_step.tick [of "?st ?r0 Waiting False sample_queued" 1] by (simp add: InFlight_def)
  moreover have "worker_step 1 (?st ?r0 (Polling 1) False sample_queued) (?st ?r1 (Starting 0 0) False d)"
    using worker_step.claim [of "?st ?r0 (Polling 1) False sample_queued" 0, OF _ _] c by (simp add: gowait_count_def)
  moreover have "worker_step 1 (?st ?r1 (Starting 0 0) False d) (?st ?r2 (Polling 0) False d)"
    using worker_step.go [of "?st ?r1 (Starting 0 0) False d" 0 0 1] by (simp add: gowait_start_def)
  moreover have "worker_step 1 (?st ?r2 (Polling 0) False d) (?st ?r2 Waiting False d)"
    using worker_step.batch_ends [of "?st ?r2 (Polling 0) False d" 0 1] by simp
  moreover have "worker_step 1 (?st ?r2 Waiting False d) (?st ?r2 Waiting True d)"
    using worker_step.cancel [of 1 "?st ?r2 Waiting False d"] by simp
  moreover have "worker_step 1 (?st ?r2 Waiting True d) (?st ?r2 Draining True d)"
    using worker_step.shutdown [of "?st ?r2 Waiting True d" 1] by simp
  moreover have "worker_step 1 (?st ?r2 Draining True d) (?st ?r2 ?msg True d)"
    using worker_step.drain [of "?st ?r2 Draining True d" DeadlinePassed _ 1]
    by (simp add: Drain_select_def InFlight_def int_text_def one_text)
  ultimately have run: "(worker_step 1)\<^sup>*\<^sup>* (worker_start sample_queued) (?st ?r2 ?msg True d)"
    unfolding worker_start_def by (meson converse_rtranclp_into_rtranclp rtranclp.rtrancl_refl)
  show ?thesis
    by (rule exI [of _ "?st ?r2 ?msg True d"]) (use run worker_within_capacity [OF run] in \<open>simp add: jobs_in_def\<close>)
qed

end
