(* ===== verification/Startup.thy ===== *)
theory Startup
  imports Configs Lifecycle GithubClient AuthCore Routes
begin

text \<open>
  How the three programs come up and go down: the connection pool (\<open>shared/go/dbpool\<close>), the object
  storage client, \<open>initDeps\<close> and \<open>run\<close> of the API (\<open>api/cmd\<close>) and of the auth service (\<open>auth/cmd\<close>) and
  \<open>run\<close> of the worker (\<open>worker/cmd\<close>). The state is the list of the clients that are open. Whether the
  database, Redis, Cloud Tasks and the storage service can be reached, and the decoding of keys, is the
  record \<open>outside\<close>.
\<close>

section \<open>Clients\<close>

datatype client = PoolClient | RedisClient | TasksClient | GcsClient

type_synonym clients = "client list"

definition close :: "client \<Rightarrow> clients \<Rightarrow> clients" where
  "close c cs = removeAll c cs"

record pool_Config =
  MaxConns :: "32 word"
  MinConns :: "32 word"
  MaxConnLifetime :: timestamp
  MaxConnIdleTime :: timestamp
  HealthCheckPeriod :: timestamp

record outside =
  o_pool_config :: "string \<Rightarrow> bool"
  o_pool_new :: "string \<Rightarrow> pool_Config \<Rightarrow> bool"
  o_pool_ping :: "string \<Rightarrow> bool"
  o_redis_url :: "string \<Rightarrow> bool"
  o_redis_ping :: "string \<Rightarrow> bool"
  o_tasks :: bool
  o_gcs :: "string option \<Rightarrow> bool" \<comment> \<open>of the endpoint, if one is set\<close>
  o_base64 :: "string \<Rightarrow> string option"
  o_private_pem :: "string \<Rightarrow> (bool \<times> string) option" \<comment> \<open>whether it is an Ed25519 key, and the key\<close>
  o_public_pem :: "string \<Rightarrow> (bool \<times> string) option"
  o_gcm :: "string \<Rightarrow> aead"
  o_logger :: "string \<Rightarrow> bool"
  o_listen :: "string \<Rightarrow> bool"
  o_shutdown :: bool \<comment> \<open>the server is idle before the deadline of its shutdown\<close>

definition DefaultConfig :: pool_Config where
  "DefaultConfig = \<lparr>MaxConns = 25, MinConns = 5, MaxConnLifetime = 60 * usec_per_min,
     MaxConnIdleTime = 30 * usec_per_min, HealthCheckPeriod = usec_per_min\<rparr>"

definition Connect :: "outside \<Rightarrow> string \<Rightarrow> pool_Config \<Rightarrow> clients \<Rightarrow> string option \<times> clients" where
  "Connect out url poolCfg cs =
     (if \<not> o_pool_config out url then (Some ''parse pool config'', cs)
      else if \<not> o_pool_new out url poolCfg then (Some ''create pgxpool'', cs)
      else let cs1 = PoolClient # cs in
        if \<not> o_pool_ping out url then (Some ''ping db'', close PoolClient cs1)
        else (None, cs1))"

definition NewClient_gcs :: "outside \<Rightarrow> GCSConfig \<Rightarrow> clients \<Rightarrow> (string + GCSConfig) \<times> clients" where
  "NewClient_gcs out cfg cs =
     (if GCS_Bucket cfg = '''' then (Inl ''bucket name is required'', cs)
      else let endpoint = (if GCS_Endpoint cfg \<noteq> '''' then Some (GCS_Endpoint cfg) else None) in
        if \<not> o_gcs out endpoint then (Inl ''create gcs client'', cs)
        else (Inr cfg, GcsClient # cs))"

definition NewCloudTasksEnqueuer :: "outside \<Rightarrow> CloudTasksConfig \<Rightarrow> clients \<Rightarrow> TaskEnqueuer option \<times> clients" where
  "NewCloudTasksEnqueuer out cfg cs =
     (if \<not> o_tasks out then (None, cs) else (Some (CloudTasksEnqueuer cfg), TasksClient # cs))"

text \<open>The signer of job tokens, which the API and the worker build alike.\<close>

definition token_signer :: "string \<Rightarrow> string \<Rightarrow> Signer" where
  "token_signer key prev =
     (let signer = NewSigner key (30 * usec_per_min) in
      if prev \<noteq> '''' then WithPreviousKey signer prev else signer)"

text \<open>\<open>NewClientHandler\<close>; no value is the nil client it refuses, and its error.\<close>

definition NewClientHandler :: "APIClient option \<Rightarrow> APIClient option" where
  "NewClientHandler client = client"

section \<open>The API\<close>

text \<open>The step of both \<open>initDeps\<close>: on an error the pool is closed and the error returned.\<close>

definition or_close :: "'a option \<Rightarrow> string \<Rightarrow> clients \<Rightarrow> ('a \<Rightarrow> (string + 'b) \<times> clients) \<Rightarrow> (string + 'b) \<times> clients" where
  "or_close r msg cs k = (case r of None \<Rightarrow> (Inl msg, close PoolClient cs) | Some a \<Rightarrow> k a)"

record deps =
  D_ch :: APIClient
  D_jwtPubKey :: string
  D_signer :: Signer
  D_enqueuer :: TaskEnqueuer
  D_gcsClient :: GCSConfig
  D_encSvc :: aead

definition or_error :: "'e + 'a \<Rightarrow> 'a option" where
  "or_error r = (case r of Inl _ \<Rightarrow> None | Inr a \<Rightarrow> Some a)"

definition check :: "bool \<Rightarrow> unit option" where
  "check b = (if b then Some () else None)"

definition init_enqueuer :: "outside \<Rightarrow> CloudTasksConfig \<Rightarrow> clients \<Rightarrow> TaskEnqueuer option \<times> clients" where
  "init_enqueuer out cfg cs =
     (if Enabled cfg then NewCloudTasksEnqueuer out cfg cs else (Some NoopEnqueuer, cs))"

definition initDeps :: "outside \<Rightarrow> Config \<Rightarrow> clients \<Rightarrow> (string + deps) \<times> clients" where
  "initDeps out c cs =
     (case Connect out (C_DBURL c) DefaultConfig cs of
        (Some _, cs1) \<Rightarrow> (Inl ''connect to db'', cs1)
      | (None, cs1) \<Rightarrow>
        or_close (check (o_redis_url out (C_RedisURL c))) ''parse redis url'' cs1 (\<lambda>_.
        let cs2 = RedisClient # cs1 in
        or_close (check (o_redis_ping out (C_RedisURL c))) ''connect to redis'' cs2 (\<lambda>_.
        or_close (or_error (NewAPIClient (App_GithubAppID (C_App c)) (App_GithubAppPrivateKey (C_App c))
            (App_GithubAppWebhookSecret (C_App c)) [])) ''create API client'' cs2 (\<lambda>client.
        or_close (NewClientHandler (Some client)) ''create client handler'' cs2 (\<lambda>ch.
        or_close (o_base64 out (App_JWTPublicKeyBase64 (C_App c))) ''decode jwt public key'' cs2 (\<lambda>pubKeyPEM.
        or_close (o_public_pem out pubKeyPEM) ''parse jwt public key'' cs2 (\<lambda>(ed25519, jwtPubKey).
        or_close (check ed25519) ''jwt public key is not Ed25519'' cs2 (\<lambda>_.
        let signer = token_signer (App_HMACSigningKey (C_App c)) (App_HMACSigningKeyPrev (C_App c)) in
        (case init_enqueuer out (C_CloudTasks c) cs2 of (enq, cs3) \<Rightarrow>
        or_close enq ''create cloud tasks enqueuer'' cs3 (\<lambda>enqueuer.
        (case NewClient_gcs out (C_GCS c) cs3 of (gcs, cs4) \<Rightarrow>
        or_close (or_error gcs) ''create gcs client'' cs4 (\<lambda>gcsClient.
        or_close (o_base64 out (App_EncryptionKeyBase64 (C_App c))) ''decode encryption key'' cs4 (\<lambda>encKeyBytes.
        or_close (New_encryption (o_gcm out) encKeyBytes) ''init encryption'' cs4 (\<lambda>encSvc.
        (Inr \<lparr>D_ch = ch, D_jwtPubKey = jwtPubKey, D_signer = signer, D_enqueuer = enqueuer,
           D_gcsClient = gcsClient, D_encSvc = encSvc\<rparr>, cs4)))))))))))))))"

fun cleanup :: "deps \<Rightarrow> clients \<Rightarrow> clients" where
  "cleanup d cs =
     (let cs1 = (case D_enqueuer d of NoopEnqueuer \<Rightarrow> cs | CloudTasksEnqueuer _ \<Rightarrow> close TasksClient cs)
      in close PoolClient (close RedisClient cs1))"

text \<open>
  How \<open>run\<close> ends: it returns, with an error or not, after its deferred calls; or the listener fails and
  \<open>log.Fatal\<close> ends the process at once.
\<close>

datatype ending = Returns "string option" | Fatal

text \<open>Serving until a signal arrives, and shutting down.\<close>

definition serve :: "outside \<Rightarrow> string \<Rightarrow> ending" where
  "serve out port =
     (if \<not> o_listen out ('':'' @ port) then Fatal
      else if \<not> o_shutdown out then Returns (Some ''server shutdown'') else Returns None)"

definition app_env :: "environ \<Rightarrow> string" where
  "app_env e = (case e ''APP_ENV'' of None \<Rightarrow> '''' | Some v \<Rightarrow> v)"

text \<open>
  The frame of every \<open>run\<close>: an error of the start is returned as it is; otherwise the release of the
  clients is deferred, and happens when the body returns, but not when the process is ended.
\<close>

definition with_clients :: "(string + 'd) \<times> clients \<Rightarrow> ('d \<Rightarrow> clients \<Rightarrow> clients) \<Rightarrow> ('d \<Rightarrow> ending) \<Rightarrow> ending \<times> clients" where
  "with_clients start release body =
     (case start of
        (Inl err, cs) \<Rightarrow> (Returns (Some err), cs)
      | (Inr d, cs) \<Rightarrow> (case body d of Fatal \<Rightarrow> (Fatal, cs) | Returns err \<Rightarrow> (Returns err, release d cs)))"

definition run :: "outside \<Rightarrow> env_lib \<Rightarrow> environ \<Rightarrow> ending \<times> clients" where
  "run out lib e =
     (case Load lib e of
        None \<Rightarrow> (Returns (Some ''load config''), [])
      | Some c \<Rightarrow>
        if \<not> o_logger out (app_env e) then (Returns (Some ''init logger''), [])
        else with_clients (initDeps out c []) cleanup (\<lambda>d.
          if fst api_Register \<noteq> [] then Returns (Some ''failed to register path'') else serve out (C_Port c)))"

section \<open>The auth service\<close>

text \<open>The two OAuth providers: what \<open>New\<close> puts into the configuration of \<open>golang.org/x/oauth2\<close>.\<close>

record oauth_config =
  OC_ClientID :: string
  OC_ClientSecret :: string
  OC_RedirectURL :: string
  OC_Scopes :: "string list"

definition github_New :: "string \<Rightarrow> string \<Rightarrow> string \<Rightarrow> oauth_config" where
  "github_New clientID clientSecret callbackURL = \<lparr>OC_ClientID = clientID, OC_ClientSecret = clientSecret,
     OC_RedirectURL = callbackURL @ ''/auth/oauth/github/callback'', OC_Scopes = [''read:user'', ''user:email'']\<rparr>"

definition google_New :: "string \<Rightarrow> string \<Rightarrow> string \<Rightarrow> oauth_config" where
  "google_New clientID clientSecret callbackURL = \<lparr>OC_ClientID = clientID, OC_ClientSecret = clientSecret,
     OC_RedirectURL = callbackURL @ ''/auth/oauth/google/callback'', OC_Scopes = [''openid'', ''email'', ''profile'']\<rparr>"

record auth_deps =
  AD_tokenSvc :: token_Service
  AD_encSvc :: aead
  AD_providers :: "string \<Rightarrow> oauth_config option"
  AD_sessionMaxAge :: timestamp

definition auth_providers :: "auth_AppConfig \<Rightarrow> string \<Rightarrow> oauth_config option" where
  "auth_providers a = [
     ''github'' \<mapsto> github_New (AA_GithubOAuthClientID a) (AA_GithubOAuthClientSecret a) (AA_OAuthCallbackBaseURL a),
     ''google'' \<mapsto> google_New (AA_GoogleOAuthClientID a) (AA_GoogleOAuthClientSecret a) (AA_OAuthCallbackBaseURL a)]"

definition auth_initDeps :: "outside \<Rightarrow> auth_Config \<Rightarrow> clients \<Rightarrow> (string + auth_deps) \<times> clients" where
  "auth_initDeps out c cs =
     (case Connect out (AC_DBURL c) DefaultConfig cs of
        (Some _, cs1) \<Rightarrow> (Inl ''connect to db'', cs1)
      | (None, cs1) \<Rightarrow>
        or_close (check (o_redis_url out (AC_RedisURL c))) ''parse redis url'' cs1 (\<lambda>_.
        let cs2 = RedisClient # cs1 in
        or_close (check (o_redis_ping out (AC_RedisURL c))) ''connect to redis'' cs2 (\<lambda>_.
        or_close (or_error (New_token_service (o_base64 out) (o_private_pem out) (o_public_pem out)
            (AA_JWTPrivateKeyBase64 (AC_App c)) (AA_JWTPublicKeyBase64 (AC_App c)) (AA_JWTIssuer (AC_App c))
            (AA_JWTAccessTokenTTL (AC_App c)) (AA_JWTRefreshTokenTTL (AC_App c)))) ''init token service'' cs2 (\<lambda>tokenSvc.
        or_close (o_base64 out (AA_EncryptionKeyBase64 (AC_App c))) ''decode encryption key'' cs2 (\<lambda>encKeyBytes.
        or_close (New_encryption (o_gcm out) encKeyBytes) ''init encryption'' cs2 (\<lambda>encSvc.
        (Inr \<lparr>AD_tokenSvc = tokenSvc, AD_encSvc = encSvc, AD_providers = auth_providers (AC_App c),
           AD_sessionMaxAge = AA_SessionMaxAge (AC_App c)\<rparr>, cs2)))))))"

definition auth_cleanup :: "clients \<Rightarrow> clients" where
  "auth_cleanup cs = close PoolClient (close RedisClient cs)"

definition auth_run :: "outside \<Rightarrow> env_lib \<Rightarrow> environ \<Rightarrow> ending \<times> clients" where
  "auth_run out lib e =
     (case auth_Load lib e of
        None \<Rightarrow> (Returns (Some ''load config''), [])
      | Some c \<Rightarrow>
        if \<not> o_logger out (app_env e) then (Returns (Some ''init logger''), [])
        else with_clients (auth_initDeps out c []) (\<lambda>_. auth_cleanup) (\<lambda>d.
          if fst auth_Register \<noteq> [] then Returns (Some ''failed to register path'') else serve out (AC_Port c)))"

section \<open>The worker\<close>

text \<open>The pool of the worker: \<open>int32(cfg.MaxConcurrency) + 5\<close>, in the width of the field.\<close>

definition worker_pool_Config :: "int \<Rightarrow> pool_Config" where
  "worker_pool_Config maxConcurrency = DefaultConfig\<lparr>MaxConns := word_of_int maxConcurrency + 5\<rparr>"

text \<open>
  What the worker does once it is set up: it serves \<open>POST /run\<close> behind \<open>runHTTP\<close>'s middlewares, of which
  the time limit and the number of requests at a time matter here, or polls with a capacity.
\<close>

record worker_http =
  WH_Timeout :: timestamp
  WH_Throttle :: int
  WH_Port :: string

datatype worker_service = ServeHTTP worker_http | Poll int timestamp

record worker_deps =
  WD_ch :: APIClient
  WD_gcs :: GCSConfig
  WD_signer :: Signer
  WD_service :: worker_service

definition runHTTP :: "worker_Config \<Rightarrow> worker_http" where
  "runHTTP cfg = \<lparr>WH_Timeout = 60 * usec_per_sec, WH_Throttle = WC_MaxConcurrency cfg, WH_Port = WC_Port cfg\<rparr>"

text \<open>The mode of the worker; no value is the error of an unknown one.\<close>

definition worker_mode :: "worker_Config \<Rightarrow> worker_service option" where
  "worker_mode cfg =
     (if WC_WorkerMode cfg = ''http'' then Some (ServeHTTP (runHTTP cfg))
      else if WC_WorkerMode cfg = ''poll'' then Some (Poll (WC_MaxConcurrency cfg) (WC_JobTimeout cfg))
      else None)"

text \<open>\<open>run\<close> up to the switch on the mode; whatever it returns, \<open>defer pool.Close()\<close> is under way.\<close>

definition worker_setup :: "outside \<Rightarrow> worker_Config \<Rightarrow> clients \<Rightarrow> (string + worker_deps) \<times> clients" where
  "worker_setup out cfg cs =
     (case Connect out (WC_DatabaseURL cfg) (worker_pool_Config (WC_MaxConcurrency cfg)) cs of
        (Some _, cs1) \<Rightarrow> (Inl ''connect to db'', cs1)
      | (None, cs1) \<Rightarrow>
        or_close (or_error (NewAPIClient (GH_AppID (WC_GitHub cfg)) (GH_PrivateKey (WC_GitHub cfg))
            (GH_WebhookSecret (WC_GitHub cfg)) [])) ''create API client'' cs1 (\<lambda>client.
        or_close (NewClientHandler (Some client)) ''create client handler'' cs1 (\<lambda>ch.
        (case NewClient_gcs out (WC_GCS cfg) cs1 of (gcs, cs2) \<Rightarrow>
        or_close (or_error gcs) ''create gcs client'' cs2 (\<lambda>gcsClient.
        let signer = token_signer (WC_HMACSigningKey cfg) (WC_HMACSigningKeyPrev cfg) in
        or_close (worker_mode cfg) ''unknown WORKER_MODE'' cs2 (\<lambda>service.
        (Inr \<lparr>WD_ch = ch, WD_gcs = gcsClient, WD_signer = signer, WD_service = service\<rparr>, cs2)))))))"

text \<open>
  The whole of \<open>run\<close>: \<open>drained\<close> is the result of the poll loop, which the worker's own steps give; the
  server is given thirty seconds to shut down.
\<close>

definition worker_run :: "outside \<Rightarrow> env_lib \<Rightarrow> string \<Rightarrow> string option \<Rightarrow> environ \<Rightarrow> ending \<times> clients" where
  "worker_run out lib tmp drained e =
     (case LoadConfig lib tmp e of
        Inl _ \<Rightarrow> (Returns (Some ''load config''), [])
      | Inr cfg \<Rightarrow>
        if \<not> o_logger out (WC_AppEnv cfg) then (Returns (Some ''init logger''), [])
        else with_clients (worker_setup out cfg []) (\<lambda>_. close PoolClient) (\<lambda>d.
          case WD_service d of Poll _ _ \<Rightarrow> Returns drained | ServeHTTP h \<Rightarrow> serve out (WH_Port h)))"

section \<open>What is open when a program ends\<close>

lemma close_set [simp]: "set (close c cs) = set cs - {c}"
  by (simp add: close_def)

text \<open>
  A start that is well-behaved for \<open>P\<close>: when it fails, the pool is not open; when it succeeds, \<open>P\<close> holds of
  what it built and of the clients that are open.
\<close>

definition starts :: "('a \<Rightarrow> clients \<Rightarrow> bool) \<Rightarrow> (string + 'a) \<times> clients \<Rightarrow> bool" where
  "starts P res \<longleftrightarrow> (case res of (Inl _, cs) \<Rightarrow> PoolClient \<notin> set cs | (Inr a, cs) \<Rightarrow> P a cs)"

lemma starts_or_close:
  assumes "\<And>a. r = Some a \<Longrightarrow> starts P (k a)"
  shows "starts P (or_close r msg cs k)"
  using assms by (cases r) (simp_all add: or_close_def starts_def)

lemma starts_simps [simp]:
  "starts P (Inl e, cs) = (PoolClient \<notin> set cs)"
  "starts P (Inr a, cs) = P a cs"
  by (simp_all add: starts_def)

lemma starts_case:
  assumes "\<And>a b. p = (a, b) \<Longrightarrow> starts P (k a b)"
  shows "starts P (case p of (a, b) \<Rightarrow> k a b)"
  using assms by (cases p) simp

lemmas starts_rules = starts_or_close starts_case

lemma starts_Connect:
  assumes "starts P (k [PoolClient])"
  shows "starts P (case Connect out url p [] of (Some _, cs1) \<Rightarrow> (Inl msg, cs1) | (None, cs1) \<Rightarrow> k cs1)"
  using assms by (simp add: Connect_def Let_def close_def)

lemma NewClient_gcs_clients:
  "NewClient_gcs out cfg cs = (r, cs') \<Longrightarrow> set cs' = (if isl r then set cs else insert GcsClient (set cs))"
  by (auto simp: NewClient_gcs_def Let_def split: if_splits)

lemma init_enqueuer_clients:
  assumes "init_enqueuer out cfg cs = (r, cs')"
  shows "r = None \<Longrightarrow> cs' = cs" and "r = Some NoopEnqueuer \<Longrightarrow> cs' = cs"
    and "r = Some (CloudTasksEnqueuer c) \<Longrightarrow> cs' = TasksClient # cs"
  using assms by (auto simp: init_enqueuer_def NewCloudTasksEnqueuer_def split: if_splits)

text \<open>What each program has open once it is up.\<close>

lemma gcs_opened:
  "NewClient_gcs out g cs = (r, cs') \<Longrightarrow> or_error r = Some x \<Longrightarrow> set cs' = insert GcsClient (set cs)"
  using NewClient_gcs_clients [of out g cs r cs'] by (auto simp: or_error_def split: sum.splits)

lemma cleanup_clients:
  assumes "init_enqueuer out cfg [RedisClient, PoolClient] = (e, cs)" and "NewClient_gcs out g cs = (r, cs')"
    and "e = Some enq" and "or_error r = Some x" and "D_enqueuer d = enq"
  shows "set (cleanup d cs') = {GcsClient}"
proof -
  have "set cs' = insert GcsClient (set cs)"
    using assms(2,4) by (rule gcs_opened)
  then show ?thesis
    using init_enqueuer_clients [OF assms(1)] assms(3,5) by (cases enq) auto
qed

lemma initDeps_starts:
  "starts (\<lambda>d cs. set (cleanup d cs) = {GcsClient}
       \<and> D_signer d = token_signer (App_HMACSigningKey (C_App c)) (App_HMACSigningKeyPrev (C_App c)))
     (initDeps out c [])"
  unfolding initDeps_def Let_def
  by (intro starts_Connect starts_rules, unfold starts_simps, rule conjI, erule (3) cleanup_clients)
     (simp_all only: deps.simps)

lemma auth_initDeps_starts: "starts (\<lambda>d cs. set (auth_cleanup cs) = {}) (auth_initDeps out c [])"
  unfolding auth_initDeps_def Let_def
  by (intro starts_Connect starts_rules) (auto simp: auth_cleanup_def)

lemma worker_setup_starts:
  "starts (\<lambda>d cs. set (close PoolClient cs) = {GcsClient} \<and> worker_mode cfg = Some (WD_service d)
       \<and> WD_signer d = token_signer (WC_HMACSigningKey cfg) (WC_HMACSigningKeyPrev cfg))
     (worker_setup out cfg [])"
  unfolding worker_setup_def Let_def
  by (intro starts_Connect starts_rules, unfold starts_simps, drule (1) gcs_opened) (simp add: insert_Diff_if)

lemma starts_mono: "starts P res \<Longrightarrow> (\<And>d cs. P d cs \<Longrightarrow> Q d cs) \<Longrightarrow> starts Q res"
  by (auto simp: starts_def split: prod.splits sum.splits)

lemma with_clients_releases:
  assumes "starts (\<lambda>d cs. set (release d cs) \<subseteq> K) start" and "PoolClient \<notin> K"
    and "with_clients start release body = (Returns err, cs)"
  shows "PoolClient \<notin> set cs \<and> (err = None \<longrightarrow> set cs \<subseteq> K)"
  using assms by (auto simp: with_clients_def starts_def split: prod.splits sum.splits ending.splits)

text \<open>
  The programs give back what they opened: whenever \<open>run\<close> of any of the three returns, the database pool
  is closed, however far the start got; and when it returns after serving, the API and the worker have at
  most the storage client open and the auth service nothing.
\<close>

theorem programs_release_clients:
  shows "run out lib e = (Returns err, cs) \<Longrightarrow> PoolClient \<notin> set cs \<and> (err = None \<longrightarrow> set cs \<subseteq> {GcsClient})"
    and "auth_run out lib e = (Returns err, cs) \<Longrightarrow> PoolClient \<notin> set cs \<and> (err = None \<longrightarrow> set cs \<subseteq> {})"
    and "worker_run out lib tmp drained e = (Returns err, cs) \<Longrightarrow> PoolClient \<notin> set cs \<and> (err = None \<longrightarrow> set cs \<subseteq> {GcsClient})"
proof -
  have api: "starts (\<lambda>d cs. set (cleanup d cs) \<subseteq> {GcsClient}) (initDeps out c [])" for c
    by (rule starts_mono [OF initDeps_starts]) blast
  have auth: "starts (\<lambda>d cs. set (auth_cleanup cs) \<subseteq> {}) (auth_initDeps out c [])" for c
    by (rule starts_mono [OF auth_initDeps_starts]) simp
  have worker: "starts (\<lambda>d cs. set (close PoolClient cs) \<subseteq> {GcsClient}) (worker_setup out cfg [])" for cfg
    by (rule starts_mono [OF worker_setup_starts]) blast
  show "PoolClient \<notin> set cs \<and> (err = None \<longrightarrow> set cs \<subseteq> {GcsClient})" if "run out lib e = (Returns err, cs)"
    using that unfolding run_def
    by (cases "Load lib e"; cases "o_logger out (app_env e)") (auto dest: with_clients_releases [OF api, rotated])
  show "PoolClient \<notin> set cs \<and> (err = None \<longrightarrow> set cs \<subseteq> {})" if "auth_run out lib e = (Returns err, cs)"
    using that unfolding auth_run_def
    by (cases "auth_Load lib e"; cases "o_logger out (app_env e)") (auto dest: with_clients_releases [OF auth, rotated])
  show "PoolClient \<notin> set cs \<and> (err = None \<longrightarrow> set cs \<subseteq> {GcsClient})" if "worker_run out lib tmp drained e = (Returns err, cs)"
    using that unfolding worker_run_def
    by (cases "LoadConfig lib tmp e") (auto dest: with_clients_releases [OF worker, rotated] split: if_splits)
qed

text \<open>
  But the error paths of \<open>initDeps\<close> close the pool only: a start that fails once Redis has been reached
  leaves the Redis client open, in both services.
\<close>

lemma or_close_keeps:
  assumes "c \<noteq> PoolClient" and "c \<in> set cs" and "\<And>a. r = Some a \<Longrightarrow> c \<in> set (snd (k a))"
  shows "c \<in> set (snd (or_close r msg cs k))"
  using assms by (cases r) (simp_all add: or_close_def)

lemma case_keeps:
  assumes "\<And>a b. p = (a, b) \<Longrightarrow> c \<in> set (snd (k a b))"
  shows "c \<in> set (snd (case p of (a, b) \<Rightarrow> k a b))"
  using assms by (cases p) simp

lemma enqueuer_keeps: "init_enqueuer out cfg cs = (r, cs') \<Longrightarrow> c \<in> set cs \<Longrightarrow> c \<in> set cs'"
  by (auto simp: init_enqueuer_def NewCloudTasksEnqueuer_def split: if_splits)

lemma gcs_keeps: "NewClient_gcs out cfg cs = (r, cs') \<Longrightarrow> c \<in> set cs \<Longrightarrow> c \<in> set cs'"
  by (auto simp: NewClient_gcs_def Let_def split: if_splits)

lemma reached_redis:
  assumes "Connect out url p [] = (None, cs1)"
  shows "cs1 = [PoolClient]"
  using assms by (simp add: Connect_def Let_def split: if_splits)

theorem failed_start_leaves_redis:
  assumes "Connect out (C_DBURL c) DefaultConfig [] = (None, cs1)"
    and "o_redis_url out (C_RedisURL c)" and "o_redis_ping out (C_RedisURL c)"
  shows "RedisClient \<in> set (snd (initDeps out c []))"
  using assms(2,3) unfolding initDeps_def Let_def
  by (simp add: assms(1) check_def or_close_def [of "Some ()"])
     (intro or_close_keeps case_keeps, auto elim!: gcs_keeps enqueuer_keeps)

text \<open>
  Every provider sends its users back to a route of the service: the path of the redirect is the pattern
  of the callback route, which needs no session, with the provider's name in it.
\<close>

theorem providers_return_to_callback:
  assumes "auth_providers a provider = Some cfg"
  shows "OC_RedirectURL cfg = AA_OAuthCallbackBaseURL a @ ''/auth/oauth/'' @ provider @ ''/callback''"
    and "\<exists>r \<in> set (snd auth_Register). SR_Method (Rt_Sub r) = ''GET'' \<and> SR_Path (Rt_Sub r) = ''/auth/oauth/{provider}/callback''
           \<and> JWTAuth \<notin> set (Rt_Middlewares r)"
proof -
  show "OC_RedirectURL cfg = AA_OAuthCallbackBaseURL a @ ''/auth/oauth/'' @ provider @ ''/callback''"
    using assms by (auto simp: auth_providers_def github_New_def google_New_def split: if_splits)
  show "\<exists>r \<in> set (snd auth_Register). SR_Method (Rt_Sub r) = ''GET'' \<and> SR_Path (Rt_Sub r) = ''/auth/oauth/{provider}/callback''
           \<and> JWTAuth \<notin> set (Rt_Middlewares r)" by code_simp
qed

section \<open>Keys and capacity across the services\<close>

lemma token_signer_simps [simp]:
  "sig_key (token_signer k p) = k" "sig_ttl (token_signer k p) = 30 * usec_per_min"
  "accepted_keys (token_signer k p) = insert k (if p = [] then {} else {p})"
  by (simp_all add: token_signer_def Let_def NewSigner_def WithPreviousKey_def accepted_keys_def)

text \<open>Different keys never give the same token: what an unforgeable code promises of keys that differ.\<close>

definition mac_separates :: "mac \<Rightarrow> bool" where
  "mac_separates mac \<longleftrightarrow> (\<forall>k k' m. mac k m = mac k' m \<longrightarrow> k = k')"

lemma sign_token_key:
  assumes "mac_separates mac" and "sign_token mac k j e = sign_token mac k' j e'" and "int64_range e" and "int64_range e'"
  shows "k = k'"
proof -
  have "e = e'" using sign_token_expiry_inj [OF assms(2,3,4)] .
  then have "hex_encode (mac k (j @ '':'' @ int_text e)) = hex_encode (mac k' (j @ '':'' @ int_text e))"
    using sign_token_split [of mac k j e] sign_token_split [of mac k' j e'] assms(2) by simp
  then show ?thesis using assms(1) hex_encode_inj unfolding mac_separates_def by blast
qed

lemma accepted_across:
  assumes mac: "mac_separates mac" and range: "int64_range (unix (e_now env + 30 * usec_per_min))"
    and fresh: "unix (e_now env') \<le> unix (e_now env + 30 * usec_per_min)"
  shows "Validate mac env' (token_signer k' p') j (Sign mac env (token_signer k p) j) = None \<longleftrightarrow> k = k' \<or> (p' \<noteq> [] \<and> k = p')"
proof
  assume "Validate mac env' (token_signer k' p') j (Sign mac env (token_signer k p) j) = None"
  then obtain key x where "key \<in> accepted_keys (token_signer k' p')" "int64_range x"
    "sign_token mac k j (unix (e_now env + 30 * usec_per_min)) = sign_token mac key j x"
    by (auto simp: Validate_ok_iff Sign_def)
  with sign_token_key [OF mac _ range] show "k = k' \<or> (p' \<noteq> [] \<and> k = p')" by (auto split: if_splits)
next
  assume "k = k' \<or> (p' \<noteq> [] \<and> k = p')"
  then show "Validate mac env' (token_signer k' p') j (Sign mac env (token_signer k p) j) = None"
    by (intro Sign_accepted) (use range fresh in auto)
qed


text \<open>A rotation under way: the API has the new key and remembers the old one, the worker has the old one only.\<close>

definition sample_outside :: outside where
  "sample_outside = \<lparr>o_pool_config = (\<lambda>_. True), o_pool_new = (\<lambda>_ _. True), o_pool_ping = (\<lambda>_. True),
     o_redis_url = (\<lambda>_. True), o_redis_ping = (\<lambda>_. True), o_tasks = True, o_gcs = (\<lambda>_. True), o_base64 = Some,
     o_private_pem = (\<lambda>k. Some (True, k)), o_public_pem = (\<lambda>k. Some (True, k)),
     o_gcm = (\<lambda>k. \<lparr>seal = (\<lambda>n p. p), unseal = (\<lambda>n c. Some c)\<rparr>), o_logger = (\<lambda>_. True), o_listen = (\<lambda>_. True), o_shutdown = True\<rparr>"

definition sample_api_config :: Config where
  "sample_api_config = \<lparr>C_App = \<lparr>App_GithubAppID = 1, App_GithubAppSlug = ''app'', App_GithubAppPrivateKey = ''pem'',
       App_GithubAppWebhookSecret = ''hook'', App_JWTPublicKeyBase64 = ''jwt'', App_JWTIssuer = ''iss'',
       App_HMACSigningKey = ''new'', App_HMACSigningKeyPrev = ''old'', App_WatchdogSecret = ''w'',
       App_EncryptionKeyBase64 = replicate 32 CHR ''k'', App_CLIAPIKey = ''cli''\<rparr>,
     C_Port = ''8080'', C_DBURL = ''db'', C_RedisURL = ''redis'', C_GCS = \<lparr>GCS_Bucket = ''b'', GCS_Endpoint = []\<rparr>,
     C_CloudTasks = \<lparr>CT_Project = ''p'', CT_Location = ''l'', CT_Queue = ''q'', CT_WorkerURL = ''u'', CT_ServiceAccount = []\<rparr>,
     C_AllowedOrigins = []\<rparr>"

definition sample_worker_config :: worker_Config where
  "sample_worker_config = \<lparr>WC_DatabaseURL = ''db'', WC_AppEnv = [], WC_WorkspaceDir = ''/tmp/w'', WC_ZigzagBin = ''zigzag'',
     WC_ReportsDir = ''/data/reports'', WC_JobTimeout = 5 * usec_per_min, WC_MaxConcurrency = 5, WC_APIBaseURL = ''api'',
     WC_HMACSigningKey = ''old'', WC_HMACSigningKeyPrev = [], WC_WorkerMode = ''http'', WC_Port = ''8080'',
     WC_GitHub = \<lparr>GH_AppID = 1, GH_PrivateKey = ''pem'', GH_WebhookSecret = ''hook''\<rparr>,
     WC_GCS = \<lparr>GCS_Bucket = ''b'', GCS_Endpoint = []\<rparr>\<rparr>"

lemmas sample_start_defs = sample_outside_def Connect_def Let_def or_close_def or_error_def check_def NewAPIClient_def
  NewClientHandler_def NewClient_gcs_def init_enqueuer_def Enabled_def NewCloudTasksEnqueuer_def New_encryption_def

lemma sample_api_starts: "\<exists>d cs. initDeps sample_outside sample_api_config [] = (Inr d, cs)"
  by (simp add: initDeps_def sample_api_config_def sample_start_defs)

lemma sample_worker_starts: "\<exists>d cs. worker_setup sample_outside sample_worker_config [] = (Inr d, cs)"
  by (simp add: worker_setup_def sample_worker_config_def sample_start_defs worker_mode_def)


text \<open>
  The pool of the worker has a connection for every job it may execute and five more, as long as the
  sum fits the thirty-two bits of the field; the configuration bounds the capacity from below only.
\<close>

theorem worker_pool_covers_capacity:
  assumes "LoadConfig lib tmp e = Inr cfg" and "WC_MaxConcurrency cfg < 2 ^ 31 - 5"
  shows "sint (MaxConns (worker_pool_Config (WC_MaxConcurrency cfg))) = WC_MaxConcurrency cfg + 5"
    and "1 \<le> WC_MaxConcurrency cfg"
proof -
  show one: "1 \<le> WC_MaxConcurrency cfg" using LoadConfig_ok(1) [OF assms(1)] .
  have "MaxConns (worker_pool_Config (WC_MaxConcurrency cfg)) = word_of_int (WC_MaxConcurrency cfg + 5)"
    by (simp add: worker_pool_Config_def)
  then have "sint (MaxConns (worker_pool_Config (WC_MaxConcurrency cfg))) = signed_take_bit 31 (WC_MaxConcurrency cfg + 5)"
    by (simp only: sint_sbintrunc') simp
  also have "\<dots> = WC_MaxConcurrency cfg + 5"
    by (rule signed_take_bit_int_eq_self) (use one assms(2) in simp_all)
  finally show "sint (MaxConns (worker_pool_Config (WC_MaxConcurrency cfg))) = WC_MaxConcurrency cfg + 5" .
qed

theorem worker_pool_wraps: "sint (MaxConns (worker_pool_Config (2 ^ 31 - 1))) < 0"
  by (simp add: worker_pool_Config_def)

text \<open>
  The time a job gets: \<open>RunWithToken\<close> and the poller limit it to \<open>JobTimeout\<close>, when that is positive; behind
  \<open>runHTTP\<close> the request, and with it the job, is cut off at the limit of the middleware as well.
\<close>

definition limit :: "timestamp \<Rightarrow> timestamp option" where
  "limit t = (if t > 0 then Some t else None)"

definition job_limit :: "worker_service \<Rightarrow> timestamp \<Rightarrow> timestamp option" where
  "job_limit s jobTimeout =
     (case s of
        ServeHTTP h \<Rightarrow> Some (case limit jobTimeout of None \<Rightarrow> WH_Timeout h | Some t \<Rightarrow> min (WH_Timeout h) t)
      | Poll _ _ \<Rightarrow> limit jobTimeout)"

theorem http_jobs_get_a_minute:
  assumes "worker_setup out cfg [] = (Inr wd, cs)" and "WC_WorkerMode cfg = ''http''" and "60 * usec_per_sec \<le> WC_JobTimeout cfg"
  shows "job_limit (WD_service wd) (WC_JobTimeout cfg) = Some (60 * usec_per_sec)"
proof -
  have "Some (WD_service wd) = worker_mode cfg"
    using worker_setup_starts [of cfg out] assms(1) by (simp del: close_set)
  then have "WD_service wd = ServeHTTP (runHTTP cfg)"
    using assms(2) by (simp add: worker_mode_def)
  then show ?thesis using assms(3) by (simp add: job_limit_def limit_def runHTTP_def)
qed

end
