(* ===== verification/Edge.thy ===== *)
theory Edge
  imports Routes RateLimit AuthMfa
begin

text \<open>
  What stands around the handlers of the services: the stack of middlewares every request passes
  (\<open>routes.Register\<close>, \<open>shared/go/middleware\<close>), the health endpoints, the pages of the GitHub installation,
  the rate limiter the auth service has a copy of, and the wrapper around the one-time password library
  (\<open>auth/internal/service/mfa/totp.go\<close>).
\<close>

section \<open>The rate limiter of the auth service\<close>

text \<open>Written after \<open>auth/internal/middleware/ratelimit/ratelimit.go\<close>, apart from the API's.\<close>

definition auth_keyFunc :: "(string \<Rightarrow> string option) \<Rightarrow> jwt_claims option \<Rightarrow> string \<Rightarrow> string \<Rightarrow> string" where
  "auth_keyFunc split_host claims remoteAddr prefix =
     (case claims of
        Some c \<Rightarrow> ''rl:'' @ prefix @ '':user:'' @ J_Subject c
      | None \<Rightarrow>
          let ip = (case split_host remoteAddr of None \<Rightarrow> remoteAddr | Some ip \<Rightarrow> ip)
          in ''rl:'' @ prefix @ '':ip:'' @ ip)"

definition auth_checkRateLimit :: "RateLimitConfig \<Rightarrow> timestamp \<Rightarrow> int list \<Rightarrow> bool \<times> int \<times> int list" where
  "auth_checkRateLimit cfg now z =
     (let windowStart = now - RL_Window cfg;
          kept = [m \<leftarrow> z. windowStart < m];
          count = int (length kept);
          added = (if now \<in> set kept then kept else kept @ [now])
      in if RL_MaxRequests cfg \<le> count then (False, 0, added)
         else (True, max (RL_MaxRequests cfg - count - 1) 0, added))"

definition auth_RateLimit ::
  "env \<Rightarrow> RateLimitConfig \<Rightarrow> string \<Rightarrow> ('s \<Rightarrow> 'a reply \<times> 's) \<Rightarrow> 's \<times> redis_zsets \<Rightarrow> 'a reply \<times> 's \<times> redis_zsets" where
  "auth_RateLimit env cfg key handler st =
     (case st of (s, rdb) \<Rightarrow>
        if e_fault env ''redis'' 0 then (case handler s of (r, s') \<Rightarrow> (r, s', rdb))
        else (case auth_checkRateLimit cfg (e_now env) (rdb key) of
          (False, _, z) \<Rightarrow> (ErrResponse 429 ''rate limit exceeded'', s, rdb(key := z))
        | (True, _, z) \<Rightarrow> (case handler s of (r, s') \<Rightarrow> (r, s', rdb(key := z)))))"

text \<open>The two copies agree, so what is shown of the API's limiter holds of this one.\<close>

lemma auth_checkRateLimit_same: "auth_checkRateLimit = checkRateLimit"
  by (intro ext) (auto simp: auth_checkRateLimit_def checkRateLimit_def Let_def not_le)

theorem auth_rate_limiter_same:
  "auth_keyFunc split_host claims remoteAddr prefix = keyFunc split_host (map_option J_Subject claims) remoteAddr prefix"
  "auth_RateLimit env cfg key handler st = limit_requests env cfg key handler st"
  by (auto simp: auth_keyFunc_def keyFunc_def auth_RateLimit_def limit_requests_def auth_checkRateLimit_same Let_def
      split: option.splits prod.splits bool.splits)

section \<open>The global stack\<close>

record cors_Options =
  CO_AllowedOrigins :: "string list"
  CO_AllowedMethods :: "string list"
  CO_AllowedHeaders :: "string list"
  CO_AllowCredentials :: bool
  CO_MaxAge :: nat

record stack =
  St_Cors :: cors_Options
  St_Timeout :: timestamp
  St_Throttle :: nat
  St_Backlog :: nat
  St_BacklogTimeout :: timestamp

definition api_stack :: "string list \<Rightarrow> stack" where
  "api_stack origins = \<lparr>
     St_Cors = \<lparr>CO_AllowedOrigins = origins, CO_AllowedMethods = [''GET'', ''POST'', ''PUT'', ''DELETE'', ''PATCH'', ''OPTIONS''],
       CO_AllowedHeaders = [''Authorization'', ''Content-Type'', ''X-Org-Slug'', ''X-Org-ID'', ''X-Org-Name''],
       CO_AllowCredentials = True, CO_MaxAge = 300\<rparr>,
     St_Timeout = 10 * usec_per_sec, St_Throttle = 100, St_Backlog = 50, St_BacklogTimeout = 5 * usec_per_sec\<rparr>"

definition auth_stack :: "string list \<Rightarrow> stack" where
  "auth_stack origins = \<lparr>
     St_Cors = \<lparr>CO_AllowedOrigins = origins, CO_AllowedMethods = [''GET'', ''POST'', ''PUT'', ''DELETE'', ''OPTIONS''],
       CO_AllowedHeaders = [''Authorization'', ''Content-Type'', ''X-Org-Slug''], CO_AllowCredentials = True, CO_MaxAge = 300\<rparr>,
     St_Timeout = 10 * usec_per_sec, St_Throttle = 100, St_Backlog = 50, St_BacklogTimeout = 5 * usec_per_sec\<rparr>"

text \<open>\<open>Cors\<close> of \<open>middleware/cors\<close>, which falls back to the dashboard's origin and which no route mounts.\<close>

definition Cors :: "string list \<Rightarrow> cors_Options" where
  "Cors allowedOrigins = \<lparr>
     CO_AllowedOrigins = (if allowedOrigins = [] then [''https://cloud.zagforge.com''] else allowedOrigins),
     CO_AllowedMethods = [''GET'', ''POST'', ''PUT'', ''DELETE'', ''PATCH'', ''OPTIONS''],
     CO_AllowedHeaders = [''Authorization'', ''Content-Type''], CO_AllowCredentials = True, CO_MaxAge = 300\<rparr>"

text \<open>Every route a browser reaches with a session has its method among those its service allows across origins.\<close>

theorem cors_covers_routes:
  "\<forall>r \<in> set (snd api_Register). JWTAuth \<in> set (Rt_Middlewares r) \<longrightarrow> SR_Method (Rt_Sub r) \<in> set (CO_AllowedMethods (St_Cors (api_stack os)))"
  "\<forall>r \<in> set (snd auth_Register). SR_Method (Rt_Sub r) \<in> set (CO_AllowedMethods (St_Cors (auth_stack os)))"
  unfolding api_stack_def auth_stack_def by code_simp+

text \<open>
  A handler answers or panics. The recoverer (\<open>zaprecoverer\<close>) answers a panic with 500 and an empty body,
  except on a connection that is being upgraded, and the logger (\<open>zaplogger\<close>) chooses the level of its
  line by the status.
\<close>

datatype 'a outcome = Answers "'a reply" | Panics

definition recoverer :: "string \<Rightarrow> 'a outcome \<Rightarrow> 'a reply option" where
  "recoverer connection out =
     (case out of
        Answers r \<Rightarrow> Some r
      | Panics \<Rightarrow> if connection \<noteq> ''Upgrade'' then Some (WriteHeader 500) else None)"

datatype log_level = LogInfo | LogWarn | LogError

definition zaplogger_level :: "nat \<Rightarrow> log_level" where
  "zaplogger_level status = (if status \<ge> 500 then LogError else if status \<ge> 400 then LogWarn else LogInfo)"

lemma panic_is_logged_as_error:
  "connection \<noteq> ''Upgrade'' \<Longrightarrow>
    map_option (zaplogger_level \<circ> reply_status) (recoverer connection Panics) = Some LogError"
  by (simp add: recoverer_def zaplogger_level_def)

text \<open>\<open>isJSON\<close>; \<open>mime\<close> is the media type of a header, if it has one.\<close>

definition isJSON :: "(string \<Rightarrow> string option) \<Rightarrow> string \<Rightarrow> bool" where
  "isJSON mime ct \<longleftrightarrow> ct \<noteq> '''' \<and> mime ct = Some ''application/json''"

section \<open>Health and installation pages\<close>

record health_Response =
  HR_Status :: string
  HR_Reason :: string

definition Liveness :: "health_Response reply" where
  "Liveness = WriteJSON 200 \<lparr>HR_Status = ''ok'', HR_Reason = ''''\<rparr>"

text \<open>\<open>Readiness\<close>; \<open>ping\<close> is whether the database answers within two seconds.\<close>

definition Readiness :: "bool \<Rightarrow> health_Response reply" where
  "Readiness ping =
     (if \<not> ping then WriteJSON 503 \<lparr>HR_Status = ''unavailable'', HR_Reason = ''db unreachable''\<rparr>
      else WriteJSON 200 \<lparr>HR_Status = ''ready'', HR_Reason = ''''\<rparr>)"

datatype page = RedirectTo string | PageError nat string | Page string

definition Install :: "string \<Rightarrow> page" where
  "Install appSlug = RedirectTo (''https://github.com/apps/'' @ appSlug @ ''/installations/new'')"

definition Callback_githubauth :: "string \<Rightarrow> string \<Rightarrow> page" where
  "Callback_githubauth installationID setupAction =
     (if installationID = '''' then PageError 400 ''missing installation_id''
      else Page (''Installation '' @ installationID @ '' successful (action: '' @ setupAction @ '')''))"

section \<open>One-time passwords\<close>

record totp_opts =
  TO_Digits :: nat
  TO_Period :: int
  TO_Skew :: int

record totp_lib =
  tl_generate :: "string \<Rightarrow> string \<Rightarrow> totp_opts \<Rightarrow> (string \<times> string) option" \<comment> \<open>issuer, account\<close>
  tl_validate :: "string \<Rightarrow> string \<Rightarrow> timestamp \<Rightarrow> totp_opts \<Rightarrow> bool option"

definition totp_options :: totp_opts where
  "totp_options = \<lparr>TO_Digits = 6, TO_Period = 30, TO_Skew = 1\<rparr>"

definition GenerateTOTPKey :: "totp_lib \<Rightarrow> string \<Rightarrow> (string \<times> string) option" where
  "GenerateTOTPKey lib email = tl_generate lib ''ZagForge'' email totp_options"

text \<open>\<open>ValidateTOTPCode\<close>; no value is Go's nil error.\<close>

definition ValidateTOTPCode :: "totp_lib \<Rightarrow> timestamp \<Rightarrow> string \<Rightarrow> string \<Rightarrow> string option" where
  "ValidateTOTPCode lib now code secret =
     (case tl_validate lib code secret now totp_options of
        None \<Rightarrow> Some ''invalid TOTP code''
      | Some valid \<Rightarrow> if \<not> valid then Some ''invalid TOTP code'' else None)"

text \<open>The second factor of the auth service checks its codes with these two functions.\<close>

definition uses_totp :: "totp_lib \<Rightarrow> aext \<Rightarrow> bool" where
  "uses_totp lib x \<longleftrightarrow> a_totp_key x = GenerateTOTPKey lib
     \<and> a_totp_ok x = (\<lambda>now code secret. ValidateTOTPCode lib now code secret = None)"

text \<open>
  What the library documents: a code is valid when it is the code of a time step that is at most the
  skew away from the current one; \<open>hotp\<close> is the code of a secret and a step.
\<close>

definition totp_documented :: "totp_lib \<Rightarrow> (string \<Rightarrow> int \<Rightarrow> string) \<Rightarrow> bool" where
  "totp_documented lib hotp \<longleftrightarrow> (\<forall>code secret t opts v. tl_validate lib code secret t opts = Some v \<longrightarrow>
     v = (\<exists>k. \<bar>k\<bar> \<le> TO_Skew opts \<and> code = hotp secret (unix t div TO_Period opts + k)))"

lemma totp_step_window:
  assumes "totp_documented lib hotp" and "ValidateTOTPCode lib now code secret = None"
  shows "\<exists>step. code = hotp secret step \<and> 30 * (step - 1) \<le> unix now \<and> unix now < 30 * (step + 2)"
proof -
  have "tl_validate lib code secret now totp_options = Some True"
    using assms(2) by (simp add: ValidateTOTPCode_def split: option.splits if_splits)
  then obtain k where "\<bar>k\<bar> \<le> 1" and "code = hotp secret (unix now div 30 + k)"
    using assms(1) unfolding totp_documented_def totp_options_def by fastforce
  then show ?thesis by (intro exI [of _ "unix now div 30 + k"]) auto
qed

text \<open>
  A login that answers the second factor with a one-time password does so within ninety seconds: a
  challenge that is not refused was given a code of the user's stored secret, and the time lies between
  the step before the code's own and the step after it.
\<close>

theorem challenge_code_is_fresh:
  assumes x: "uses_totp lib x" "totp_documented lib hotp"
    and ok: "Challenge x env svc enc maxAge rand req body d = (r, d')" "d' \<noteq> d"
  shows "\<exists>usr code m secret step. challenge_user x env svc [VRequired, VLen 6] body = Inr (usr, code)
     \<and> GetMFASettings (Some usr) d = Inr m \<and> Mfa_TotpEnabled m \<and> decrypt_secret enc m = Some secret
     \<and> code = hotp secret step \<and> 30 * (step - 1) \<le> unix (e_now env) \<and> unix (e_now env) < 30 * (step + 2)"
proof -
  obtain usr code where u: "challenge_user x env svc [VRequired, VLen 6] body = Inr (usr, code)"
    using ok by (cases "challenge_user x env svc [VRequired, VLen 6] body") (auto simp: Challenge_def)
  obtain m where m: "GetMFASettings (Some usr) d = Inr m" "guarded env ''GetMFASettings'' 0 (GetMFASettings (Some usr) d) = Inr m"
    using ok u by (cases "guarded env ''GetMFASettings'' 0 (GetMFASettings (Some usr) d)")
      (auto simp: Challenge_def guarded_def split: if_splits)
  have en: "Mfa_TotpEnabled m" using ok u m by (auto simp: Challenge_def split: if_splits)
  obtain secret where s: "decrypt_secret enc m = Some secret"
    using ok u m en by (cases "decrypt_secret enc m") (auto simp: Challenge_def)
  have "a_totp_ok x (e_now env) code secret" using ok u m en s by (auto simp: Challenge_def split: if_splits)
  then have "ValidateTOTPCode lib (e_now env) code secret = None" using x(1) by (simp add: uses_totp_def)
  from totp_step_window [OF x(2) this] u m(1) en s show ?thesis by blast
qed

end
