(* ===== verification/Spec2Isabelle.thy ===== *)
theory Spec2Isabelle
  imports JobSystem UploadSnapshot RateLimit AuthEnrolment AuthWebhooks Query GithubClient Routes Startup Edge
begin

text \<open>
  \<^bold>\<open>Zagforge: a verification development.\<close>

  Zagforge watches GitHub repositories, runs the zigzag tool on every push and serves the resulting
  snapshots as documents for language models. It is three Go programs under \<open>src/services\<close> over two
  PostgreSQL databases:

  \<^item> the \<^emph>\<open>API\<close> (\<open>services/api\<close>) receives GitHub's webhooks, queues jobs, takes the callbacks of workers,
    and serves repositories, jobs, snapshots, context documents, organizations, keys and the query
    console;
  \<^item> the \<^emph>\<open>worker\<close> (\<open>services/worker\<close>) takes jobs, by polling the database or from Cloud Tasks, clones,
    runs zigzag, stores the report and calls the API back with signed tokens;
  \<^item> the \<^emph>\<open>auth service\<close> (\<open>services/auth\<close>) signs users in through GitHub and Google with a second factor
    and keeps sessions, organizations, teams, invitations, webhooks and the platform's administration.

  \<open>services/shared/go\<close> holds what they have in common: the store of the API database, job tokens, the
  GitHub client, the runner, object storage and HTTP helpers.

  \<^bold>\<open>How the code is modelled.\<close> A database is a record with one list of rows per table; every query of
  the generated store packages is a function on it, with the unique keys, checks, deletion rules and
  triggers of the migrations, written with the SQL combinators of \<open>Prelude\<close>. A handler is a function of
  the external functions (\<open>ext\<close>, \<open>aext\<close>), the environment of the request (\<open>env\<close>: clock, fresh
  identifiers, and which calls into the infrastructure fail) and the state, and returns the response and
  the new state; every early return is a branch. Transactions return their old state when they fail.
  What other transactions do between two steps of a handler is a parameter (\<open>others\<close>) or a step of a
  transition system. Times are microseconds, Go's integers are \<open>int\<close> with their range written out
  where it matters or words, texts are lists of bytes. Cryptography (HMAC, SHA-256, AES-GCM, Ed25519,
  bcrypt), JSON and JWT libraries, Redis, object storage, GitHub, Cloud Tasks and the HTTP clients are
  parameters, with what the code relies on as named hypotheses; each property with a hypothesis has a
  witness on concrete parameters (\<open>Samples\<close>).

  \<^bold>\<open>The theories.\<close>

  \<^item> \<open>Prelude\<close>, \<open>GoText\<close>, \<open>Http\<close>, \<open>Secrets\<close>, \<open>Samples\<close>: shared vocabulary; the locales \<open>keyed_table\<close> (what a
    lookup by key promises), \<open>tenant_table\<close> (scoped lists and deletions) and \<open>invariant_system\<close>
    (reachability), which the stores and the transition systems interpret; Go's text functions with
    their round trips; responses, JSON decoding and validation (\<open>shared/go/httputil\<close>, \<open>validate\<close>); random
    secrets, hashes and encryption.
  \<^item> \<open>StoreModels\<close>, \<open>StoreJobs\<close>, \<open>StoreOrgs\<close>, \<open>StoreTokens\<close>: the API database (\<open>shared/go/store\<close>).
  \<^item> \<open>JobToken\<close> (\<open>shared/go/jobtoken\<close>): signing and validation of job tokens, characterised exactly, with
    key rotation.
  \<^item> \<open>JobService\<close> (\<open>api/internal/service/job.go\<close>, \<open>engine\<close>, \<open>handler/webhook\<close>), \<open>Callback\<close>
    (\<open>handler/callback\<close>, \<open>handler/watchdog\<close> and their middlewares), \<open>RateLimit\<close>, \<open>Worker\<close>
    (\<open>worker/internal\<close>, \<open>shared/go/runner\<close>, \<open>shared/go/storage\<close>): the life of a job. \<open>JobSystem\<close> composes them
    into one transition system \<open>job_step\<close> and proves what holds in every reachable state: one queued job
    per branch, succeeded jobs and snapshots agree, finished jobs stay finished, a job is claimed once.
  \<^item> \<open>Lifecycle\<close>: the goroutines of the runner and the poll loop as atomic steps; capacity and drain.
  \<^item> \<open>Orgs\<close>, \<open>Account\<close>, \<open>Keys\<close>, \<open>ApiRead\<close>, \<open>ContextTokens\<close>, \<open>ContextUrl\<close>, \<open>UploadSnapshot\<close>: the remaining API
    (\<open>api/internal/handler\<close>, \<open>middleware\<close>, \<open>service/assembly\<close>): roles, key life cycles, tenant isolation of
    reads, paging, access to context documents, the assembly against a direct definition, and the way
    of an upload into a served document.
  \<^item> \<open>AiStream\<close>, \<open>Query\<close> (\<open>service/aiprovider\<close>, \<open>handler/query\<close>): server-sent events of four providers behind the
    locale \<open>text_relay\<close>, and the query console. \<open>GithubClient\<close>: the rest of the GitHub provider and the
    circuit breaker.
  \<^item> \<open>AuthModels\<close>, \<open>AuthStore\<close>, \<open>AuthStoreOrgs\<close>: the auth database. \<open>AuthCore\<close>: tokens, sessions, audit,
    brute-force counters and the middleware (\<open>auth/internal/service\<close>, \<open>middleware\<close>).
  \<^item> \<open>AuthSessions\<close>, \<open>AuthMfa\<close>, \<open>AuthOauth\<close>: the handlers of sessions, second factor and login. \<open>AuthSystem\<close>
    composes them into \<open>auth_step\<close>, with the well-formedness of the session tables, the refinement of an
    abstract table of refresh tokens, single use and final logout; \<open>AuthLogin\<close> and \<open>AuthEnrolment\<close> hold
    the properties of login and enrolment.
  \<^item> \<open>AuthOrgs\<close>, \<open>AuthTeams\<close>, \<open>AuthUsers\<close>, \<open>AuthWebhooks\<close>: organizations and invitations, teams, profiles,
    administration and audit, webhooks with their dispatcher; \<open>AuthOrgSystem\<close> is the transition system
    \<open>org_step\<close> with its single owner.
  \<^item> \<open>Routes\<close>: the route tables of both services and what guards them. \<open>Configs\<close>, \<open>Startup\<close>: the
    configuration from the environment and how the programs come up and go down (\<open>*/cmd\<close>,
    \<open>*/internal/config\<close>, \<open>shared/go/dbpool\<close>), with the keys of the API and the worker across a rotation.
    \<open>Edge\<close>: the global middlewares, health checks, the auth service's copy of the rate limiter and
    one-time passwords.

  \<^bold>\<open>Loops.\<close> Loops over lists are structural recursion. The loop over GitHub's pages may not end and is a
  \<open>partial_function\<close> into \<open>option\<close>: it is proved to return when GitHub behaves as documented, and not to
  return on an empty page that is not the last. A client that follows the cursors of the job list has
  fuel; more than the number of jobs is shown to be enough. The dispatcher's retries are bounded by a
  measure over any number of rounds. The poll loop and the drain are steps of a relation.

  \<^bold>\<open>Deviations the proofs found.\<close> Several statements carry a condition or stand in the negative because
  the code does not do what is meant: a challenge token passes as an access token, a transfer of an
  organization to its own owner leaves it without one, a push that races with the start of a queued job
  is lost, a second job for a commit with a snapshot cannot succeed, named snapshots are not tied to the
  caller's organization, tasks are refused while only the API has rotated its key. Each is stated where
  it is proved.

  \<^bold>\<open>Not modelled.\<close> Logging, metrics and the response headers of the rate limiter; the plumbing of the
  generated store packages (\<open>db.go\<close>), constructors that only store their arguments and the structs that
  carry dependencies to the routes; the matching of paths, CORS and throttling inside the chi libraries;
  the encryption and health packages of the auth service, which repeat the API's line by line; test
  helpers; \<open>api/internal/config/worker.go\<close>, which no program uses; the front end, the migrations' data and
  the deployment files. Contexts and deadlines appear as calls that fail (\<open>e_fault\<close>); the isolation of
  transactions is that of PostgreSQL's default level, where a handler relies on it, as interference
  between its steps.
\<close>

end
